(* ===== verification/Kurma_Prelude.thy ===== *)
theory Kurma_Prelude
  imports Main "HOL-Library.Word" "HOL-Library.Monad_Syntax" "HOL-Library.Signed_Division"
begin

text \<open>
  Shared vocabulary of the development: the machine types, the outcome type of a C
  function, byte buffers, the oracle that answers the calls whose result the program
  does not determine (clocks, try-locks, allocation, uninitialised memory), and the
  generic lemmas on words, buffers and file contents that the component theories use.

  A C function that may abort is a function into \<open>'a option\<close>: \<open>None\<close> is a failed
  \<^verbatim>\<open>assert\<close>, a dereference of a dangling or unset pointer, an out-of-bounds copy or an
  undefined shift; \<open>Some\<close> is a normal return.  State is passed explicitly.
\<close>

unbundle bit_operations_syntax

named_theorems buf_simps \<open>lookup and length rules for byte buffers\<close>
named_theorems align_simps \<open>arithmetic reading of the alignment helpers\<close>

type_synonym u8 = "8 word"
type_synonym u16 = "16 word"
type_synonym u32 = "32 word"
type_synonym u64 = "64 word"
type_synonym bytes = "u8 list"


section \<open>Outcomes\<close>

definition c_assert :: "bool \<Rightarrow> unit option" where
  "c_assert b = (if b then Some () else None)"

lemma c_assert_simps [simp]:
  "c_assert True = Some ()"
  "c_assert False = None"
  by (simp_all add: c_assert_def)

lemma c_assert_eq_Some [simp]: "c_assert b = Some u \<longleftrightarrow> b"
  by (simp add: c_assert_def)

lemma c_assert_bind: "(c_assert b \<bind> (\<lambda>_. k)) = (if b then k else None)"
  by (simp add: c_assert_def)

text \<open>
  The expression \<^verbatim>\<open>1 << k\<close> on a 32-bit \<^verbatim>\<open>int\<close>, widened to \<^verbatim>\<open>uint64_t\<close>: defined for
  shift counts below 31 only.
\<close>

definition int_shl1 :: "nat \<Rightarrow> u64 option" where
  "int_shl1 k = (if k < 31 then Some (2 ^ k) else None)"

lemma int_shl1_Some: "int_shl1 k = Some a \<longleftrightarrow> k < 31 \<and> a = 2 ^ k"
  by (auto simp: int_shl1_def)

lemma unat_two_power: "k < LENGTH('a) \<Longrightarrow> unat ((2::'a::len word) ^ k) = 2 ^ k"
  by (simp add: of_nat_inverse)

lemma int_shl1_unat: "int_shl1 k = Some a \<Longrightarrow> unat a = 2 ^ k"
  by (auto simp: int_shl1_Some unat_two_power)

section \<open>Byte buffers\<close>

definition overlay :: "nat \<Rightarrow> 'a list \<Rightarrow> 'a list \<Rightarrow> 'a list" where
  "overlay off src buf = take off buf @ src @ drop (off + length src) buf"

text \<open>\<^verbatim>\<open>memcpy(buf + off, src, len)\<close> and \<^verbatim>\<open>memcpy(dst, buf + off, n)\<close> inside one object.\<close>

definition store_bytes :: "nat \<Rightarrow> 'a list \<Rightarrow> 'a list \<Rightarrow> 'a list option" where
  "store_bytes off src buf =
     (if off + length src \<le> length buf then Some (overlay off src buf) else None)"

definition load_bytes :: "nat \<Rightarrow> nat \<Rightarrow> 'a list \<Rightarrow> 'a list option" where
  "load_bytes off n buf =
     (if off + n \<le> length buf then Some (take n (drop off buf)) else None)"

lemma length_overlay [buf_simps]:
  "off + length src \<le> length buf \<Longrightarrow> length (overlay off src buf) = length buf"
  by (simp add: overlay_def)

lemma nth_overlay [buf_simps]:
  assumes "off + length src \<le> length buf" "i < length buf"
  shows "overlay off src buf ! i =
    (if off \<le> i \<and> i < off + length src then src ! (i - off) else buf ! i)"
  using assms by (auto simp: overlay_def nth_append min_def not_less)

lemma store_bytes_Some [buf_simps]:
  "store_bytes off src buf = Some b \<longleftrightarrow>
     off + length src \<le> length buf \<and> b = overlay off src buf"
  by (auto simp: store_bytes_def)

lemma load_bytes_Some [buf_simps]:
  "load_bytes off n buf = Some b \<longleftrightarrow> off + n \<le> length buf \<and> b = take n (drop off buf)"
  by (auto simp: load_bytes_def)

lemma store_bytes_length: "store_bytes off src buf = Some b \<Longrightarrow> length b = length buf"
  by (auto simp: buf_simps)

lemma load_store_same:
  "store_bytes off src buf = Some b \<Longrightarrow> load_bytes off (length src) b = Some src"
  by (auto simp: buf_simps overlay_def)

lemma load_store_other:
  assumes "store_bytes off src buf = Some b"
    and "off' + n \<le> off \<or> off + length src \<le> off'"
  shows "load_bytes off' n b = load_bytes off' n buf"
proof -
  have len: "length b = length buf" using assms(1) by (rule store_bytes_length)
  have b: "b = overlay off src buf" "off + length src \<le> length buf"
    using assms(1) by (auto simp: buf_simps)
  have "take n (drop off' b) = take n (drop off' buf)" if "off' + n \<le> length buf"
  proof (rule nth_equalityI)
    show "length (take n (drop off' b)) = length (take n (drop off' buf))"
      using len by simp
  next
    fix i assume "i < length (take n (drop off' b))"
    with that len assms(2) b show "take n (drop off' b) ! i = take n (drop off' buf) ! i"
      by (auto simp: nth_overlay)
  qed
  then show ?thesis using len by (simp add: load_bytes_def)
qed

section \<open>File contents\<close>

text \<open>
  A file is the list of its bytes.  A write past the end fills the hole with zeros.
  These two functions are the abstract file the block interface of the gateway
  implements.
\<close>

definition file_read :: "nat \<Rightarrow> nat \<Rightarrow> bytes \<Rightarrow> bytes" where
  "file_read off n f = take n (drop off f)"

definition file_write :: "nat \<Rightarrow> bytes \<Rightarrow> bytes \<Rightarrow> bytes" where
  "file_write off d f =
     take off (f @ replicate (off - length f) 0) @ d @ drop (off + length d) f"

lemma length_file_write [buf_simps]:
  "length (file_write off d f) = max (length f) (off + length d)"
  by (auto simp: file_write_def)

lemma nth_file_write:
  assumes "i < max (length f) (off + length d)"
  shows "file_write off d f ! i =
    (if off \<le> i \<and> i < off + length d then d ! (i - off)
     else if i < length f then f ! i else 0)"
  using assms by (auto simp: file_write_def nth_append min_def)

lemma file_read_write_same: "file_read off (length d) (file_write off d f) = d"
  by (simp add: file_read_def file_write_def)

section \<open>Power-of-two alignment on words\<close>

lemma two_power_minus_mask: "(2::'a::len word) ^ k - 1 = mask k"
  by (simp add: mask_eq_decr_exp)

lemma and_not_mask_push: "(x::'a::len word) AND NOT (mask k) = push_bit k (drop_bit k x)"
  by (rule bit_word_eqI) (auto simp: bit_simps)

lemma unat_and_mask: "unat ((x::'a::len word) AND mask k) = unat x mod 2 ^ k"
proof -
  have "unat (x AND mask k) = take_bit k (unat x)"
    by (simp only: take_bit_eq_mask [symmetric] unsigned_take_bit_eq)
  then show ?thesis by (simp add: take_bit_eq_mod)
qed

lemma unat_and_not_mask: "unat ((x::'a::len word) AND NOT (mask k)) = unat x div 2 ^ k * 2 ^ k"
proof -
  have le: "unat x div 2 ^ k * 2 ^ k < 2 ^ LENGTH('a)"
    by (rule le_less_trans [OF div_times_less_eq_dividend unsigned_less])
  have "unat (push_bit k (drop_bit k x)) = take_bit LENGTH('a) (push_bit k (drop_bit k (unat x)))"
    by (simp only: unsigned_push_bit_eq unsigned_drop_bit_eq take_bit_nat_eq_self [OF unsigned_less])
  also have "\<dots> = unat x div 2 ^ k * 2 ^ k"
    using le by (simp add: push_bit_eq_mult drop_bit_eq_div take_bit_eq_mod)
  finally show ?thesis by (simp add: and_not_mask_push)
qed

lemma unat_drop_bit: "unat (drop_bit k (x::'a::len word)) = unat x div 2 ^ k"
proof -
  have "unat (drop_bit k x) = drop_bit k (unat x)"
    by (simp only: unsigned_drop_bit_eq take_bit_nat_eq_self [OF unsigned_less])
  then show ?thesis by (simp only: drop_bit_eq_div)
qed

lemma unat_add_ok: "unat (a::u64) + unat b < 2 ^ 64 \<Longrightarrow> unat (a + b) = unat a + unat b"
  by (simp add: unat_plus_if')

lemma unat_sub_ok: "unat (b::u64) \<le> unat a \<Longrightarrow> unat (a - b) = unat a - unat b"
  by (simp add: unat_sub word_le_nat_alt)

lemma unat_mult_ok: "unat (a::u64) * unat b < 2 ^ 64 \<Longrightarrow> unat (a * b) = unat a * unat b"
  using unat_mult_lem [of a b] by simp

lemma unat_of_nat_ok: "n < 2 ^ 64 \<Longrightarrow> unat (of_nat n :: u64) = n"
  by (rule of_nat_inverse) simp_all

lemma unat_max: "unat (max (a::u64) b) = max (unat a) (unat b)"
  by (simp add: max_def word_le_nat_alt)

lemma floor_mult_bounds:
  fixes n b :: nat
  assumes "0 < b"
  shows "n div b * b \<le> n" "n < n div b * b + b"
  using assms dividend_less_div_times [OF assms, of n] by (simp_all add: add.commute)

lemma ceil_mult_bounds:
  fixes n b :: nat
  assumes "0 < b"
  shows "n \<le> (n + b - 1) div b * b" "(n + b - 1) div b * b < n + b"
  using assms floor_mult_bounds [OF assms, of "n + b - 1"] by linarith+

section \<open>Oracle for what the program does not determine\<close>

text \<open>
  \<open>e_time\<close> answers \<^verbatim>\<open>time(NULL)\<close>, \<open>e_now\<close> answers \<^verbatim>\<open>clock_gettime(CLOCK_REALTIME)\<close>,
  \<open>e_trylock\<close> says whether \<^verbatim>\<open>pthread_rwlock_trywrlock\<close> succeeds, \<open>e_malloc\<close> whether an
  allocation succeeds, and \<open>e_garbage\<close> is the content of memory that nobody
  initialised.  Each call consumes one tick, so two calls may get different answers.
\<close>

record timespec =
  tv_sec :: int
  tv_nsec :: int

record c_env =
  e_time :: "nat \<Rightarrow> int"
  e_now :: "nat \<Rightarrow> timespec"
  e_trylock :: "nat \<Rightarrow> bool"
  e_malloc :: "nat \<Rightarrow> bool"
  e_garbage :: "nat \<Rightarrow> nat \<Rightarrow> u8"
  e_garbage_ts :: "nat \<Rightarrow> timespec"

record c_oracle =
  o_env :: c_env
  o_tick :: nat

text \<open>An environment for examples: the clock reads 1000, locks and allocations succeed.\<close>

definition sample_oracle :: c_oracle where
  "sample_oracle = \<lparr>o_env = \<lparr>e_time = (\<lambda>_. 1000), e_now = (\<lambda>_. \<lparr>tv_sec = 1000, tv_nsec = 0\<rparr>),
     e_trylock = (\<lambda>_. True), e_malloc = (\<lambda>_. True), e_garbage = (\<lambda>_ _. 0xAA),
     e_garbage_ts = (\<lambda>_. \<lparr>tv_sec = 7, tv_nsec = 7\<rparr>)\<rparr>, o_tick = 0\<rparr>"

definition tick :: "c_oracle \<Rightarrow> c_oracle" where
  "tick orc = orc\<lparr>o_tick := Suc (o_tick orc)\<rparr>"

definition draw_time :: "c_oracle \<Rightarrow> int \<times> c_oracle" where
  "draw_time orc = (e_time (o_env orc) (o_tick orc), tick orc)"

definition draw_now :: "c_oracle \<Rightarrow> timespec \<times> c_oracle" where
  "draw_now orc = (e_now (o_env orc) (o_tick orc), tick orc)"

definition draw_trylock :: "c_oracle \<Rightarrow> bool \<times> c_oracle" where
  "draw_trylock orc = (e_trylock (o_env orc) (o_tick orc), tick orc)"

definition draw_malloc :: "c_oracle \<Rightarrow> bool \<times> c_oracle" where
  "draw_malloc orc = (e_malloc (o_env orc) (o_tick orc), tick orc)"

definition draw_garbage :: "nat \<Rightarrow> c_oracle \<Rightarrow> bytes \<times> c_oracle" where
  "draw_garbage n orc = (map (e_garbage (o_env orc) (o_tick orc)) [0..<n], tick orc)"

definition draw_garbage_ts :: "c_oracle \<Rightarrow> timespec \<times> c_oracle" where
  "draw_garbage_ts orc = (e_garbage_ts (o_env orc) (o_tick orc), tick orc)"

lemmas draw_defs =
  draw_time_def draw_now_def draw_trylock_def draw_malloc_def draw_garbage_def
  draw_garbage_ts_def tick_def

lemma length_draw_garbage [buf_simps]: "length (fst (draw_garbage n orc)) = n"
  by (simp add: draw_garbage_def)

section \<open>Postconditions of fallible programs\<close>

text \<open>
  \<open>ensures m P\<close>: if \<open>m\<close> returns, the result has \<open>P\<close>.  The rules follow the shape of a program, so
  that \<open>intro ensures_rules\<close> leaves one goal per return with the equations of the calls
  before it.
\<close>

definition ensures :: "'a option \<Rightarrow> ('a \<Rightarrow> bool) \<Rightarrow> bool" where
  "ensures m P \<longleftrightarrow> (\<forall>r. m = Some r \<longrightarrow> P r)"

lemma ensuresD: "ensures m P \<Longrightarrow> m = Some r \<Longrightarrow> P r"
  by (simp add: ensures_def)

lemma ensuresI: "(\<And>r. m = Some r \<Longrightarrow> P r) \<Longrightarrow> ensures m P"
  by (simp add: ensures_def)

lemma ensures_weaken: "ensures m Q \<Longrightarrow> (\<And>r. Q r \<Longrightarrow> P r) \<Longrightarrow> ensures m P"
  by (simp add: ensures_def)

lemma ensures_some: "P r \<Longrightarrow> ensures (Some r) P"
  by (simp add: ensures_def)

lemma ensures_none: "ensures None P"
  by (simp add: ensures_def)

lemma ensures_bind: "(\<And>r. m = Some r \<Longrightarrow> ensures (f r) P) \<Longrightarrow> ensures (m \<bind> f) P"
  by (auto simp: ensures_def bind_eq_Some_conv)

lemma ensures_if: "(b \<Longrightarrow> ensures m P) \<Longrightarrow> (\<not> b \<Longrightarrow> ensures n P) \<Longrightarrow> ensures (if b then m else n) P"
  by simp

lemma ensures_let: "(\<And>x. e = x \<Longrightarrow> ensures (f x) P) \<Longrightarrow> ensures (Let e f) P"
  by simp

lemma ensures_prod: "(\<And>x y. p = (x, y) \<Longrightarrow> ensures (f x y) P) \<Longrightarrow> ensures (case p of (x, y) \<Rightarrow> f x y) P"
  by (cases p) simp

lemma ensures_prod_app: "(\<And>x y. p = (x, y) \<Longrightarrow> ensures (f x y z) P) \<Longrightarrow> ensures (case_prod f p z) P"
  by (cases p) simp

lemma ensures_option:
  "(x = None \<Longrightarrow> ensures m P) \<Longrightarrow> (\<And>y. x = Some y \<Longrightarrow> ensures (f y) P)
    \<Longrightarrow> ensures (case x of None \<Rightarrow> m | Some y \<Rightarrow> f y) P"
  by (cases x) simp_all

lemmas ensures_rules =
  ensures_some ensures_none ensures_bind ensures_if ensures_let ensures_prod
  ensures_prod_app ensures_option

end
