(* ===== verification/Kurma_Util.thy ===== *)
theory Kurma_Util
  imports Kurma_Prelude
begin

text \<open>
  The inline helpers of \<^verbatim>\<open>FSAL_KURMA/kurma.h\<close> and \<^verbatim>\<open>FSAL_KURMA/kurma_methods.h\<close>: status
  codes and their translation to FSAL codes, power-of-two alignment, time conversion,
  object identifiers and the snapshot predicates, with the arithmetic facts the I/O
  path rests on.
\<close>

section \<open>Status codes\<close>

text \<open>
  \<^verbatim>\<open>kurma_st\<close> holds both the enumerators of \<^verbatim>\<open>kurma.h\<close> and the error codes the service
  returns (\<^verbatim>\<open>KurmaError\<close> in \<^verbatim>\<open>Kurma.thrift\<close>), and \<^verbatim>\<open>get_dynamic_info\<close> passes one as an
  \<^verbatim>\<open>fsal_errors_t\<close>; both enumerations are integers here.
\<close>

type_synonym kurma_st = int
type_synonym fsal_errors_t = int

abbreviation (input) KURMA_OKAY :: kurma_st where "KURMA_OKAY \<equiv> 0"
abbreviation (input) KURMA_INVALID :: kurma_st where "KURMA_INVALID \<equiv> 1"
abbreviation (input) KURMA_CONN_ERR :: kurma_st where "KURMA_CONN_ERR \<equiv> 2"
abbreviation (input) KURMA_RPC_ERR :: kurma_st where "KURMA_RPC_ERR \<equiv> 3"
abbreviation (input) KURMA_IO_ERR :: kurma_st where "KURMA_IO_ERR \<equiv> 4"
abbreviation (input) KURMA_ERROR_SESSION_NOT_EXIST :: kurma_st where
  "KURMA_ERROR_SESSION_NOT_EXIST \<equiv> 10001"
abbreviation (input) KURMA_ERROR_OBJECTID_INVALID :: kurma_st where
  "KURMA_ERROR_OBJECTID_INVALID \<equiv> 10002"
abbreviation (input) KURMA_ERROR_OBJECT_NOT_FOUND :: kurma_st where
  "KURMA_ERROR_OBJECT_NOT_FOUND \<equiv> 10003"
abbreviation (input) KURMA_ERROR_ZOOKEEPER_ERROR :: kurma_st where
  "KURMA_ERROR_ZOOKEEPER_ERROR \<equiv> 10004"
abbreviation (input) KURMA_ERROR_DIRECTORY_NOT_EMPTY :: kurma_st where
  "KURMA_ERROR_DIRECTORY_NOT_EMPTY \<equiv> 10005"
abbreviation (input) KURMA_ERROR_PERMISSION_DENIED :: kurma_st where
  "KURMA_ERROR_PERMISSION_DENIED \<equiv> 10006"
abbreviation (input) KURMA_ERROR_SERVER_ERROR :: kurma_st where
  "KURMA_ERROR_SERVER_ERROR \<equiv> 10007"
abbreviation (input) KURMA_ERROR_FILE_ALREADY_EXISTS :: kurma_st where
  "KURMA_ERROR_FILE_ALREADY_EXISTS \<equiv> 10008"
abbreviation (input) KURMA_ERROR_INVALID_OPERATION :: kurma_st where
  "KURMA_ERROR_INVALID_OPERATION \<equiv> 10009"
abbreviation (input) KURMA_ERROR_NOT_DIRECTORY :: kurma_st where
  "KURMA_ERROR_NOT_DIRECTORY \<equiv> 10010"

abbreviation (input) ERR_FSAL_NO_ERROR :: fsal_errors_t where "ERR_FSAL_NO_ERROR \<equiv> 0"
abbreviation (input) ERR_FSAL_PERM :: fsal_errors_t where "ERR_FSAL_PERM \<equiv> 1"
abbreviation (input) ERR_FSAL_NOENT :: fsal_errors_t where "ERR_FSAL_NOENT \<equiv> 2"
abbreviation (input) ERR_FSAL_IO :: fsal_errors_t where "ERR_FSAL_IO \<equiv> 5"
abbreviation (input) ERR_FSAL_NOMEM :: fsal_errors_t where "ERR_FSAL_NOMEM \<equiv> 12"
abbreviation (input) ERR_FSAL_FAULT :: fsal_errors_t where "ERR_FSAL_FAULT \<equiv> 14"
abbreviation (input) ERR_FSAL_EXIST :: fsal_errors_t where "ERR_FSAL_EXIST \<equiv> 17"
abbreviation (input) ERR_FSAL_NOTDIR :: fsal_errors_t where "ERR_FSAL_NOTDIR \<equiv> 20"
abbreviation (input) ERR_FSAL_INVAL :: fsal_errors_t where "ERR_FSAL_INVAL \<equiv> 22"
abbreviation (input) ERR_FSAL_NOTEMPTY :: fsal_errors_t where "ERR_FSAL_NOTEMPTY \<equiv> 93"
abbreviation (input) ERR_FSAL_STALE :: fsal_errors_t where "ERR_FSAL_STALE \<equiv> 151"
abbreviation (input) ERR_FSAL_BADHANDLE :: fsal_errors_t where "ERR_FSAL_BADHANDLE \<equiv> 10001"
abbreviation (input) ERR_FSAL_NOTSUPP :: fsal_errors_t where "ERR_FSAL_NOTSUPP \<equiv> 10004"
abbreviation (input) ERR_FSAL_TOOSMALL :: fsal_errors_t where "ERR_FSAL_TOOSMALL \<equiv> 10005"
abbreviation (input) ERR_FSAL_SERVERFAULT :: fsal_errors_t where "ERR_FSAL_SERVERFAULT \<equiv> 10006"
abbreviation (input) ERR_FSAL_BAD_INIT :: fsal_errors_t where "ERR_FSAL_BAD_INIT \<equiv> 20003"

abbreviation (input) c_EPERM :: int where "c_EPERM \<equiv> 1"
abbreviation (input) c_ENOENT :: int where "c_ENOENT \<equiv> 2"
abbreviation (input) c_ENOMEM :: int where "c_ENOMEM \<equiv> 12"
abbreviation (input) c_EFAULT :: int where "c_EFAULT \<equiv> 14"
abbreviation (input) c_EEXIST :: int where "c_EEXIST \<equiv> 17"
abbreviation (input) c_ENOTDIR :: int where "c_ENOTDIR \<equiv> 20"
abbreviation (input) c_EINVAL :: int where "c_EINVAL \<equiv> 22"
abbreviation (input) c_ENOTEMPTY :: int where "c_ENOTEMPTY \<equiv> 39"
abbreviation (input) c_ENOTSUP :: int where "c_ENOTSUP \<equiv> 95"
abbreviation (input) c_ESTALE :: int where "c_ESTALE \<equiv> 116"

record fsal_status =
  st_major :: fsal_errors_t
  st_minor :: int

definition fsalstat :: "fsal_errors_t \<Rightarrow> int \<Rightarrow> fsal_status" where
  "fsalstat major minor = \<lparr>st_major = major, st_minor = minor\<rparr>"

definition kurma_to_fsal_status :: "kurma_st \<Rightarrow> fsal_status" where
  "kurma_to_fsal_status st =
    (if st = KURMA_OKAY then fsalstat ERR_FSAL_NO_ERROR 0
     else if st = KURMA_ERROR_OBJECT_NOT_FOUND then fsalstat ERR_FSAL_NOENT c_ENOENT
     else if st = KURMA_ERROR_OBJECTID_INVALID then fsalstat ERR_FSAL_STALE c_ESTALE
     else if st = KURMA_ERROR_DIRECTORY_NOT_EMPTY then fsalstat ERR_FSAL_NOTEMPTY c_ENOTEMPTY
     else if st = KURMA_ERROR_PERMISSION_DENIED then fsalstat ERR_FSAL_PERM c_EPERM
     else if st = KURMA_ERROR_SERVER_ERROR then fsalstat ERR_FSAL_FAULT c_EFAULT
     else if st = KURMA_ERROR_FILE_ALREADY_EXISTS then fsalstat ERR_FSAL_EXIST c_EEXIST
     else if st = KURMA_ERROR_INVALID_OPERATION then fsalstat ERR_FSAL_INVAL c_EINVAL
     else if st = KURMA_ERROR_NOT_DIRECTORY then fsalstat ERR_FSAL_NOTDIR c_ENOTDIR
     else fsalstat ERR_FSAL_IO st)"

lemma st_major_fsalstat [simp]: "st_major (fsalstat a b) = a"
  by (simp add: fsalstat_def)

lemma st_minor_fsalstat [simp]: "st_minor (fsalstat a b) = b"
  by (simp add: fsalstat_def)

lemma fsalstat_inject [simp]: "fsalstat a b = fsalstat a' b' \<longleftrightarrow> a = a' \<and> b = b'"
  by (simp add: fsalstat_def)

lemma kurma_to_fsal_status_ok [simp]: "kurma_to_fsal_status 0 = fsalstat 0 0"
  by (simp add: kurma_to_fsal_status_def)

lemma kurma_to_fsal_status_rpc_err [simp]: "kurma_to_fsal_status 3 = fsalstat ERR_FSAL_IO 3"
  by (simp add: kurma_to_fsal_status_def)

lemma kurma_to_fsal_status_major_ok [simp]:
  "st_major (kurma_to_fsal_status st) = ERR_FSAL_NO_ERROR \<longleftrightarrow> st = KURMA_OKAY"
  by (simp add: kurma_to_fsal_status_def)

section \<open>Alignment\<close>

definition is_aligned :: "u64 \<Rightarrow> u64 \<Rightarrow> bool option" where
  "is_aligned n alignment = do {
     c_assert (alignment AND (alignment - 1) = 0);
     Some (n AND (alignment - 1) = 0) }"

definition round_down :: "u64 \<Rightarrow> u64 \<Rightarrow> u64 option" where
  "round_down n alignment = do {
     c_assert (alignment AND (alignment - 1) = 0);
     Some (n AND NOT (alignment - 1)) }"

definition round_up :: "u64 \<Rightarrow> u64 \<Rightarrow> u64 option" where
  "round_up n alignment = do {
     c_assert (alignment AND (alignment - 1) = 0);
     Some ((n + alignment - 1) AND NOT (alignment - 1)) }"

definition get_block_count :: "u64 \<Rightarrow> u64 \<Rightarrow> u64 option" where
  "get_block_count n block_shift = do {
     blk \<leftarrow> int_shl1 (unat block_shift);
     Some (drop_bit (unat block_shift) (n + blk - 1)) }"

lemma pow2_and_mask [simp]: "(2::'a::len word) ^ k AND mask k = 0"
  by (rule bit_word_eqI) (auto simp: bit_simps)

lemma is_aligned_pow2 [align_simps]:
  "is_aligned n (2 ^ k) = Some (unat n mod 2 ^ k = 0)"
proof -
  have "n AND mask k = 0 \<longleftrightarrow> unat (n AND mask k) = 0"
    by (simp add: unat_eq_0)
  then show ?thesis
    by (simp add: is_aligned_def two_power_minus_mask unat_and_mask)
qed

lemma round_down_pow2 [align_simps]: "round_down n (2 ^ k) = Some (n AND NOT (mask k))"
  by (simp add: round_down_def two_power_minus_mask)

lemma round_up_pow2 [align_simps]: "round_up n (2 ^ k) = Some ((n + mask k) AND NOT (mask k))"
  by (simp add: round_up_def two_power_minus_mask add_diff_eq [symmetric] del: add_diff_eq)

lemma unat_mask: "k < LENGTH('a) \<Longrightarrow> unat (mask k :: 'a::len word) = 2 ^ k - 1"
  by (simp add: mask_eq_decr_exp unat_minus_one unat_two_power)

lemma unat_round_up:
  assumes "k < 64" "unat (n::u64) + 2 ^ k - 1 < 2 ^ 64"
  shows "unat ((n + mask k) AND NOT (mask k)) = (unat n + 2 ^ k - 1) div 2 ^ k * 2 ^ k"
proof -
  have "unat (n + mask k) = unat n + (2 ^ k - 1)"
    using assms by (subst unat_plus_if') (simp add: unat_mask)
  then show ?thesis by (simp add: unat_and_not_mask)
qed

lemma unat_block_count:
  assumes "unat s < 31" "unat n + 2 ^ unat s - 1 < 2 ^ 64" "get_block_count n s = Some c"
  shows "unat c = (unat n + 2 ^ unat s - 1) div 2 ^ unat s"
proof -
  have "c = drop_bit (unat s) (n + mask (unat s))"
    using assms by (auto simp: get_block_count_def int_shl1_def mask_eq_decr_exp algebra_simps)
  moreover have "unat (n + mask (unat s)) = unat n + (2 ^ unat s - 1)"
    using assms by (subst unat_plus_if') (simp add: unat_mask)
  ultimately show ?thesis
    by (simp only: unat_drop_bit) simp
qed

text \<open>
  C34 For every block size \<open>2 ^ k\<close> the helpers compute the enclosing block range: \<^verbatim>\<open>round_down\<close>
  gives the greatest multiple of the block size not above \<open>n\<close>, \<^verbatim>\<open>round_up\<close> the least one not
  below it (as long as the sum does not pass \<open>2 ^ 64\<close>), their results pass \<^verbatim>\<open>is_aligned\<close>, and
  the assertions on the alignment never fail.
\<close>

theorem rounding_spec:
  fixes n :: u64
  assumes "k < 64" and "unat n + 2 ^ k - 1 < 2 ^ 64"
  shows "\<exists>d u. round_down n (2 ^ k) = Some d \<and> round_up n (2 ^ k) = Some u
    \<and> is_aligned d (2 ^ k) = Some True \<and> is_aligned u (2 ^ k) = Some True
    \<and> unat d = unat n div 2 ^ k * 2 ^ k
    \<and> unat u = (unat n + 2 ^ k - 1) div 2 ^ k * 2 ^ k
    \<and> unat d \<le> unat n \<and> unat n < unat d + 2 ^ k
    \<and> unat n \<le> unat u \<and> unat u < unat n + 2 ^ k"
proof -
  have d: "unat (n AND NOT (mask k)) = unat n div 2 ^ k * 2 ^ k"
    by (rule unat_and_not_mask)
  have u: "unat ((n + mask k) AND NOT (mask k)) = (unat n + 2 ^ k - 1) div 2 ^ k * 2 ^ k"
    using assms by (rule unat_round_up)
  have pos: "0 < (2::nat) ^ k" by simp
  note lo = floor_mult_bounds [OF pos, of "unat n"] and hi = ceil_mult_bounds [OF pos, of "unat n"]
  from d u lo hi show ?thesis
    by (simp add: align_simps)
qed

theorem rounding_spec_witness:
  "\<exists>d u. round_down (70000::u64) (2 ^ 16) = Some d \<and> round_up (70000::u64) (2 ^ 16) = Some u
    \<and> unat d \<le> 70000 \<and> 70000 \<le> unat u"
  using rounding_spec [of 16 70000] by auto

section \<open>Times\<close>

definition UTIME_NOW :: int where "UTIME_NOW = 2 ^ 30 - 1"
definition UTIME_OMIT :: int where "UTIME_OMIT = 2 ^ 30 - 2"

definition millisecond_to_timespec :: "int \<Rightarrow> timespec" where
  "millisecond_to_timespec ms =
     \<lparr>tv_sec = ms sdiv 1000, tv_nsec = (ms smod 1000) * 1000 * 1000\<rparr>"

definition timespec_to_ms :: "timespec \<Rightarrow> c_oracle \<Rightarrow> int option \<times> c_oracle" where
  "timespec_to_ms tm orc =
     (if tv_nsec tm \<noteq> UTIME_OMIT then
        (let (mytm, orc) = (if tv_nsec tm = UTIME_NOW then draw_now orc else (tm, orc))
         in (Some (tv_sec mytm * 1000 + tv_nsec mytm sdiv 1000000), orc))
      else (None, orc))"

definition nsecs_to_timespec :: "u64 \<Rightarrow> timespec" where
  "nsecs_to_timespec interval =
     \<lparr>tv_sec = uint (interval div 1000000000), tv_nsec = uint (interval mod 1000000000)\<rparr>"

lemma smod_1000_bound: "\<bar>(ms::int) smod 1000\<bar> < 1000"
  by (simp add: signed_modulo_int_def abs_mult sgn_if)

lemma sdiv_exact: "0 < (b::int) \<Longrightarrow> (a * b) sdiv b = a"
  by (auto simp: signed_divide_int_def abs_mult sgn_mult abs_sgn)

lemma millisecond_nsec_small: "tv_nsec (millisecond_to_timespec ms) < UTIME_OMIT"
  using smod_1000_bound [of ms] by (simp add: millisecond_to_timespec_def UTIME_OMIT_def)

text \<open>
  Converting a service timestamp (milliseconds) to a \<^verbatim>\<open>timespec\<close> and back is the identity,
  for negative times too, and never reads the clock: the nanosecond part produced can be
  neither \<^verbatim>\<open>UTIME_NOW\<close> nor \<^verbatim>\<open>UTIME_OMIT\<close>.
\<close>

theorem timespec_to_ms_roundtrip:
  "timespec_to_ms (millisecond_to_timespec ms) orc = (Some ms, orc)"
proof -
  have ne: "tv_nsec (millisecond_to_timespec ms) \<noteq> UTIME_OMIT"
    "tv_nsec (millisecond_to_timespec ms) \<noteq> UTIME_NOW"
    using millisecond_nsec_small [of ms] by (auto simp: UTIME_OMIT_def UTIME_NOW_def)
  have "(ms smod 1000 * 1000 * 1000) sdiv 1000000 = ms smod 1000"
    using sdiv_exact [of 1000000 "ms smod 1000"] by (simp add: mult.assoc)
  then have "tv_sec (millisecond_to_timespec ms) * 1000
      + tv_nsec (millisecond_to_timespec ms) sdiv 1000000 = ms"
    by (simp add: millisecond_to_timespec_def sdiv_mult_smod_eq)
  with ne show ?thesis by (simp add: timespec_to_ms_def)
qed

section \<open>Object identifiers\<close>

text \<open>
  \<^verbatim>\<open>struct ObjectID\<close> and \<^verbatim>\<open>struct Int128\<close> of \<^verbatim>\<open>Namespace.thrift\<close>, with the set-flags the
  Thrift binding keeps beside each field.
\<close>

record oid_isset =
  isset_id1 :: bool
  isset_id2 :: bool
  isset_id :: bool
  isset_creator :: bool
  isset_type :: bool
  isset_flags :: bool

record ObjectID =
  id1 :: u64
  id2 :: u64
  creator :: u16
  oid_type :: u8
  oid_flags :: u8
  oid_set :: oid_isset

definition new_object_id :: ObjectID where
  "new_object_id = \<lparr>id1 = 0, id2 = 0, creator = 0, oid_type = 0, oid_flags = 0,
     oid_set = \<lparr>isset_id1 = False, isset_id2 = False, isset_id = False,
       isset_creator = False, isset_type = False, isset_flags = False\<rparr>\<rparr>"

definition copy_object_id :: "ObjectID \<Rightarrow> ObjectID \<Rightarrow> ObjectID" where
  "copy_object_id dst src =
     (let dst = dst\<lparr>id1 := id1 src,
                    oid_set := (oid_set dst)\<lparr>isset_id1 := isset_id1 (oid_set src)\<rparr>\<rparr>;
          dst = dst\<lparr>id2 := id2 src,
                    oid_set := (oid_set dst)\<lparr>isset_id2 := isset_id2 (oid_set src)\<rparr>\<rparr>;
          dst = dst\<lparr>oid_set := (oid_set dst)\<lparr>isset_id := isset_id (oid_set src)\<rparr>\<rparr>;
          dst = dst\<lparr>creator := creator src,
                    oid_set := (oid_set dst)\<lparr>isset_creator := isset_creator (oid_set src)\<rparr>\<rparr>;
          dst = dst\<lparr>oid_type := oid_type src,
                    oid_set := (oid_set dst)\<lparr>isset_type := isset_type (oid_set src)\<rparr>\<rparr>;
          dst = dst\<lparr>oid_flags := oid_flags src,
                    oid_set := (oid_set dst)\<lparr>isset_flags := isset_flags (oid_set src)\<rparr>\<rparr>
      in dst)"

definition set_root_oid :: "ObjectID \<Rightarrow> ObjectID" where
  "set_root_oid oid = oid\<lparr>id1 := 0, id2 := 1\<rparr>"

definition is_same_file :: "ObjectID \<Rightarrow> ObjectID \<Rightarrow> bool" where
  "is_same_file o1 o2 \<longleftrightarrow> id1 o1 = id1 o2 \<and> id2 o1 = id2 o2 \<and> creator o1 = creator o2"

text \<open>\<^verbatim>\<open>object_file_type_t\<close>: a 32-bit enumeration; the identifier stores it as a signed byte.\<close>

type_synonym object_file_type_t = u32

abbreviation (input) NO_FILE_TYPE :: object_file_type_t where "NO_FILE_TYPE \<equiv> 0"
abbreviation (input) REGULAR_FILE :: object_file_type_t where "REGULAR_FILE \<equiv> 1"
abbreviation (input) CHARACTER_FILE :: object_file_type_t where "CHARACTER_FILE \<equiv> 2"
abbreviation (input) BLOCK_FILE :: object_file_type_t where "BLOCK_FILE \<equiv> 3"
abbreviation (input) SYMBOLIC_LINK :: object_file_type_t where "SYMBOLIC_LINK \<equiv> 4"
abbreviation (input) SOCKET_FILE :: object_file_type_t where "SOCKET_FILE \<equiv> 5"
abbreviation (input) FIFO_FILE :: object_file_type_t where "FIFO_FILE \<equiv> 6"
abbreviation (input) DIRECTORY :: object_file_type_t where "DIRECTORY \<equiv> 7"

definition extract_object_type :: "ObjectID \<Rightarrow> object_file_type_t" where
  "extract_object_type oid = scast (oid_type oid)"

definition kurma_unopenable_type :: "object_file_type_t \<Rightarrow> bool" where
  "kurma_unopenable_type ty \<longleftrightarrow> ty = SOCKET_FILE \<or> ty = CHARACTER_FILE \<or> ty = BLOCK_FILE"

lemma copy_object_id_eq [simp]: "copy_object_id dst src = src"
  by (simp add: copy_object_id_def)

section \<open>Snapshot predicates\<close>

abbreviation (input) SNAPSHOT_NONE :: u32 where "SNAPSHOT_NONE \<equiv> 0"
abbreviation (input) SNAPSHOT_DIR :: u32 where "SNAPSHOT_DIR \<equiv> 1"

definition is_snapshot_dir :: "u32 \<Rightarrow> bool" where
  "is_snapshot_dir snapshot_id \<longleftrightarrow> snapshot_id = SNAPSHOT_DIR"

definition is_snapshot_obj :: "u32 \<Rightarrow> bool" where
  "is_snapshot_obj snapshot_id \<longleftrightarrow> snapshot_id \<noteq> SNAPSHOT_NONE"

definition is_snapshot_file :: "u32 \<Rightarrow> bool" where
  "is_snapshot_file snapshot_id \<longleftrightarrow> snapshot_id \<noteq> SNAPSHOT_NONE \<and> snapshot_id \<noteq> SNAPSHOT_DIR"

lemma snapshot_obj_cases: "is_snapshot_obj i \<longleftrightarrow> is_snapshot_dir i \<or> is_snapshot_file i"
  by (auto simp: is_snapshot_obj_def is_snapshot_dir_def is_snapshot_file_def)

end
