(* ===== verification/Kurma_Codec.thy ===== *)
theory Kurma_Codec
  imports Kurma_Util
begin

text \<open>
  The wire form of a file handle (\<^verbatim>\<open>package_kurma_handle\<close> and \<^verbatim>\<open>extract_kurma_handle\<close> in
  \<^verbatim>\<open>FSAL_KURMA/handle.c\<close>): little-endian fields copied one after the other into the opaque
  part of a version 4 file handle.  A fixed-width codec is a locale; the codecs of the
  machine words and of the whole handle are interpretations of it.
\<close>

section \<open>Little-endian words\<close>

fun le_bytes :: "nat \<Rightarrow> 'a::len word \<Rightarrow> bytes" where
  "le_bytes 0 w = []"
| "le_bytes (Suc n) w = ucast w # le_bytes n (drop_bit 8 w)"

fun le_word :: "bytes \<Rightarrow> 'a::len word" where
  "le_word [] = 0"
| "le_word (b # bs) = ucast b OR push_bit 8 (le_word bs)"

lemma length_le_bytes [simp]: "length (le_bytes n w) = n"
  by (induction n arbitrary: w) auto

lemma le_word_le_bytes: "le_word (le_bytes n w) = take_bit (8 * n) w"
proof (induction n arbitrary: w)
  case 0
  then show ?case by simp
next
  case (Suc n)
  have "ucast (ucast w :: u8) OR push_bit 8 (take_bit (8 * n) (drop_bit 8 w)) = take_bit (8 * Suc n) w"
    by (rule bit_word_eqI) (auto simp: bit_simps not_less less_diff_conv2)
  then show ?case by (simp add: Suc.IH)
qed

lemma le_word_full:
  "le_word (le_bytes 8 (w::u64)) = w"
  "le_word (le_bytes 4 (x::u32)) = x"
  "le_word (le_bytes 2 (y::u16)) = y"
  "le_word (le_bytes 1 (z::u8)) = z"
  by (simp_all only: le_word_le_bytes, simp_all add: take_bit_word_eq_self)

section \<open>Fixed-width codecs\<close>

locale fixed_codec =
  fixes enc :: "'a \<Rightarrow> bytes" and dec :: "bytes \<Rightarrow> 'a" and width :: nat
  assumes enc_length [simp]: "length (enc x) = width"
    and dec_enc [simp]: "dec (enc x) = x"
begin

lemma enc_inject [simp]: "enc x = enc y \<longleftrightarrow> x = y"
  by (metis dec_enc)

lemma enc_append_inject: "enc x @ r = enc y @ s \<longleftrightarrow> x = y \<and> r = s"
  by (auto simp: append_eq_append_conv)

lemma dec_prefix: "dec (take width (enc x @ r)) = x"
  by simp

end

interpretation c64: fixed_codec "le_bytes 8 :: u64 \<Rightarrow> bytes" le_word 8
  by unfold_locales (simp_all only: length_le_bytes le_word_full)

interpretation c32: fixed_codec "le_bytes 4 :: u32 \<Rightarrow> bytes" le_word 4
  by unfold_locales (simp_all only: length_le_bytes le_word_full)

interpretation c16: fixed_codec "le_bytes 2 :: u16 \<Rightarrow> bytes" le_word 2
  by unfold_locales (simp_all only: length_le_bytes le_word_full)

interpretation c8: fixed_codec "le_bytes 1 :: u8 \<Rightarrow> bytes" le_word 1
  by unfold_locales (simp_all only: length_le_bytes le_word_full)

section \<open>The handle layout\<close>

text \<open>
  \<open>V4_FH_OPAQUE_SIZE\<close> is \<^verbatim>\<open>sizeof(struct alloc_file_handle_v4) - sizeof(struct file_handle_v4)\<close>,
  the 122 padding bytes of a 128-byte handle.
\<close>

definition V4_FH_OPAQUE_SIZE :: nat where
  "V4_FH_OPAQUE_SIZE = 122"

definition package_kurma_handle :: "bytes \<Rightarrow> ObjectID \<Rightarrow> u32 \<Rightarrow> bytes option" where
  "package_kurma_handle buf oid snapshot_id = do {
     let used = 0;
     buf \<leftarrow> store_bytes used (le_bytes 8 (id1 oid)) buf;
     let used = used + 8;
     buf \<leftarrow> store_bytes used (le_bytes 8 (id2 oid)) buf;
     let used = used + 8;
     buf \<leftarrow> store_bytes used (le_bytes 2 (creator oid)) buf;
     let used = used + 2;
     buf \<leftarrow> store_bytes used (le_bytes 1 (oid_type oid)) buf;
     let used = used + 1;
     buf \<leftarrow> store_bytes used (le_bytes 1 (oid_flags oid)) buf;
     let used = used + 1;
     buf \<leftarrow> store_bytes used (le_bytes 4 snapshot_id) buf;
     let used = used + 4;
     c_assert (used \<le> V4_FH_OPAQUE_SIZE);
     Some buf }"

definition extract_kurma_handle :: "bytes \<Rightarrow> ObjectID \<Rightarrow> (ObjectID \<times> u32) option" where
  "extract_kurma_handle buf oid = do {
     b1 \<leftarrow> load_bytes 0 8 buf;
     b2 \<leftarrow> load_bytes 8 8 buf;
     b3 \<leftarrow> load_bytes 16 2 buf;
     b4 \<leftarrow> load_bytes 18 1 buf;
     b5 \<leftarrow> load_bytes 19 1 buf;
     b6 \<leftarrow> load_bytes 20 4 buf;
     Some (oid\<lparr>id1 := le_word b1, id2 := le_word b2, creator := le_word b3,
               oid_type := le_word b4, oid_flags := le_word b5\<rparr>, le_word b6) }"

type_synonym handle_id = "u64 \<times> u64 \<times> u16 \<times> u8 \<times> u8 \<times> u32"

definition handle_id :: "ObjectID \<Rightarrow> u32 \<Rightarrow> handle_id" where
  "handle_id oid sid = (id1 oid, id2 oid, creator oid, oid_type oid, oid_flags oid, sid)"

definition enc_handle :: "handle_id \<Rightarrow> bytes" where
  "enc_handle h = (case h of (a, b, c, t, f, s) \<Rightarrow>
     le_bytes 8 a @ le_bytes 8 b @ le_bytes 2 c @ le_bytes 1 t @ le_bytes 1 f @ le_bytes 4 s)"

definition dec_handle :: "bytes \<Rightarrow> handle_id" where
  "dec_handle bs =
    (le_word (take 8 bs), le_word (take 8 (drop 8 bs)), le_word (take 2 (drop 16 bs)),
     le_word (take 1 (drop 18 bs)), le_word (take 1 (drop 19 bs)), le_word (take 4 (drop 20 bs)))"

interpretation kh: fixed_codec enc_handle dec_handle 24
proof unfold_locales
  fix h
  show "length (enc_handle h) = 24"
    by (simp add: enc_handle_def split: prod.splits del: le_bytes.simps)
  show "dec_handle (enc_handle h) = h"
    by (simp add: enc_handle_def dec_handle_def take_Cons' le_word_full [simplified]
        split: prod.splits)
qed

lemma package_kurma_handle_eq:
  assumes "V4_FH_OPAQUE_SIZE \<le> length buf"
  shows "package_kurma_handle buf oid sid = Some (enc_handle (handle_id oid sid) @ drop 24 buf)"
  using assms le_diff_conv2
  by (simp add: package_kurma_handle_def enc_handle_def handle_id_def store_bytes_def overlay_def
      V4_FH_OPAQUE_SIZE_def)

lemma extract_kurma_handle_eq:
  assumes "24 \<le> length buf" and "dec_handle buf = (a, b, c, ty, f, s)"
  shows "extract_kurma_handle buf oid =
    Some (oid\<lparr>id1 := a, id2 := b, creator := c, oid_type := ty, oid_flags := f\<rparr>, s)"
  using assms by (simp add: extract_kurma_handle_def dec_handle_def load_bytes_def)

lemma dec_handle_append: "dec_handle (enc_handle h @ r) = h"
proof -
  have "dec_handle (enc_handle h @ r) = dec_handle (enc_handle h)"
    by (simp add: dec_handle_def)
  then show ?thesis by simp
qed

lemma package_kurma_handle_length:
  assumes "V4_FH_OPAQUE_SIZE \<le> length buf" "package_kurma_handle buf oid sid = Some b"
  shows "length b = length buf"
  using assms by (auto simp: package_kurma_handle_eq V4_FH_OPAQUE_SIZE_def)

text \<open>
  C15 The wire handle is a faithful encoding: packing an object identifier and a snapshot
  number into any buffer large enough for a version 4 handle succeeds, keeps the buffer's
  length, leaves the bytes after the 24 used ones alone, and extracting gives back exactly
  the packed fields.
\<close>

theorem kurma_handle_roundtrip:
  assumes "V4_FH_OPAQUE_SIZE \<le> length buf"
  shows "\<exists>b. package_kurma_handle buf oid sid = Some b \<and> length b = length buf
    \<and> drop 24 b = drop 24 buf
    \<and> extract_kurma_handle b new_object_id =
        Some (oid\<lparr>oid_set := oid_set new_object_id\<rparr>, sid)"
proof -
  let ?b = "enc_handle (handle_id oid sid) @ drop 24 buf"
  have b: "package_kurma_handle buf oid sid = Some ?b"
    using assms by (rule package_kurma_handle_eq)
  moreover have "length ?b = length buf"
    using package_kurma_handle_length [OF assms b] .
  moreover have "extract_kurma_handle ?b new_object_id =
      Some (oid\<lparr>oid_set := oid_set new_object_id\<rparr>, sid)"
    by (subst extract_kurma_handle_eq)
      (auto simp: dec_handle_append handle_id_def new_object_id_def)
  ultimately show ?thesis by simp
qed

theorem kurma_handle_roundtrip_witness:
  "V4_FH_OPAQUE_SIZE \<le> length (replicate 122 (0::u8)) \<and>
   (\<exists>b. package_kurma_handle (replicate 122 0) (new_object_id\<lparr>id1 := 5, creator := 7\<rparr>) 9 = Some b
      \<and> extract_kurma_handle b new_object_id =
          Some (new_object_id\<lparr>id1 := 5, creator := 7\<rparr>, 9))"
proof -
  have len: "V4_FH_OPAQUE_SIZE \<le> length (replicate 122 (0::u8))"
    by (simp add: V4_FH_OPAQUE_SIZE_def)
  from kurma_handle_roundtrip [OF len, of "new_object_id\<lparr>id1 := 5, creator := 7\<rparr>" 9] len
  show ?thesis by (auto simp: new_object_id_def)
qed

text \<open>
  Two handles have equal opaque bytes exactly when they name the same object, with the
  same type and flags, and the same snapshot number: the bytes are usable as a cache key.
\<close>

theorem kurma_handle_key_inject:
  "package_kurma_handle (replicate V4_FH_OPAQUE_SIZE 0) o1 s1 =
   package_kurma_handle (replicate V4_FH_OPAQUE_SIZE 0) o2 s2 \<longleftrightarrow>
   id1 o1 = id1 o2 \<and> id2 o1 = id2 o2 \<and> creator o1 = creator o2 \<and>
   oid_type o1 = oid_type o2 \<and> oid_flags o1 = oid_flags o2 \<and> s1 = s2"
  by (simp add: package_kurma_handle_eq handle_id_def)

end
