(* ===== verification/Kurma_Attrs.thy ===== *)
theory Kurma_Attrs
  imports Kurma_Codec
begin

text \<open>
  File attributes: the FSAL structure \<^verbatim>\<open>struct attrlist\<close>, the service structure
  \<^verbatim>\<open>ObjectAttributes\<close>, the two conversions of \<^verbatim>\<open>FSAL_KURMA/kurma.c\<close>, the handle object of
  \<^verbatim>\<open>kurma_methods.h\<close> and the functions of \<^verbatim>\<open>FSAL_KURMA/handle.c\<close> that fill its attributes.
\<close>

section \<open>The FSAL attribute list\<close>

record attrlist =
  a_mask :: u64
  a_type :: object_file_type_t
  a_filesize :: u64
  a_fsid :: "u64 \<times> u64"
  a_acl :: "nat option"
  a_fileid :: u64
  a_mode :: u32
  a_numlinks :: u32
  a_owner :: u64
  a_group :: u64
  a_rawdev :: "u64 \<times> u64"
  a_atime :: timespec
  a_creation :: timespec
  a_ctime :: timespec
  a_mtime :: timespec
  a_chgtime :: timespec
  a_spaceused :: u64
  a_change :: u64
  a_generation :: u64
  a_expire_time_attr :: int
  a_hints :: u32

abbreviation (input) ATTR_TYPE :: u64 where "ATTR_TYPE \<equiv> 0x2"
abbreviation (input) ATTR_SIZE :: u64 where "ATTR_SIZE \<equiv> 0x4"
abbreviation (input) ATTR_FSID :: u64 where "ATTR_FSID \<equiv> 0x8"
abbreviation (input) ATTR_FILEID :: u64 where "ATTR_FILEID \<equiv> 0x40"
abbreviation (input) ATTR_MODE :: u64 where "ATTR_MODE \<equiv> 0x80"
abbreviation (input) ATTR_NUMLINKS :: u64 where "ATTR_NUMLINKS \<equiv> 0x100"
abbreviation (input) ATTR_OWNER :: u64 where "ATTR_OWNER \<equiv> 0x200"
abbreviation (input) ATTR_GROUP :: u64 where "ATTR_GROUP \<equiv> 0x400"
abbreviation (input) ATTR_RAWDEV :: u64 where "ATTR_RAWDEV \<equiv> 0x800"
abbreviation (input) ATTR_ATIME :: u64 where "ATTR_ATIME \<equiv> 0x1000"
abbreviation (input) ATTR_CREATION :: u64 where "ATTR_CREATION \<equiv> 0x2000"
abbreviation (input) ATTR_CTIME :: u64 where "ATTR_CTIME \<equiv> 0x4000"
abbreviation (input) ATTR_MTIME :: u64 where "ATTR_MTIME \<equiv> 0x8000"
abbreviation (input) ATTR_SPACEUSED :: u64 where "ATTR_SPACEUSED \<equiv> 0x10000"
abbreviation (input) ATTR_CHGTIME :: u64 where "ATTR_CHGTIME \<equiv> 0x40000"

definition FSAL_TEST_MASK :: "u64 \<Rightarrow> u64 \<Rightarrow> bool" where
  "FSAL_TEST_MASK m a \<longleftrightarrow> m AND a \<noteq> 0"

definition FSAL_SET_MASK :: "u64 \<Rightarrow> u64 \<Rightarrow> u64" where
  "FSAL_SET_MASK m a = m OR a"

definition zero_ts :: timespec where
  "zero_ts = \<lparr>tv_sec = 0, tv_nsec = 0\<rparr>"

text \<open>The value of \<^verbatim>\<open>struct attrlist attrs = {0}\<close> and of \<^verbatim>\<open>memset(attrs, 0, sizeof(*attrs))\<close>.\<close>

definition zero_attrs :: attrlist where
  "zero_attrs = \<lparr>a_mask = 0, a_type = 0, a_filesize = 0, a_fsid = (0, 0), a_acl = None,
     a_fileid = 0, a_mode = 0, a_numlinks = 0, a_owner = 0, a_group = 0, a_rawdev = (0, 0),
     a_atime = zero_ts, a_creation = zero_ts, a_ctime = zero_ts, a_mtime = zero_ts,
     a_chgtime = zero_ts, a_spaceused = 0, a_change = 0, a_generation = 0,
     a_expire_time_attr = 0, a_hints = 0\<rparr>"

lemma and_exp_cases: "(m::'a::len word) AND 2 ^ k = (if bit m k then 2 ^ k else 0)"
  by (rule bit_word_eqI) (auto simp: bit_simps)

lemma FSAL_TEST_SET:
  "FSAL_TEST_MASK (FSAL_SET_MASK m a) b \<longleftrightarrow> FSAL_TEST_MASK m b \<or> FSAL_TEST_MASK a b"
proof -
  have "(m OR a) AND b = (m AND b) OR (a AND b)"
    by (simp add: bit.conj_disj_distrib2)
  then show ?thesis
    by (auto simp: FSAL_TEST_MASK_def FSAL_SET_MASK_def or_eq_0_iff)
qed

section \<open>The service attributes\<close>

text \<open>
  \<^verbatim>\<open>ObjectAttributes\<close> of \<^verbatim>\<open>Namespace.thrift\<close>: every field is optional, an unset field reads
  as zero.  The fields \<^verbatim>\<open>acl\<close> and \<^verbatim>\<open>datasize\<close>, which the FSAL never touches, are left out.
  Signed 64-bit fields are \<open>int\<close>; 32-bit fields keep their bits.
\<close>

record ObjectAttributes =
  k_filesize :: "int option"
  k_owner_id :: "u32 option"
  k_group_id :: "u32 option"
  k_mode :: "u32 option"
  k_nlinks :: "u32 option"
  k_create_time :: "int option"
  k_access_time :: "int option"
  k_modify_time :: "int option"
  k_change_time :: "int option"
  k_nblocks :: "int option"
  k_block_shift :: "u32 option"
  k_rawdev :: "u64 option"
  k_hints :: "u32 option"
  k_remote_change_time :: "int option"

definition new_object_attributes :: ObjectAttributes where
  "new_object_attributes = \<lparr>k_filesize = None, k_owner_id = None, k_group_id = None,
     k_mode = None, k_nlinks = None, k_create_time = None, k_access_time = None,
     k_modify_time = None, k_change_time = None, k_nblocks = None, k_block_shift = None,
     k_rawdev = None, k_hints = None, k_remote_change_time = None\<rparr>"

definition or_zero :: "'a::zero option \<Rightarrow> 'a" where
  "or_zero x = (case x of None \<Rightarrow> 0 | Some v \<Rightarrow> v)"

lemma or_zero_simps [simp]: "or_zero None = 0" "or_zero (Some v) = v"
  by (simp_all add: or_zero_def)

definition KURMA_HINT_SYMLINK :: u32 where "KURMA_HINT_SYMLINK = 1"
definition KURMA_HINT_HAS_SNAPSHOTS :: u32 where "KURMA_HINT_HAS_SNAPSHOTS = 2"

subsection \<open>From FSAL to the service\<close>

definition ms_if :: "bool \<Rightarrow> timespec \<Rightarrow> c_oracle \<Rightarrow> int option \<times> c_oracle" where
  "ms_if b ts orc = (if b then timespec_to_ms ts orc else (None, orc))"

definition or_keep :: "'a option \<Rightarrow> 'a option \<Rightarrow> 'a option" where
  "or_keep new old = (case new of None \<Rightarrow> old | Some v \<Rightarrow> Some v)"

text \<open>
  \<open>ms_if\<close> is the test \<^verbatim>\<open>FSAL_TEST_MASK(...) && timespec_to_ms(...)\<close>, which reads the clock
  only behind a set mask bit; \<open>or_keep\<close> is the conditional \<^verbatim>\<open>g_object_set\<close> behind it.
\<close>

definition fsal_attrs_to_kurma ::
    "attrlist \<Rightarrow> ObjectAttributes \<Rightarrow> c_oracle \<Rightarrow> (ObjectAttributes \<times> c_oracle) option" where
  "fsal_attrs_to_kurma attrs k orc = do {
     let m = a_mask attrs;
     c_assert (FSAL_TEST_MASK m ATTR_SIZE \<longrightarrow> uint (a_filesize attrs) \<le> 2 ^ 63 - 1);
     let k = (if FSAL_TEST_MASK m ATTR_SIZE
              then k\<lparr>k_filesize := Some (uint (a_filesize attrs))\<rparr> else k);
     let k = (if FSAL_TEST_MASK m ATTR_OWNER
              then k\<lparr>k_owner_id := Some (ucast (a_owner attrs))\<rparr> else k);
     let k = (if FSAL_TEST_MASK m ATTR_GROUP
              then k\<lparr>k_owner_id := Some (ucast (a_group attrs))\<rparr> else k);
     let k = (if FSAL_TEST_MASK m ATTR_MODE
              then k\<lparr>k_mode := Some (a_mode attrs)\<rparr> else k);
     let k = (if FSAL_TEST_MASK m ATTR_NUMLINKS
              then k\<lparr>k_nlinks := Some (a_numlinks attrs)\<rparr> else k);
     let k = (if FSAL_TEST_MASK m ATTR_CREATION
              then k\<lparr>k_create_time := Some (tv_sec (a_creation attrs))\<rparr> else k);
     let (t, orc) = ms_if (FSAL_TEST_MASK m ATTR_ATIME) (a_atime attrs) orc;
     let k = k\<lparr>k_access_time := or_keep t (k_access_time k)\<rparr>;
     let (t, orc) = ms_if (FSAL_TEST_MASK m ATTR_MTIME) (a_mtime attrs) orc;
     let k = k\<lparr>k_modify_time := or_keep t (k_modify_time k)\<rparr>;
     let (t, orc) = ms_if (FSAL_TEST_MASK m ATTR_CTIME) (a_ctime attrs) orc;
     let k = k\<lparr>k_change_time := or_keep t (k_change_time k)\<rparr>;
     let k = (if FSAL_TEST_MASK m ATTR_RAWDEV
              then k\<lparr>k_rawdev := Some (fst (a_rawdev attrs))\<rparr> else k);
     let k = k\<lparr>k_hints := Some (a_hints attrs)\<rparr>;
     Some (k, orc) }"

subsection \<open>From the service to FSAL\<close>

text \<open>\<open>take_attr\<close> is the pattern \<^verbatim>\<open>if (k_attrs->__isset_x) { FSAL_SET_MASK(...); attrs->x = ...; }\<close>.\<close>

definition take_attr ::
    "'a option \<Rightarrow> u64 \<Rightarrow> ('a \<Rightarrow> attrlist \<Rightarrow> attrlist) \<Rightarrow> attrlist \<Rightarrow> attrlist" where
  "take_attr f b upd attrs =
     (case f of None \<Rightarrow> attrs
      | Some v \<Rightarrow> upd v (attrs\<lparr>a_mask := FSAL_SET_MASK (a_mask attrs) b\<rparr>))"

definition kurma_attrs_to_fsal :: "ObjectAttributes \<Rightarrow> attrlist \<Rightarrow> attrlist option" where
  "kurma_attrs_to_fsal k attrs = do {
     let attrs = (if or_zero (k_hints k) AND KURMA_HINT_SYMLINK \<noteq> 0
                  then attrs\<lparr>a_mask := FSAL_SET_MASK (a_mask attrs) ATTR_TYPE,
                             a_type := SYMBOLIC_LINK, a_hints := or_zero (k_hints k)\<rparr>
                  else attrs);
     let attrs = attrs\<lparr>a_mask := 0\<rparr>;
     c_assert (\<forall>v \<in> set_option (k_filesize k). 0 \<le> v);
     let attrs = take_attr (k_filesize k) ATTR_SIZE
                   (\<lambda>v a. a\<lparr>a_filesize := word_of_int v\<rparr>) attrs;
     let attrs = take_attr (k_owner_id k) ATTR_OWNER (\<lambda>v a. a\<lparr>a_owner := scast v\<rparr>) attrs;
     let attrs = take_attr (k_group_id k) ATTR_GROUP (\<lambda>v a. a\<lparr>a_group := scast v\<rparr>) attrs;
     c_assert (\<forall>v \<in> set_option (k_mode k). 0 \<le> sint v);
     let attrs = take_attr (k_mode k) ATTR_MODE (\<lambda>v a. a\<lparr>a_mode := v\<rparr>) attrs;
     c_assert (\<forall>v \<in> set_option (k_nlinks k). 0 \<le> sint v);
     let attrs = take_attr (k_nlinks k) ATTR_NUMLINKS (\<lambda>v a. a\<lparr>a_numlinks := v\<rparr>) attrs;
     let attrs = take_attr (k_create_time k) ATTR_CREATION
                   (\<lambda>v a. a\<lparr>a_creation := millisecond_to_timespec v\<rparr>) attrs;
     let attrs = take_attr (k_access_time k) ATTR_ATIME
                   (\<lambda>v a. a\<lparr>a_atime := millisecond_to_timespec v\<rparr>) attrs;
     let attrs = take_attr (k_modify_time k) ATTR_MTIME
                   (\<lambda>v a. a\<lparr>a_mtime := millisecond_to_timespec v\<rparr>) attrs;
     let attrs = take_attr (k_change_time k) ATTR_CTIME
                   (\<lambda>v a. a\<lparr>a_ctime := millisecond_to_timespec v\<rparr>) attrs;
     let attrs = take_attr (k_remote_change_time k) ATTR_CHGTIME
                   (\<lambda>v a. a\<lparr>a_chgtime := millisecond_to_timespec v\<rparr>) attrs;
     attrs \<leftarrow> (case (k_nblocks k, k_block_shift k) of
         (Some nb, Some sh) \<Rightarrow> do {
           blk \<leftarrow> int_shl1 (unat sh);
           Some (attrs\<lparr>a_mask := FSAL_SET_MASK (a_mask attrs) ATTR_SPACEUSED,
                       a_spaceused := blk * word_of_int nb\<rparr>) }
       | _ \<Rightarrow> Some attrs);
     let attrs = take_attr (k_rawdev k) ATTR_RAWDEV (\<lambda>v a. a\<lparr>a_rawdev := (v, 0)\<rparr>) attrs;
     Some (attrs\<lparr>a_hints := or_zero (k_hints k)\<rparr>) }"

section \<open>The handle object\<close>

text \<open>
  \<^verbatim>\<open>struct kurma_fsal_obj_handle\<close>.  The \<^verbatim>\<open>parent\<close> pointer is the number of the parent in the
  table of live handles; the opaque part and the object identifier, which the C code
  allocates with the handle, are held by value.
\<close>

record kurma_fsal_obj_handle =
  kh_type :: object_file_type_t
  kh_attrs :: attrlist
  kh_opaque :: bytes
  kh_block_shift :: u32
  kh_oid :: ObjectID
  kh_openflags :: u16
  kh_parent :: "nat option"
  kh_name :: string
  kh_snapshot_id :: u32
  kh_snapshot_count :: u32
  kh_attrs_timestamp :: int

definition get_filesize :: "kurma_fsal_obj_handle \<Rightarrow> u64" where
  "get_filesize hdl = a_filesize (kh_attrs hdl)"

definition KURMA_ATTRS_EXPIRE_SEC :: int where "KURMA_ATTRS_EXPIRE_SEC = 5"

definition unix2fsal_mode :: "u32 \<Rightarrow> u32" where
  "unix2fsal_mode unix_mode = unix_mode AND 0xFFF"

text \<open>The fields of \<open>op_ctx->creds\<close> the FSAL reads.\<close>

record user_cred =
  caller_uid :: u32
  caller_gid :: u32
  caller_garray :: "u32 list"

definition set_default_attrs ::
    "user_cred \<Rightarrow> kurma_fsal_obj_handle \<Rightarrow> u64 \<Rightarrow> c_oracle
      \<Rightarrow> kurma_fsal_obj_handle \<times> u64 \<times> c_oracle" where
  "set_default_attrs creds hdl inode_number orc =
     (let attrs = zero_attrs;
          attrs = attrs\<lparr>a_type := kh_type hdl,
                        a_mask := FSAL_SET_MASK (a_mask attrs) ATTR_TYPE\<rparr>;
          attrs = attrs\<lparr>a_filesize := 0, a_mask := FSAL_SET_MASK (a_mask attrs) ATTR_SIZE\<rparr>;
          attrs = attrs\<lparr>a_fsid := (0, 0), a_mask := FSAL_SET_MASK (a_mask attrs) ATTR_FSID\<rparr>;
          attrs = attrs\<lparr>a_fileid := inode_number,
                        a_mask := FSAL_SET_MASK (a_mask attrs) ATTR_FILEID\<rparr>;
          inode_number = inode_number + 1;
          attrs = attrs\<lparr>a_expire_time_attr := KURMA_ATTRS_EXPIRE_SEC\<rparr>;
          attrs = attrs\<lparr>a_mode := unix2fsal_mode 0x1ED,
                        a_mask := FSAL_SET_MASK (a_mask attrs) ATTR_MODE\<rparr>;
          attrs = attrs\<lparr>a_numlinks := 2,
                        a_mask := FSAL_SET_MASK (a_mask attrs) ATTR_NUMLINKS\<rparr>;
          hdl = hdl\<lparr>kh_block_shift := 0\<rparr>;
          attrs = attrs\<lparr>a_owner := ucast (caller_uid creds),
                        a_mask := FSAL_SET_MASK (a_mask attrs) ATTR_OWNER\<rparr>;
          attrs = attrs\<lparr>a_group := ucast (caller_gid creds),
                        a_mask := FSAL_SET_MASK (a_mask attrs) ATTR_GROUP\<rparr>;
          (tm_now, orc) = draw_now orc;
          attrs = attrs\<lparr>a_atime := tm_now, a_ctime := tm_now, a_mtime := tm_now,
                        a_mask := FSAL_SET_MASK (FSAL_SET_MASK (FSAL_SET_MASK (a_mask attrs)
                                    ATTR_ATIME) ATTR_CTIME) ATTR_MTIME\<rparr>;
          attrs = attrs\<lparr>a_spaceused := 0,
                        a_mask := FSAL_SET_MASK (a_mask attrs) ATTR_SPACEUSED\<rparr>;
          attrs = attrs\<lparr>a_rawdev := (0, 0),
                        a_mask := FSAL_SET_MASK (a_mask attrs) ATTR_RAWDEV\<rparr>
      in (hdl\<lparr>kh_attrs := attrs\<rparr>, inode_number, orc))"

text \<open>\<open>copy_attr\<close> is the pattern \<^verbatim>\<open>if (FSAL_TEST_MASK(attrs->mask, b)) { FSAL_SET_MASK(...); ... }\<close>.\<close>

definition copy_attr :: "u64 \<Rightarrow> u64 \<Rightarrow> (attrlist \<Rightarrow> attrlist) \<Rightarrow> attrlist \<Rightarrow> attrlist" where
  "copy_attr m b upd h =
     (if FSAL_TEST_MASK m b then upd (h\<lparr>a_mask := FSAL_SET_MASK (a_mask h) b\<rparr>) else h)"

definition set_attrs_override ::
    "kurma_fsal_obj_handle \<Rightarrow> attrlist \<Rightarrow> kurma_fsal_obj_handle" where
  "set_attrs_override khdl attrs =
     (let khdl = (if a_hints attrs AND KURMA_HINT_SYMLINK \<noteq> 0
                  then khdl\<lparr>kh_type := SYMBOLIC_LINK,
                            kh_attrs := (kh_attrs khdl)\<lparr>a_type := SYMBOLIC_LINK\<rparr>\<rparr>
                  else khdl);
          khdl = (if FSAL_TEST_MASK (ucast (a_type attrs)) ATTR_TYPE
                  then khdl\<lparr>kh_attrs := (kh_attrs khdl)\<lparr>
                              a_mask := FSAL_SET_MASK (a_mask (kh_attrs khdl)) ATTR_TYPE,
                              a_type := a_type attrs\<rparr>,
                            kh_type := a_type attrs\<rparr>
                  else khdl);
          m = a_mask attrs;
          h = kh_attrs khdl;
          h = copy_attr m ATTR_SIZE (\<lambda>h. h\<lparr>a_filesize := a_filesize attrs\<rparr>) h;
          h = copy_attr m ATTR_OWNER (\<lambda>h. h\<lparr>a_owner := a_owner attrs\<rparr>) h;
          h = copy_attr m ATTR_GROUP (\<lambda>h. h\<lparr>a_group := a_group attrs\<rparr>) h;
          h = copy_attr m ATTR_MODE (\<lambda>h. h\<lparr>a_mode := a_mode attrs\<rparr>) h;
          h = copy_attr m ATTR_NUMLINKS (\<lambda>h. h\<lparr>a_numlinks := a_numlinks attrs\<rparr>) h;
          h = copy_attr m ATTR_CREATION (\<lambda>h. h\<lparr>a_creation := a_creation attrs\<rparr>) h;
          h = copy_attr m ATTR_ATIME (\<lambda>h. h\<lparr>a_atime := a_atime attrs\<rparr>) h;
          h = copy_attr m ATTR_MTIME (\<lambda>h. h\<lparr>a_mtime := a_mtime attrs\<rparr>) h;
          h = copy_attr m ATTR_CTIME (\<lambda>h. h\<lparr>a_ctime := a_ctime attrs\<rparr>) h;
          h = copy_attr m ATTR_CHGTIME (\<lambda>h. h\<lparr>a_chgtime := a_chgtime attrs\<rparr>) h;
          h = copy_attr m ATTR_SPACEUSED (\<lambda>h. h\<lparr>a_spaceused := a_spaceused attrs\<rparr>) h;
          h = copy_attr m ATTR_RAWDEV (\<lambda>h. h\<lparr>a_rawdev := a_rawdev attrs\<rparr>) h
      in khdl\<lparr>kh_attrs := h\<rparr>)"

definition S_IXALL :: u32 where
  "S_IXALL = 0x01 OR 0x08 OR 0x40"

definition set_snapshot_dir_attrs :: "kurma_fsal_obj_handle \<Rightarrow> kurma_fsal_obj_handle" where
  "set_snapshot_dir_attrs khdl =
     (let h = kh_attrs khdl;
          h = h\<lparr>a_mask := FSAL_SET_MASK (a_mask h) (ATTR_TYPE OR ATTR_MODE)\<rparr>;
          khdl = khdl\<lparr>kh_type := DIRECTORY\<rparr>;
          h = h\<lparr>a_type := DIRECTORY\<rparr>;
          h = h\<lparr>a_mode := a_mode h OR S_IXALL\<rparr>
      in khdl\<lparr>kh_attrs := h, kh_snapshot_id := SNAPSHOT_DIR\<rparr>)"

lemma copy_attr_other:
  assumes "\<And>x. sel (upd x) = sel x" and "\<And>x v. sel (x\<lparr>a_mask := v\<rparr>) = sel x"
  shows "sel (copy_attr m b upd h) = sel h"
  using assms by (simp add: copy_attr_def)

lemma a_mask_copy_attr:
  assumes "\<And>x. a_mask (upd x) = a_mask x"
  shows "a_mask (copy_attr m b upd h) = a_mask h OR (if FSAL_TEST_MASK m b then b else 0)"
  using assms by (simp add: copy_attr_def FSAL_SET_MASK_def)

lemmas copy_attr_keep =
  copy_attr_other [of a_type]
  copy_attr_other [of a_filesize]
  copy_attr_other [of a_fsid]
  copy_attr_other [of a_acl]
  copy_attr_other [of a_fileid]
  copy_attr_other [of a_mode]
  copy_attr_other [of a_numlinks]
  copy_attr_other [of a_owner]
  copy_attr_other [of a_group]
  copy_attr_other [of a_rawdev]
  copy_attr_other [of a_atime]
  copy_attr_other [of a_creation]
  copy_attr_other [of a_ctime]
  copy_attr_other [of a_mtime]
  copy_attr_other [of a_chgtime]
  copy_attr_other [of a_spaceused]
  copy_attr_other [of a_change]
  copy_attr_other [of a_generation]
  copy_attr_other [of a_expire_time_attr]
  copy_attr_other [of a_hints]

lemma copy_attr_hit:
  "a_filesize (copy_attr m b (\<lambda>h. h\<lparr>a_filesize := v_filesize\<rparr>) h) =
     (if FSAL_TEST_MASK m b then v_filesize else a_filesize h)"
  "a_owner (copy_attr m b (\<lambda>h. h\<lparr>a_owner := v_owner\<rparr>) h) =
     (if FSAL_TEST_MASK m b then v_owner else a_owner h)"
  "a_group (copy_attr m b (\<lambda>h. h\<lparr>a_group := v_group\<rparr>) h) =
     (if FSAL_TEST_MASK m b then v_group else a_group h)"
  "a_mode (copy_attr m b (\<lambda>h. h\<lparr>a_mode := v_mode\<rparr>) h) =
     (if FSAL_TEST_MASK m b then v_mode else a_mode h)"
  "a_numlinks (copy_attr m b (\<lambda>h. h\<lparr>a_numlinks := v_numlinks\<rparr>) h) =
     (if FSAL_TEST_MASK m b then v_numlinks else a_numlinks h)"
  "a_creation (copy_attr m b (\<lambda>h. h\<lparr>a_creation := v_creation\<rparr>) h) =
     (if FSAL_TEST_MASK m b then v_creation else a_creation h)"
  "a_atime (copy_attr m b (\<lambda>h. h\<lparr>a_atime := v_atime\<rparr>) h) =
     (if FSAL_TEST_MASK m b then v_atime else a_atime h)"
  "a_mtime (copy_attr m b (\<lambda>h. h\<lparr>a_mtime := v_mtime\<rparr>) h) =
     (if FSAL_TEST_MASK m b then v_mtime else a_mtime h)"
  "a_ctime (copy_attr m b (\<lambda>h. h\<lparr>a_ctime := v_ctime\<rparr>) h) =
     (if FSAL_TEST_MASK m b then v_ctime else a_ctime h)"
  "a_chgtime (copy_attr m b (\<lambda>h. h\<lparr>a_chgtime := v_chgtime\<rparr>) h) =
     (if FSAL_TEST_MASK m b then v_chgtime else a_chgtime h)"
  "a_spaceused (copy_attr m b (\<lambda>h. h\<lparr>a_spaceused := v_spaceused\<rparr>) h) =
     (if FSAL_TEST_MASK m b then v_spaceused else a_spaceused h)"
  "a_rawdev (copy_attr m b (\<lambda>h. h\<lparr>a_rawdev := v_rawdev\<rparr>) h) =
     (if FSAL_TEST_MASK m b then v_rawdev else a_rawdev h)"
  by (simp_all add: copy_attr_def)

text \<open>
  The attribute bits \<^verbatim>\<open>set_attrs_override\<close> looks at, and the merge of two attribute lists it
  is meant to compute: a field is taken from the new list when its bit is set there and
  kept otherwise.
\<close>

definition OVERRIDE_MASK :: u64 where
  "OVERRIDE_MASK = ATTR_SIZE OR ATTR_OWNER OR ATTR_GROUP OR ATTR_MODE OR ATTR_NUMLINKS
     OR ATTR_CREATION OR ATTR_ATIME OR ATTR_MTIME OR ATTR_CTIME OR ATTR_CHGTIME
     OR ATTR_SPACEUSED OR ATTR_RAWDEV"

definition pick :: "u64 \<Rightarrow> u64 \<Rightarrow> 'a \<Rightarrow> 'a \<Rightarrow> 'a" where
  "pick m b new old = (if FSAL_TEST_MASK m b then new else old)"

definition merge_attrs :: "attrlist \<Rightarrow> attrlist \<Rightarrow> attrlist" where
  "merge_attrs n h = h\<lparr>
     a_mask := a_mask h OR (a_mask n AND OVERRIDE_MASK),
     a_filesize := pick (a_mask n) ATTR_SIZE (a_filesize n) (a_filesize h),
     a_owner := pick (a_mask n) ATTR_OWNER (a_owner n) (a_owner h),
     a_group := pick (a_mask n) ATTR_GROUP (a_group n) (a_group h),
     a_mode := pick (a_mask n) ATTR_MODE (a_mode n) (a_mode h),
     a_numlinks := pick (a_mask n) ATTR_NUMLINKS (a_numlinks n) (a_numlinks h),
     a_creation := pick (a_mask n) ATTR_CREATION (a_creation n) (a_creation h),
     a_atime := pick (a_mask n) ATTR_ATIME (a_atime n) (a_atime h),
     a_mtime := pick (a_mask n) ATTR_MTIME (a_mtime n) (a_mtime h),
     a_ctime := pick (a_mask n) ATTR_CTIME (a_ctime n) (a_ctime h),
     a_chgtime := pick (a_mask n) ATTR_CHGTIME (a_chgtime n) (a_chgtime h),
     a_spaceused := pick (a_mask n) ATTR_SPACEUSED (a_spaceused n) (a_spaceused h),
     a_rawdev := pick (a_mask n) ATTR_RAWDEV (a_rawdev n) (a_rawdev h)\<rparr>"

definition override_type :: "attrlist \<Rightarrow> object_file_type_t \<Rightarrow> object_file_type_t" where
  "override_type n old =
     (if FSAL_TEST_MASK (ucast (a_type n)) ATTR_TYPE then a_type n
      else if a_hints n AND KURMA_HINT_SYMLINK \<noteq> 0 then SYMBOLIC_LINK else old)"

lemma mask_bit_stage:
  "b = 2 ^ k \<Longrightarrow> m AND b = (if FSAL_TEST_MASK m b then b else 0)"
  by (auto simp: FSAL_TEST_MASK_def and_exp_cases)

lemma and_OVERRIDE_MASK:
  "m AND OVERRIDE_MASK =
     (if FSAL_TEST_MASK m ATTR_SIZE then ATTR_SIZE else 0)      OR
     (if FSAL_TEST_MASK m ATTR_OWNER then ATTR_OWNER else 0)      OR
     (if FSAL_TEST_MASK m ATTR_GROUP then ATTR_GROUP else 0)      OR
     (if FSAL_TEST_MASK m ATTR_MODE then ATTR_MODE else 0)      OR
     (if FSAL_TEST_MASK m ATTR_NUMLINKS then ATTR_NUMLINKS else 0)      OR
     (if FSAL_TEST_MASK m ATTR_CREATION then ATTR_CREATION else 0)      OR
     (if FSAL_TEST_MASK m ATTR_ATIME then ATTR_ATIME else 0)      OR
     (if FSAL_TEST_MASK m ATTR_MTIME then ATTR_MTIME else 0)      OR
     (if FSAL_TEST_MASK m ATTR_CTIME then ATTR_CTIME else 0)      OR
     (if FSAL_TEST_MASK m ATTR_CHGTIME then ATTR_CHGTIME else 0)      OR
     (if FSAL_TEST_MASK m ATTR_SPACEUSED then ATTR_SPACEUSED else 0)      OR
     (if FSAL_TEST_MASK m ATTR_RAWDEV then ATTR_RAWDEV else 0)"
  unfolding OVERRIDE_MASK_def bit.conj_disj_distrib
  using mask_bit_stage [of 4 2 m, simplified]
    mask_bit_stage [of 512 9 m, simplified]
    mask_bit_stage [of 1024 10 m, simplified]
    mask_bit_stage [of 128 7 m, simplified]
    mask_bit_stage [of 256 8 m, simplified]
    mask_bit_stage [of 8192 13 m, simplified]
    mask_bit_stage [of 4096 12 m, simplified]
    mask_bit_stage [of 32768 15 m, simplified]
    mask_bit_stage [of 16384 14 m, simplified]
    mask_bit_stage [of 262144 18 m, simplified]
    mask_bit_stage [of 65536 16 m, simplified]
    mask_bit_stage [of 2048 11 m, simplified]
  by (simp only:)

lemma copy_attrs_merge:
  assumes "m = a_mask n"
  shows "copy_attr m ATTR_RAWDEV (\<lambda>h. h\<lparr>a_rawdev := a_rawdev n\<rparr>)
       (copy_attr m ATTR_SPACEUSED (\<lambda>h. h\<lparr>a_spaceused := a_spaceused n\<rparr>)
       (copy_attr m ATTR_CHGTIME (\<lambda>h. h\<lparr>a_chgtime := a_chgtime n\<rparr>)
       (copy_attr m ATTR_CTIME (\<lambda>h. h\<lparr>a_ctime := a_ctime n\<rparr>)
       (copy_attr m ATTR_MTIME (\<lambda>h. h\<lparr>a_mtime := a_mtime n\<rparr>)
       (copy_attr m ATTR_ATIME (\<lambda>h. h\<lparr>a_atime := a_atime n\<rparr>)
       (copy_attr m ATTR_CREATION (\<lambda>h. h\<lparr>a_creation := a_creation n\<rparr>)
       (copy_attr m ATTR_NUMLINKS (\<lambda>h. h\<lparr>a_numlinks := a_numlinks n\<rparr>)
       (copy_attr m ATTR_MODE (\<lambda>h. h\<lparr>a_mode := a_mode n\<rparr>)
       (copy_attr m ATTR_GROUP (\<lambda>h. h\<lparr>a_group := a_group n\<rparr>)
       (copy_attr m ATTR_OWNER (\<lambda>h. h\<lparr>a_owner := a_owner n\<rparr>)
       (copy_attr m ATTR_SIZE (\<lambda>h. h\<lparr>a_filesize := a_filesize n\<rparr>)
       g)))))))))))
     = merge_attrs n g"
  by (rule attrlist.equality)
    (simp_all add: assms merge_attrs_def copy_attr_keep copy_attr_hit a_mask_copy_attr pick_def
      and_OVERRIDE_MASK or.assoc)

text \<open>
  C20 \<^verbatim>\<open>set_attrs_override\<close> merges the attributes it is given into the handle: every maskable
  field is replaced exactly when its bit is set in the new mask, the handle's mask gains
  exactly those bits, and nothing else of the handle changes.  The type is the exception:
  it follows bit 1 of the new type value (and the symlink hint), not the \<^verbatim>\<open>ATTR_TYPE\<close> bit of
  the new mask, and when it is replaced \<^verbatim>\<open>ATTR_TYPE\<close> is set.
\<close>

theorem set_attrs_override_merges:
  "set_attrs_override khdl n =
     khdl\<lparr>kh_type := override_type n (kh_type khdl),
          kh_attrs := merge_attrs n ((kh_attrs khdl)\<lparr>
            a_mask := (if FSAL_TEST_MASK (ucast (a_type n)) ATTR_TYPE
                       then a_mask (kh_attrs khdl) OR ATTR_TYPE else a_mask (kh_attrs khdl)),
            a_type := override_type n (a_type (kh_attrs khdl))\<rparr>)\<rparr>"
  unfolding set_attrs_override_def Let_def
  by (subst copy_attrs_merge) (simp_all add: override_type_def FSAL_SET_MASK_def)

section \<open>The conversions\<close>

lemma take_attr_other:
  assumes "\<And>v x. sel (upd v x) = sel x" and "\<And>x v. sel (x\<lparr>a_mask := v\<rparr>) = sel x"
  shows "sel (take_attr f b upd h) = sel h"
  using assms by (simp add: take_attr_def split: option.split)

lemmas take_attr_keep =
  take_attr_other [of a_type]
  take_attr_other [of a_filesize]
  take_attr_other [of a_fsid]
  take_attr_other [of a_acl]
  take_attr_other [of a_fileid]
  take_attr_other [of a_mode]
  take_attr_other [of a_numlinks]
  take_attr_other [of a_owner]
  take_attr_other [of a_group]
  take_attr_other [of a_rawdev]
  take_attr_other [of a_atime]
  take_attr_other [of a_creation]
  take_attr_other [of a_ctime]
  take_attr_other [of a_mtime]
  take_attr_other [of a_chgtime]
  take_attr_other [of a_spaceused]
  take_attr_other [of a_change]
  take_attr_other [of a_generation]
  take_attr_other [of a_expire_time_attr]
  take_attr_other [of a_hints]

lemma a_mask_take_attr:
  assumes "\<And>v x. a_mask (upd v x) = a_mask x"
  shows "a_mask (take_attr f b upd h) = a_mask h OR (if f = None then 0 else b)"
  using assms by (simp add: take_attr_def FSAL_SET_MASK_def split: option.split)

definition from_opt :: "'b \<Rightarrow> ('a \<Rightarrow> 'b) \<Rightarrow> 'a option \<Rightarrow> 'b" where
  "from_opt d c f = (case f of None \<Rightarrow> d | Some v \<Rightarrow> c v)"

lemma from_opt_simps [simp]: "from_opt d c None = d" "from_opt d c (Some v) = c v"
  by (simp_all add: from_opt_def)

lemma take_attr_hit:
  "a_filesize (take_attr f b (\<lambda>v a. a\<lparr>a_filesize := c_filesize v\<rparr>) h) = from_opt (a_filesize h) c_filesize f"
  "a_owner (take_attr f b (\<lambda>v a. a\<lparr>a_owner := c_owner v\<rparr>) h) = from_opt (a_owner h) c_owner f"
  "a_group (take_attr f b (\<lambda>v a. a\<lparr>a_group := c_group v\<rparr>) h) = from_opt (a_group h) c_group f"
  "a_mode (take_attr f b (\<lambda>v a. a\<lparr>a_mode := c_mode v\<rparr>) h) = from_opt (a_mode h) c_mode f"
  "a_numlinks (take_attr f b (\<lambda>v a. a\<lparr>a_numlinks := c_numlinks v\<rparr>) h) = from_opt (a_numlinks h) c_numlinks f"
  "a_creation (take_attr f b (\<lambda>v a. a\<lparr>a_creation := c_creation v\<rparr>) h) = from_opt (a_creation h) c_creation f"
  "a_atime (take_attr f b (\<lambda>v a. a\<lparr>a_atime := c_atime v\<rparr>) h) = from_opt (a_atime h) c_atime f"
  "a_mtime (take_attr f b (\<lambda>v a. a\<lparr>a_mtime := c_mtime v\<rparr>) h) = from_opt (a_mtime h) c_mtime f"
  "a_ctime (take_attr f b (\<lambda>v a. a\<lparr>a_ctime := c_ctime v\<rparr>) h) = from_opt (a_ctime h) c_ctime f"
  "a_chgtime (take_attr f b (\<lambda>v a. a\<lparr>a_chgtime := c_chgtime v\<rparr>) h) = from_opt (a_chgtime h) c_chgtime f"
  "a_rawdev (take_attr f b (\<lambda>v a. a\<lparr>a_rawdev := c_rawdev v\<rparr>) h) = from_opt (a_rawdev h) c_rawdev f"
  by (simp_all add: take_attr_def split: option.split)

text \<open>
  What \<^verbatim>\<open>kurma_attrs_to_fsal\<close> computes.  \<open>kattrs_wf\<close> is the condition under which none of its
  assertions fails and the shift is defined, \<open>isset_mask\<close> the mask of the fields that are set.
\<close>

definition kattrs_wf :: "ObjectAttributes \<Rightarrow> bool" where
  "kattrs_wf k \<longleftrightarrow> (\<forall>v \<in> set_option (k_filesize k). 0 \<le> v)
     \<and> (\<forall>v \<in> set_option (k_mode k). 0 \<le> sint v)
     \<and> (\<forall>v \<in> set_option (k_nlinks k). 0 \<le> sint v)
     \<and> (k_nblocks k \<noteq> None \<longrightarrow> (\<forall>v \<in> set_option (k_block_shift k). unat v < 31))"

definition bit_if :: "'a option \<Rightarrow> u64 \<Rightarrow> u64" where
  "bit_if f b = (if f = None then 0 else b)"

definition spaceused_of :: "ObjectAttributes \<Rightarrow> u64 option" where
  "spaceused_of k = (case (k_nblocks k, k_block_shift k) of
     (Some nb, Some sh) \<Rightarrow> Some (2 ^ unat sh * word_of_int nb) | _ \<Rightarrow> None)"

definition isset_mask :: "ObjectAttributes \<Rightarrow> u64" where
  "isset_mask k =
     bit_if (k_filesize k) ATTR_SIZE OR
     bit_if (k_owner_id k) ATTR_OWNER OR
     bit_if (k_group_id k) ATTR_GROUP OR
     bit_if (k_mode k) ATTR_MODE OR
     bit_if (k_nlinks k) ATTR_NUMLINKS OR
     bit_if (k_create_time k) ATTR_CREATION OR
     bit_if (k_access_time k) ATTR_ATIME OR
     bit_if (k_modify_time k) ATTR_MTIME OR
     bit_if (k_change_time k) ATTR_CTIME OR
     bit_if (k_remote_change_time k) ATTR_CHGTIME OR
     bit_if (spaceused_of k) ATTR_SPACEUSED OR
     bit_if (k_rawdev k) ATTR_RAWDEV"

definition fsal_view :: "ObjectAttributes \<Rightarrow> attrlist \<Rightarrow> attrlist" where
  "fsal_view k a = a\<lparr>
     a_mask := isset_mask k,
     a_type := (if or_zero (k_hints k) AND KURMA_HINT_SYMLINK \<noteq> 0 then SYMBOLIC_LINK else a_type a),
     a_filesize := from_opt (a_filesize a) (\<lambda>v. word_of_int v) (k_filesize k),
     a_owner := from_opt (a_owner a) (\<lambda>v. scast v) (k_owner_id k),
     a_group := from_opt (a_group a) (\<lambda>v. scast v) (k_group_id k),
     a_mode := from_opt (a_mode a) (\<lambda>v. v) (k_mode k),
     a_numlinks := from_opt (a_numlinks a) (\<lambda>v. v) (k_nlinks k),
     a_creation := from_opt (a_creation a) (\<lambda>v. millisecond_to_timespec v) (k_create_time k),
     a_atime := from_opt (a_atime a) (\<lambda>v. millisecond_to_timespec v) (k_access_time k),
     a_mtime := from_opt (a_mtime a) (\<lambda>v. millisecond_to_timespec v) (k_modify_time k),
     a_ctime := from_opt (a_ctime a) (\<lambda>v. millisecond_to_timespec v) (k_change_time k),
     a_chgtime := from_opt (a_chgtime a) (\<lambda>v. millisecond_to_timespec v) (k_remote_change_time k),
     a_rawdev := from_opt (a_rawdev a) (\<lambda>v. (v, 0)) (k_rawdev k),
     a_spaceused := from_opt (a_spaceused a) (\<lambda>v. v) (spaceused_of k),
     a_hints := or_zero (k_hints k)\<rparr>"

text \<open>The block count and the shift together are one attribute, stored like the others.\<close>

lemma spaceused_stage:
  assumes "kattrs_wf k"
  shows "(case (k_nblocks k, k_block_shift k) of
         (Some nb, Some sh) \<Rightarrow> do {
           blk \<leftarrow> int_shl1 (unat sh);
           Some (attrs\<lparr>a_mask := FSAL_SET_MASK (a_mask attrs) ATTR_SPACEUSED,
                       a_spaceused := blk * word_of_int nb\<rparr>) }
       | _ \<Rightarrow> Some attrs)
     = Some (take_attr (spaceused_of k) ATTR_SPACEUSED (\<lambda>v a. a\<lparr>a_spaceused := v\<rparr>) attrs)"
  using assms
  by (auto simp: kattrs_wf_def spaceused_of_def take_attr_def int_shl1_def split: option.split)

lemma spaceused_hit:
  "a_spaceused (take_attr f b (\<lambda>v a. a\<lparr>a_spaceused := v\<rparr>) h) = from_opt (a_spaceused h) (\<lambda>v. v) f"
  by (simp add: take_attr_def split: option.split)

lemma kurma_attrs_to_fsal_eq:
  assumes "kattrs_wf k"
  shows "kurma_attrs_to_fsal k a = Some (fsal_view k a)"
proof -
  have asserts: "\<forall>v \<in> set_option (k_filesize k). 0 \<le> v" "\<forall>v \<in> set_option (k_mode k). 0 \<le> sint v"
    "\<forall>v \<in> set_option (k_nlinks k). 0 \<le> sint v"
    using assms unfolding kattrs_wf_def by blast+
  show ?thesis
    unfolding kurma_attrs_to_fsal_def Let_def spaceused_stage [OF assms] c_assert_bind
      if_P [OF asserts(1)] if_P [OF asserts(2)] if_P [OF asserts(3)] bind.bind_lunit option.inject
    by (rule attrlist.equality)
      (simp_all add: fsal_view_def take_attr_keep take_attr_hit spaceused_hit a_mask_take_attr
        isset_mask_def bit_if_def or.assoc)
qed

lemma TEST_MASK_or: "FSAL_TEST_MASK (m OR a) b \<longleftrightarrow> FSAL_TEST_MASK m b \<or> FSAL_TEST_MASK a b"
  using FSAL_TEST_SET by (simp add: FSAL_SET_MASK_def)

lemma TEST_MASK_bit_if: "FSAL_TEST_MASK (bit_if f a) b \<longleftrightarrow> f \<noteq> None \<and> FSAL_TEST_MASK a b"
  by (simp add: bit_if_def FSAL_TEST_MASK_def)

lemma TEST_MASK_numeral:
  "FSAL_TEST_MASK (numeral a) (numeral b) \<longleftrightarrow> (numeral a :: u64) AND numeral b \<noteq> 0"
  by (simp add: FSAL_TEST_MASK_def)

lemmas mask_simps = TEST_MASK_or TEST_MASK_bit_if TEST_MASK_numeral isset_mask_def



text \<open>The other direction, on a fresh \<^verbatim>\<open>ObjectAttributes\<close>.\<close>

lemma k_update_if:
  "(if c then k\<lparr>k_filesize := v_filesize\<rparr> else k) = k\<lparr>k_filesize := (if c then v_filesize else k_filesize k)\<rparr>"
  "(if c then k\<lparr>k_owner_id := v_owner_id\<rparr> else k) = k\<lparr>k_owner_id := (if c then v_owner_id else k_owner_id k)\<rparr>"
  "(if c then k\<lparr>k_mode := v_mode\<rparr> else k) = k\<lparr>k_mode := (if c then v_mode else k_mode k)\<rparr>"
  "(if c then k\<lparr>k_nlinks := v_nlinks\<rparr> else k) = k\<lparr>k_nlinks := (if c then v_nlinks else k_nlinks k)\<rparr>"
  "(if c then k\<lparr>k_create_time := v_create_time\<rparr> else k) = k\<lparr>k_create_time := (if c then v_create_time else k_create_time k)\<rparr>"
  "(if c then k\<lparr>k_rawdev := v_rawdev\<rparr> else k) = k\<lparr>k_rawdev := (if c then v_rawdev else k_rawdev k)\<rparr>"
  by simp_all

definition ms_representable :: "timespec \<Rightarrow> bool" where
  "ms_representable ts \<longleftrightarrow>
     ts = millisecond_to_timespec (tv_sec ts * 1000 + tv_nsec ts sdiv 1000000)"

lemma ms_if_representable:
  assumes "ms_representable ts"
  shows "ms_if b ts orc = ((if b then Some (tv_sec ts * 1000 + tv_nsec ts sdiv 1000000) else None), orc)"
proof -
  have "tv_nsec ts < UTIME_OMIT"
    using assms millisecond_nsec_small unfolding ms_representable_def by metis
  then show ?thesis
    by (simp add: ms_if_def timespec_to_ms_def UTIME_OMIT_def UTIME_NOW_def)
qed

lemma or_keep_None [simp]: "or_keep x None = x"
  by (simp add: or_keep_def split: option.split)

definition sent_attrs :: "attrlist \<Rightarrow> ObjectAttributes" where
  "sent_attrs a = (let m = a_mask a; ms = (\<lambda>ts. tv_sec ts * 1000 + tv_nsec ts sdiv 1000000) in
     \<lparr>k_filesize = (if FSAL_TEST_MASK m ATTR_SIZE then Some (uint (a_filesize a)) else None),
      k_owner_id = (if FSAL_TEST_MASK m ATTR_GROUP then Some (ucast (a_group a))
                    else if FSAL_TEST_MASK m ATTR_OWNER then Some (ucast (a_owner a)) else None),
      k_group_id = None,
      k_mode = (if FSAL_TEST_MASK m ATTR_MODE then Some (a_mode a) else None),
      k_nlinks = (if FSAL_TEST_MASK m ATTR_NUMLINKS then Some (a_numlinks a) else None),
      k_create_time = (if FSAL_TEST_MASK m ATTR_CREATION then Some (tv_sec (a_creation a)) else None),
      k_access_time = (if FSAL_TEST_MASK m ATTR_ATIME then Some (ms (a_atime a)) else None),
      k_modify_time = (if FSAL_TEST_MASK m ATTR_MTIME then Some (ms (a_mtime a)) else None),
      k_change_time = (if FSAL_TEST_MASK m ATTR_CTIME then Some (ms (a_ctime a)) else None),
      k_nblocks = None, k_block_shift = None,
      k_rawdev = (if FSAL_TEST_MASK m ATTR_RAWDEV then Some (fst (a_rawdev a)) else None),
      k_hints = Some (a_hints a), k_remote_change_time = None\<rparr>)"

lemma fsal_attrs_to_kurma_new:
  assumes "uint (a_filesize a) < 2 ^ 63"
    and "ms_representable (a_atime a)" "ms_representable (a_mtime a)" "ms_representable (a_ctime a)"
  shows "fsal_attrs_to_kurma a new_object_attributes orc = Some (sent_attrs a, orc)"
  using assms
  by (simp add: fsal_attrs_to_kurma_def Let_def ms_if_representable k_update_if
      new_object_attributes_def sent_attrs_def)

lemma scast_ucast_small:
  fixes w :: u64
  assumes "uint w < 2 ^ 31"
  shows "(scast (ucast w :: u32) :: u64) = w"
proof -
  have "uint (ucast w :: u32) = uint w"
    using assms by (simp add: unsigned_ucast_eq take_bit_int_eq_self_iff)
  then have "sint (ucast w :: u32) = uint w"
    using assms order_trans [of "- (2 ^ 31)" 0 "uint w"]
    by (simp add: sint_uint signed_take_bit_int_eq_self_iff)
  then show ?thesis by (simp add: scast_eq)
qed



text \<open>
  A change of group is sent as a change of owner: whenever \<^verbatim>\<open>ATTR_GROUP\<close> is set the owner sent
  is the group, whatever \<^verbatim>\<open>ATTR_OWNER\<close> says, and no group is ever sent.
\<close>

theorem chgrp_sends_owner:
  assumes "FSAL_TEST_MASK (a_mask a) ATTR_GROUP"
    and "fsal_attrs_to_kurma a k orc = Some (k', orc')"
  shows "k_owner_id k' = Some (ucast (a_group a)) \<and> k_group_id k' = k_group_id k"
  using assms
  by (auto simp: fsal_attrs_to_kurma_def Let_def k_update_if c_assert_bind
      split: prod.splits if_split_asm)

theorem chgrp_sends_owner_witness:
  "k_owner_id (sent_attrs (zero_attrs\<lparr>a_mask := ATTR_OWNER OR ATTR_GROUP, a_owner := 5,
     a_group := 9\<rparr>)) = Some 9"
proof -
  let ?a = "zero_attrs\<lparr>a_mask := ATTR_OWNER OR ATTR_GROUP, a_owner := 5, a_group := 9\<rparr>"
  have "fsal_attrs_to_kurma ?a new_object_attributes sample_oracle
      = Some (sent_attrs ?a, sample_oracle)"
    by (rule fsal_attrs_to_kurma_new)
      (simp_all add: zero_attrs_def zero_ts_def ms_representable_def millisecond_to_timespec_def)
  from chgrp_sends_owner [OF _ this] show ?thesis
    by (simp add: FSAL_TEST_MASK_def)
qed

end
