(* ===== verification/Kurma_Rpc.thy ===== *)
theory Kurma_Rpc
  imports Kurma_Attrs
begin

text \<open>
  The client side of the Kurma service, \<^verbatim>\<open>FSAL_KURMA/kurma.c\<close>: the session, and one wrapper per
  remote operation.  The service itself (the Thrift stubs \<^verbatim>\<open>kurma_service_if_*\<close> and the remote
  server) is a parameter, a record of functions on an abstract server state; \<open>None\<close> as the
  answer of such a function is a stub that returned \<^verbatim>\<open>FALSE\<close>.
\<close>

section \<open>Results and the service interface\<close>

record DirEntry =
  de_oid :: ObjectID
  de_name :: string

record DynamicInfo =
  di_bytes :: int
  di_files :: int

text \<open>
  \<^verbatim>\<open>struct KurmaResult\<close>.  Set-flags are kept for the fields whose flag the client reads; an
  unset structure field is a default object and an unset list is empty, as the
  constructors of the Thrift binding leave them.
\<close>

record KurmaResult =
  r_errcode :: int
  r_new_attrs :: ObjectAttributes
  r_oid :: ObjectID
  r_isset_oid :: bool
  r_file_data :: "bytes option"
  r_dir_data :: "DirEntry list"
  r_sessionid :: "bytes option"
  r_snapshot_id :: u32
  r_snapshot_time :: int
  r_dynamic_info :: DynamicInfo

definition new_kurma_result :: KurmaResult where
  "new_kurma_result = \<lparr>r_errcode = 0, r_new_attrs = new_object_attributes,
     r_oid = new_object_id, r_isset_oid = False, r_file_data = None, r_dir_data = [],
     r_sessionid = None, r_snapshot_id = 0, r_snapshot_time = 0,
     r_dynamic_info = \<lparr>di_bytes = 0, di_files = 0\<rparr>\<rparr>"

type_synonym 's stub = "'s \<Rightarrow> KurmaResult option \<times> 's"
type_synonym sid = "bytes option"

record 's kurma_service =
  svc_create_session :: "bytes \<Rightarrow> string \<Rightarrow> 's stub"
  svc_renew_session :: "sid \<Rightarrow> 's stub"
  svc_lookup :: "sid \<Rightarrow> ObjectID \<Rightarrow> string \<Rightarrow> 's stub"
  svc_getattrs :: "sid \<Rightarrow> ObjectID \<Rightarrow> 's stub"
  svc_take_snapshot :: "sid \<Rightarrow> ObjectID \<Rightarrow> string \<Rightarrow> 's stub"
  svc_lookup_snapshot :: "sid \<Rightarrow> ObjectID \<Rightarrow> string option \<Rightarrow> u32 \<Rightarrow> 's stub"
  svc_delete_snapshot :: "sid \<Rightarrow> ObjectID \<Rightarrow> string \<Rightarrow> u32 \<Rightarrow> 's stub"
  svc_list_snapshots :: "sid \<Rightarrow> ObjectID \<Rightarrow> 's stub"
  svc_restore_snapshot :: "sid \<Rightarrow> ObjectID \<Rightarrow> string \<Rightarrow> u32 \<Rightarrow> 's stub"
  svc_setattrs :: "sid \<Rightarrow> ObjectID \<Rightarrow> ObjectAttributes \<Rightarrow> 's stub"
  svc_listdir :: "sid \<Rightarrow> ObjectID \<Rightarrow> 's stub"
  svc_open :: "sid \<Rightarrow> ObjectID \<Rightarrow> u16 \<Rightarrow> 's stub"
  svc_close :: "sid \<Rightarrow> ObjectID \<Rightarrow> 's stub"
  svc_unlink :: "sid \<Rightarrow> ObjectID \<Rightarrow> string \<Rightarrow> 's stub"
  svc_mkdir :: "sid \<Rightarrow> ObjectID \<Rightarrow> string \<Rightarrow> ObjectAttributes \<Rightarrow> 's stub"
  svc_create :: "sid \<Rightarrow> ObjectID \<Rightarrow> string \<Rightarrow> ObjectAttributes \<Rightarrow> 's stub"
  svc_write :: "sid \<Rightarrow> ObjectID \<Rightarrow> u64 \<Rightarrow> bytes \<Rightarrow> 's stub"
  svc_read :: "sid \<Rightarrow> ObjectID \<Rightarrow> u64 \<Rightarrow> u32 \<Rightarrow> 's stub"
  svc_rename :: "sid \<Rightarrow> ObjectID \<Rightarrow> string \<Rightarrow> ObjectID \<Rightarrow> string \<Rightarrow> 's stub"
  svc_get_dynamic_info :: "sid \<Rightarrow> 's stub"

section \<open>Client state and calls\<close>

text \<open>
  The file-scope variables of \<^verbatim>\<open>kurma.c\<close> with the server behind them and the sources of
  nondeterminism.  The record is extended by the handle layer.
\<close>

record 's rpc_world =
  w_srv :: 's
  w_kurma_server :: string
  w_kurma_port :: int
  w_client :: bool
  w_sessionid :: "bytes option"
  w_orc :: c_oracle

definition get_client :: "('s, 'b) rpc_world_scheme \<Rightarrow> ('s, 'b) rpc_world_scheme" where
  "get_client w = (if w_client w then w else w\<lparr>w_client := True\<rparr>)"

definition rpc_call ::
    "'s stub \<Rightarrow> ('s, 'b) rpc_world_scheme \<Rightarrow> KurmaResult option \<times> ('s, 'b) rpc_world_scheme" where
  "rpc_call f w = (let w = get_client w; (r, s) = f (w_srv w) in (r, w\<lparr>w_srv := s\<rparr>))"

text \<open>
  The frame every wrapper shares: the status is \<^verbatim>\<open>KURMA_RPC_ERR\<close> when the stub fails and the
  error code of the result otherwise; output parameters change only on success.
\<close>

definition with_status ::
    "KurmaResult option \<times> 'w \<Rightarrow> 'a \<Rightarrow> (KurmaResult \<Rightarrow> 'a option) \<Rightarrow> (kurma_st \<times> 'a \<times> 'w) option" where
  "with_status res outs k =
     (case res of
        (None, w) \<Rightarrow> Some (KURMA_RPC_ERR, outs, w)
      | (Some result, w) \<Rightarrow>
          if r_errcode result = 0 then do { outs \<leftarrow> k result; Some (KURMA_OKAY, outs, w) }
          else Some (r_errcode result, outs, w))"

definition kurma_result_to_chgtime :: "KurmaResult \<Rightarrow> timespec" where
  "kurma_result_to_chgtime result =
     (case k_remote_change_time (r_new_attrs result) of
        Some t \<Rightarrow> nsecs_to_timespec (word_of_int t)
      | None \<Rightarrow> \<lparr>tv_sec = 0, tv_nsec = 0\<rparr>)"

definition kurma_result_to_fsal_attrs :: "KurmaResult \<Rightarrow> attrlist \<Rightarrow> attrlist option" where
  "kurma_result_to_fsal_attrs result attrs = kurma_attrs_to_fsal (r_new_attrs result) attrs"

text \<open>The same behind a test of the pointer: \<open>None\<close> is \<^verbatim>\<open>attrs == NULL\<close>.\<close>

definition opt_fsal_attrs :: "KurmaResult \<Rightarrow> attrlist option \<Rightarrow> attrlist option option" where
  "opt_fsal_attrs result attrs =
     (case attrs of None \<Rightarrow> Some None
      | Some a \<Rightarrow> do { a \<leftarrow> kurma_result_to_fsal_attrs result a; Some (Some a) })"

definition result_block_shift :: "KurmaResult \<Rightarrow> u32" where
  "result_block_shift result = or_zero (k_block_shift (r_new_attrs result))"

section \<open>Sessions\<close>

record kurma_specific_initinfo_t =
  ki_server :: string
  ki_port :: int
  ki_clientid :: bytes
  ki_volumeid :: string
  ki_renew_interval :: int
  ki_enable_snapshot :: bool

text \<open>
  \<^verbatim>\<open>g_strndup\<close> stops at the first zero byte and pads the copy with zeros.
\<close>

definition g_strndup :: "bytes \<Rightarrow> nat \<Rightarrow> bytes" where
  "g_strndup str n = (let s = takeWhile (\<lambda>b. b \<noteq> 0) (take n str) in s @ replicate (n - length s) 0)"

definition rpc_create_session ::
    "'s kurma_service \<Rightarrow> bytes \<Rightarrow> string \<Rightarrow> ('s, 'b) rpc_world_scheme
      \<Rightarrow> (kurma_st \<times> ('s, 'b) rpc_world_scheme) option" where
  "rpc_create_session svc clientid volumeid w =
     (case rpc_call (svc_create_session svc clientid volumeid) w of
        (None, w) \<Rightarrow> Some (KURMA_RPC_ERR, w)
      | (Some result, w) \<Rightarrow>
          if r_errcode result = 0 then
            (case r_sessionid result of
               None \<Rightarrow> None
             | Some sid \<Rightarrow> do {
                 c_assert (length sid > 0);
                 Some (KURMA_OKAY, w\<lparr>w_sessionid := Some (g_strndup sid (length sid))\<rparr>) })
          else Some (r_errcode result, w))"

text \<open>
  One turn of the loop of \<^verbatim>\<open>rpc_sessionid_renewer\<close>, and the state after \<open>n\<close> turns; the loop
  itself never ends unless the interval is zero.
\<close>

definition renew_session_turn ::
    "'s kurma_service \<Rightarrow> ('s, 'b) rpc_world_scheme \<Rightarrow> ('s, 'b) rpc_world_scheme" where
  "renew_session_turn svc w = snd (rpc_call (svc_renew_session svc (w_sessionid w)) w)"

primrec rpc_sessionid_renewer ::
    "'s kurma_service \<Rightarrow> kurma_specific_initinfo_t \<Rightarrow> nat \<Rightarrow> ('s, 'b) rpc_world_scheme
      \<Rightarrow> ('s, 'b) rpc_world_scheme" where
  "rpc_sessionid_renewer svc params 0 w = w"
| "rpc_sessionid_renewer svc params (Suc n) w =
     (if ki_renew_interval params = 0 then w
      else rpc_sessionid_renewer svc params n (renew_session_turn svc w))"

text \<open>\<open>thread_err\<close> is what \<^verbatim>\<open>pthread_create\<close> returns; the new thread's turns are separate steps.\<close>

definition rpc_init ::
    "'s kurma_service \<Rightarrow> kurma_specific_initinfo_t \<Rightarrow> int \<Rightarrow> ('s, 'b) rpc_world_scheme
      \<Rightarrow> (kurma_st \<times> ('s, 'b) rpc_world_scheme) option" where
  "rpc_init svc params thread_err w = do {
     let w = w\<lparr>w_kurma_server := ki_server params, w_kurma_port := ki_port params\<rparr>;
     (st, w) \<leftarrow> rpc_create_session svc (ki_clientid params) (ki_volumeid params) w;
     Some (if st \<noteq> KURMA_OKAY then (st, w)
           else if thread_err \<noteq> 0 then (KURMA_INVALID, w) else (st, w)) }"

section \<open>Namespace operations\<close>

definition rpc_lookup ::
    "'s kurma_service \<Rightarrow> ObjectID option \<Rightarrow> string \<Rightarrow> ObjectID \<Rightarrow> attrlist option \<Rightarrow> u32 option
      \<Rightarrow> ('s, 'b) rpc_world_scheme
      \<Rightarrow> (kurma_st \<times> (ObjectID \<times> attrlist option \<times> u32 option) \<times> ('s, 'b) rpc_world_scheme) option" where
  "rpc_lookup svc dir_oid path oid attrs block_shift w =
     (let e_dir_oid = (case dir_oid of None \<Rightarrow> set_root_oid new_object_id | Some d \<Rightarrow> d) in
      with_status (rpc_call (svc_lookup svc (w_sessionid w) e_dir_oid path) w)
        (oid, attrs, block_shift)
        (\<lambda>result. do {
           c_assert (length (r_dir_data result) = 1);
           let dentry = hd (r_dir_data result);
           let oid = copy_object_id oid (de_oid dentry);
           attrs \<leftarrow> opt_fsal_attrs result attrs;
           let attrs = map_option (\<lambda>a. a\<lparr>a_type := extract_object_type oid\<rparr>) attrs;
           Some (oid, attrs, map_option (\<lambda>_. result_block_shift result) block_shift) }))"

definition rpc_getattrs ::
    "'s kurma_service \<Rightarrow> ObjectID \<Rightarrow> attrlist \<Rightarrow> u32 option \<Rightarrow> ('s, 'b) rpc_world_scheme
      \<Rightarrow> (kurma_st \<times> (attrlist \<times> u32 option) \<times> ('s, 'b) rpc_world_scheme) option" where
  "rpc_getattrs svc oid attrs block_shift w =
     with_status (rpc_call (svc_getattrs svc (w_sessionid w) oid) w) (attrs, block_shift)
       (\<lambda>result. do {
          attrs \<leftarrow> kurma_result_to_fsal_attrs result attrs;
          Some (attrs, map_option (\<lambda>_. result_block_shift result) block_shift) })"

definition rpc_take_snapshot ::
    "'s kurma_service \<Rightarrow> ObjectID \<Rightarrow> string \<Rightarrow> u32 option \<Rightarrow> attrlist \<Rightarrow> ('s, 'b) rpc_world_scheme
      \<Rightarrow> (kurma_st \<times> (u32 option \<times> attrlist) \<times> ('s, 'b) rpc_world_scheme) option" where
  "rpc_take_snapshot svc oid snapshot_name snapshot_id attrs w =
     with_status (rpc_call (svc_take_snapshot svc (w_sessionid w) oid snapshot_name) w)
       (snapshot_id, attrs)
       (\<lambda>result. do {
          attrs \<leftarrow> kurma_result_to_fsal_attrs result attrs;
          let attrs = attrs\<lparr>a_ctime := millisecond_to_timespec (r_snapshot_time result)\<rparr>;
          Some (map_option (\<lambda>_. r_snapshot_id result) snapshot_id, attrs) })"

definition rpc_lookup_snapshot ::
    "'s kurma_service \<Rightarrow> ObjectID \<Rightarrow> string option \<Rightarrow> u32 option \<Rightarrow> ObjectID option \<Rightarrow> attrlist
      \<Rightarrow> ('s, 'b) rpc_world_scheme
      \<Rightarrow> (kurma_st \<times> (u32 option \<times> ObjectID option \<times> attrlist) \<times> ('s, 'b) rpc_world_scheme) option" where
  "rpc_lookup_snapshot svc dir_oid snapshot_name snapshot_id oid attrs w =
     with_status
       (rpc_call (svc_lookup_snapshot svc (w_sessionid w) dir_oid snapshot_name
                    (case snapshot_id of None \<Rightarrow> 0 | Some i \<Rightarrow> i)) w)
       (snapshot_id, oid, attrs)
       (\<lambda>result. do {
          attrs \<leftarrow> kurma_result_to_fsal_attrs result attrs;
          let attrs = attrs\<lparr>a_ctime := millisecond_to_timespec (r_snapshot_time result)\<rparr>;
          Some (map_option (\<lambda>_. r_snapshot_id result) snapshot_id,
                map_option (\<lambda>x. copy_object_id x dir_oid) oid, attrs) })"

definition rpc_delete_snapshot ::
    "'s kurma_service \<Rightarrow> ObjectID \<Rightarrow> string \<Rightarrow> attrlist option \<Rightarrow> ('s, 'b) rpc_world_scheme
      \<Rightarrow> (kurma_st \<times> attrlist option \<times> ('s, 'b) rpc_world_scheme) option" where
  "rpc_delete_snapshot svc oid snapshot_name attrs w =
     with_status (rpc_call (svc_delete_snapshot svc (w_sessionid w) oid snapshot_name 0) w) attrs
       (\<lambda>result. opt_fsal_attrs result attrs)"

text \<open>
  The listing wrappers hand the result object to the caller; \<open>result\<close> is the freshly
  allocated object when the stub fails.
\<close>

definition rpc_list_snapshots ::
    "'s kurma_service \<Rightarrow> ObjectID \<Rightarrow> attrlist option \<Rightarrow> ('s, 'b) rpc_world_scheme
      \<Rightarrow> (kurma_st \<times> (KurmaResult \<times> attrlist option) \<times> ('s, 'b) rpc_world_scheme) option" where
  "rpc_list_snapshots svc oid attrs w =
     (let (res, w) = rpc_call (svc_list_snapshots svc (w_sessionid w) oid) w;
          result = (case res of None \<Rightarrow> new_kurma_result | Some r \<Rightarrow> r) in
      with_status (res, w) (result, attrs)
        (\<lambda>result. do { attrs \<leftarrow> opt_fsal_attrs result attrs; Some (result, attrs) }))"

definition rpc_restore_snapshot ::
    "'s kurma_service \<Rightarrow> ObjectID \<Rightarrow> string \<Rightarrow> u32 option \<Rightarrow> attrlist \<Rightarrow> ('s, 'b) rpc_world_scheme
      \<Rightarrow> (kurma_st \<times> (u32 option \<times> attrlist) \<times> ('s, 'b) rpc_world_scheme) option" where
  "rpc_restore_snapshot svc oid snapshot_name snapshot_id attrs w =
     with_status
       (rpc_call (svc_restore_snapshot svc (w_sessionid w) oid snapshot_name
                    (case snapshot_id of None \<Rightarrow> 0 | Some i \<Rightarrow> i)) w)
       (snapshot_id, attrs)
       (\<lambda>result. do {
          attrs \<leftarrow> kurma_result_to_fsal_attrs result attrs;
          Some (map_option (\<lambda>_. r_snapshot_id result) snapshot_id, attrs) })"

definition rpc_setattrs ::
    "'s kurma_service \<Rightarrow> ObjectID \<Rightarrow> attrlist \<Rightarrow> ('s, 'b) rpc_world_scheme
      \<Rightarrow> (kurma_st \<times> attrlist \<times> ('s, 'b) rpc_world_scheme) option" where
  "rpc_setattrs svc oid attrs w = do {
     (k_attrs, orc) \<leftarrow> fsal_attrs_to_kurma attrs new_object_attributes (w_orc w);
     let w = w\<lparr>w_orc := orc\<rparr>;
     with_status (rpc_call (svc_setattrs svc (w_sessionid w) oid k_attrs) w) attrs
       (\<lambda>result. kurma_result_to_fsal_attrs result attrs) }"

definition rpc_listdir ::
    "'s kurma_service \<Rightarrow> ObjectID \<Rightarrow> attrlist option \<Rightarrow> ('s, 'b) rpc_world_scheme
      \<Rightarrow> (kurma_st \<times> (KurmaResult \<times> attrlist option) \<times> ('s, 'b) rpc_world_scheme) option" where
  "rpc_listdir svc oid attrs w =
     (let (res, w) = rpc_call (svc_listdir svc (w_sessionid w) oid) w;
          result = (case res of None \<Rightarrow> new_kurma_result | Some r \<Rightarrow> r) in
      with_status (res, w) (result, attrs)
        (\<lambda>result. do { attrs \<leftarrow> opt_fsal_attrs result attrs; Some (result, attrs) }))"

definition rpc_unlink ::
    "'s kurma_service \<Rightarrow> ObjectID \<Rightarrow> string \<Rightarrow> ObjectID option \<Rightarrow> attrlist option
      \<Rightarrow> ('s, 'b) rpc_world_scheme
      \<Rightarrow> (kurma_st \<times> (ObjectID option \<times> attrlist option) \<times> ('s, 'b) rpc_world_scheme) option" where
  "rpc_unlink svc dir_oid name oid attrs w =
     with_status (rpc_call (svc_unlink svc (w_sessionid w) dir_oid name) w) (oid, attrs)
       (\<lambda>result. do {
          let oid = map_option (\<lambda>x. copy_object_id x (r_oid result)) oid;
          attrs \<leftarrow> opt_fsal_attrs result attrs;
          Some (oid, attrs) })"

definition rpc_mkdir ::
    "'s kurma_service \<Rightarrow> ObjectID \<Rightarrow> string \<Rightarrow> attrlist \<Rightarrow> ObjectID \<Rightarrow> ('s, 'b) rpc_world_scheme
      \<Rightarrow> (kurma_st \<times> (attrlist \<times> ObjectID) \<times> ('s, 'b) rpc_world_scheme) option" where
  "rpc_mkdir svc dir_oid name attrs oid w = do {
     (k_attrs, orc) \<leftarrow> fsal_attrs_to_kurma attrs new_object_attributes (w_orc w);
     let w = w\<lparr>w_orc := orc\<rparr>;
     with_status (rpc_call (svc_mkdir svc (w_sessionid w) dir_oid name k_attrs) w) (attrs, oid)
       (\<lambda>result. do {
          c_assert (r_isset_oid result);
          let oid = copy_object_id oid (r_oid result);
          attrs \<leftarrow> kurma_result_to_fsal_attrs result attrs;
          Some (attrs, oid) }) }"

definition rpc_create ::
    "'s kurma_service \<Rightarrow> ObjectID \<Rightarrow> string \<Rightarrow> attrlist \<Rightarrow> ObjectID \<Rightarrow> ('s, 'b) rpc_world_scheme
      \<Rightarrow> (kurma_st \<times> (attrlist \<times> ObjectID) \<times> ('s, 'b) rpc_world_scheme) option" where
  "rpc_create svc dir_oid name attrs oid w = do {
     (k_attrs, orc) \<leftarrow> fsal_attrs_to_kurma attrs new_object_attributes (w_orc w);
     let w = w\<lparr>w_orc := orc\<rparr>;
     with_status (rpc_call (svc_create svc (w_sessionid w) dir_oid name k_attrs) w) (attrs, oid)
       (\<lambda>result. do {
          c_assert (r_isset_oid result);
          let oid = copy_object_id oid (r_oid result);
          attrs \<leftarrow> kurma_result_to_fsal_attrs result attrs;
          Some (attrs, oid) }) }"

definition rpc_rename ::
    "'s kurma_service \<Rightarrow> ObjectID \<Rightarrow> string \<Rightarrow> ObjectID \<Rightarrow> string \<Rightarrow> attrlist option
      \<Rightarrow> ('s, 'b) rpc_world_scheme
      \<Rightarrow> (kurma_st \<times> attrlist option \<times> ('s, 'b) rpc_world_scheme) option" where
  "rpc_rename svc src_dir_oid src_name dst_dir_oid dst_name attrs w =
     with_status
       (rpc_call (svc_rename svc (w_sessionid w) src_dir_oid src_name dst_dir_oid dst_name) w) attrs
       (\<lambda>result. opt_fsal_attrs result attrs)"

definition rpc_get_dynamic_info ::
    "'s kurma_service \<Rightarrow> DynamicInfo \<Rightarrow> ('s, 'b) rpc_world_scheme
      \<Rightarrow> kurma_st \<times> DynamicInfo \<times> ('s, 'b) rpc_world_scheme" where
  "rpc_get_dynamic_info svc dinfo w =
     (case rpc_call (svc_get_dynamic_info svc (w_sessionid w)) w of
        (None, w) \<Rightarrow> (KURMA_RPC_ERR, dinfo, w)
      | (Some result, w) \<Rightarrow>
          if r_errcode result \<noteq> 0
          then (r_errcode result, \<lparr>di_bytes = 0, di_files = 0\<rparr>, w)
          else (KURMA_OKAY, r_dynamic_info result, w))"

section \<open>File operations\<close>

definition rpc_open ::
    "'s kurma_service \<Rightarrow> ObjectID \<Rightarrow> u16 \<Rightarrow> timespec \<Rightarrow> attrlist option \<Rightarrow> ('s, 'b) rpc_world_scheme
      \<Rightarrow> (kurma_st \<times> (timespec \<times> attrlist option) \<times> ('s, 'b) rpc_world_scheme) option" where
  "rpc_open svc oid flags chgtime attrs w =
     with_status (rpc_call (svc_open svc (w_sessionid w) oid flags) w) (chgtime, attrs)
       (\<lambda>result. do {
          let chgtime = kurma_result_to_chgtime result;
          attrs \<leftarrow> opt_fsal_attrs result attrs;
          Some (chgtime, attrs) })"

definition rpc_close ::
    "'s kurma_service \<Rightarrow> ObjectID \<Rightarrow> attrlist option \<Rightarrow> ('s, 'b) rpc_world_scheme
      \<Rightarrow> (kurma_st \<times> attrlist option \<times> ('s, 'b) rpc_world_scheme) option" where
  "rpc_close svc oid attrs w =
     with_status (rpc_call (svc_close svc (w_sessionid w) oid) w) attrs
       (\<lambda>result. opt_fsal_attrs result attrs)"

text \<open>
  The data written are the first \<open>buffer_size\<close> bytes of the buffer; a shorter buffer would be
  an overrun.
\<close>

definition rpc_write ::
    "'s kurma_service \<Rightarrow> ObjectID \<Rightarrow> u64 \<Rightarrow> u64 \<Rightarrow> bytes \<Rightarrow> u64 \<Rightarrow> u32 \<Rightarrow> attrlist option
      \<Rightarrow> ('s, 'b) rpc_world_scheme
      \<Rightarrow> (kurma_st \<times> (u64 \<times> u32 \<times> attrlist option) \<times> ('s, 'b) rpc_world_scheme) option" where
  "rpc_write svc file_oid offset buffer_size buffer write_amount block_shift attrs w = do {
     c_assert (block_shift \<noteq> 0);
     block_size \<leftarrow> int_shl1 (unat block_shift);
     al \<leftarrow> is_aligned offset block_size;
     c_assert al;
     data \<leftarrow> load_bytes 0 (unat buffer_size) buffer;
     case rpc_call (svc_write svc (w_sessionid w) file_oid offset data) w of
       (None, w) \<Rightarrow> Some (KURMA_RPC_ERR, (write_amount, block_shift, attrs), w)
     | (Some result, w) \<Rightarrow>
         if r_errcode result = 0 then do {
           attrs \<leftarrow> opt_fsal_attrs result attrs;
           Some (KURMA_OKAY, (buffer_size, result_block_shift result, attrs), w) }
         else Some (r_errcode result, (0, block_shift, attrs), w) }"

text \<open>
  \<^verbatim>\<open>rpc_read\<close> fills \<open>buffer\<close> from position \<open>pos\<close> (the pointer the caller passes points there).
  The file size goes through an \<^verbatim>\<open>int\<close>; \<open>read_amount\<close> and the sum with it are unsigned.
\<close>

definition int_of_size :: "int \<Rightarrow> int" where
  "int_of_size n = sint (word_of_int n :: u32)"

definition rpc_read ::
    "'s kurma_service \<Rightarrow> ObjectID \<Rightarrow> u64 \<Rightarrow> u64 \<Rightarrow> nat \<Rightarrow> bytes \<Rightarrow> u64 \<Rightarrow> bool \<Rightarrow> u32 \<Rightarrow> attrlist option
      \<Rightarrow> ('s, 'b) rpc_world_scheme
      \<Rightarrow> (kurma_st \<times> (bytes \<times> u64 \<times> bool \<times> attrlist option) \<times> ('s, 'b) rpc_world_scheme) option" where
  "rpc_read svc file_oid offset buffer_size pos buffer read_amount end_of_file block_shift attrs w = do {
     c_assert (block_shift \<noteq> 0);
     block_size \<leftarrow> int_shl1 (unat block_shift);
     al \<leftarrow> is_aligned offset block_size;
     c_assert al;
     al \<leftarrow> is_aligned buffer_size block_size;
     c_assert al;
     case rpc_call (svc_read svc (w_sessionid w) file_oid offset (ucast buffer_size)) w of
       (None, w) \<Rightarrow> Some (KURMA_RPC_ERR, (buffer, read_amount, end_of_file, attrs), w)
     | (Some result, w) \<Rightarrow>
         if r_errcode result \<noteq> 0 then Some (r_errcode result, (buffer, 0, end_of_file, attrs), w)
         else do {
           attrs \<leftarrow> opt_fsal_attrs result attrs;
           size \<leftarrow> k_filesize (r_new_attrs result);
           let filesize = int_of_size size;
           (buffer, read_amount, end_of_file) \<leftarrow>
             (if sint offset \<ge> filesize then Some (buffer, 0, True)
              else do {
                data \<leftarrow> r_file_data result;
                let read_amount = of_nat (length data);
                buffer \<leftarrow> store_bytes pos data buffer;
                Some (buffer, read_amount, offset + read_amount = word_of_int filesize) });
           c_assert (read_amount \<le> buffer_size);
           Some (KURMA_OKAY, (buffer, read_amount, end_of_file, attrs), w) } }"

section \<open>Properties\<close>

lemma get_client_simps [simp]:
  "w_srv (get_client w) = w_srv w" "w_sessionid (get_client w) = w_sessionid w"
  "w_orc (get_client w) = w_orc w" "w_client (get_client w)"
  by (simp_all add: get_client_def)

lemma rpc_call_frame:
  assumes "rpc_call f w = (r, w')"
  shows "w_sessionid w' = w_sessionid w" "w_orc w' = w_orc w" "w_client w'"
    "f (w_srv w) = (r, w_srv w')"
  using assms by (auto simp: rpc_call_def split: prod.splits)

lemma with_status_cases:
  assumes "with_status (rpc_call f w) outs k = Some (st, outs', w')"
  obtains (fail) s where "f (w_srv w) = (None, s)" "st = KURMA_RPC_ERR" "outs' = outs"
  | (error) r s where "f (w_srv w) = (Some r, s)" "st = r_errcode r" "st \<noteq> 0" "outs' = outs"
  | (ok) r s where "f (w_srv w) = (Some r, s)" "r_errcode r = 0" "st = KURMA_OKAY" "k r = Some outs'"
proof -
  obtain res w1 where c: "rpc_call f w = (res, w1)" by force
  note f = rpc_call_frame(4) [OF c]
  show thesis
  proof (cases res)
    case None
    with assms c f show ?thesis by (intro fail) (auto simp: with_status_def)
  next
    case (Some r)
    with assms c f show ?thesis
      by (cases "r_errcode r = 0")
        (auto simp: with_status_def bind_eq_Some_conv intro: error ok)
  qed
qed

lemma with_status_frame:
  assumes "with_status (rpc_call f w) outs k = Some (st, outs', w')"
  shows "w_sessionid w' = w_sessionid w \<and> w_orc w' = w_orc w
    \<and> (f (w_srv w) = (None, w_srv w') \<or> (\<exists>r. f (w_srv w) = (Some r, w_srv w')))"
proof -
  obtain res w1 where c: "rpc_call f w = (res, w1)" by force
  have "w' = w1" using assms c
    by (cases res) (auto simp: with_status_def bind_eq_Some_conv split: if_splits)
  with rpc_call_frame [OF c] show ?thesis by (cases res) auto
qed

lemma renew_keeps_sessionid [simp]: "w_sessionid (renew_session_turn svc w) = w_sessionid w"
proof -
  obtain r w' where "rpc_call (svc_renew_session svc (w_sessionid w)) w = (r, w')" by force
  with rpc_call_frame(1) [OF this] show ?thesis by (simp add: renew_session_turn_def)
qed

lemma renewer_keeps_sessionid:
  "w_sessionid (rpc_sessionid_renewer svc params n w) = w_sessionid w"
  by (induction n arbitrary: w) simp_all

lemma g_strndup_length [simp]: "length str = n \<Longrightarrow> length (g_strndup str n) = n"
  using length_takeWhile_le [of "\<lambda>b. b \<noteq> 0" str] by (simp add: g_strndup_def Let_def)

lemma replicate_zeros: "replicate (length d) (0::'a::zero) = d \<longleftrightarrow> (\<forall>b \<in> set d. b = 0)"
  by (induction d) auto

lemma g_strndup_same:
  "g_strndup str (length str) = str \<longleftrightarrow> (\<forall>b \<in> set (dropWhile (\<lambda>b. b \<noteq> 0) str). b = 0)"
proof -
  let ?t = "takeWhile (\<lambda>b. b \<noteq> 0) str" and ?d = "dropWhile (\<lambda>b. b \<noteq> 0) str"
  have len: "length str - length ?t = length ?d"
    by (metis add_diff_cancel_left' length_append takeWhile_dropWhile_id)
  have "g_strndup str (length str) = str \<longleftrightarrow> ?t @ replicate (length ?d) 0 = ?t @ ?d"
    by (simp add: g_strndup_def len)
  also have "\<dots> \<longleftrightarrow> (\<forall>b \<in> set ?d. b = 0)"
    by (simp only: same_append_eq replicate_zeros)
  finally show ?thesis .
qed


section \<open>Examples\<close>

text \<open>A service whose stubs all fail, and the client before it is initialised.\<close>

definition null_service :: "'s kurma_service" where
  "null_service = \<lparr>
     svc_create_session = (\<lambda>_ _ s. (None, s)),
     svc_renew_session = (\<lambda>_ s. (None, s)),
     svc_lookup = (\<lambda>_ _ _ s. (None, s)),
     svc_getattrs = (\<lambda>_ _ s. (None, s)),
     svc_take_snapshot = (\<lambda>_ _ _ s. (None, s)),
     svc_lookup_snapshot = (\<lambda>_ _ _ _ s. (None, s)),
     svc_delete_snapshot = (\<lambda>_ _ _ _ s. (None, s)),
     svc_list_snapshots = (\<lambda>_ _ s. (None, s)),
     svc_restore_snapshot = (\<lambda>_ _ _ _ s. (None, s)),
     svc_setattrs = (\<lambda>_ _ _ s. (None, s)),
     svc_listdir = (\<lambda>_ _ s. (None, s)),
     svc_open = (\<lambda>_ _ _ s. (None, s)),
     svc_close = (\<lambda>_ _ s. (None, s)),
     svc_unlink = (\<lambda>_ _ _ s. (None, s)),
     svc_mkdir = (\<lambda>_ _ _ _ s. (None, s)),
     svc_create = (\<lambda>_ _ _ _ s. (None, s)),
     svc_write = (\<lambda>_ _ _ _ s. (None, s)),
     svc_read = (\<lambda>_ _ _ _ s. (None, s)),
     svc_rename = (\<lambda>_ _ _ _ _ s. (None, s)),
     svc_get_dynamic_info = (\<lambda>_ s. (None, s))\<rparr>"

definition fresh_world :: "'s \<Rightarrow> 's rpc_world" where
  "fresh_world s = \<lparr>w_srv = s, w_kurma_server = [], w_kurma_port = 0, w_client = False,
     w_sessionid = None, w_orc = sample_oracle\<rparr>"


end
