(* ===== verification/Kurma_File.thy ===== *)
theory Kurma_File
  imports Kurma_Rpc
begin

text \<open>
  File I/O, \<^verbatim>\<open>FSAL_KURMA/file.c\<close>: open, close, and the translation of byte-granular reads and
  writes into reads and writes of whole blocks.  The read-modify-write preparation of
  \<^verbatim>\<open>kurma_write\<close> is verified against an interface for block readers, which the model of
  \<^verbatim>\<open>rpc_read\<close> implements for every server that meets the contract \<open>block_server\<close>.
\<close>

section \<open>Helpers\<close>

definition w_draw ::
    "(c_oracle \<Rightarrow> 'a \<times> c_oracle) \<Rightarrow> ('s, 'b) rpc_world_scheme \<Rightarrow> 'a \<times> ('s, 'b) rpc_world_scheme" where
  "w_draw f w = (let (a, orc) = f (w_orc w) in (a, w\<lparr>w_orc := orc\<rparr>))"

definition the_attrs :: "attrlist option \<Rightarrow> attrlist" where
  "the_attrs a = (case a of None \<Rightarrow> zero_attrs | Some x \<Rightarrow> x)"

text \<open>Pointer arithmetic \<^verbatim>\<open>buffer - b + a\<close> has to stay inside the buffer.\<close>

definition ptr_sub :: "nat \<Rightarrow> nat \<Rightarrow> nat option" where
  "ptr_sub a b = (if b \<le> a then Some (a - b) else None)"

abbreviation (input) FSAL_O_CLOSED :: u16 where "FSAL_O_CLOSED \<equiv> 0"
abbreviation (input) FSAL_O_RDWR :: u16 where "FSAL_O_RDWR \<equiv> 3"

definition kurma_try_update_attributes ::
    "kurma_fsal_obj_handle \<Rightarrow> attrlist \<Rightarrow> ('s, 'b) rpc_world_scheme
      \<Rightarrow> kurma_fsal_obj_handle \<times> ('s, 'b) rpc_world_scheme" where
  "kurma_try_update_attributes khdl attrs w =
     (let (locked, w) = w_draw draw_trylock w in
      if locked then
        (let khdl = set_attrs_override khdl attrs;
             (t, w) = w_draw draw_time w
         in (khdl\<lparr>kh_attrs_timestamp := t\<rparr>, w))
      else (khdl, w))"

section \<open>Open, status, close\<close>

definition kurma_open ::
    "'s kurma_service \<Rightarrow> kurma_fsal_obj_handle \<Rightarrow> u16 \<Rightarrow> ('s, 'b) rpc_world_scheme
      \<Rightarrow> (fsal_status \<times> kurma_fsal_obj_handle \<times> ('s, 'b) rpc_world_scheme) option" where
  "kurma_open svc khdl openflags w =
     (if is_snapshot_obj (kh_snapshot_id khdl) then Some (fsalstat ERR_FSAL_PERM 0, khdl, w)
      else do {
        let (chgtime, w) = w_draw draw_garbage_ts w;
        (st, (chgtime, attrs), w) \<leftarrow>
          rpc_open svc (kh_oid khdl) openflags chgtime (Some zero_attrs) w;
        let (khdl, w) =
          (if st = KURMA_OKAY
           then kurma_try_update_attributes (khdl\<lparr>kh_openflags := openflags\<rparr>) (the_attrs attrs) w
           else (khdl, w));
        let khdl = khdl\<lparr>kh_attrs := (kh_attrs khdl)\<lparr>a_chgtime := chgtime\<rparr>\<rparr>;
        Some (kurma_to_fsal_status st, khdl, w) })"

definition kurma_status :: "kurma_fsal_obj_handle \<Rightarrow> u16" where
  "kurma_status khdl = kh_openflags khdl"

definition kurma_close ::
    "'s kurma_service \<Rightarrow> kurma_fsal_obj_handle \<Rightarrow> ('s, 'b) rpc_world_scheme
      \<Rightarrow> (fsal_status \<times> kurma_fsal_obj_handle \<times> ('s, 'b) rpc_world_scheme) option" where
  "kurma_close svc khdl w =
     (if is_snapshot_obj (kh_snapshot_id khdl) then Some (fsalstat ERR_FSAL_PERM 0, khdl, w)
      else do {
        (st, attrs, w) \<leftarrow> rpc_close svc (kh_oid khdl) (Some zero_attrs) w;
        let (khdl, w) =
          (if st = KURMA_OKAY
           then kurma_try_update_attributes (khdl\<lparr>kh_openflags := FSAL_O_CLOSED\<rparr>) (the_attrs attrs) w
           else (khdl, w));
        Some (kurma_to_fsal_status st, khdl, w) })"

definition kurma_commit :: "kurma_fsal_obj_handle \<Rightarrow> int \<Rightarrow> u64 \<Rightarrow> fsal_status" where
  "kurma_commit khdl offset len = fsalstat ERR_FSAL_NOTSUPP c_ENOTSUP"

definition kurma_lock_op :: "kurma_fsal_obj_handle \<Rightarrow> fsal_status" where
  "kurma_lock_op khdl = fsalstat ERR_FSAL_NOTSUPP c_ENOTSUP"

definition kurma_lru_cleanup :: "kurma_fsal_obj_handle \<Rightarrow> fsal_status" where
  "kurma_lru_cleanup khdl = fsalstat ERR_FSAL_NO_ERROR 0"

section \<open>Read\<close>

text \<open>The adjustment of the amount read to what the caller asked for (lines 171 to 180).\<close>

definition clip_read :: "u64 \<Rightarrow> u64 \<Rightarrow> u64 \<Rightarrow> u64 \<Rightarrow> u64 \<Rightarrow> bool \<Rightarrow> (u64 \<times> bool) option" where
  "clip_read offset_align offset offset_moved buffer_size read_amount end_of_file =
     (if offset_align + read_amount \<le> offset then do { c_assert end_of_file; Some (0, end_of_file) }
      else if offset_align + read_amount \<le> offset + buffer_size
      then Some (read_amount - offset_moved, end_of_file)
      else Some (buffer_size, False))"

text \<open>
  The part of \<^verbatim>\<open>kurma_read\<close> from the remote read on (line 163).  When the request is aligned the
  aligned buffer is the caller's buffer.
\<close>

definition kurma_read_finish ::
    "'s kurma_service \<Rightarrow> kurma_fsal_obj_handle \<Rightarrow> bool \<Rightarrow> u64 \<Rightarrow> u64 \<Rightarrow> u64 \<Rightarrow> u64 \<Rightarrow> u64 \<Rightarrow> bytes
      \<Rightarrow> bytes \<Rightarrow> u64 \<Rightarrow> bool \<Rightarrow> u32 \<Rightarrow> ('s, 'b) rpc_world_scheme
      \<Rightarrow> (fsal_status \<times> (kurma_fsal_obj_handle \<times> bytes \<times> u64 \<times> bool)
           \<times> ('s, 'b) rpc_world_scheme) option" where
  "kurma_read_finish svc khdl align offset offset_align offset_moved buffer_size size_align buffer
      buffer_align read_amount end_of_file block_shift w = do {
     (st, (buffer_align, read_amount, end_of_file, attrs), w) \<leftarrow>
       rpc_read svc (kh_oid khdl) offset_align size_align 0 buffer_align read_amount
         end_of_file block_shift (Some zero_attrs) w;
     let buffer = (if align then buffer_align else buffer);
     if st \<noteq> KURMA_OKAY
     then Some (kurma_to_fsal_status st, (khdl, buffer, read_amount, end_of_file), w)
     else do {
       let (khdl, w) = kurma_try_update_attributes khdl (the_attrs attrs) w;
       (read_amount, end_of_file) \<leftarrow>
         clip_read offset_align offset offset_moved buffer_size read_amount end_of_file;
       buffer \<leftarrow>
         (if align then Some buffer
          else do {
            data \<leftarrow> load_bytes (unat offset_moved) (unat read_amount) buffer_align;
            store_bytes 0 data buffer });
       Some (kurma_to_fsal_status st, (khdl, buffer, read_amount, end_of_file), w) } }"

text \<open>
  A handle without a block size jumps to the exit with \<^verbatim>\<open>st\<close>, \<^verbatim>\<open>align\<close> and \<^verbatim>\<open>buffer_align\<close>
  uninitialised, which is undefined.
\<close>

definition kurma_read ::
    "'s kurma_service \<Rightarrow> kurma_fsal_obj_handle \<Rightarrow> u64 \<Rightarrow> u64 \<Rightarrow> bytes \<Rightarrow> u64 \<Rightarrow> bool
      \<Rightarrow> ('s, 'b) rpc_world_scheme
      \<Rightarrow> (fsal_status \<times> (kurma_fsal_obj_handle \<times> bytes \<times> u64 \<times> bool)
           \<times> ('s, 'b) rpc_world_scheme) option" where
  "kurma_read svc khdl offset buffer_size buffer read_amount end_of_file w =
     (if is_snapshot_obj (kh_snapshot_id khdl)
      then Some (fsalstat ERR_FSAL_PERM 0, (khdl, buffer, read_amount, end_of_file), w)
      else if offset \<ge> get_filesize khdl
      then Some (fsalstat ERR_FSAL_NO_ERROR 0, (khdl, buffer, 0, True), w)
      else if kh_block_shift khdl = 0 then None
      else do {
        let block_shift = kh_block_shift khdl;
        block_size \<leftarrow> int_shl1 (unat block_shift);
        offset_align \<leftarrow> round_down offset block_size;
        let offset_moved = offset - offset_align;
        end_align \<leftarrow> round_up (offset + buffer_size) block_size;
        let size_align = end_align - offset_align;
        if offset = offset_align \<and> buffer_size = size_align
        then kurma_read_finish svc khdl True offset offset_align offset_moved buffer_size
               size_align buffer buffer read_amount end_of_file block_shift w
        else do {
          let (ok, w) = w_draw draw_malloc w;
          if \<not> ok
          then Some (fsalstat ERR_FSAL_NOMEM 0, (khdl, buffer, read_amount, end_of_file), w)
          else do {
            let (buffer_align, w) = w_draw (draw_garbage (unat size_align)) w;
            kurma_read_finish svc khdl False offset offset_align offset_moved buffer_size
              size_align buffer buffer_align read_amount end_of_file block_shift w } } })"

section \<open>Write\<close>

text \<open>The loop \<^verbatim>\<open>for (block_shift = 0; (1 << block_shift) < buffer_size; ++block_shift) ;\<close>.\<close>

function shift_loop :: "nat \<Rightarrow> u64 \<Rightarrow> u32 option" where
  "shift_loop k buffer_size =
     (if 31 \<le> k then None
      else if 2 ^ k < unat buffer_size then shift_loop (Suc k) buffer_size
      else Some (of_nat k))"
  by auto

termination shift_loop
  by (relation "measure (\<lambda>(k, _). 31 - k)") auto

declare shift_loop.simps [simp del]

definition initial_block_shift :: "u64 \<Rightarrow> u32 option" where
  "initial_block_shift buffer_size =
     (if buffer_size \<le> 2 ^ 16 then Some 16
      else if buffer_size > 2 ^ 20 then Some 20
      else shift_loop 0 buffer_size)"

text \<open>
  The preparation of the aligned buffer (lines 256 to 313).  \<open>rd\<close> reads one block of the file
  into the buffer, as \<^verbatim>\<open>rpc_read\<close> with the handle's object and block shift does.
\<close>

type_synonym 'w block_read =
  "u64 \<Rightarrow> nat \<Rightarrow> bytes \<Rightarrow> u64 \<Rightarrow> bool \<Rightarrow> 'w
    \<Rightarrow> (kurma_st \<times> (bytes \<times> u64 \<times> bool \<times> attrlist option) \<times> 'w) option"

definition rmw_tail ::
    "'w block_read \<Rightarrow> u64 \<Rightarrow> u64 \<Rightarrow> u64 \<Rightarrow> u64 \<Rightarrow> u64 \<Rightarrow> bytes \<Rightarrow> bytes \<Rightarrow> u64 \<Rightarrow> bool \<Rightarrow> 'w
      \<Rightarrow> (kurma_st \<times> bytes \<times> u64 \<times> 'w) option" where
  "rmw_tail rd offset_align offset_moved block_size blk_cnt buffer_size buffer buffer_align
      read_amount eof w = do {
     let tail_offset = (blk_cnt - 1) * block_size;
     (st, buffer_align, size_align, w) \<leftarrow>
       (if \<not> eof then do {
          (st, (buffer_align, read_amount, eof, _), w) \<leftarrow>
            rd (offset_align + tail_offset) (unat tail_offset) buffer_align read_amount eof w;
          if st \<noteq> KURMA_OKAY then Some (st, buffer_align, 0, w)
          else do {
            c_assert (eof \<or> read_amount = block_size);
            Some (KURMA_OKAY, buffer_align,
                  max (tail_offset + read_amount) (offset_moved + buffer_size), w) } }
        else Some (KURMA_OKAY, buffer_align, offset_moved + buffer_size, w));
     if st \<noteq> KURMA_OKAY then Some (st, buffer_align, size_align, w)
     else do {
       i \<leftarrow> ptr_sub (unat tail_offset) (unat offset_moved);
       data \<leftarrow> load_bytes i (unat (offset_moved + buffer_size - tail_offset)) buffer;
       buffer_align \<leftarrow> store_bytes (unat tail_offset) data buffer_align;
       buffer_align \<leftarrow>
         (if blk_cnt > 2 then do {
            i \<leftarrow> ptr_sub (unat block_size) (unat offset_moved);
            data \<leftarrow> load_bytes i (unat ((blk_cnt - 2) * block_size)) buffer;
            store_bytes (unat block_size) data buffer_align }
          else Some buffer_align);
       Some (KURMA_OKAY, buffer_align, size_align, w) } }"

definition rmw_prepare ::
    "'w block_read \<Rightarrow> u64 \<Rightarrow> u64 \<Rightarrow> u64 \<Rightarrow> u32 \<Rightarrow> u64 \<Rightarrow> u64 \<Rightarrow> bytes \<Rightarrow> bytes \<Rightarrow> 'w
      \<Rightarrow> (kurma_st \<times> bytes \<times> u64 \<times> 'w) option" where
  "rmw_prepare rd offset_align offset_moved size_align block_shift block_size buffer_size buffer
      buffer_align w = do {
     blk_cnt \<leftarrow> get_block_count size_align (ucast block_shift);
     (st, (buffer_align, read_amount, eof, _), w) \<leftarrow> rd offset_align 0 buffer_align 0 False w;
     if st \<noteq> KURMA_OKAY then Some (st, buffer_align, size_align, w)
     else do {
       buffer_align \<leftarrow>
         (if read_amount < offset_moved then do {
            c_assert eof;
            store_bytes (unat read_amount) (replicate (unat (offset_moved - read_amount)) 0)
              buffer_align }
          else Some buffer_align);
       data \<leftarrow> load_bytes 0
         (unat (if blk_cnt = 1 then buffer_size else block_size - offset_moved)) buffer;
       buffer_align \<leftarrow> store_bytes (unat offset_moved) data buffer_align;
       if blk_cnt = 1
       then Some (KURMA_OKAY, buffer_align, max read_amount (offset_moved + buffer_size), w)
       else rmw_tail rd offset_align offset_moved block_size blk_cnt buffer_size buffer
              buffer_align read_amount eof w } }"

definition adjust_write_amount :: "bool \<Rightarrow> u64 \<Rightarrow> u64 \<Rightarrow> u64 \<Rightarrow> u64 \<Rightarrow> u64 \<Rightarrow> u64" where
  "adjust_write_amount align offset_align offset offset_moved buffer_size write_amount =
     (if align then write_amount
      else if offset_align + write_amount \<le> offset then 0
      else if offset_align + write_amount \<le> offset + buffer_size then write_amount - offset_moved
      else buffer_size)"

text \<open>The block size in use, and the part of \<^verbatim>\<open>kurma_write\<close> from the remote write on (line 318).\<close>

definition write_block_shift :: "kurma_fsal_obj_handle \<Rightarrow> u64 \<Rightarrow> u32 option" where
  "write_block_shift khdl buffer_size =
     (if kh_block_shift khdl \<noteq> 0 then Some (kh_block_shift khdl)
      else initial_block_shift buffer_size)"

definition kurma_write_finish ::
    "'s kurma_service \<Rightarrow> kurma_fsal_obj_handle \<Rightarrow> bool \<Rightarrow> u64 \<Rightarrow> u64 \<Rightarrow> u64 \<Rightarrow> u64 \<Rightarrow> u64 \<Rightarrow> bytes
      \<Rightarrow> u32 \<Rightarrow> u64 \<Rightarrow> bool \<Rightarrow> ('s, 'b) rpc_world_scheme
      \<Rightarrow> (fsal_status \<times> (kurma_fsal_obj_handle \<times> u64 \<times> bool) \<times> ('s, 'b) rpc_world_scheme) option" where
  "kurma_write_finish svc khdl align offset offset_align offset_moved buffer_size size_align
      buffer_align block_shift write_amount fsal_stable w = do {
     (st, (write_amount, block_shift, attrs), w) \<leftarrow>
       rpc_write svc (kh_oid khdl) offset_align size_align buffer_align write_amount
         block_shift (Some zero_attrs) w;
     let (khdl, fsal_stable, w) =
       (if st = KURMA_OKAY then
          (let (khdl, w) = kurma_try_update_attributes khdl (the_attrs attrs) w;
               khdl = (if kh_block_shift khdl \<noteq> 0 then khdl
                       else khdl\<lparr>kh_block_shift := block_shift\<rparr>)
           in (khdl, True, w))
        else (khdl, fsal_stable, w));
     Some (kurma_to_fsal_status st,
           (khdl, adjust_write_amount align offset_align offset offset_moved buffer_size
                    write_amount, fsal_stable), w) }"

definition kurma_write ::
    "'s kurma_service \<Rightarrow> kurma_fsal_obj_handle \<Rightarrow> u64 \<Rightarrow> u64 \<Rightarrow> bytes \<Rightarrow> u64 \<Rightarrow> bool
      \<Rightarrow> ('s, 'b) rpc_world_scheme
      \<Rightarrow> (fsal_status \<times> (kurma_fsal_obj_handle \<times> u64 \<times> bool) \<times> ('s, 'b) rpc_world_scheme) option" where
  "kurma_write svc khdl offset buffer_size buffer write_amount fsal_stable w =
     (if is_snapshot_obj (kh_snapshot_id khdl)
      then Some (fsalstat ERR_FSAL_PERM 0, (khdl, write_amount, fsal_stable), w)
      else if buffer_size = 0
      then Some (fsalstat ERR_FSAL_NO_ERROR 0, (khdl, write_amount, fsal_stable), w)
      else do {
        block_shift \<leftarrow> write_block_shift khdl buffer_size;
        block_size \<leftarrow> int_shl1 (unat block_shift);
        offset_align \<leftarrow> round_down offset block_size;
        let offset_moved = offset - offset_align;
        end_align \<leftarrow> round_up (offset + buffer_size) block_size;
        let size_align = end_align - offset_align;
        if offset = offset_align \<and> buffer_size = size_align
        then kurma_write_finish svc khdl True offset offset_align offset_moved buffer_size
               size_align buffer block_shift write_amount fsal_stable w
        else do {
          let (ok, w) = w_draw draw_malloc w;
          if \<not> ok then Some (fsalstat ERR_FSAL_NOMEM 0, (khdl, write_amount, fsal_stable), w)
          else do {
            let (buffer_align, w) = w_draw (draw_garbage (unat size_align)) w;
            (st, buffer_align, size_align, w) \<leftarrow>
              rmw_prepare
                (\<lambda>off pos buf ra eof.
                   rpc_read svc (kh_oid khdl) off block_size pos buf ra eof block_shift None)
                offset_align offset_moved size_align block_shift block_size buffer_size buffer
                buffer_align w;
            if st \<noteq> KURMA_OKAY
            then Some (kurma_to_fsal_status st, (khdl, write_amount, fsal_stable), w)
            else kurma_write_finish svc khdl False offset offset_align offset_moved buffer_size
                   size_align buffer_align block_shift write_amount fsal_stable w } } })"

section \<open>The read-modify-write computation on lists\<close>

lemma unat_ucast_up: "unat (ucast (s::u32) :: u64) = unat s"
proof -
  have "unat s < 2 ^ LENGTH(32)" by (rule unsigned_less)
  then have "unat s < 2 ^ 64" by simp
  then show ?thesis by (simp add: unsigned_ucast_eq take_bit_nat_eq_self)
qed

text \<open>
  The byte that position \<open>i\<close> of the aligned buffer has to hold, for data written at \<open>om\<close> bytes
  into the block range that starts at \<open>oa\<close> in the file \<open>f\<close>.
\<close>

definition rmw_byte :: "bytes \<Rightarrow> nat \<Rightarrow> nat \<Rightarrow> bytes \<Rightarrow> nat \<Rightarrow> u8" where
  "rmw_byte f oa om data i =
     (if om \<le> i \<and> i < om + length data then data ! (i - om)
      else if oa + i < length f then f ! (oa + i) else 0)"

lemma length_file_read: "length (file_read off n f) = min n (length f - off)"
  by (simp add: file_read_def)

lemma nth_file_read:
  "i < length (file_read off n f) \<Longrightarrow> file_read off n f ! i = f ! (off + i)"
  by (cases "off \<le> length f") (auto simp: file_read_def)

lemma nth_overlay_if:
  assumes "off + length src \<le> length buf" "i < length buf"
  shows "overlay off src buf ! i = (if i < off \<or> off + length src \<le> i then buf ! i else src ! (i - off))"
  using nth_overlay [OF assms] by auto

text \<open>The first block: existing bytes, a zero-filled gap, then the data.\<close>

lemma head_block:
  fixes f :: bytes and oa :: nat
  assumes "om < bs" "bs \<le> length ba" "h \<le> length data" "om + h \<le> bs"
    and "om + length data \<le> om + h \<or> om + h = bs"
  defines "r \<equiv> length (file_read oa bs f)"
  defines "b0 \<equiv> overlay 0 (file_read oa bs f) ba"
  defines "b1 \<equiv> (if r < om then overlay r (replicate (om - r) 0) b0 else b0)"
  assumes "i < bs" "i < om + length data \<or> oa + i < length f"
  shows "overlay om (take h data) b1 ! i = rmw_byte f oa om data i"
    and "length (overlay om (take h data) b1) = length ba"
proof -
  have r: "r = min bs (length f - oa)" by (simp add: r_def length_file_read)
  have l0: "length b0 = length ba" using assms(2) r by (simp add: b0_def r_def length_overlay)
  have l1: "length b1 = length ba" using l0 assms(1,2) by (simp add: b1_def length_overlay)
  show "length (overlay om (take h data) b1) = length ba"
    using l1 assms(1-4) by (simp add: length_overlay)
  have b0: "b0 ! i = (if i < r then f ! (oa + i) else ba ! i)"
    using assms(2,9) by (simp add: b0_def r_def nth_overlay nth_file_read length_file_read)
  have b1: "b1 ! i = (if r \<le> i \<and> i < om then 0 else b0 ! i)"
    using l0 assms(1,2,9) by (auto simp: b1_def nth_overlay)
  have "overlay om (take h data) b1 ! i = (if om \<le> i \<and> i < om + h then data ! (i - om) else b1 ! i)"
    using l1 assms(1-4,9) by (auto simp: nth_overlay)
  then show "overlay om (take h data) b1 ! i = rmw_byte f oa om data i"
    using b0 b1 r assms(1,3,5,9,10) by (auto simp: rmw_byte_def)
qed

text \<open>The last block and the blocks in between.\<close>

lemma tail_blocks:
  fixes f :: bytes and oa :: nat
  assumes len: "length b1 = cnt * bs" and cnt: "2 \<le> cnt" and om: "om < bs"
    and lo: "(cnt - 1) * bs < om + length data" and hi: "om + length data \<le> cnt * bs"
    and head: "\<And>i. i < bs \<Longrightarrow> i < om + length data \<or> oa + i < length f \<Longrightarrow> b1 ! i = rmw_byte f oa om data i"
  defines "t \<equiv> (cnt - 1) * bs"
  defines "b2 \<equiv> (if oa + bs < length f then overlay t (file_read (oa + t) bs f) b1 else b1)"
  defines "b3 \<equiv> overlay t (take (om + length data - t) (drop (t - om) data)) b2"
  defines "b4 \<equiv> (if 2 < cnt then overlay bs (take ((cnt - 2) * bs) (drop (bs - om) data)) b3 else b3)"
  assumes i: "i < cnt * bs" "i < om + length data \<or> oa + i < length f"
  shows "b4 ! i = rmw_byte f oa om data i" and "length b4 = cnt * bs"
proof -
  have tb: "t + bs = cnt * bs" "bs \<le> t" "bs + (cnt - 2) * bs = t"
    using cnt le_Suc_ex [of 2 cnt] by (auto simp: t_def algebra_simps)
  have l2: "length b2 = cnt * bs"
    using len tb by (simp add: b2_def length_overlay length_file_read)
  have l3: "length b3 = cnt * bs"
    using l2 tb lo hi om by (simp add: b3_def length_overlay t_def)
  show "length b4 = cnt * bs"
    using l3 tb lo hi om by (simp add: b4_def length_overlay t_def)
  have b3: "b3 ! i = (if t \<le> i \<and> i < om + length data then data ! (i - om) else b2 ! i)"
    using l2 tb lo hi om i by (auto simp: b3_def nth_overlay t_def)
  have b4: "b4 ! i = (if bs \<le> i \<and> i < t then data ! (i - om) else b3 ! i)"
    using l3 tb lo hi om i by (auto simp: b4_def nth_overlay t_def)
  have b2: "b2 ! i = (if t \<le> i \<and> oa + i < length f \<and> oa + bs < length f then f ! (oa + i) else b1 ! i)"
  proof -
    have "file_read (oa + t) bs f ! (i - t) = f ! (oa + i)" if "t \<le> i" "i < t + min bs (length f - (oa + t))"
      using that by (subst nth_file_read) (auto simp: length_file_read)
    with len tb(1) i(1) show ?thesis by (auto simp: b2_def nth_overlay length_file_read)
  qed
  show "b4 ! i = rmw_byte f oa om data i"
    using b2 b3 b4 head [of i] tb lo om i by (auto simp: rmw_byte_def t_def)
qed

section \<open>Block readers\<close>

text \<open>
  What the preparation of a write needs of a block reader: in a state that shows the file
  \<open>f\<close>, a read of an aligned block into a buffer with room for it returns, leaves the file
  as it is, and on success has put the bytes of the block that exist into the buffer,
  reported their number, and reported the end of the file when the block reaches it.
\<close>

locale block_reader =
  fixes rd :: "'w block_read" and bs :: nat and shows_file :: "'w \<Rightarrow> bytes \<Rightarrow> bool"
  assumes rd_block:
    "\<lbrakk>shows_file w f; unat off mod bs = 0; unat off < 2 ^ 63; pos + bs \<le> length buf\<rbrakk> \<Longrightarrow>
     \<exists>st out w'. rd off pos buf ra eof w = Some (st, out, w') \<and> shows_file w' f
       \<and> (st = KURMA_OKAY \<longrightarrow> (\<exists>at. out = (overlay pos (file_read (unat off) bs f) buf,
             of_nat (length (file_read (unat off) bs f)), length f \<le> unat off + bs, at)))"
begin

lemma rmw_tail_correct:
  assumes sh: "shows_file w f" and bs: "unat block_size = bs" and cnt: "2 \<le> unat c"
    and om: "unat om < bs" and oa: "unat oa mod bs = 0" "unat oa + unat c * bs < 2 ^ 63"
    and n: "unat n \<le> length data"
      "(unat c - 1) * bs < unat om + unat n" "unat om + unat n \<le> unat c * bs"
    and len: "length b1 = unat c * bs"
    and head: "\<And>i. i < bs \<Longrightarrow> i < unat om + unat n \<or> unat oa + i < length f \<Longrightarrow>
        b1 ! i = rmw_byte f (unat oa) (unat om) (take (unat n) data) i"
    and eof: "eof \<longleftrightarrow> length f \<le> unat oa + bs"
  shows "\<exists>st b S w'. rmw_tail rd oa om block_size c n data b1 ra eof w = Some (st, b, S, w')
    \<and> shows_file w' f \<and> (st = KURMA_OKAY \<longrightarrow>
        unat S = max (unat om + unat n) (min (unat c * bs) (length f - unat oa))
        \<and> length b = unat c * bs
        \<and> (\<forall>i < unat S. b ! i = rmw_byte f (unat oa) (unat om) (take (unat n) data) i))"
proof -
  define t where "t = (unat c - 1) * bs"
  define m where "m = (unat c - 2) * bs"
  let ?r = "file_read (unat oa + t) bs f"
  let ?b2 = "if unat oa + bs < length f then overlay t ?r b1 else b1"
  let ?b3 = "overlay t (take (unat om + unat n - t) (drop (t - unat om) data)) ?b2"
  let ?b4 = "if 2 < unat c then overlay bs (take m (drop (bs - unat om) data)) ?b3 else ?b3"
  let ?S = "if eof then om + n else max ((c - 1) * block_size + of_nat (length ?r)) (om + n)"
  have tb: "t + bs = unat c * bs" "bs \<le> t" "bs + m = t"
    using cnt le_Suc_ex [of 2 "unat c"] by (auto simp: t_def m_def algebra_simps)
  have n': "t < unat om + unat n" "unat om + unat n \<le> t + bs" "unat oa + (t + bs) < 2 ^ 63"
    using n oa tb by (simp_all add: t_def)
  have un: "unat (c - 1) = unat c - 1" "unat (c - 2) = unat c - 2"
    using cnt by (simp_all add: unat_sub_ok)
  have ut: "unat ((c - 1) * block_size) = t"
    using un bs n' by (simp add: unat_mult_ok t_def)
  have um: "unat ((c - 2) * block_size) = m"
    using un bs n' tb by (simp add: unat_mult_ok m_def)
  have uo: "unat (oa + (c - 1) * block_size) = unat oa + t"
    using ut n' by (simp add: unat_add_ok)
  have ue: "unat (om + n) = unat om + unat n" using n' by (simp add: unat_add_ok)
  have ul: "unat (om + n - (c - 1) * block_size) = unat om + unat n - t"
    using n' by (simp add: unat_sub_ok ue ut)
  note words = ut um uo ue ul bs
  have lr: "length ?r = min bs (length f - (unat oa + t))" by (rule length_file_read)
  have len1: "length b1 = t + bs" using len tb by simp
  have len2: "length ?b2 = t + bs" using len1 lr by (simp add: length_overlay)
  have len3: "length ?b3 = t + bs" using len2 n' by (simp add: length_overlay)
  have len4: "length ?b4 = t + bs" using len3 tb n' om by (simp add: length_overlay)
  have S: "unat ?S = max (unat om + unat n) (min (t + bs) (length f - unat oa))"
  proof -
    have "unat (of_nat (length ?r) :: u64) = length ?r" using lr n' by (intro unat_of_nat_ok) simp
    then have "unat ((c - 1) * block_size + of_nat (length ?r)) = t + length ?r"
      using lr n' by (simp add: unat_add_ok words)
    then have "unat ?S = (if eof then unat om + unat n else max (t + length ?r) (unat om + unat n))"
      by (simp add: unat_max words)
    also have "\<dots> = max (unat om + unat n) (min (t + bs) (length f - unat oa))"
      unfolding lr using eof n'(1) tb(2) by (auto simp: max_def min_def)
    finally show ?thesis .
  qed
  have byte: "?b4 ! i = rmw_byte f (unat oa) (unat om) (take (unat n) data) i" if "i < unat ?S" for i
  proof -
    have dl: "length (take (unat n) data) = unat n" using n(1) by simp
    have mid: "take k (drop j (take (unat n) data)) = take k (drop j data)" if "j + k \<le> unat n" for j k
      using that by (simp add: drop_take min_def)
    have slices:
      "take (unat om + unat n - t) (drop (t - unat om) (take (unat n) data))
        = take (unat om + unat n - t) (drop (t - unat om) data)"
      "take m (drop (bs - unat om) (take (unat n) data)) = take m (drop (bs - unat om) data)"
      using n' tb om by (intro mid, linarith)+
    have "i < unat c * bs" "i < unat om + unat n \<or> unat oa + i < length f"
      using that S tb n' by auto
    from tail_blocks(1) [of b1 "unat c" bs "unat om" "take (unat n) data" "unat oa" f i,
        unfolded dl, OF len cnt om n(2,3) head this, folded t_def m_def, unfolded slices]
    show ?thesis .
  qed
  have store: "ptr_sub t (unat om) = Some (t - unat om)"
    "load_bytes (t - unat om) (unat om + unat n - t) data
       = Some (take (unat om + unat n - t) (drop (t - unat om) data))"
    "ptr_sub bs (unat om) = Some (bs - unat om)"
    "load_bytes (bs - unat om) m data = Some (take m (drop (bs - unat om) data))"
    using n(1) n' tb om by (auto simp: ptr_sub_def load_bytes_def)
  have st3: "store_bytes t (take (unat om + unat n - t) (drop (t - unat om) data)) ?b2 = Some ?b3"
    using len2 n' by (simp add: store_bytes_def)
  have st4: "2 < unat c \<Longrightarrow> store_bytes bs (take m (drop (bs - unat om) data)) ?b3 = Some ?b4"
    using len3 tb by (simp add: store_bytes_def)
  have goal: "?thesis" if "rmw_tail rd oa om block_size c n data b1 ra eof w = Some (KURMA_OKAY, ?b4, ?S, w')"
    "shows_file w' f" for w'
    by (rule exI [of _ 0], rule exI [of _ ?b4], rule exI [of _ ?S], rule exI [of _ w'],
        intro conjI impI allI that byte) (simp_all only: len4 S tb(1))
  show ?thesis
  proof (cases eof)
    case True
    then have "\<not> unat oa + bs < length f" using eof by simp
    then show ?thesis using True st3 st4
      by (intro goal [OF _ sh]) (simp add: rmw_tail_def words word_less_nat_alt store)
  next
    case False
    then have b2: "unat oa + bs < length f" using eof by simp
    have al: "(unat oa + t) mod bs = 0" using oa(1) by (simp add: t_def mod_add_right_eq)
    obtain st out w' where r: "rd (oa + (c - 1) * block_size) t b1 ra eof w = Some (st, out, w')"
      and sh': "shows_file w' f" and ok: "st = 0 \<Longrightarrow> \<exists>at. out = (overlay t ?r b1, of_nat (length ?r),
        length f \<le> unat oa + t + bs, at)"
      using rd_block [OF sh, of "oa + (c - 1) * block_size" t b1 ra eof] al n' len1
      by (auto simp: words)
    show ?thesis
    proof (cases "st = 0")
      case True
      then obtain at where out: "out = (overlay t ?r b1, of_nat (length ?r),
        length f \<le> unat oa + t + bs, at)" using ok by auto
      have "length f \<le> unat oa + t + bs \<or> (of_nat (length ?r) :: u64) = block_size"
        using lr bs by (auto simp: min_def)
      with True False out r b2 st3 st4 show ?thesis
        by (intro goal [OF _ sh'])
          (simp add: rmw_tail_def words word_less_nat_alt store c_assert_bind)
    next
      case st: False
      then show ?thesis using False r sh' by (cases out) (auto simp: rmw_tail_def words)
    qed
  qed
qed

lemma rmw_prepare_correct:
  assumes sh: "shows_file w f" and bs: "unat block_size = bs" "bs = 2 ^ unat s" "unat s < 31"
    and om: "unat om < bs" and oa: "unat oa mod bs = 0" "unat oa + cnt * bs < 2 ^ 63"
    and n: "0 < unat n" "unat n \<le> length data" and cnt: "cnt = (unat om + unat n + bs - 1) div bs"
    and len: "unat size_align = cnt * bs" "length ba = cnt * bs"
  shows "\<exists>st b S w'. rmw_prepare rd oa om size_align s block_size n data ba w = Some (st, b, S, w')
    \<and> shows_file w' f \<and> (st = KURMA_OKAY \<longrightarrow>
        unat S = max (unat om + unat n) (min (cnt * bs) (length f - unat oa))
        \<and> length b = cnt * bs
        \<and> (\<forall>i < unat S. b ! i = rmw_byte f (unat oa) (unat om) (take (unat n) data) i))"
proof -
  have pos: "0 < bs" using om by simp
  have range: "unat om + unat n \<le> cnt * bs" "cnt * bs < unat om + unat n + bs"
    using ceil_mult_bounds [OF pos, of "unat om + unat n"] by (simp_all add: cnt)
  have cnt1: "1 \<le> cnt" using range n(1) by (cases cnt) auto
  have bsle: "bs \<le> cnt * bs" using cnt1 by simp
  have bslt: "bs < 2 ^ 63" using bsle oa(2) by (rule le_less_trans [OF order_trans [OF _ le_add2]])
  obtain c where c: "get_block_count size_align (ucast s) = Some c"
    using bs(3) by (simp add: get_block_count_def int_shl1_def unat_ucast_up)
  have uc: "unat c = cnt"
  proof -
    have "L + bs - 1 < 2 ^ 64" if "unat oa + L < 2 ^ 63" "bs \<le> L" for L using that by simp
    from this [OF oa(2) bsle] have "cnt * bs + bs - 1 < 2 ^ 64" .
    then have "unat c = (cnt * bs + bs - 1) div bs"
      using unat_block_count [OF _ _ c, unfolded unat_ucast_up, folded bs(2)] bs(3) len(1) by simp
    also have "\<dots> = cnt + (bs - 1) div bs"
      using div_mult_self3 [of bs cnt "bs - 1"] pos by simp
    also have "\<dots> = cnt" using pos by simp
    finally show ?thesis .
  qed
  obtain st out w' where r: "rd oa 0 ba 0 False w = Some (st, out, w')" and sh': "shows_file w' f"
    and ok: "st = 0 \<Longrightarrow> \<exists>at. out = (overlay 0 (file_read (unat oa) bs f) ba,
      of_nat (length (file_read (unat oa) bs f)), length f \<le> unat oa + bs, at)"
    using rd_block [OF sh, of oa 0 ba 0 False] oa cnt1 len by auto
  show ?thesis
  proof (cases "st = 0")
    case False
    then show ?thesis using c r sh' by (cases out) (auto simp: rmw_prepare_def)
  next
    case True
    let ?r = "length (file_read (unat oa) bs f)"
    let ?h = "if cnt = 1 then unat n else bs - unat om"
    let ?b0 = "overlay 0 (file_read (unat oa) bs f) ba"
    let ?b0' = "if ?r < unat om then overlay ?r (replicate (unat om - ?r) 0) ?b0 else ?b0"
    let ?b1 = "overlay (unat om) (take ?h data) ?b0'"
    have cntbs: "cnt \<noteq> 1 \<Longrightarrow> bs < unat om + unat n"
      using range(2) cnt1 by (cases cnt; cases "cnt - 1") auto
    obtain at where out: "out = (?b0, of_nat ?r, length f \<le> unat oa + bs, at)"
      using ok True by auto
    have rbs: "?r = min bs (length f - unat oa)" by (rule length_file_read)
    have ur: "unat (of_nat ?r :: u64) = ?r" using rbs bslt by (intro unat_of_nat_ok) simp
    have h: "unat om + ?h \<le> bs" "?h \<le> unat n" "unat om + unat n \<le> unat om + ?h \<or> unat om + ?h = bs"
      using range om cnt1 cntbs by auto
    have tk: "take ?h (take (unat n) data) = take ?h data" using h(2) by simp
    note hb = head_block [of "unat om" bs ba ?h "take (unat n) data" _ "unat oa" f, unfolded tk]
    have head: "?b1 ! i = rmw_byte f (unat oa) (unat om) (take (unat n) data) i"
      if "i < bs" "i < unat om + unat n \<or> unat oa + i < length f" for i
      using hb(1) [of i] h n(2) om bsle len(2) that by simp
    have len1: "length ?b1 = cnt * bs"
      using hb(2) [of 0] h n om bsle len(2) pos by simp
    define L where "L = cnt * bs"
    have L: "bs \<le> L" "length ba = L" using bsle len(2) by (simp_all add: L_def)
    have l0: "length ?b0 = L" using rbs L by (simp add: length_overlay)
    then have l0': "length ?b0' = L" using rbs L om by (simp add: length_overlay)
    have zero: "(if (of_nat ?r :: u64) < om then do { c_assert (length f \<le> unat oa + bs);
          store_bytes (unat (of_nat ?r :: u64)) (replicate (unat (om - of_nat ?r)) 0) ?b0 }
        else Some ?b0) = Some ?b0'"
    proof -
      have "?r < unat om \<Longrightarrow> length f \<le> unat oa + bs" using rbs om by auto
      moreover have "?r < unat om \<Longrightarrow> unat (om - of_nat ?r) = unat om - ?r"
        by (simp add: unat_sub_ok ur)
      ultimately show ?thesis
        using l0 L(1) om by (simp add: word_less_nat_alt ur store_bytes_def)
    qed
    have uh: "unat (if c = 1 then n else block_size - om) = ?h"
      using uc om bs(1) by (auto simp: unat_sub_ok word_unat_eq_iff)
    have load: "load_bytes 0 ?h data = Some (take ?h data)"
      using h n(2) by (simp add: load_bytes_def)
    have store: "store_bytes (unat om) (take ?h data) ?b0' = Some ?b1"
      using h n(2) l0' L by (simp add: store_bytes_def)
    have c1: "c = 1 \<longleftrightarrow> cnt = 1" using uc by (simp add: word_unat_eq_iff)
    have step: "rmw_prepare rd oa om size_align s block_size n data ba w =
        (if cnt = 1 then Some (KURMA_OKAY, ?b1, max (of_nat ?r) (om + n), w')
         else rmw_tail rd oa om block_size c n data ?b1 (of_nat ?r) (length f \<le> unat oa + bs) w')"
      unfolding rmw_prepare_def c r out bind.bind_lunit split True
      by (simp only: simp_thms if_False zero bind.bind_lunit uh load store) (simp only: c1)
    show ?thesis
    proof (cases "cnt = 1")
      case True
      have "unat (om + n) = unat om + unat n" using range bslt True by (simp add: unat_add_ok)
      then have "unat (max (of_nat ?r) (om + n)) = max (unat om + unat n) (min bs (length f - unat oa))"
        by (simp only: unat_max ur) (simp only: rbs max.commute)
      moreover have "?b1 ! i = rmw_byte f (unat oa) (unat om) (take (unat n) data) i"
        if "i < max (unat om + unat n) (min bs (length f - unat oa))" for i
        using that range True by (intro head) auto
      ultimately show ?thesis unfolding step using True sh' len1 by simp
    next
      case False
      then have "2 \<le> unat c" "(unat c - 1) * bs < unat om + unat n"
        using cnt1 uc range n(1) by (auto simp: diff_mult_distrib)
      then show ?thesis
        using rmw_tail_correct [OF sh' bs(1) _ om oa(1), of c n data ?b1 "length f \<le> unat oa + bs"
            "of_nat ?r"] oa(2) n(2) range len1 head False
        unfolding step uc by simp
    qed
  qed
qed

end

section \<open>The block server\<close>

text \<open>
  The contract of the service on file data, for a view \<open>content\<close> of the server state that
  gives the bytes of each object and a block size \<open>2 ^ sh\<close>.  A read at a block boundary
  does not change any file and, when it succeeds, returns the requested bytes that
  exist together with the file size.  A write at a block boundary that ends at a block
  boundary or reaches the end of the file, when it succeeds, replaces these bytes and
  fills a hole with zeros.
\<close>

definition reads_blocks :: "'s kurma_service \<Rightarrow> ('s \<Rightarrow> ObjectID \<Rightarrow> bytes) \<Rightarrow> nat \<Rightarrow> bool" where
  "reads_blocks svc content sh \<longleftrightarrow>
     (\<forall>sid oid off len s res s'.
        unat off mod 2 ^ sh = 0 \<longrightarrow> svc_read svc sid oid off len s = (res, s') \<longrightarrow>
        content s' = content s \<and>
        (\<forall>r. res = Some r \<and> r_errcode r = 0 \<longrightarrow>
           kattrs_wf (r_new_attrs r)
           \<and> k_filesize (r_new_attrs r) = Some (int (length (content s oid)))
           \<and> r_file_data r = Some (file_read (unat off) (unat len) (content s oid))))"

definition writes_blocks :: "'s kurma_service \<Rightarrow> ('s \<Rightarrow> ObjectID \<Rightarrow> bytes) \<Rightarrow> nat \<Rightarrow> bool" where
  "writes_blocks svc content sh \<longleftrightarrow>
     (\<forall>sid oid off data s res s'.
        unat off mod 2 ^ sh = 0 \<longrightarrow>
        (unat off + length data) mod 2 ^ sh = 0 \<or> length (content s oid) \<le> unat off + length data \<longrightarrow>
        svc_write svc sid oid off data s = (res, s') \<longrightarrow>
        (\<forall>r. res = Some r \<and> r_errcode r = 0 \<longrightarrow>
           kattrs_wf (r_new_attrs r)
           \<and> content s' = (content s)(oid := file_write (unat off) data (content s oid))))"

lemma sint_small: "unat (x::u64) < 2 ^ 63 \<Longrightarrow> sint x = int (unat x)"
proof -
  assume "unat x < 2 ^ 63"
  then have "int (unat x) < int (2 ^ 63)" by (simp only: of_nat_less_iff)
  then have "uint x < 2 ^ 63" by simp
  then show ?thesis
    using order_trans [of "- (2 ^ 63)" 0 "uint x"]
    by (simp add: sint_uint signed_take_bit_int_eq_self_iff)
qed

lemma int_of_size_small: "n < 2 ^ 31 \<Longrightarrow> int_of_size (int n) = int n"
proof -
  assume n: "n < 2 ^ 31"
  then have "unat (of_nat n :: u32) = n" by (intro of_nat_inverse) simp_all
  then have "uint (word_of_int (int n) :: u32) = int n" unfolding uint_nat by simp
  with n show ?thesis
    by (simp add: int_of_size_def sint_uint signed_take_bit_int_eq_self_iff)
qed

lemma unat_ucast_down: "unat (x::u64) < 2 ^ 32 \<Longrightarrow> unat (ucast x :: u32) = unat x"
  by (simp add: unsigned_ucast_eq take_bit_nat_eq_self_iff)

lemma word_add_eq_int:
  assumes "unat (a::u64) + r < 2 ^ 64" "n < 2 ^ 64"
  shows "a + of_nat r = word_of_int (int n) \<longleftrightarrow> unat a + r = n"
proof -
  have "unat (a + of_nat r) = unat a + r"
    using assms by (simp add: unat_add_ok unat_of_nat_ok)
  moreover have "unat (of_nat n :: u64) = n" using assms(2) by (rule unat_of_nat_ok)
  ultimately show ?thesis by (simp add: word_unat_eq_iff)
qed

lemma opt_fsal_attrs_wf:
  "kattrs_wf (r_new_attrs r) \<Longrightarrow> opt_fsal_attrs r at = Some (map_option (fsal_view (r_new_attrs r)) at)"
  by (simp add: opt_fsal_attrs_def kurma_result_to_fsal_attrs_def kurma_attrs_to_fsal_eq
      split: option.split)

text \<open>What \<^verbatim>\<open>rpc_read\<close> does against such a server, as long as the file size fits an \<^verbatim>\<open>int\<close>.\<close>

lemma rpc_read_spec:
  assumes srv: "reads_blocks svc content (unat bshift)" and f: "content (w_srv w) oid = f"
    and small: "length f < 2 ^ 31" and sh: "bshift \<noteq> 0" "unat bshift < 31"
    and off: "unat off mod 2 ^ unat bshift = 0" "unat off < 2 ^ 63"
    and sz: "unat sz mod 2 ^ unat bshift = 0" "unat sz < 2 ^ 32" "pos + unat sz \<le> length buf"
  shows "\<exists>st out s'. rpc_read svc oid off sz pos buf ra eof bshift at w
       = Some (st, out, (get_client w)\<lparr>w_srv := s'\<rparr>) \<and> content s' = content (w_srv w)
    \<and> (st = KURMA_OKAY \<longrightarrow> (\<exists>at'. out = (overlay pos (file_read (unat off) (unat sz) f) buf,
          of_nat (length (file_read (unat off) (unat sz) f)),
          length f \<le> unat off + unat sz, at')))"
proof -
  obtain res s' where c: "svc_read svc (w_sessionid w) oid off (ucast sz) (w_srv w) = (res, s')"
    by force
  have keep: "content s' = content (w_srv w)"
    and ok: "\<And>r. res = Some r \<Longrightarrow> r_errcode r = 0 \<Longrightarrow> kattrs_wf (r_new_attrs r)
      \<and> k_filesize (r_new_attrs r) = Some (int (length f))
      \<and> r_file_data r = Some (file_read (unat off) (unat sz) f)"
    using srv [unfolded reads_blocks_def, rule_format, OF off(1) c] f unat_ucast_down [OF sz(2)]
    by simp_all
  let ?d = "file_read (unat off) (unat sz) f"
  have ld: "length ?d = min (unat sz) (length f - unat off)" by (rule length_file_read)
  have call: "rpc_call (svc_read svc (w_sessionid w) oid off (ucast sz)) w
      = (res, (get_client w)\<lparr>w_srv := s'\<rparr>)"
    using c by (simp add: rpc_call_def)
  have al: "is_aligned off (2 ^ unat bshift) = Some True" "is_aligned sz (2 ^ unat bshift) = Some True"
    using off(1) sz(1) by (simp_all add: is_aligned_pow2)
  have blk: "int_shl1 (unat bshift) = Some (2 ^ unat bshift)" using sh by (simp add: int_shl1_def)
  have past: "sint off \<ge> int_of_size (int (length f)) \<longleftrightarrow> length f \<le> unat off"
    by (simp only: sint_small [OF off(2)] int_of_size_small [OF small] of_nat_le_iff)
  have amount: "(of_nat (length ?d) :: u64) \<le> sz" "unat off + length ?d < 2 ^ 64"
    using ld sz(2) off(2) by (auto simp: word_le_nat_alt unat_of_nat_ok)
  have eof: "off + of_nat (length ?d) = word_of_int (int_of_size (int (length f)))
      \<longleftrightarrow> unat off + length ?d = length f"
    unfolding int_of_size_small [OF small] using small by (intro word_add_eq_int amount(2)) simp
  have st: "store_bytes pos ?d buf = Some (overlay pos ?d buf)"
    using ld sz(3) by (simp add: store_bytes_def)
  show ?thesis
  proof (cases "\<exists>r. res = Some r \<and> r_errcode r = 0")
    case False
    then have "\<exists>st out. st \<noteq> 0 \<and> rpc_read svc oid off sz pos buf ra eof bshift at w
        = Some (st, out, (get_client w)\<lparr>w_srv := s'\<rparr>)"
      using sh(1) by (cases res) (simp_all add: rpc_read_def blk al call)
    with keep show ?thesis by blast
  next
    case True
    then obtain r where r: "res = Some r" "r_errcode r = 0" by blast
    note rk = ok [OF r]
    have d: "length f \<le> unat off \<Longrightarrow> ?d = []" using ld by simp
    have "unat off + length ?d = length f \<longleftrightarrow> length f \<le> unat off + unat sz" if "\<not> length f \<le> unat off"
      using that ld by auto
    then have "rpc_read svc oid off sz pos buf ra eof bshift at w
        = Some (KURMA_OKAY, (overlay pos ?d buf, of_nat (length ?d), length f \<le> unat off + unat sz,
            map_option (fsal_view (r_new_attrs r)) at), (get_client w)\<lparr>w_srv := s'\<rparr>)"
      using sh(1) rk amount(1) d
      by (simp add: rpc_read_def blk al call r opt_fsal_attrs_wf past eof st overlay_def)
    with keep show ?thesis by blast
  qed
qed

text \<open>What \<^verbatim>\<open>rpc_write\<close> does against such a server.\<close>

lemma rpc_write_spec:
  assumes srv: "writes_blocks svc content (unat bshift)"
    and sh: "bshift \<noteq> 0" "unat bshift < 31" and off: "unat off mod 2 ^ unat bshift = 0"
    and n: "unat n \<le> length buf"
    and cover: "(unat off + unat n) mod 2 ^ unat bshift = 0
      \<or> length (content (w_srv w) oid) \<le> unat off + unat n"
  shows "\<exists>st wa bsh at' s'. rpc_write svc oid off n buf wa0 bshift at w
       = Some (st, (wa, bsh, at'), (get_client w)\<lparr>w_srv := s'\<rparr>)
    \<and> (st = KURMA_OKAY \<longrightarrow> wa = n \<and> content s' = (content (w_srv w))
          (oid := file_write (unat off) (take (unat n) buf) (content (w_srv w) oid)))"
proof -
  let ?d = "take (unat n) buf"
  obtain res s' where c: "svc_write svc (w_sessionid w) oid off ?d (w_srv w) = (res, s')"
    by force
  have call: "rpc_call (svc_write svc (w_sessionid w) oid off ?d) w
      = (res, (get_client w)\<lparr>w_srv := s'\<rparr>)" using c by (simp add: rpc_call_def)
  have load: "load_bytes 0 (unat n) buf = Some ?d" using n by (simp add: load_bytes_def)
  have al: "is_aligned off (2 ^ unat bshift) = Some True" using off by (simp add: is_aligned_pow2)
  have blk: "int_shl1 (unat bshift) = Some (2 ^ unat bshift)" using sh by (simp add: int_shl1_def)
  have ok: "kattrs_wf (r_new_attrs r) \<and> content s' = (content (w_srv w))
      (oid := file_write (unat off) ?d (content (w_srv w) oid))"
    if "res = Some r" "r_errcode r = 0" for r
    using srv [unfolded writes_blocks_def, rule_format, OF off _ c] cover n that by simp
  show ?thesis
  proof (cases "\<exists>r. res = Some r \<and> r_errcode r = 0")
    case False
    then have "\<exists>st wa bsh at'. st \<noteq> 0 \<and> rpc_write svc oid off n buf wa0 bshift at w
        = Some (st, (wa, bsh, at'), (get_client w)\<lparr>w_srv := s'\<rparr>)"
      using sh(1) by (cases res) (simp_all add: rpc_write_def blk al call load)
    then show ?thesis by blast
  next
    case True
    then obtain r where r: "res = Some r" "r_errcode r = 0" by blast
    have "\<exists>bsh at'. rpc_write svc oid off n buf wa0 bshift at w
        = Some (KURMA_OKAY, (n, bsh, at'), (get_client w)\<lparr>w_srv := s'\<rparr>)"
      using sh(1) ok [OF r] r by (simp add: rpc_write_def blk al call load opt_fsal_attrs_wf)
    with ok [OF r] show ?thesis by blast
  qed
qed

section \<open>The reader behind a write\<close>

definition file_shown ::
    "'s kurma_service \<Rightarrow> ('s \<Rightarrow> ObjectID \<Rightarrow> bytes) \<Rightarrow> ObjectID \<Rightarrow> u32 \<Rightarrow> (ObjectID \<Rightarrow> bytes)
      \<Rightarrow> ('s, 'b) rpc_world_scheme \<Rightarrow> bytes \<Rightarrow> bool" where
  "file_shown svc content oid bshift files w f \<longleftrightarrow>
     reads_blocks svc content (unat bshift) \<and> bshift \<noteq> 0 \<and> unat bshift < 31
     \<and> content (w_srv w) = files \<and> files oid = f \<and> length f < 2 ^ 31"

interpretation rr: block_reader
  "\<lambda>off pos buf ra eof. rpc_read svc oid off (2 ^ unat bshift) pos buf ra eof bshift None"
  "2 ^ unat bshift" "file_shown svc content oid bshift files"
  for svc content oid bshift files
proof unfold_locales
  fix w :: "('a, 'b) rpc_world_scheme" and f buf :: bytes and off ra :: u64 and pos eof
  assume sh: "file_shown svc content oid bshift files w f"
    and off: "unat off mod 2 ^ unat bshift = 0" "unat off < 2 ^ 63"
    and pos: "pos + 2 ^ unat bshift \<le> length buf"
  have lt: "unat bshift < 31" using sh by (simp add: file_shown_def)
  have "(2::nat) ^ unat bshift \<le> 2 ^ 31" using lt by (intro power_increasing) simp_all
  then have "(2::nat) ^ unat bshift < 2 ^ 32" by simp
  moreover have u: "unat ((2::u64) ^ unat bshift) = 2 ^ unat bshift"
    using lt by (intro unat_two_power) simp
  ultimately show "\<exists>st out w'. rpc_read svc oid off (2 ^ unat bshift) pos buf ra eof bshift None w
        = Some (st, out, w') \<and> file_shown svc content oid bshift files w' f
      \<and> (st = 0 \<longrightarrow> (\<exists>at. out = (overlay pos (file_read (unat off) (2 ^ unat bshift) f) buf,
            word_of_nat (length (file_read (unat off) (2 ^ unat bshift) f)),
            length f \<le> unat off + 2 ^ unat bshift, at)))"
    using rpc_read_spec [of svc content bshift w oid f off "2 ^ unat bshift" pos buf ra eof None]
      sh off pos by (fastforce simp: file_shown_def)
qed

section \<open>Reads and writes at byte granularity\<close>

text \<open>The enclosing block range, computed by both operations.\<close>

lemma ceil_div_add: "0 < (b::nat) \<Longrightarrow> (q * b + r + b - 1) div b = q + (r + b - 1) div b"
  using div_mult_self3 [of b q "r + b - 1"] by (simp add: add.assoc)

lemma block_geometry:
  fixes offset n :: u64
  assumes k: "k < 31" and room: "unat offset + unat n + 2 ^ k < 2 ^ 63"
  obtains oa e where "round_down offset (2 ^ k) = Some oa" "round_up (offset + n) (2 ^ k) = Some e"
    "unat oa mod 2 ^ k = 0" "unat (offset - oa) < 2 ^ k" "unat offset = unat oa + unat (offset - oa)"
    "unat (e - oa) = (unat (offset - oa) + unat n + 2 ^ k - 1) div 2 ^ k * 2 ^ k"
    "unat oa + unat (e - oa) < 2 ^ 63"
proof -
  let ?b = "2 ^ k :: nat"
  let ?oa = "offset AND NOT (mask k)" and ?e = "(offset + n + mask k) AND NOT (mask k)"
  have b: "0 < ?b" by simp
  have oa: "unat ?oa = unat offset div ?b * ?b" by (rule unat_and_not_mask)
  have om: "unat (offset - ?oa) = unat offset mod ?b"
    unfolding unat_sub_ok [of ?oa offset, unfolded oa, OF div_times_less_eq_dividend]
    by (simp add: oa minus_div_mult_eq_mod)
  have s: "unat (offset + n) = unat offset + unat n" using room by (simp add: unat_add_ok)
  have e: "unat ?e = (unat offset + unat n + ?b - 1) div ?b * ?b"
    using unat_round_up [of k "offset + n"] k room by (simp add: s)
  have "(unat offset + unat n + ?b - 1) div ?b
      = unat offset div ?b + (unat offset mod ?b + unat n + ?b - 1) div ?b"
    using ceil_div_add [OF b, of "unat offset div ?b" "unat offset mod ?b + unat n"]
    by (simp only: add.assoc [symmetric] div_mult_mod_eq)
  then have sz: "unat ?e = unat ?oa + (unat offset mod ?b + unat n + ?b - 1) div ?b * ?b"
    unfolding e oa by (simp add: add_mult_distrib)
  then have sz': "unat (?e - ?oa) = (unat offset mod ?b + unat n + ?b - 1) div ?b * ?b"
    by (subst unat_sub_ok) simp_all
  have "unat ?e < unat offset + unat n + ?b"
    unfolding e by (rule ceil_mult_bounds(2) [OF b])
  then have lt: "unat ?oa + unat (?e - ?oa) < 2 ^ 63" using room sz sz' by simp
  have split: "unat offset = unat ?oa + unat (offset - ?oa)"
    unfolding oa om by (simp only: div_mult_mod_eq)
  have "unat ?oa mod ?b = 0" "unat (offset - ?oa) < ?b" by (simp_all add: oa om)
  with split lt show thesis
    by (intro that [of ?oa ?e, OF round_down_pow2 round_up_pow2]) (simp_all only: om sz')
qed

lemma w_srv_draw [simp]: "w_srv (snd (w_draw f w)) = w_srv w"
  by (simp add: w_draw_def split: prod.splits)

lemma try_update_frame:
  assumes "kurma_try_update_attributes khdl attrs w = (khdl', w')"
  shows "w_srv w' = w_srv w \<and> w_sessionid w' = w_sessionid w"
  using assms by (auto simp: kurma_try_update_attributes_def w_draw_def Let_def
      split: prod.splits if_splits)

text \<open>Writing back what the preparation left in the buffer.\<close>

lemma write_back:
  assumes S: "om + length d \<le> S" "S = om + length d \<or> oa + S \<le> length f" and len: "S \<le> length b"
    and byte: "\<And>i. i < S \<Longrightarrow> b ! i = rmw_byte f oa om d i"
  shows "file_write oa (take S b) f = file_write (oa + om) d f"
proof (rule nth_equalityI)
  show "length (file_write oa (take S b) f) = length (file_write (oa + om) d f)"
    using S len by (auto simp: length_file_write)
next
  fix i assume "i < length (file_write oa (take S b) f)"
  then show "file_write oa (take S b) f ! i = file_write (oa + om) d f ! i"
    using S len byte [of "i - oa"] by (auto simp: length_file_write nth_file_write rmw_byte_def)
qed

lemma write_finish_spec:
  assumes srv: "writes_blocks svc content (unat bshift)"
    and sh: "bshift \<noteq> 0" "unat bshift < 31" and off: "unat oa mod 2 ^ unat bshift = 0"
    and S: "unat S \<le> length b"
    and cover: "(unat oa + unat S) mod 2 ^ unat bshift = 0
      \<or> length (content (w_srv w) (kh_oid khdl)) \<le> unat oa + unat S"
  shows "\<exists>stat khdl' wa' fs' w'.
    kurma_write_finish svc khdl align offset oa om n S b bshift wa fs w
      = Some (stat, (khdl', wa', fs'), w')
    \<and> (st_major stat = ERR_FSAL_NO_ERROR \<longrightarrow>
        content (w_srv w') = (content (w_srv w))
          (kh_oid khdl := file_write (unat oa) (take (unat S) b) (content (w_srv w) (kh_oid khdl)))
        \<and> wa' = adjust_write_amount align oa offset om n S \<and> fs')"
proof -
  obtain st wa1 bsh at' s' where
    r: "rpc_write svc (kh_oid khdl) oa S b wa bshift (Some zero_attrs) w
      = Some (st, (wa1, bsh, at'), (get_client w)\<lparr>w_srv := s'\<rparr>)"
    and ok: "st = KURMA_OKAY \<Longrightarrow> wa1 = S \<and> content s' = (content (w_srv w))
      (kh_oid khdl := file_write (unat oa) (take (unat S) b) (content (w_srv w) (kh_oid khdl)))"
    using rpc_write_spec [OF srv sh off S cover] by blast
  obtain k' w' where u: "kurma_try_update_attributes khdl (the_attrs at')
      ((get_client w)\<lparr>w_srv := s'\<rparr>) = (k', w')" by force
  from try_update_frame [OF u] have "w_srv w' = s'" by simp
  with r u ok show ?thesis
    by (cases "st = 0") (auto simp: kurma_write_finish_def split: prod.splits)
qed

lemma adjust_write_amount_all:
  assumes "unat offset = unat oa + unat om" "0 < unat n" "unat om + unat n \<le> unat S"
    and "unat oa + unat S < 2 ^ 63" and "align \<Longrightarrow> S = n"
  shows "adjust_write_amount align oa offset om n S = n"
proof -
  have "unat (oa + S) = unat oa + unat S" "unat (offset + n) = unat offset + unat n"
    using assms by (simp_all add: unat_add_ok)
  moreover have "unat (S - om) = unat S - unat om" using assms by (simp add: unat_sub_ok)
  ultimately show ?thesis
    using assms by (auto simp: adjust_write_amount_def word_le_nat_alt word_unat_eq_iff)
qed

text \<open>
  C1 \<^verbatim>\<open>kurma_write\<close> writes exactly the caller's bytes at the caller's offset.  Against a server
  that meets the block contract, for a file below 2 GiB and whatever the alignment of
  offset and length, the call returns (no assertion fails, no copy leaves its buffer)
  and, when it reports success, the file is the old one with the data written at the
  offset and a hole filled with zeros, every other file is as before, all bytes are reported as
  written and the write is reported stable.
\<close>

theorem kurma_write_correct:
  assumes srv: "reads_blocks svc content (unat bshift)" "writes_blocks svc content (unat bshift)"
    and sh: "write_block_shift khdl n = Some bshift" "bshift \<noteq> 0" "unat bshift < 31"
    and live: "kh_snapshot_id khdl = SNAPSHOT_NONE"
    and f: "content (w_srv w) (kh_oid khdl) = f" "length f < 2 ^ 31"
    and n: "0 < unat n" "unat n \<le> length data"
    and room: "unat offset + unat n + 2 ^ unat bshift < 2 ^ 63"
  shows "\<exists>stat khdl' wa' fs' w'.
    kurma_write svc khdl offset n data wa fs w = Some (stat, (khdl', wa', fs'), w')
    \<and> (st_major stat = ERR_FSAL_NO_ERROR \<longrightarrow>
        content (w_srv w') = (content (w_srv w))
          (kh_oid khdl := file_write (unat offset) (take (unat n) data) f)
        \<and> wa' = n \<and> fs')"
proof -
  let ?b = "2 ^ unat bshift :: nat" and ?bw = "2 ^ unat bshift :: u64"
  obtain oa e where g: "round_down offset ?bw = Some oa" "round_up (offset + n) ?bw = Some e"
    "unat oa mod ?b = 0" "unat (offset - oa) < ?b" "unat offset = unat oa + unat (offset - oa)"
    "unat (e - oa) = (unat (offset - oa) + unat n + ?b - 1) div ?b * ?b"
    "unat oa + unat (e - oa) < 2 ^ 63"
    using block_geometry [OF sh(3) room] by metis
  define om where "om = offset - oa"
  define sz where "sz = e - oa"
  define cnt where "cnt = (unat om + unat n + ?b - 1) div ?b"
  have "0 < ?b" by simp
  note bnd = ceil_mult_bounds(1) [OF this, of "unat om + unat n", folded cnt_def]
  have blk: "int_shl1 (unat bshift) = Some ?bw" using sh by (simp add: int_shl1_def)
  have snap: "\<not> is_snapshot_obj (kh_snapshot_id khdl)" using live by (simp add: is_snapshot_obj_def)
  show ?thesis
  proof (cases "offset = oa \<and> n = sz")
    case True
    then have "unat om = 0" "unat n = cnt * ?b" "om = 0"
      using g(5,6) by (simp_all add: om_def sz_def cnt_def)
    then have cover: "(unat oa + unat n) mod ?b = 0" using g(3) by (simp add: mod_add_eq)
    have run: "kurma_write svc khdl offset n data wa fs w
        = kurma_write_finish svc khdl True offset oa om n n data bshift wa fs w"
      using snap n(1) sh(1) blk g(1,2) True
      by (simp add: kurma_write_def om_def sz_def Let_def unat_gt_0)
    have "adjust_write_amount True oa offset om n n = n" by (simp add: adjust_write_amount_def)
    then show ?thesis
      using write_finish_spec [OF srv(2) sh(2,3) g(3) n(2) disjI1 [OF cover], where w = w, of khdl True offset om n wa fs]
        True f unfolding run by simp
  next
    case False
    then have na: "(offset = oa \<and> n = e - oa) = False" by (simp add: sz_def)
    obtain ok w1 where d1: "w_draw draw_malloc w = (ok, w1)" by force
    obtain ba w2 where d2: "w_draw (draw_garbage (unat sz)) w1 = (ba, w2)" by force
    have "w_srv w1 = w_srv w" "w_srv w2 = w_srv w1"
      using w_srv_draw [of draw_malloc w] w_srv_draw [of "draw_garbage (unat sz)" w1] d1 d2 by simp_all
    then have shown: "file_shown svc content (kh_oid khdl) bshift (content (w_srv w)) w2 f"
      using srv(1) sh f by (simp add: file_shown_def)
    have len: "length ba = cnt * ?b" "unat sz = cnt * ?b"
      using d2 g(6) by (auto simp: w_draw_def sz_def om_def cnt_def draw_garbage_def
          split: prod.splits)
    have ub: "unat ?bw = ?b" using sh(3) by (intro unat_two_power) simp
    obtain st b S w3 where r: "rmw_prepare
         (\<lambda>off pos buf ra eof. rpc_read svc (kh_oid khdl) off ?bw pos buf ra eof bshift None)
         oa om sz bshift ?bw n data ba w2 = Some (st, b, S, w3)"
      and shown3: "file_shown svc content (kh_oid khdl) bshift (content (w_srv w)) w3 f"
      and fin: "st = KURMA_OKAY \<Longrightarrow> unat S = max (unat om + unat n) (min (cnt * ?b) (length f - unat oa))
        \<and> length b = cnt * ?b
        \<and> (\<forall>i < unat S. b ! i = rmw_byte f (unat oa) (unat om) (take (unat n) data) i)"
      using rr.rmw_prepare_correct [OF shown ub refl sh(3) _ g(3) _ n cnt_def len(2,1)] g(4,7) len(2)
      unfolding om_def sz_def by metis
    have run: "kurma_write svc khdl offset n data wa fs w =
        (if \<not> ok then Some (fsalstat ERR_FSAL_NOMEM 0, (khdl, wa, fs), w1)
         else if st \<noteq> KURMA_OKAY then Some (kurma_to_fsal_status st, (khdl, wa, fs), w3)
         else kurma_write_finish svc khdl False offset oa om n S b bshift wa fs w3)"
      using snap n(1) sh(1) blk g(1,2) d1 d2 r
      by (simp add: kurma_write_def om_def sz_def Let_def unat_gt_0 na)
    show ?thesis
    proof (cases "ok \<and> st = 0")
      case True
      note S = fin [OF conjunct2 [OF True]]
      have cover: "(unat oa + unat S) mod ?b = 0 \<or> length f \<le> unat oa + unat S"
        using S bnd g(3) by (cases "cnt * ?b \<le> length f - unat oa") (auto simp: mod_add_eq)
      have "file_write (unat oa) (take (unat S) b) f = file_write (unat offset) (take (unat n) data) f"
      proof -
        have "unat S = unat om + unat n \<or> unat oa + unat S \<le> length f"
          using S by (auto simp: max_def min_def)
        with S n(2) bnd have "file_write (unat oa) (take (unat S) b) f
            = file_write (unat oa + unat om) (take (unat n) data) f"
          by (intro write_back) auto
        then show ?thesis using g(5) by (simp add: om_def)
      qed
      moreover have "adjust_write_amount False oa offset om n S = n"
        using S bnd n(1) g(5,7) len(2) by (intro adjust_write_amount_all) (auto simp: om_def sz_def)
      moreover have "unat S \<le> length b" using S bnd by auto
      ultimately show ?thesis
        using write_finish_spec [OF srv(2) sh(2,3) g(3), where w = w3, of S b khdl False offset om n wa fs]
          cover True f shown3 unfolding run file_shown_def by simp
    next
      case False
      then show ?thesis unfolding run by auto
    qed
  qed
qed

text \<open>What the caller gets of the aligned read.\<close>

lemma read_slice:
  assumes "om + n \<le> sz" "sz \<le> length ba"
  shows "take (length (file_read (oa + om) n f)) (drop om (overlay 0 (file_read oa sz f) ba))
    = file_read (oa + om) n f"
proof (rule nth_equalityI)
  show "length (take (length (file_read (oa + om) n f)) (drop om (overlay 0 (file_read oa sz f) ba)))
      = length (file_read (oa + om) n f)"
    using assms by (auto simp: length_overlay length_file_read)
next
  fix i assume "i < length (take (length (file_read (oa + om) n f))
    (drop om (overlay 0 (file_read oa sz f) ba)))"
  then show "take (length (file_read (oa + om) n f)) (drop om (overlay 0 (file_read oa sz f) ba)) ! i
      = file_read (oa + om) n f ! i"
    using assms by (auto simp: length_overlay length_file_read nth_overlay nth_file_read add.assoc)
qed

lemma clip_read_spec:
  assumes off: "unat offset = unat oa + unat om" "unat offset < L" and n: "0 < unat n"
    and sz: "unat om + unat n \<le> sz" and room: "unat oa + sz < 2 ^ 63" "unat offset + unat n < 2 ^ 63"
    and r: "r = min sz (L - unat oa)"
  shows "clip_read oa offset om n (of_nat r) (L \<le> unat oa + sz)
    = Some (of_nat (min (unat n) (L - unat offset)), L \<le> unat offset + unat n)"
proof -
  have ur: "unat (of_nat r :: u64) = r" using r room by (intro unat_of_nat_ok) simp
  have a: "unat (oa + of_nat r) = unat oa + r" using ur r room by (simp add: unat_add_ok)
  have b: "unat (offset + n) = unat offset + unat n" using room by (simp add: unat_add_ok)
  have gt: "\<not> unat oa + r \<le> unat offset" using off n sz r by auto
  have le: "unat om \<le> r" using r off sz by auto
  have d: "of_nat r - om = of_nat (r - unat om)" using le by (simp add: of_nat_diff)
  have c: "clip_read oa offset om n (of_nat r) eof
      = Some (if unat oa + r \<le> unat offset + unat n then (of_nat (r - unat om), eof) else (n, False))" for eof
    using gt by (simp add: clip_read_def word_le_nat_alt a b d)
  show ?thesis
  proof (cases "unat oa + r \<le> unat offset + unat n")
    case True
    then have "r - unat om = min (unat n) (L - unat offset)"
      "L \<le> unat oa + sz \<longleftrightarrow> L \<le> unat offset + unat n"
      using r off sz by auto
    with True show ?thesis by (simp add: c)
  next
    case False
    then have "min (unat n) (L - unat offset) = unat n" "\<not> L \<le> unat offset + unat n"
      using r off sz by auto
    with False show ?thesis by (simp add: c)
  qed
qed

lemma read_finish_spec:
  assumes srv: "reads_blocks svc content (unat bshift)"
    and f: "content (w_srv w) (kh_oid khdl) = f" "length f < 2 ^ 31"
    and sh: "bshift \<noteq> 0" "unat bshift < 31"
    and oa: "unat oa mod 2 ^ unat bshift = 0"
      "unat offset = unat oa + unat om" "unat offset < length f"
    and sz: "unat sz mod 2 ^ unat bshift = 0" "unat sz < 2 ^ 32" "unat oa + unat sz < 2 ^ 63"
    and n: "0 < unat n" "unat n \<le> length buf" "unat om + unat n \<le> unat sz"
    and buffers: "unat sz \<le> length ba" "align \<Longrightarrow> ba = buf \<and> offset = oa \<and> sz = n"
  shows "\<exists>stat khdl' buf' ra' eof' w'.
    kurma_read_finish svc khdl align offset oa om n sz buf ba ra eof bshift w
      = Some (stat, (khdl', buf', ra', eof'), w')
    \<and> content (w_srv w') = content (w_srv w)
    \<and> (st_major stat = ERR_FSAL_NO_ERROR \<longrightarrow>
        buf' = overlay 0 (file_read (unat offset) (unat n) f) buf
        \<and> unat ra' = length (file_read (unat offset) (unat n) f)
        \<and> (eof' \<longleftrightarrow> length f \<le> unat offset + unat n))"
proof -
  let ?d = "file_read (unat offset) (unat n) f" and ?D = "file_read (unat oa) (unat sz) f"
  have ld: "length ?d = min (unat n) (length f - unat offset)" by (rule length_file_read)
  have clip: "clip_read oa offset om n (of_nat (length ?D)) (length f \<le> unat oa + unat sz)
      = Some (of_nat (length ?d), length f \<le> unat offset + unat n)"
    unfolding ld using oa sz n by (intro clip_read_spec) (auto simp: length_file_read)
  have ura: "unat (of_nat (length ?d) :: u64) = length ?d"
    using ld sz n by (intro unat_of_nat_ok) simp
  obtain st out s' where r: "rpc_read svc (kh_oid khdl) oa sz 0 ba ra eof bshift
      (Some zero_attrs) w = Some (st, out, (get_client w)\<lparr>w_srv := s'\<rparr>)"
    and keep: "content s' = content (w_srv w)"
    and ok: "st = KURMA_OKAY \<longrightarrow> (\<exists>at'. out = (overlay 0 ?D ba, of_nat (length ?D),
      length f \<le> unat oa + unat sz, at'))"
    using rpc_read_spec [OF srv f sh oa(1) _ sz(1,2), of 0 ba ra eof "Some zero_attrs"] sz(3) buffers(1)
    by auto
  show ?thesis
  proof (cases "st = 0")
    case False
    then show ?thesis using r keep by (cases out) (auto simp: kurma_read_finish_def)
  next
    case True
    then obtain at' where out: "out = (overlay 0 ?D ba, of_nat (length ?D),
      length f \<le> unat oa + unat sz, at')" using ok by blast
    obtain k' w' where u: "kurma_try_update_attributes khdl (the_attrs at')
        ((get_client w)\<lparr>w_srv := s'\<rparr>) = (k', w')" by force
    have w': "w_srv w' = s'" using try_update_frame [OF u] by simp
    have slice: "load_bytes (unat om) (length ?d) (overlay 0 ?D ba) = Some ?d"
      using read_slice [of "unat om" "unat n" "unat sz" ba "unat oa" f] n(3) buffers(1) oa(2)
      by (auto simp: load_bytes_def length_overlay length_file_read)
    have store: "store_bytes 0 ?d buf = Some (overlay 0 ?d buf)"
      using n(2) by (simp add: store_bytes_def length_file_read)
    have "kurma_read_finish svc khdl align offset oa om n sz buf ba ra eof bshift w
        = Some (kurma_to_fsal_status 0, (k', overlay 0 ?d buf, of_nat (length ?d),
            length f \<le> unat offset + unat n), w')"
      using True r out u clip slice store buffers(2) by (simp add: kurma_read_finish_def ura)
    then show ?thesis using keep w' ura by simp
  qed
qed


section \<open>Block size, snapshots, files of 2 GiB\<close>

lemma shift_loop_spec:
  assumes "k \<le> 20" "unat n \<le> 2 ^ 20"
  shows "\<exists>m. shift_loop k n = Some (of_nat m) \<and> k \<le> m \<and> m \<le> 20 \<and> unat n \<le> 2 ^ m
    \<and> (k < m \<longrightarrow> 2 ^ (m - 1) < unat n)"
  using assms
proof (induction k n rule: shift_loop.induct)
  case (1 k n)
  show ?case
  proof (cases "2 ^ k < unat n")
    case False
    then show ?thesis using 1(2,3) by (subst shift_loop.simps) (auto intro!: exI [of _ k])
  next
    case True
    then have "k < 20" using 1(2,3) by (cases "k = 20") auto
    then obtain m where "shift_loop (Suc k) n = Some (of_nat m)" "Suc k \<le> m" "m \<le> 20"
      "unat n \<le> 2 ^ m" "Suc k < m \<longrightarrow> 2 ^ (m - 1) < unat n"
      using 1(1) [OF _ True] 1(3) by auto
    with True \<open>k < 20\<close> show ?thesis
      by (subst shift_loop.simps) (cases "m = Suc k"; auto intro!: exI [of _ m])
  qed
qed

text \<open>
  The block size chosen for the first write to a file is between 64 KiB and 1 MiB, covers the
  whole request when that is at most 1 MiB, and is the smallest power of two that does:
  the search loop ends and never shifts out of range.
\<close>

theorem initial_block_shift_spec:
  "\<exists>m. initial_block_shift n = Some (of_nat m) \<and> 16 \<le> m \<and> m \<le> 20
    \<and> (unat n \<le> 2 ^ m \<or> m = 20) \<and> (m = 16 \<or> 2 ^ (m - 1) < unat n)"
proof -
  consider "unat n \<le> 2 ^ 16" | "2 ^ 16 < unat n" "unat n \<le> 2 ^ 20" | "2 ^ 20 < unat n" by linarith
  then show ?thesis
  proof cases
    case 1
    then show ?thesis
      by (intro exI [of _ 16]) (simp add: initial_block_shift_def word_le_nat_alt)
  next
    case 2
    obtain m where m: "shift_loop 0 n = Some (of_nat m)" "m \<le> 20" "unat n \<le> 2 ^ m"
      "0 < m \<longrightarrow> 2 ^ (m - 1) < unat n" using shift_loop_spec [of 0 n] 2(2) by auto
    have "16 < m"
    proof (rule ccontr)
      assume "\<not> 16 < m"
      then have "(2::nat) ^ m \<le> 2 ^ 16" by (intro power_increasing) simp_all
      with m(3) 2(1) show False by simp
    qed
    with m 2 show ?thesis
      by (intro exI [of _ m]) (simp add: initial_block_shift_def word_le_nat_alt word_less_nat_alt)
  next
    case 3
    then show ?thesis
      by (intro exI [of _ 20]) (simp add: initial_block_shift_def word_le_nat_alt word_less_nat_alt)
  qed
qed

text \<open>
  Snapshots and snapshot directories are read-only and unreadable through the file
  operations: open, read, write and close all answer \<^verbatim>\<open>ERR_FSAL_PERM\<close> and change neither
  the handle nor the caller's buffer nor anything of the client or the server.
\<close>

theorem snapshot_io_refused:
  assumes "kh_snapshot_id khdl \<noteq> SNAPSHOT_NONE"
  shows "kurma_open svc khdl flags w = Some (fsalstat ERR_FSAL_PERM 0, khdl, w)
    \<and> kurma_close svc khdl w = Some (fsalstat ERR_FSAL_PERM 0, khdl, w)
    \<and> kurma_read svc khdl off n buf ra eof w = Some (fsalstat ERR_FSAL_PERM 0, (khdl, buf, ra, eof), w)
    \<and> kurma_write svc khdl off n buf wa fs w = Some (fsalstat ERR_FSAL_PERM 0, (khdl, wa, fs), w)"
  using assms
  by (simp add: kurma_open_def kurma_close_def kurma_read_def kurma_write_def is_snapshot_obj_def)

text \<open>A file size from 2 GiB on is negative as an \<^verbatim>\<open>int\<close>: every read is then at the end of the file.\<close>

lemma int_of_size_big:
  assumes "2 ^ 31 \<le> n" "n < 2 ^ 32"
  shows "int_of_size (int n) < 0"
proof -
  have "int n div 2 ^ 31 = 1" using assms by (simp add: int_div_pos_eq)
  then have "bit (int n) 31" by (simp add: bit_iff_odd)
  then have "bit (uint (of_nat n :: u32)) 31" by (simp add: bit_simps)
  then show ?thesis by (simp add: int_of_size_def sint_uint signed_take_bit_negative_iff)
qed

lemma rpc_read_big:
  assumes srv: "reads_blocks svc content (unat bshift)" and f: "content (w_srv w) oid = f"
    and big: "2 ^ 31 \<le> length f" "length f < 2 ^ 32" and sh: "bshift \<noteq> 0" "unat bshift < 31"
    and off: "unat off mod 2 ^ unat bshift = 0" "unat off < 2 ^ 63"
    and sz: "unat sz mod 2 ^ unat bshift = 0"
  shows "\<exists>st out s'. rpc_read svc oid off sz pos buf ra eof bshift at w
       = Some (st, out, (get_client w)\<lparr>w_srv := s'\<rparr>) \<and> content s' = content (w_srv w)
    \<and> (st = KURMA_OKAY \<longrightarrow> (\<exists>at'. out = (buf, 0, True, at')))"
proof -
  obtain res s' where c: "svc_read svc (w_sessionid w) oid off (ucast sz) (w_srv w) = (res, s')"
    by force
  have keep: "content s' = content (w_srv w)"
    and ok: "\<And>r. res = Some r \<Longrightarrow> r_errcode r = 0 \<Longrightarrow> kattrs_wf (r_new_attrs r)
      \<and> k_filesize (r_new_attrs r) = Some (int (length f))"
    using srv [unfolded reads_blocks_def, rule_format, OF off(1) c] f by simp_all
  have call: "rpc_call (svc_read svc (w_sessionid w) oid off (ucast sz)) w
      = (res, (get_client w)\<lparr>w_srv := s'\<rparr>)" using c by (simp add: rpc_call_def)
  have al: "is_aligned off (2 ^ unat bshift) = Some True" "is_aligned sz (2 ^ unat bshift) = Some True"
    using off(1) sz by (simp_all add: is_aligned_pow2)
  have blk: "int_shl1 (unat bshift) = Some (2 ^ unat bshift)" using sh by (simp add: int_shl1_def)
  have past: "int_of_size (int (length f)) \<le> sint off"
    using int_of_size_big [OF big] order_trans [OF less_imp_le, of _ 0 "uint off"]
    by (simp add: sint_small [OF off(2)])
  show ?thesis
  proof (cases "\<exists>r. res = Some r \<and> r_errcode r = 0")
    case False
    then have "\<exists>st out. st \<noteq> 0 \<and> rpc_read svc oid off sz pos buf ra eof bshift at w
        = Some (st, out, (get_client w)\<lparr>w_srv := s'\<rparr>)"
      using sh(1) by (cases res) (simp_all add: rpc_read_def blk al call)
    with keep show ?thesis by blast
  next
    case True
    then obtain r where r: "res = Some r" "r_errcode r = 0" by blast
    have "rpc_read svc oid off sz pos buf ra eof bshift at w
        = Some (KURMA_OKAY, (buf, 0, True, map_option (fsal_view (r_new_attrs r)) at),
            (get_client w)\<lparr>w_srv := s'\<rparr>)"
      using sh(1) ok [OF r] past by (simp add: rpc_read_def blk al call r opt_fsal_attrs_wf)
    with keep show ?thesis by blast
  qed
qed

lemma rmw_prepare_blind:
  assumes rd: "rd oa 0 ba 0 False w = Some (0, (ba, 0, True, at), w')"
    and cnt: "get_block_count sz (ucast bshift) = Some 1"
    and om: "0 < unat om" "unat om + unat n = length ba" "unat n \<le> length data" "unat om + unat n < 2 ^ 64"
  shows "rmw_prepare rd oa om sz bshift bsz n data ba w
    = Some (KURMA_OKAY, replicate (unat om) 0 @ take (unat n) data, om + n, w')"
proof -
  let ?z = "overlay 0 (replicate (unat om) 0) ba"
  have z: "store_bytes 0 (replicate (unat om) 0) ba = Some ?z" "length ?z = length ba"
    using om by (simp_all add: store_bytes_def length_overlay)
  have "store_bytes (unat om) (take (unat n) data) ?z = Some (replicate (unat om) 0 @ take (unat n) data)"
    using om z(2) by (simp add: store_bytes_def overlay_def)
  moreover have "load_bytes 0 (unat n) data = Some (take (unat n) data)"
    using om by (simp add: load_bytes_def)
  moreover have "0 < om" using om(1) by (simp add: word_less_nat_alt)
  ultimately show ?thesis
    using z(1) by (simp add: rmw_prepare_def rd cnt)
qed


section \<open>Examples\<close>

text \<open>A server that keeps its files in a function, with two-byte blocks.\<close>

definition mem_attrs :: "bytes \<Rightarrow> ObjectAttributes" where
  "mem_attrs f = new_object_attributes\<lparr>k_filesize := Some (int (length f)), k_block_shift := Some 1\<rparr>"

definition mem_service :: "(ObjectID \<Rightarrow> bytes) kurma_service" where
  "mem_service = null_service\<lparr>
     svc_write := (\<lambda>sid oid off data s. let f = file_write (unat off) data (s oid) in
       (Some (new_kurma_result\<lparr>r_new_attrs := mem_attrs f\<rparr>), s(oid := f))),
     svc_read := (\<lambda>sid oid off len s.
       (Some (new_kurma_result\<lparr>r_new_attrs := mem_attrs (s oid),
          r_file_data := Some (file_read (unat off) (unat len) (s oid))\<rparr>), s))\<rparr>"

lemma mem_attrs_wf [simp]: "kattrs_wf (mem_attrs f)"
  by (simp add: mem_attrs_def kattrs_wf_def new_object_attributes_def)

lemma mem_attrs_simps [simp]:
  "k_filesize (mem_attrs f) = Some (int (length f))" "k_block_shift (mem_attrs f) = Some 1"
  by (simp_all add: mem_attrs_def)

lemma mem_service_reads: "reads_blocks mem_service (\<lambda>s. s) sh"
  by (auto simp: reads_blocks_def mem_service_def)

lemma mem_service_writes: "writes_blocks mem_service (\<lambda>s. s) sh"
  by (auto simp: writes_blocks_def mem_service_def Let_def)

definition sample_handle :: kurma_fsal_obj_handle where
  "sample_handle = \<lparr>kh_type = REGULAR_FILE, kh_attrs = zero_attrs\<lparr>a_filesize := 5\<rparr>, kh_opaque = [],
     kh_block_shift = 1, kh_oid = new_object_id, kh_openflags = 0, kh_parent = None, kh_name = [],
     kh_snapshot_id = 0, kh_snapshot_count = 0, kh_attrs_timestamp = 0\<rparr>"

lemma sample_handle_simps [simp]:
  "kh_block_shift sample_handle = 1" "kh_snapshot_id sample_handle = 0"
  "get_filesize sample_handle = 5" "kh_oid sample_handle = new_object_id"
  by (simp_all add: sample_handle_def get_filesize_def)

theorem kurma_write_correct_witness:
  "\<exists>stat khdl' w'. kurma_write mem_service sample_handle 1 3 [1, 2, 3] 0 False
       (fresh_world (\<lambda>_. [9, 9, 9, 9, 9])) = Some (stat, (khdl', 3, True), w')
    \<and> st_major stat = ERR_FSAL_NO_ERROR \<and> w_srv w' new_object_id = [9, 1, 2, 3, 9]"
proof -
  let ?w = "fresh_world (\<lambda>_. [9, 9, 9, 9, 9])"
  have "case kurma_write mem_service sample_handle 1 3 [1, 2, 3] 0 False ?w of
      None \<Rightarrow> False | Some (stat, _) \<Rightarrow> st_major stat = ERR_FSAL_NO_ERROR"
    by code_simp
  then show ?thesis
    using kurma_write_correct [OF mem_service_reads mem_service_writes, of sample_handle 3 1 ?w
        "[9, 9, 9, 9, 9]" "[1, 2, 3]" 1 0 False]
    by (auto simp: write_block_shift_def fresh_world_def file_write_def)
qed


theorem snapshot_io_refused_witness:
  "kurma_write mem_service (sample_handle\<lparr>kh_snapshot_id := 7\<rparr>) 0 1 [1] 0 False (fresh_world (\<lambda>_. []))
    = Some (fsalstat ERR_FSAL_PERM 0, (sample_handle\<lparr>kh_snapshot_id := 7\<rparr>, 0, False),
        fresh_world (\<lambda>_. []))"
  using snapshot_io_refused [of "sample_handle\<lparr>kh_snapshot_id := 7\<rparr>" mem_service _
      "fresh_world (\<lambda>_. [])" 0 1 "[1]" 0 False 0 False] by simp

lemma mem_write_big_ok:
  assumes "2 ^ 31 \<le> length f" "length f < 2 ^ 32"
  shows "\<exists>khdl' wa' fs' w'. kurma_write mem_service sample_handle 1 1 [7] 0 False (fresh_world (\<lambda>_. f))
    = Some (fsalstat ERR_FSAL_NO_ERROR 0, (khdl', wa', fs'), w')"
  using int_of_size_big [OF assms]
  by (simp add: kurma_write_def is_snapshot_obj_def write_block_shift_def int_shl1_def round_down_def
      round_up_def w_draw_def draw_defs sample_oracle_def fresh_world_def rmw_prepare_def
      get_block_count_def rpc_read_def is_aligned_def rpc_call_def mem_service_def null_service_def
      new_kurma_result_def opt_fsal_attrs_def store_bytes_def load_bytes_def overlay_def
      kurma_write_finish_def rpc_write_def Let_def kurma_result_to_fsal_attrs_def
      kurma_attrs_to_fsal_eq upt_conv_Cons get_client_def result_block_shift_def split: prod.splits)


end
