(* ===== verification/Kurma_Handle.thy ===== *)
theory Kurma_Handle
  imports Kurma_File
begin

text \<open>
  The object handle operations of \<^verbatim>\<open>FSAL_KURMA/handle.c\<close>: the table of live handles, lookup,
  creation, directories, snapshots, attributes, removal and the conversion between
  handles and wire handles.
\<close>

section \<open>State\<close>

text \<open>
  The client state of \<^verbatim>\<open>kurma.c\<close> extended by the heap of handles (\<open>w_next\<close> is the next address
  the allocator returns), the list \<^verbatim>\<open>fsal->handles\<close>, the file-scope and thread-local
  variables of \<^verbatim>\<open>handle.c\<close>, the caller's credentials, the export, and the calls made to
  \<^verbatim>\<open>up_ops->invalidate\<close>, newest first (\<open>True\<close> when the contents are invalidated too).
\<close>

record 's kurma_world = "'s rpc_world" +
  w_handles :: "nat \<rightharpoonup> kurma_fsal_obj_handle"
  w_next :: nat
  w_list :: "nat list"
  w_inode_number :: u64
  w_deleted_id1 :: u64
  w_deleted_id2 :: u64
  w_deleted_creator :: u16
  w_snapshot_enabled :: bool
  w_creds :: user_cred
  w_export_path :: string
  w_root_handle :: "nat option"
  w_invalidated :: "(bytes \<times> bool) list"

definition put_handle ::
    "nat \<Rightarrow> kurma_fsal_obj_handle \<Rightarrow> ('s, 'b) kurma_world_scheme \<Rightarrow> ('s, 'b) kurma_world_scheme" where
  "put_handle h k w = w\<lparr>w_handles := (w_handles w)(h \<mapsto> k)\<rparr>"

text \<open>\<^verbatim>\<open>kurma_try_update_attributes\<close> and the I/O operations on a handle of the table.\<close>

definition try_update_handle ::
    "nat \<Rightarrow> attrlist \<Rightarrow> ('s, 'b) kurma_world_scheme \<Rightarrow> ('s, 'b) kurma_world_scheme option" where
  "try_update_handle h attrs w = do {
     k \<leftarrow> w_handles w h;
     let (k, w) = kurma_try_update_attributes k attrs w;
     Some (put_handle h k w) }"

section \<open>Allocation\<close>

definition calloc_handle :: "ObjectID \<Rightarrow> kurma_fsal_obj_handle" where
  "calloc_handle oid = \<lparr>kh_type = 0, kh_attrs = zero_attrs, kh_opaque = replicate V4_FH_OPAQUE_SIZE 0,
     kh_block_shift = 0, kh_oid = oid, kh_openflags = 0, kh_parent = None, kh_name = [],
     kh_snapshot_id = 0, kh_snapshot_count = 0, kh_attrs_timestamp = 0\<rparr>"

definition alloc_handle ::
    "nat option \<Rightarrow> string \<Rightarrow> ObjectID \<Rightarrow> attrlist option \<Rightarrow> u32 \<Rightarrow> ('s, 'b) kurma_world_scheme
      \<Rightarrow> (nat option \<times> ('s, 'b) kurma_world_scheme) option" where
  "alloc_handle parent name oid attrs snapshot_id w = do {
     let (ok, w) = w_draw draw_malloc w;
     if \<not> ok then Some (None, w)
     else do {
       let (ok, w) = w_draw draw_malloc w;
       if \<not> ok then Some (None, w)
       else do {
         let khdl = (calloc_handle oid)\<lparr>kh_parent := parent, kh_name := name,
                                        kh_snapshot_id := snapshot_id\<rparr>;
         opaque \<leftarrow> package_kurma_handle (kh_opaque khdl) oid snapshot_id;
         let khdl = khdl\<lparr>kh_opaque := opaque, kh_type := extract_object_type oid\<rparr>;
         let h = w_next w;
         let w = w\<lparr>w_next := Suc h, w_list := h # w_list w\<rparr>;
         let (khdl, inode, orc) = set_default_attrs (w_creds w) khdl (w_inode_number w) (w_orc w);
         let w = w\<lparr>w_inode_number := inode, w_orc := orc\<rparr>;
         let khdl = (case attrs of None \<Rightarrow> khdl | Some a \<Rightarrow> set_attrs_override khdl a);
         let khdl = khdl\<lparr>kh_openflags := FSAL_O_CLOSED\<rparr>;
         Some (Some h, put_handle h khdl w) } } }"

section \<open>Snapshot directory names\<close>

definition SNAPSHOT_DIR_PREFIX :: string where
  "SNAPSHOT_DIR_PREFIX = ''._KURMA_SNAPSHOTS_''"

definition NAME_MAX :: nat where "NAME_MAX = 255"

definition get_snapshot_filename :: "string \<Rightarrow> string" where
  "get_snapshot_filename dirname = drop (length SNAPSHOT_DIR_PREFIX) dirname"

definition is_snapshot_dirname :: "string \<Rightarrow> bool" where
  "is_snapshot_dirname name \<longleftrightarrow>
     length name > length SNAPSHOT_DIR_PREFIX
     \<and> take (length SNAPSHOT_DIR_PREFIX) name = SNAPSHOT_DIR_PREFIX"

text \<open>The buffer has \<^verbatim>\<open>NAME_MAX\<close> bytes; the string is stored with its terminator.\<close>

definition get_snapshot_dirname :: "string \<Rightarrow> string option" where
  "get_snapshot_dirname filename =
     (if length SNAPSHOT_DIR_PREFIX + length filename + 1 \<le> NAME_MAX
      then Some (SNAPSHOT_DIR_PREFIX @ filename) else None)"

section \<open>Invalidation\<close>

definition invalidate_dir_contents ::
    "nat \<Rightarrow> ('s, 'b) kurma_world_scheme \<Rightarrow> ('s, 'b) kurma_world_scheme option" where
  "invalidate_dir_contents h w = do {
     k \<leftarrow> w_handles w h;
     Some (w\<lparr>w_invalidated := (kh_opaque k, True) # w_invalidated w\<rparr>) }"

definition invalidate_object_attributes ::
    "ObjectID \<Rightarrow> u32 \<Rightarrow> ('s, 'b) kurma_world_scheme \<Rightarrow> ('s, 'b) kurma_world_scheme option" where
  "invalidate_object_attributes oid snapshot_id w = do {
     let (buf, w) = w_draw (draw_garbage V4_FH_OPAQUE_SIZE) w;
     buf \<leftarrow> package_kurma_handle buf oid snapshot_id;
     Some (w\<lparr>w_invalidated := (buf, False) # w_invalidated w\<rparr>) }"

section \<open>Lookup\<close>

definition handle_is :: "kurma_fsal_obj_handle \<Rightarrow> object_file_type_t \<Rightarrow> bool" where
  "handle_is k ty \<longleftrightarrow> kh_type k = ty"

text \<open>
  The source of the object a lookup finds (lines 403 to 443): the status, the identifier,
  the attributes, the snapshot id and the block shift.
\<close>

definition lookup_object ::
    "'s kurma_service \<Rightarrow> kurma_fsal_obj_handle \<Rightarrow> string \<Rightarrow> ('s, 'b) kurma_world_scheme
      \<Rightarrow> (kurma_st \<times> (ObjectID \<times> attrlist \<times> u32 \<times> u32) \<times> ('s, 'b) kurma_world_scheme) option" where
  "lookup_object svc dir name w =
     (if is_snapshot_dir (kh_snapshot_id dir) then
        (if name = ''..'' then do {
           p \<leftarrow> kh_parent dir;
           pk \<leftarrow> w_handles w p;
           Some (KURMA_OKAY, (copy_object_id new_object_id (kh_oid pk), kh_attrs pk, 0, 0), w) }
         else if name = ''.'' then
           Some (KURMA_OKAY, (copy_object_id new_object_id (kh_oid dir), kh_attrs dir, SNAPSHOT_DIR, 0), w)
         else do {
           (st, (sid, oid, attrs), w) \<leftarrow>
             rpc_lookup_snapshot svc (kh_oid dir) (Some name) (Some 0) (Some new_object_id) zero_attrs w;
           Some (st, (case oid of None \<Rightarrow> new_object_id | Some x \<Rightarrow> x, attrs,
                      case sid of None \<Rightarrow> 0 | Some x \<Rightarrow> x, 0), w) })
      else do {
        let (attrs, snapshot_id, real_name) =
          (if is_snapshot_dirname name
           then (zero_attrs\<lparr>a_mask := FSAL_SET_MASK 0 ATTR_TYPE, a_type := DIRECTORY\<rparr>,
                 SNAPSHOT_DIR, get_snapshot_filename name)
           else (zero_attrs, 0, name));
        (st, (oid, attrs, block_shift), w) \<leftarrow>
          rpc_lookup svc (Some (kh_oid dir)) real_name new_object_id (Some attrs) (Some 0) w;
        Some (st, (oid, the_attrs attrs, snapshot_id,
                   case block_shift of None \<Rightarrow> 0 | Some x \<Rightarrow> x), w) })"

definition kurma_lookup ::
    "'s kurma_service \<Rightarrow> nat \<Rightarrow> string \<Rightarrow> ('s, 'b) kurma_world_scheme
      \<Rightarrow> (fsal_status \<times> nat option \<times> ('s, 'b) kurma_world_scheme) option" where
  "kurma_lookup svc dir_hdl name w = do {
     dir \<leftarrow> w_handles w dir_hdl;
     if \<not> handle_is dir DIRECTORY then Some (fsalstat ERR_FSAL_NOTDIR 0, None, w)
     else do {
       let parent = (if name = ''.'' then kh_parent dir
                     else if name = ''..'' then None else Some dir_hdl);
       (st, (oid, attrs, snapshot_id, block_shift), w) \<leftarrow> lookup_object svc dir name w;
       if st \<noteq> KURMA_OKAY then Some (kurma_to_fsal_status st, None, w)
       else do {
         (res, w) \<leftarrow> alloc_handle parent name oid (Some attrs) snapshot_id w;
         case res of
           None \<Rightarrow> Some (fsalstat ERR_FSAL_NOMEM c_ENOMEM, None, w)
         | Some h \<Rightarrow> do {
             w \<leftarrow> try_update_handle h attrs w;
             k \<leftarrow> w_handles w h;
             let k = k\<lparr>kh_block_shift := block_shift\<rparr>;
             let k = (if is_snapshot_dirname name
                      then (set_snapshot_dir_attrs k)\<lparr>kh_snapshot_count :=
                             (if a_hints attrs AND KURMA_HINT_HAS_SNAPSHOTS \<noteq> 0 then - 1 else 0)\<rparr>
                      else k);
             Some (fsalstat ERR_FSAL_NO_ERROR 0, Some h, put_handle h k w) } } } }"

section \<open>Creation\<close>

text \<open>
  \<^verbatim>\<open>kurma_create\<close> also takes a snapshot when the directory is a snapshot directory.  The
  attributes are an input and an output parameter.
\<close>

definition kurma_create ::
    "'s kurma_service \<Rightarrow> nat \<Rightarrow> string \<Rightarrow> attrlist \<Rightarrow> ('s, 'b) kurma_world_scheme
      \<Rightarrow> (fsal_status \<times> (nat option \<times> attrlist) \<times> ('s, 'b) kurma_world_scheme) option" where
  "kurma_create svc dir_hdl name attrs w = do {
     dir \<leftarrow> w_handles w dir_hdl;
     if \<not> handle_is dir DIRECTORY then Some (fsalstat ERR_FSAL_NOTDIR 0, (None, attrs), w)
     else do {
       (st, (oid, attrs, snapshot_id), w) \<leftarrow>
         (if is_snapshot_dir (kh_snapshot_id dir) then do {
            let oid = copy_object_id new_object_id (kh_oid dir);
            (st, (sid, attrs), w) \<leftarrow> rpc_take_snapshot svc oid name (Some 0) attrs w;
            Some (st, (oid, attrs, case sid of None \<Rightarrow> 0 | Some x \<Rightarrow> x), w) }
          else do {
            (st, (attrs, oid), w) \<leftarrow> rpc_create svc (kh_oid dir) name attrs new_object_id w;
            Some (st, (oid, attrs, 0), w) });
       if st \<noteq> KURMA_OKAY then Some (kurma_to_fsal_status st, (None, attrs), w)
       else do {
         (res, w) \<leftarrow> alloc_handle (Some dir_hdl) name oid (Some attrs) snapshot_id w;
         case res of
           None \<Rightarrow> Some (fsalstat ERR_FSAL_NOMEM c_ENOMEM, (None, attrs), w)
         | Some h \<Rightarrow> do {
             w \<leftarrow> try_update_handle h attrs w;
             dir \<leftarrow> w_handles w dir_hdl;
             w \<leftarrow> (if is_snapshot_dir (kh_snapshot_id dir)
                   then Some (put_handle dir_hdl
                                (dir\<lparr>kh_snapshot_count := kh_snapshot_count dir + 1\<rparr>) w)
                   else if extract_object_type oid = REGULAR_FILE
                   then invalidate_dir_contents dir_hdl w
                   else Some w);
             Some (fsalstat ERR_FSAL_NO_ERROR 0, (Some h, attrs), w) } } } }"

definition kurma_makedir ::
    "'s kurma_service \<Rightarrow> nat \<Rightarrow> string \<Rightarrow> attrlist \<Rightarrow> ('s, 'b) kurma_world_scheme
      \<Rightarrow> (fsal_status \<times> (nat option \<times> attrlist) \<times> ('s, 'b) kurma_world_scheme) option" where
  "kurma_makedir svc dir_hdl name attrs w = do {
     dir \<leftarrow> w_handles w dir_hdl;
     if \<not> handle_is dir DIRECTORY then Some (fsalstat ERR_FSAL_NOTDIR 0, (None, attrs), w)
     else if is_snapshot_obj (kh_snapshot_id dir)
     then Some (fsalstat ERR_FSAL_PERM 0, (None, attrs), w)
     else do {
       (st, (attrs, oid), w) \<leftarrow> rpc_mkdir svc (kh_oid dir) name attrs new_object_id w;
       if st \<noteq> KURMA_OKAY then Some (kurma_to_fsal_status st, (None, attrs), w)
       else do {
         (res, w) \<leftarrow> alloc_handle (Some dir_hdl) name oid (Some attrs) 0 w;
         case res of
           None \<Rightarrow> Some (fsalstat ERR_FSAL_NOMEM c_ENOMEM, (None, attrs), w)
         | Some h \<Rightarrow> do {
             w \<leftarrow> try_update_handle h attrs w;
             Some (fsalstat ERR_FSAL_NO_ERROR 0, (Some h, attrs), w) } } } }"

definition kurma_makenode :: "nat \<Rightarrow> string \<Rightarrow> fsal_status" where
  "kurma_makenode dir_hdl name = fsalstat ERR_FSAL_NOTSUPP c_ENOTSUP"

definition kurma_link :: "nat \<Rightarrow> nat \<Rightarrow> string \<Rightarrow> fsal_status" where
  "kurma_link obj_hdl destdir_hdl name = fsalstat ERR_FSAL_NOTSUPP c_ENOTSUP"

text \<open>The I/O operations of \<open>Kurma_File\<close> applied to a handle of the table.\<close>

definition handle_open ::
    "'s kurma_service \<Rightarrow> nat \<Rightarrow> u16 \<Rightarrow> ('s, 'b) kurma_world_scheme
      \<Rightarrow> (fsal_status \<times> ('s, 'b) kurma_world_scheme) option" where
  "handle_open svc h flags w = do {
     k \<leftarrow> w_handles w h;
     (st, k, w) \<leftarrow> kurma_open svc k flags w;
     Some (st, put_handle h k w) }"

definition handle_close ::
    "'s kurma_service \<Rightarrow> nat \<Rightarrow> ('s, 'b) kurma_world_scheme
      \<Rightarrow> (fsal_status \<times> ('s, 'b) kurma_world_scheme) option" where
  "handle_close svc h w = do {
     k \<leftarrow> w_handles w h;
     (st, k, w) \<leftarrow> kurma_close svc k w;
     Some (st, put_handle h k w) }"

definition handle_read ::
    "'s kurma_service \<Rightarrow> nat \<Rightarrow> u64 \<Rightarrow> u64 \<Rightarrow> bytes \<Rightarrow> u64 \<Rightarrow> bool \<Rightarrow> ('s, 'b) kurma_world_scheme
      \<Rightarrow> (fsal_status \<times> (bytes \<times> u64 \<times> bool) \<times> ('s, 'b) kurma_world_scheme) option" where
  "handle_read svc h off n buf ra eof w = do {
     k \<leftarrow> w_handles w h;
     (st, (k, buf, ra, eof), w) \<leftarrow> kurma_read svc k off n buf ra eof w;
     Some (st, (buf, ra, eof), put_handle h k w) }"

definition handle_write ::
    "'s kurma_service \<Rightarrow> nat \<Rightarrow> u64 \<Rightarrow> u64 \<Rightarrow> bytes \<Rightarrow> u64 \<Rightarrow> bool \<Rightarrow> ('s, 'b) kurma_world_scheme
      \<Rightarrow> (fsal_status \<times> (u64 \<times> bool) \<times> ('s, 'b) kurma_world_scheme) option" where
  "handle_write svc h off n buf wa fs w = do {
     k \<leftarrow> w_handles w h;
     (st, (k, wa, fs), w) \<leftarrow> kurma_write svc k off n buf wa fs w;
     Some (st, (wa, fs), put_handle h k w) }"

definition bytes_of_string :: "string \<Rightarrow> bytes" where
  "bytes_of_string s = map (\<lambda>c. of_nat (of_char c)) s"

definition kurma_makesymlink ::
    "'s kurma_service \<Rightarrow> nat \<Rightarrow> string \<Rightarrow> string \<Rightarrow> attrlist \<Rightarrow> ('s, 'b) kurma_world_scheme
      \<Rightarrow> (fsal_status \<times> (nat option \<times> attrlist) \<times> ('s, 'b) kurma_world_scheme) option" where
  "kurma_makesymlink svc dir_hdl name link_path attrib w = do {
     dir \<leftarrow> w_handles w dir_hdl;
     if is_snapshot_obj (kh_snapshot_id dir) then Some (fsalstat ERR_FSAL_PERM 0, (None, attrib), w)
     else do {
       let attrib = attrib\<lparr>a_hints := a_hints attrib OR KURMA_HINT_SYMLINK\<rparr>;
       (ret, (handle, attrib), w) \<leftarrow> kurma_create svc dir_hdl name attrib w;
       if st_major ret \<noteq> ERR_FSAL_NO_ERROR then Some (ret, (handle, attrib), w)
       else do {
         h \<leftarrow> handle;
         (ret, w) \<leftarrow> handle_open svc h FSAL_O_RDWR w;
         if st_major ret \<noteq> ERR_FSAL_NO_ERROR then Some (ret, (handle, attrib), w)
         else do {
           (ret, _, w) \<leftarrow> handle_write svc h 0 (of_nat (length link_path))
             (bytes_of_string link_path) 0 False w;
           (_, w) \<leftarrow> handle_close svc h w;
           Some (ret, (handle, attrib), w) } } } }"

text \<open>
  \<^verbatim>\<open>kurma_readsymlink\<close> passes the address of the buffer descriptor itself, which has 16 bytes,
  as the buffer to read into; \<open>desc\<close> are these bytes.
\<close>

definition sizeof_gsh_buffdesc :: nat where "sizeof_gsh_buffdesc = 16"

definition kurma_readsymlink ::
    "'s kurma_service \<Rightarrow> nat \<Rightarrow> bytes \<Rightarrow> ('s, 'b) kurma_world_scheme
      \<Rightarrow> (fsal_status \<times> bytes \<times> ('s, 'b) kurma_world_scheme) option" where
  "kurma_readsymlink svc h desc w = do {
     k \<leftarrow> w_handles w h;
     if is_snapshot_obj (kh_snapshot_id k) then Some (fsalstat ERR_FSAL_PERM 0, desc, w)
     else do {
       (ret, w) \<leftarrow> handle_open svc h FSAL_O_RDWR w;
       if st_major ret \<noteq> ERR_FSAL_NO_ERROR then Some (ret, desc, w)
       else do {
         (ret, (desc, _, _), w) \<leftarrow> handle_read svc h 0 1024 desc 0 False w;
         (_, w) \<leftarrow> handle_close svc h w;
         Some (ret, desc, w) } } }"

section \<open>Directories\<close>

text \<open>
  The callback is a parameter: it gets the name, its own state and the world (it looks the
  name up) and says whether to go on.  The loop answers whether it saw all entries.
\<close>

type_synonym ('d, 'w) readdir_cb = "string \<Rightarrow> 'd \<Rightarrow> 'w \<Rightarrow> (bool \<times> 'd \<times> 'w) option"

primrec readdir_loop ::
    "('d, ('s, 'b) kurma_world_scheme) readdir_cb \<Rightarrow> bool \<Rightarrow> DirEntry list \<Rightarrow> 'd
      \<Rightarrow> ('s, 'b) kurma_world_scheme \<Rightarrow> (bool \<times> 'd \<times> ('s, 'b) kurma_world_scheme) option" where
  "readdir_loop cb listing [] d w = Some (True, d, w)"
| "readdir_loop cb listing (dentry # es) d w = do {
     (go, d, w) \<leftarrow> cb (de_name dentry) d w;
     if \<not> go then Some (False, d, w)
     else if w_snapshot_enabled w \<and> \<not> listing \<and> oid_type (de_oid dentry) = ucast REGULAR_FILE
     then do {
       let (ok, w) = w_draw draw_malloc w;
       c_assert ok;
       snapshot_dirname \<leftarrow> get_snapshot_dirname (de_name dentry);
       (go, d, w) \<leftarrow> cb snapshot_dirname d w;
       if \<not> go then Some (False, d, w) else readdir_loop cb listing es d w }
     else readdir_loop cb listing es d w }"

definition kurma_readdir ::
    "'s kurma_service \<Rightarrow> ('d, ('s, 'b) kurma_world_scheme) readdir_cb \<Rightarrow> nat \<Rightarrow> 'd
      \<Rightarrow> ('s, 'b) kurma_world_scheme
      \<Rightarrow> (fsal_status \<times> (bool \<times> 'd) \<times> ('s, 'b) kurma_world_scheme) option" where
  "kurma_readdir svc cb dir_hdl d w = do {
     dir \<leftarrow> w_handles w dir_hdl;
     let listing_snapshots = is_snapshot_dir (kh_snapshot_id dir);
     if listing_snapshots \<and> kh_snapshot_count dir = 0
     then Some (fsalstat ERR_FSAL_NO_ERROR 0, (True, d), w)
     else do {
       (st, (result, attrs), w) \<leftarrow>
         (if listing_snapshots then rpc_list_snapshots svc (kh_oid dir) (Some zero_attrs) w
          else rpc_listdir svc (kh_oid dir) (Some zero_attrs) w);
       if st \<noteq> KURMA_OKAY then Some (kurma_to_fsal_status st, (True, d), w)
       else do {
         w \<leftarrow> try_update_handle dir_hdl (the_attrs attrs) w;
         dir \<leftarrow> w_handles w dir_hdl;
         let w = put_handle dir_hdl
                   (dir\<lparr>kh_snapshot_count := of_nat (length (r_dir_data result))\<rparr>) w;
         (eof, d, w) \<leftarrow> readdir_loop cb listing_snapshots (r_dir_data result) d w;
         Some (kurma_to_fsal_status st, (eof, d), w) } } }"

section \<open>Rename and restore\<close>

definition kurma_restore_snapshot ::
    "'s kurma_service \<Rightarrow> nat \<Rightarrow> string \<Rightarrow> nat \<Rightarrow> string \<Rightarrow> ('s, 'b) kurma_world_scheme
      \<Rightarrow> (fsal_status \<times> ('s, 'b) kurma_world_scheme) option" where
  "kurma_restore_snapshot svc src_dir old_name dst_dir new_name w = do {
     src \<leftarrow> w_handles w src_dir;
     dst \<leftarrow> w_handles w dst_dir;
     (st, (oid, attrs, _), w) \<leftarrow>
       rpc_lookup svc (Some (kh_oid dst)) new_name new_object_id (Some zero_attrs) None w;
     if st \<noteq> KURMA_OKAY then Some (kurma_to_fsal_status st, w)
     else if \<not> is_same_file (kh_oid src) oid then Some (fsalstat ERR_FSAL_INVAL 0, w)
     else do {
       (st, _, w) \<leftarrow> rpc_restore_snapshot svc oid old_name None (the_attrs attrs) w;
       if st \<noteq> KURMA_OKAY then Some (kurma_to_fsal_status st, w)
       else do {
         w \<leftarrow> invalidate_object_attributes oid 0 w;
         w \<leftarrow> invalidate_dir_contents src_dir w;
         Some (fsalstat ERR_FSAL_EXIST 0, w) } } }"

definition kurma_rename ::
    "'s kurma_service \<Rightarrow> nat \<Rightarrow> string \<Rightarrow> nat \<Rightarrow> string \<Rightarrow> ('s, 'b) kurma_world_scheme
      \<Rightarrow> (fsal_status \<times> ('s, 'b) kurma_world_scheme) option" where
  "kurma_rename svc olddir_hdl old_name newdir_hdl new_name w = do {
     src \<leftarrow> w_handles w olddir_hdl;
     dst \<leftarrow> w_handles w newdir_hdl;
     if is_snapshot_dir (kh_snapshot_id src)
     then kurma_restore_snapshot svc olddir_hdl old_name newdir_hdl new_name w
     else do {
       (st, attrs, w) \<leftarrow>
         rpc_rename svc (kh_oid src) old_name (kh_oid dst) new_name (Some zero_attrs) w;
       w \<leftarrow> try_update_handle newdir_hdl (the_attrs attrs) w;
       Some (kurma_to_fsal_status st, w) } }"

section \<open>Attributes\<close>

definition is_deleted_obj :: "ObjectID \<Rightarrow> ('s, 'b) kurma_world_scheme \<Rightarrow> bool" where
  "is_deleted_obj oid w \<longleftrightarrow>
     id1 oid = w_deleted_id1 w \<and> id2 oid = w_deleted_id2 w \<and> creator oid = w_deleted_creator w"

definition kurma_getattrs ::
    "'s kurma_service \<Rightarrow> nat \<Rightarrow> ('s, 'b) kurma_world_scheme
      \<Rightarrow> (fsal_status \<times> ('s, 'b) kurma_world_scheme) option" where
  "kurma_getattrs svc h w = do {
     k \<leftarrow> w_handles w h;
     let (t, w) = w_draw draw_time w;
     if t - kh_attrs_timestamp k \<le> KURMA_ATTRS_EXPIRE_SEC
     then Some (kurma_to_fsal_status KURMA_OKAY, w)
     else if is_deleted_obj (kh_oid k) w
     then Some (kurma_to_fsal_status KURMA_ERROR_OBJECT_NOT_FOUND, w)
     else do {
       (st, (attrs, block_shift, snapshot_id), w) \<leftarrow>
         (if is_snapshot_obj (kh_snapshot_id k) \<and> kh_type k \<noteq> DIRECTORY then do {
            (st, (sid, _, attrs), w) \<leftarrow>
              rpc_lookup_snapshot svc (kh_oid k) None (Some (kh_snapshot_id k)) None zero_attrs w;
            Some (st, (attrs, 0, case sid of None \<Rightarrow> 0 | Some x \<Rightarrow> x), w) }
          else do {
            (st, (attrs, block_shift), w) \<leftarrow> rpc_getattrs svc (kh_oid k) zero_attrs (Some 0) w;
            Some (st, (attrs, case block_shift of None \<Rightarrow> 0 | Some x \<Rightarrow> x, kh_snapshot_id k), w) });
       if st \<noteq> KURMA_OKAY then Some (kurma_to_fsal_status st, put_handle h (k\<lparr>kh_snapshot_id := snapshot_id\<rparr>) w)
       else do {
         let (t, w) = w_draw draw_time w;
         let k = k\<lparr>kh_snapshot_id := snapshot_id, kh_attrs_timestamp := t\<rparr>;
         let k = (set_attrs_override k attrs)\<lparr>kh_block_shift := block_shift\<rparr>;
         let k = (if is_snapshot_dir (kh_snapshot_id k)
                  then (set_snapshot_dir_attrs k)\<lparr>kh_snapshot_count := - 1\<rparr> else k);
         Some (kurma_to_fsal_status st, put_handle h k w) } } }"

definition kurma_setattrs ::
    "'s kurma_service \<Rightarrow> nat \<Rightarrow> attrlist \<Rightarrow> ('s, 'b) kurma_world_scheme
      \<Rightarrow> (fsal_status \<times> attrlist \<times> ('s, 'b) kurma_world_scheme) option" where
  "kurma_setattrs svc h attrs w = do {
     k \<leftarrow> w_handles w h;
     if is_snapshot_obj (kh_snapshot_id k) then Some (fsalstat ERR_FSAL_PERM 0, attrs, w)
     else do {
       (st, attrs, w) \<leftarrow> rpc_setattrs svc (kh_oid k) attrs w;
       let w = (if st = KURMA_OKAY then put_handle h (set_attrs_override k attrs) w else w);
       w \<leftarrow> try_update_handle h attrs w;
       Some (kurma_to_fsal_status st, attrs, w) } }"

section \<open>Removal\<close>

definition kurma_unlink ::
    "'s kurma_service \<Rightarrow> nat \<Rightarrow> string \<Rightarrow> ('s, 'b) kurma_world_scheme
      \<Rightarrow> (fsal_status \<times> ('s, 'b) kurma_world_scheme) option" where
  "kurma_unlink svc dir_hdl name w = do {
     dir \<leftarrow> w_handles w dir_hdl;
     if is_snapshot_dirname name then Some (fsalstat ERR_FSAL_NO_ERROR 0, w)
     else do {
       let snap = is_snapshot_dir (kh_snapshot_id dir);
       (st, (oid, attrs), w) \<leftarrow>
         (if snap then do {
            (st, attrs, w) \<leftarrow> rpc_delete_snapshot svc (kh_oid dir) name (Some zero_attrs) w;
            Some (st, (Some new_object_id, attrs), w) }
          else rpc_unlink svc (kh_oid dir) name (Some new_object_id) (Some zero_attrs) w);
       if st \<noteq> KURMA_OKAY then Some (kurma_to_fsal_status st, w)
       else do {
         oid \<leftarrow> oid;
         let w = (if snap then w
                  else w\<lparr>w_deleted_id1 := id1 oid, w_deleted_id2 := id2 oid,
                         w_deleted_creator := creator oid\<rparr>);
         w \<leftarrow> try_update_handle dir_hdl (the_attrs attrs) w;
         w \<leftarrow> (if \<not> w_snapshot_enabled w then Some w
               else if snap then do {
                 dir \<leftarrow> w_handles w dir_hdl;
                 Some (put_handle dir_hdl (dir\<lparr>kh_snapshot_count := kh_snapshot_count dir - 1\<rparr>) w) }
               else if extract_object_type oid = REGULAR_FILE
               then invalidate_dir_contents dir_hdl w
               else Some w);
         Some (kurma_to_fsal_status st, w) } } }"

section \<open>Wire handles\<close>

datatype fsal_digesttype_t = FSAL_DIGEST_NFSV3 | FSAL_DIGEST_NFSV4

text \<open>
  A buffer descriptor is the buffer and the length field; the copy needs a buffer of the
  claimed length.
\<close>

definition handle_digest ::
    "kurma_fsal_obj_handle \<Rightarrow> fsal_digesttype_t \<Rightarrow> bytes \<Rightarrow> nat \<Rightarrow> (fsal_status \<times> bytes \<times> nat) option" where
  "handle_digest khdl output_type addr len =
     (if len < V4_FH_OPAQUE_SIZE then Some (fsalstat ERR_FSAL_TOOSMALL 0, addr, len)
      else do {
        data \<leftarrow> load_bytes 0 V4_FH_OPAQUE_SIZE (kh_opaque khdl);
        addr \<leftarrow> store_bytes 0 data addr;
        Some (fsalstat ERR_FSAL_NO_ERROR 0, addr, V4_FH_OPAQUE_SIZE) })"

definition handle_to_key :: "kurma_fsal_obj_handle \<Rightarrow> bytes" where
  "handle_to_key khdl = take V4_FH_OPAQUE_SIZE (kh_opaque khdl)"

definition kurma_release ::
    "nat \<Rightarrow> ('s, 'b) kurma_world_scheme \<Rightarrow> ('s, 'b) kurma_world_scheme option" where
  "kurma_release h w = do {
     k \<leftarrow> w_handles w h;
     Some (w\<lparr>w_list := remove1 h (w_list w), w_handles := (w_handles w)(h := None)\<rparr>) }"

definition kurma_lookup_path ::
    "'s kurma_service \<Rightarrow> string \<Rightarrow> ('s, 'b) kurma_world_scheme
      \<Rightarrow> (fsal_status \<times> nat option \<times> ('s, 'b) kurma_world_scheme) option" where
  "kurma_lookup_path svc path w =
     (if path \<noteq> w_export_path w then Some (fsalstat ERR_FSAL_NOENT c_ENOENT, None, w)
      else case w_root_handle w of
        Some h \<Rightarrow> Some (fsalstat ERR_FSAL_NO_ERROR 0, Some h, w)
      | None \<Rightarrow> do {
          (st, (oid, _, _), w) \<leftarrow> rpc_lookup svc None path new_object_id None None w;
          if st \<noteq> KURMA_OKAY then Some (kurma_to_fsal_status st, None, w)
          else do {
            (res, w) \<leftarrow> alloc_handle None (w_export_path w) oid None 0 w;
            let w = w\<lparr>w_root_handle := res\<rparr>;
            case res of
              None \<Rightarrow> Some (fsalstat ERR_FSAL_NOMEM c_ENOMEM, None, w)
            | Some h \<Rightarrow> Some (fsalstat ERR_FSAL_NO_ERROR 0, Some h, w) } })"

text \<open>The search through \<^verbatim>\<open>fsal->handles\<close>; a list element that is not live is a dangling pointer.\<close>

fun find_handle :: "(nat \<rightharpoonup> kurma_fsal_obj_handle) \<Rightarrow> bytes \<Rightarrow> nat list \<Rightarrow> nat option option" where
  "find_handle hs key [] = Some None"
| "find_handle hs key (h # hl) = do {
     k \<leftarrow> hs h;
     if kh_opaque k = key then Some (Some h) else find_handle hs key hl }"

definition kurma_create_handle ::
    "bytes \<Rightarrow> ('s, 'b) kurma_world_scheme
      \<Rightarrow> (fsal_status \<times> nat option \<times> ('s, 'b) kurma_world_scheme) option" where
  "kurma_create_handle hdl_desc w =
     (if length hdl_desc \<noteq> V4_FH_OPAQUE_SIZE then Some (fsalstat ERR_FSAL_BADHANDLE 0, None, w)
      else do {
        found \<leftarrow> find_handle (w_handles w) hdl_desc (w_list w);
        case found of
          Some h \<Rightarrow> Some (fsalstat ERR_FSAL_NO_ERROR 0, Some h, w)
        | None \<Rightarrow> do {
            (oid, snapshot_id) \<leftarrow> extract_kurma_handle hdl_desc new_object_id;
            (res, w) \<leftarrow> alloc_handle None ''RECOVERED_HANDLE'' oid None 0 w;
            case res of
              None \<Rightarrow> Some (fsalstat ERR_FSAL_NOMEM c_ENOMEM, None, w)
            | Some h \<Rightarrow> Some (fsalstat ERR_FSAL_NO_ERROR 0, Some h, w) } })"

end
