(* ===== verification/Kurma_Handle_Inv.thy ===== *)
theory Kurma_Handle_Inv
  imports Kurma_Handle
begin

text \<open>
  The invariant of the table of handles: which parts of the state each operation leaves
  alone, that every operation keeps the table well-formed and every live handle on its
  object, and the step relation whose reachable worlds are the well-formed ones.
\<close>

section \<open>What the lower layers leave alone\<close>

text \<open>
  The wrappers of \<^verbatim>\<open>kurma.c\<close> and the I/O operations do not touch the handle table: they keep
  the extension of the client record.
\<close>

abbreviation keeps_more :: "('s, 'b) rpc_world_scheme \<Rightarrow> ('s, 'b) rpc_world_scheme \<Rightarrow> bool" where
  "keeps_more w w' \<equiv> rpc_world.more w' = rpc_world.more w"

lemma get_client_more [simp]: "rpc_world.more (get_client w) = rpc_world.more w"
  by (simp add: get_client_def)

lemma rpc_call_more: "rpc_call f w = (r, w') \<Longrightarrow> keeps_more w w'"
  by (auto simp: rpc_call_def split: prod.splits)

lemma with_status_more:
  assumes "with_status (rpc_call f w) outs k = Some (st, outs', w')"
  shows "keeps_more w w'"
proof -
  obtain res w1 where c: "rpc_call f w = (res, w1)" by force
  with assms have "w' = w1"
    by (cases res) (auto simp: with_status_def bind_eq_Some_conv split: if_splits)
  with rpc_call_more [OF c] show ?thesis by simp
qed

lemma w_draw_more: "w_draw f w = (a, w') \<Longrightarrow> keeps_more w w'"
  by (auto simp: w_draw_def split: prod.splits)

lemma rpc_simple_more:
  "rpc_lookup svc d p oid at bs w = Some (st, o1, w') \<Longrightarrow> keeps_more w w'"
  "rpc_getattrs svc oid at2 bs w = Some (st, o2, w') \<Longrightarrow> keeps_more w w'"
  "rpc_take_snapshot svc oid nm sid at2 w = Some (st, o3, w') \<Longrightarrow> keeps_more w w'"
  "rpc_lookup_snapshot svc oid nm2 sid oo at2 w = Some (st, o4, w') \<Longrightarrow> keeps_more w w'"
  "rpc_delete_snapshot svc oid nm at w = Some (st, o5, w') \<Longrightarrow> keeps_more w w'"
  "rpc_restore_snapshot svc oid nm sid at2 w = Some (st, o6, w') \<Longrightarrow> keeps_more w w'"
  "rpc_unlink svc oid nm oo at w = Some (st, o7, w') \<Longrightarrow> keeps_more w w'"
  "rpc_rename svc oid nm oid2 nm3 at w = Some (st, o8, w') \<Longrightarrow> keeps_more w w'"
  "rpc_open svc oid fl ch at w = Some (st, o9, w') \<Longrightarrow> keeps_more w w'"
  "rpc_close svc oid at w = Some (st, o10, w') \<Longrightarrow> keeps_more w w'"
  unfolding rpc_lookup_def rpc_getattrs_def rpc_take_snapshot_def rpc_lookup_snapshot_def
    rpc_delete_snapshot_def rpc_restore_snapshot_def rpc_unlink_def rpc_rename_def rpc_open_def
    rpc_close_def Let_def
  by (drule with_status_more, assumption)+

lemma rpc_list_more:
  "rpc_list_snapshots svc oid at w = Some (st, o1, w') \<Longrightarrow> keeps_more w w'"
  "rpc_listdir svc oid at w = Some (st, o1, w') \<Longrightarrow> keeps_more w w'"
  by (auto simp: rpc_list_snapshots_def rpc_listdir_def with_status_def bind_eq_Some_conv
      dest!: rpc_call_more split: prod.splits option.splits if_splits)

lemma rpc_send_more:
  "rpc_setattrs svc oid a w = Some (st, o1, w') \<Longrightarrow> keeps_more w w'"
  "rpc_mkdir svc oid nm a oid2 w = Some (st, o2, w') \<Longrightarrow> keeps_more w w'"
  "rpc_create svc oid nm a oid2 w = Some (st, o3, w') \<Longrightarrow> keeps_more w w'"
  unfolding rpc_setattrs_def rpc_mkdir_def rpc_create_def Let_def
  by (auto simp: bind_eq_Some_conv dest!: with_status_more)

lemma rpc_read_more:
  assumes "rpc_read svc oid off n pos buf ra eof bs at w = Some (st, outs, w')"
  shows "keeps_more w w'"
proof -
  obtain res w1 where c: "rpc_call (svc_read svc (w_sessionid w) oid off (ucast n)) w = (res, w1)"
    by force
  with assms have "w' = w1"
    by (cases res) (auto simp: rpc_read_def Let_def bind_eq_Some_conv split: if_splits)
  with rpc_call_more [OF c] show ?thesis by simp
qed

lemma rpc_write_more:
  assumes "rpc_write svc oid off n buf wa bs at w = Some (st, outs, w')"
  shows "keeps_more w w'"
proof -
  obtain data where d: "load_bytes 0 (unat n) buf = Some data"
    using assms by (auto simp: rpc_write_def bind_eq_Some_conv)
  obtain res w1 where c: "rpc_call (svc_write svc (w_sessionid w) oid off data) w = (res, w1)"
    by force
  with assms d have "w' = w1"
    by (cases res) (auto simp: rpc_write_def bind_eq_Some_conv split: if_splits)
  with rpc_call_more [OF c] show ?thesis by simp
qed

lemmas rpc_more = rpc_simple_more rpc_list_more rpc_send_more rpc_read_more rpc_write_more
  w_draw_more

section \<open>Keys and well-formed worlds\<close>

text \<open>
  The key of a handle is the wire form of its object and of a snapshot id, in a zeroed
  buffer.  A world is well-formed when the list holds exactly the live handles, each
  once, addresses are below the allocator's next one, and every live handle carries a key of its own
  object.
\<close>

definition key_of :: "ObjectID \<Rightarrow> u32 \<Rightarrow> bytes" where
  "key_of oid sid = enc_handle (handle_id oid sid) @ replicate (V4_FH_OPAQUE_SIZE - 24) 0"

definition handle_wf :: "kurma_fsal_obj_handle \<Rightarrow> bool" where
  "handle_wf k \<longleftrightarrow> (\<exists>sid. kh_opaque k = key_of (kh_oid k) sid)"

definition world_wf :: "('s, 'b) kurma_world_scheme \<Rightarrow> bool" where
  "world_wf w \<longleftrightarrow> distinct (w_list w) \<and> set (w_list w) = dom (w_handles w)
     \<and> (\<forall>h k. w_handles w h = Some k \<longrightarrow> h < w_next w \<and> handle_wf k)"

definition same_object :: "kurma_fsal_obj_handle \<Rightarrow> kurma_fsal_obj_handle \<Rightarrow> bool" where
  "same_object k k' \<longleftrightarrow> kh_oid k' = kh_oid k \<and> kh_opaque k' = kh_opaque k
     \<and> kh_parent k' = kh_parent k \<and> kh_name k' = kh_name k"

definition evolves :: "('s, 'b) kurma_world_scheme \<Rightarrow> ('s, 'b) kurma_world_scheme \<Rightarrow> bool" where
  "evolves w w' \<longleftrightarrow> (world_wf w \<longrightarrow> world_wf w' \<and> w_next w \<le> w_next w'
     \<and> (\<forall>h k. w_handles w h = Some k \<longrightarrow> (\<exists>k'. w_handles w' h = Some k' \<and> same_object k k')))"

lemma length_key_of [simp]: "length (key_of oid sid) = V4_FH_OPAQUE_SIZE"
  using kh.enc_length by (simp add: key_of_def V4_FH_OPAQUE_SIZE_def)

lemma key_of_inject: "key_of o1 s1 = key_of o2 s2 \<longleftrightarrow> handle_id o1 s1 = handle_id o2 s2"
  by (simp add: key_of_def kh.enc_append_inject)

lemma package_zero: "package_kurma_handle (replicate V4_FH_OPAQUE_SIZE 0) oid sid = Some (key_of oid sid)"
  by (simp add: package_kurma_handle_eq key_of_def V4_FH_OPAQUE_SIZE_def)

lemma same_object_refl [simp]: "same_object k k"
  by (simp add: same_object_def)

lemma same_object_trans: "same_object a b \<Longrightarrow> same_object b c \<Longrightarrow> same_object a c"
  by (simp add: same_object_def)

lemma same_object_updates [simp]:
  "same_object k (k'\<lparr>kh_attrs := a\<rparr>) = same_object k k'"
  "same_object k (k'\<lparr>kh_type := ty\<rparr>) = same_object k k'"
  "same_object k (k'\<lparr>kh_block_shift := b\<rparr>) = same_object k k'"
  "same_object k (k'\<lparr>kh_openflags := fl\<rparr>) = same_object k k'"
  "same_object k (k'\<lparr>kh_snapshot_id := i\<rparr>) = same_object k k'"
  "same_object k (k'\<lparr>kh_snapshot_count := c\<rparr>) = same_object k k'"
  "same_object k (k'\<lparr>kh_attrs_timestamp := ts\<rparr>) = same_object k k'"
  "same_object (k\<lparr>kh_openflags := fl\<rparr>) k' = same_object k k'"
  by (simp_all add: same_object_def)

lemma same_object_override [simp]: "same_object k (set_attrs_override k' a) = same_object k k'"
  by (simp add: set_attrs_override_def Let_def)

lemma same_object_snapshot_dir [simp]: "same_object k (set_snapshot_dir_attrs k') = same_object k k'"
  by (simp add: set_snapshot_dir_attrs_def Let_def)

lemma handle_wf_same: "same_object k k' \<Longrightarrow> handle_wf k \<Longrightarrow> handle_wf k'"
  by (simp add: handle_wf_def same_object_def)

lemma evolves_refl [simp]: "evolves w w"
  by (simp add: evolves_def)

lemma evolves_trans [trans]: "evolves a b \<Longrightarrow> evolves b c \<Longrightarrow> evolves a c"
  unfolding evolves_def by (meson order_trans same_object_trans)

lemma more_fields:
  assumes "rpc_world.more w' = rpc_world.more (w :: ('s, 'b) kurma_world_scheme)"
  shows "w_handles w' = w_handles w" "w_next w' = w_next w" "w_list w' = w_list w"
    "w_inode_number w' = w_inode_number w" "w_deleted_id1 w' = w_deleted_id1 w"
    "w_deleted_id2 w' = w_deleted_id2 w" "w_deleted_creator w' = w_deleted_creator w"
    "w_snapshot_enabled w' = w_snapshot_enabled w" "w_creds w' = w_creds w"
    "w_export_path w' = w_export_path w" "w_root_handle w' = w_root_handle w"
    "w_invalidated w' = w_invalidated w"
  using assms by (cases w; cases w'; simp)+

lemma evolves_more:
  assumes "rpc_world.more w' = rpc_world.more (w :: ('s, 'b) kurma_world_scheme)"
  shows "evolves w w'"
  using more_fields [OF assms] by (simp add: evolves_def world_wf_def)

lemma evolves_fields:
  assumes "w_handles w' = w_handles w" "w_next w' = w_next w" "w_list w' = w_list w"
  shows "evolves w w'"
  using assms by (simp add: evolves_def world_wf_def)

lemma evolves_put:
  assumes "w_handles w h = Some k" "same_object k k'"
  shows "evolves w (put_handle h k' w)"
  using assms handle_wf_same [OF assms(2)]
  by (auto simp: evolves_def world_wf_def put_handle_def split: if_splits)

lemma set_default_attrs_frame:
  assumes "set_default_attrs creds k i orc = (k', i', orc')"
  shows "kh_opaque k' = kh_opaque k \<and> kh_oid k' = kh_oid k \<and> kh_parent k' = kh_parent k
    \<and> kh_name k' = kh_name k \<and> kh_snapshot_id k' = kh_snapshot_id k \<and> kh_type k' = kh_type k
    \<and> kh_block_shift k' = 0"
  using assms by (auto simp: set_default_attrs_def Let_def split: prod.splits)

lemma set_attrs_override_frame:
  "kh_opaque (set_attrs_override k a) = kh_opaque k \<and> kh_oid (set_attrs_override k a) = kh_oid k
    \<and> kh_parent (set_attrs_override k a) = kh_parent k \<and> kh_name (set_attrs_override k a) = kh_name k
    \<and> kh_snapshot_id (set_attrs_override k a) = kh_snapshot_id k
    \<and> kh_block_shift (set_attrs_override k a) = kh_block_shift k"
  by (simp add: set_attrs_override_def Let_def)

text \<open>A new handle: its address is fresh, its key is that of the object and snapshot id given.\<close>

definition fresh_handle :: "nat option \<Rightarrow> string \<Rightarrow> ObjectID \<Rightarrow> u32 \<Rightarrow> kurma_fsal_obj_handle \<Rightarrow> bool" where
  "fresh_handle parent name oid sid k \<longleftrightarrow> kh_oid k = oid \<and> kh_opaque k = key_of oid sid
     \<and> kh_snapshot_id k = sid \<and> kh_parent k = parent \<and> kh_name k = name
     \<and> kh_openflags k = FSAL_O_CLOSED \<and> kh_block_shift k = 0"

lemma alloc_handle_cases:
  assumes "alloc_handle parent name oid attrs sid w = Some (res, w')"
  obtains (fail) "res = None" "keeps_more w w'"
  | (ok) k where "res = Some (w_next w)" "fresh_handle parent name oid sid k"
      "w_handles w' = (w_handles w)(w_next w \<mapsto> k)" "w_next w' = Suc (w_next w)"
      "w_list w' = w_next w # w_list w" "w_srv w' = w_srv w"
proof -
  obtain ok1 w1 where d1: "w_draw draw_malloc w = (ok1, w1)" by force
  obtain ok2 w2 where d2: "w_draw draw_malloc w1 = (ok2, w2)" by force
  note m1 = w_draw_more [OF d1] and m2 = w_draw_more [OF d2]
  have f2: "w_handles w2 = w_handles w" "w_next w2 = w_next w" "w_list w2 = w_list w"
    "w_srv w2 = w_srv w"
    using more_fields [OF m1] more_fields [OF m2] w_srv_draw [of draw_malloc w]
      w_srv_draw [of draw_malloc w1] d1 d2 by simp_all
  define k0 where "k0 = (calloc_handle oid)\<lparr>kh_parent := parent, kh_name := name,
    kh_snapshot_id := sid, kh_opaque := key_of oid sid, kh_type := extract_object_type oid\<rparr>"
  obtain k1 i orc where sd: "set_default_attrs (w_creds w2) k0 (w_inode_number w2) (w_orc w2) = (k1, i, orc)"
    by (metis prod.exhaust)
  define k2 where "k2 = (case attrs of None \<Rightarrow> k1 | Some a \<Rightarrow> set_attrs_override k1 a)\<lparr>kh_openflags := FSAL_O_CLOSED\<rparr>"
  have k2: "fresh_handle parent name oid sid k2"
    using set_default_attrs_frame [OF sd] set_attrs_override_frame [of k1]
    by (auto simp: k2_def k0_def calloc_handle_def fresh_handle_def split: option.split)
  have run: "alloc_handle parent name oid attrs sid w =
      (if \<not> ok1 then Some (None, w1) else if \<not> ok2 then Some (None, w2)
       else Some (Some (w_next w), put_handle (w_next w) k2 (w2\<lparr>w_next := Suc (w_next w),
         w_list := w_next w # w_list w, w_inode_number := i, w_orc := orc\<rparr>)))"
    using sd d1 d2 f2 package_zero [of oid sid]
    by (simp add: alloc_handle_def k0_def k2_def calloc_handle_def Let_def split: option.split)
  show thesis
  proof (cases "ok1 \<and> ok2")
    case True
    with assms run k2 f2 show ?thesis by (intro ok) (auto simp: put_handle_def)
  next
    case False
    with assms run m1 m2 show ?thesis by (intro fail) (auto split: if_splits)
  qed
qed

lemma fresh_handle_wf: "fresh_handle p n oid sid k \<Longrightarrow> handle_wf k"
  by (auto simp: fresh_handle_def handle_wf_def)

lemma evolves_alloc:
  assumes "alloc_handle parent name oid attrs sid w = Some (res, w')"
  shows "evolves w w'"
  using assms
proof (cases rule: alloc_handle_cases)
  case fail
  then show ?thesis by (intro evolves_more)
next
  case (ok k)
  note wf = fresh_handle_wf [OF ok(2)]
  have "w_next w \<notin> dom (w_handles w)" if "world_wf w"
    using that by (auto simp: world_wf_def)
  then show ?thesis using ok wf
    by (auto simp: evolves_def world_wf_def less_SucI split: if_splits)
qed

lemma kurma_try_update_same:
  assumes "kurma_try_update_attributes k a w = (k', w')"
  shows "same_object k k' \<and> keeps_more w w' \<and> kh_snapshot_id k' = kh_snapshot_id k
    \<and> kh_block_shift k' = kh_block_shift k"
  using assms set_attrs_override_frame [of k a]
  by (auto simp: kurma_try_update_attributes_def w_draw_def same_object_def Let_def
      split: prod.splits if_splits)

lemma evolves_put_more:
  assumes "w_handles w h = Some k" "same_object k k'"
    "rpc_world.more w' = rpc_world.more (w :: ('s, 'b) kurma_world_scheme)"
  shows "evolves w (put_handle h k' w')"
  using evolves_trans [OF evolves_more [OF assms(3)] evolves_put [of w' h k k']] assms(1,2)
    more_fields(1) [OF assms(3)] by simp

lemma evolves_try_update:
  assumes "try_update_handle h a w = Some w'"
  shows "evolves w w'"
proof -
  obtain k k' w1 where "w_handles w h = Some k" "kurma_try_update_attributes k a w = (k', w1)"
    "w' = put_handle h k' w1"
    using assms
    by (auto simp: try_update_handle_def bind_eq_Some_conv)
      (metis (no_types, lifting) option.inject prod.case_eq_if prod.collapse)
  then show ?thesis using kurma_try_update_same [of k a w k' w1] evolves_put_more by blast
qed

section \<open>Every operation keeps the table well-formed\<close>

lemma kurma_open_frame:
  "ensures (kurma_open svc k fl w) (\<lambda>(st, k', w'). same_object k k' \<and> keeps_more w w')"
  unfolding kurma_open_def
  by (intro ensures_rules; auto dest!: rpc_more kurma_try_update_same split: if_splits)

lemma kurma_close_frame:
  "ensures (kurma_close svc k w) (\<lambda>(st, k', w'). same_object k k' \<and> keeps_more w w')"
  unfolding kurma_close_def
  by (intro ensures_rules; auto dest!: rpc_more kurma_try_update_same split: if_splits)

lemma kurma_read_finish_frame:
  "ensures (kurma_read_finish svc k al off offa om n na buf bufa ra eof bs w)
     (\<lambda>(st, (k', outs), w'). same_object k k' \<and> keeps_more w w')"
  unfolding kurma_read_finish_def
  by (intro ensures_rules; auto dest!: rpc_more kurma_try_update_same split: if_splits)

lemma kurma_read_frame:
  "ensures (kurma_read svc k off n buf ra eof w)
     (\<lambda>(st, (k', outs), w'). same_object k k' \<and> keeps_more w w')"
  unfolding kurma_read_def
  by (intro ensures_rules ensures_weaken [OF kurma_read_finish_frame]; auto dest!: w_draw_more)

lemma kurma_write_finish_frame:
  "ensures (kurma_write_finish svc k al off offa om n na bufa bs wa fs w)
     (\<lambda>(st, (k', outs), w'). same_object k k' \<and> keeps_more w w')"
  unfolding kurma_write_finish_def
  by (intro ensures_rules; auto dest!: rpc_more kurma_try_update_same split: if_splits prod.splits)

lemma rmw_tail_frame:
  assumes rd: "\<And>off pos buf ra eof w. ensures (rd off pos buf ra eof w) (\<lambda>(st, outs, w'). keeps_more w w')"
  shows "ensures (rmw_tail rd offa om bz cnt n buf bufa ra eof w) (\<lambda>(st, b, sa, w'). keeps_more w w')"
  unfolding rmw_tail_def
  by (intro ensures_rules; auto simp: bind_eq_Some_conv split: if_splits dest!: ensuresD [OF rd])

lemma rmw_prepare_frame:
  assumes rd: "\<And>off pos buf ra eof w. ensures (rd off pos buf ra eof w) (\<lambda>(st, outs, w'). keeps_more w w')"
  shows "ensures (rmw_prepare rd offa om na bs bz n buf bufa w) (\<lambda>(st, b, sa, w'). keeps_more w w')"
  unfolding rmw_prepare_def
  by (intro ensures_rules ensures_weaken [OF rmw_tail_frame [OF rd]]; auto dest!: ensuresD [OF rd])

lemma kurma_write_frame:
  "ensures (kurma_write svc k off n buf wa fs w)
     (\<lambda>(st, (k', outs), w'). same_object k k' \<and> keeps_more w w')"
proof -
  have rd: "ensures (rpc_read svc (kh_oid k) off bz pos buf ra eof bs None w) (\<lambda>(st, outs, w'). keeps_more w w')"
    for off bz pos buf ra eof bs w
    by (auto intro!: ensuresI dest: rpc_more)
  show ?thesis
    unfolding kurma_write_def
    by (intro ensures_rules ensures_weaken [OF kurma_write_finish_frame];
        auto dest!: w_draw_more ensuresD [OF rmw_prepare_frame [OF rd]])
qed

lemmas rpc_evolves = rpc_more [THEN evolves_more] evolves_alloc evolves_try_update

lemma evolves_put_after:
  assumes "evolves w w1" "w_handles w1 h = Some k" "same_object k k'"
  shows "evolves w (put_handle h k' w1)"
  using evolves_trans [OF assms(1) evolves_put [OF assms(2,3)]] .

lemma invalidate_dir_evolves: "invalidate_dir_contents h w = Some w' \<Longrightarrow> evolves w w'"
  by (auto simp: invalidate_dir_contents_def bind_eq_Some_conv intro!: evolves_fields)

lemma invalidate_object_evolves:
  assumes "invalidate_object_attributes oid sid w = Some w'"
  shows "evolves w w'"
proof -
  obtain b w1 where d: "w_draw (draw_garbage V4_FH_OPAQUE_SIZE) w = (b, w1)" by force
  with assms have "evolves w1 w'"
    by (auto simp: invalidate_object_attributes_def bind_eq_Some_conv intro!: evolves_fields)
  with evolves_more [OF w_draw_more [OF d]] show ?thesis by (rule evolves_trans)
qed

lemma handle_io_evolves:
  "handle_open svc h fl w = Some (st, w') \<Longrightarrow> evolves w w'"
  "handle_close svc h w = Some (st, w') \<Longrightarrow> evolves w w'"
  "handle_read svc h off n buf ra eof w = Some (st, o1, w') \<Longrightarrow> evolves w w'"
  "handle_write svc h off n buf wa fs w = Some (st, o2, w') \<Longrightarrow> evolves w w'"
  by (auto simp: handle_open_def handle_close_def handle_read_def handle_write_def bind_eq_Some_conv
      intro!: evolves_put_more
      dest!: ensuresD [OF kurma_open_frame] ensuresD [OF kurma_close_frame]
        ensuresD [OF kurma_read_frame] ensuresD [OF kurma_write_frame])

lemma lookup_object_evolves:
  "ensures (lookup_object svc dir name w) (\<lambda>(st, outs, w'). evolves w w')"
  unfolding lookup_object_def
  by (intro ensures_rules; auto dest!: rpc_evolves)

lemma kurma_lookup_evolves:
  "ensures (kurma_lookup svc d name w) (\<lambda>(st, res, w'). evolves w w')"
  unfolding kurma_lookup_def
  by (intro ensures_rules; auto dest!: rpc_evolves ensuresD [OF lookup_object_evolves]
      intro!: evolves_put_after simp del: evolves_refl intro: evolves_trans evolves_refl)


lemma evolves_put_count:
  "w_handles w h = Some k \<Longrightarrow> evolves w (put_handle h (k\<lparr>kh_snapshot_count := c\<rparr>) w)"
  by (rule evolves_put [where k = k]) simp_all

lemma evolves_put_override:
  assumes "w_handles w h = Some k" "keeps_more w (w' :: ('s, 'b) kurma_world_scheme)"
  shows "evolves w (put_handle h (set_attrs_override k a) w')"
  using assms by (intro evolves_put_more [where k = k]) simp_all

lemma kurma_create_evolves:
  "ensures (kurma_create svc d name a w) (\<lambda>(st, res, w'). evolves w w')"
  unfolding kurma_create_def
  by (intro ensures_rules; auto simp: bind_eq_Some_conv Let_def simp del: evolves_refl split: if_splits
      dest!: rpc_evolves invalidate_dir_evolves intro!: evolves_put_after
      intro: evolves_trans evolves_refl)

lemma kurma_makedir_evolves:
  "ensures (kurma_makedir svc d name a w) (\<lambda>(st, res, w'). evolves w w')"
  unfolding kurma_makedir_def
  by (intro ensures_rules; auto simp del: evolves_refl dest!: rpc_evolves
      intro: evolves_trans evolves_refl)

lemma kurma_makesymlink_evolves:
  "ensures (kurma_makesymlink svc d name l a w) (\<lambda>(st, res, w'). evolves w w')"
  unfolding kurma_makesymlink_def
  by (intro ensures_rules; auto simp del: evolves_refl
      dest!: ensuresD [OF kurma_create_evolves] handle_io_evolves
      intro: evolves_trans evolves_refl)

lemma kurma_readsymlink_evolves:
  "ensures (kurma_readsymlink svc h desc w) (\<lambda>(st, res, w'). evolves w w')"
  unfolding kurma_readsymlink_def
  by (intro ensures_rules; auto simp del: evolves_refl dest!: handle_io_evolves
      intro: evolves_trans evolves_refl)

lemma readdir_loop_evolves:
  assumes cb: "\<And>n d w. ensures (cb n d w) (\<lambda>(go, d', w'). evolves w w')"
  shows "ensures (readdir_loop cb l es d w) (\<lambda>(eof, d', w'). evolves w w')"
proof (induction es arbitrary: d w)
  case Nil
  show ?case by (simp add: ensures_def)
next
  case (Cons e es)
  show ?case
    unfolding readdir_loop.simps
    by (intro ensures_rules ensures_weaken [OF Cons.IH];
        auto simp del: evolves_refl dest!: ensuresD [OF cb] w_draw_more [THEN evolves_more]
          intro: evolves_trans evolves_refl)
qed

lemma kurma_readdir_evolves:
  assumes cb: "\<And>n d w. ensures (cb n d w) (\<lambda>(go, d', w'). evolves w w')"
  shows "ensures (kurma_readdir svc cb h d w) (\<lambda>(st, outs, w'). evolves w w')"
  unfolding kurma_readdir_def
  by (intro ensures_rules; auto simp del: evolves_refl split: if_splits
      dest!: rpc_evolves ensuresD [OF readdir_loop_evolves [OF cb]]
      dest: evolves_trans [OF evolves_put_count]
      intro: evolves_trans evolves_refl)

lemma kurma_restore_snapshot_evolves:
  "ensures (kurma_restore_snapshot svc s n d n' w) (\<lambda>(st, w'). evolves w w')"
  unfolding kurma_restore_snapshot_def
  by (intro ensures_rules; auto simp del: evolves_refl
      dest!: rpc_evolves invalidate_dir_evolves invalidate_object_evolves
      intro: evolves_trans evolves_refl)

lemma kurma_rename_evolves:
  "ensures (kurma_rename svc s n d n' w) (\<lambda>(st, w'). evolves w w')"
  unfolding kurma_rename_def
  by (intro ensures_rules ensures_weaken [OF kurma_restore_snapshot_evolves];
      auto simp del: evolves_refl dest!: rpc_evolves intro: evolves_trans evolves_refl)

lemma kurma_getattrs_evolves:
  "ensures (kurma_getattrs svc h w) (\<lambda>(st, w'). evolves w w')"
  unfolding kurma_getattrs_def
  by (intro ensures_rules; auto simp: bind_eq_Some_conv simp del: evolves_refl split: if_splits
      dest!: rpc_more intro!: evolves_put_more intro: evolves_more)

lemma kurma_setattrs_evolves:
  "ensures (kurma_setattrs svc h a w) (\<lambda>(st, outs, w'). evolves w w')"
  unfolding kurma_setattrs_def
  by (intro ensures_rules; auto simp del: evolves_refl split: if_splits
      dest!: rpc_more evolves_try_update intro: evolves_trans evolves_put_override
        evolves_trans [OF evolves_more] evolves_refl)

lemma kurma_unlink_evolves:
  "ensures (kurma_unlink svc d n w) (\<lambda>(st, w'). evolves w w')"
proof -
  have mark: "evolves w (w\<lparr>w_deleted_id1 := x, w_deleted_id2 := y, w_deleted_creator := z\<rparr>)"
    for x y z and w :: "('a, 'b) kurma_world_scheme"
    by (simp add: evolves_fields)
  show ?thesis
    unfolding kurma_unlink_def
    by (intro ensures_rules; auto simp: bind_eq_Some_conv simp del: evolves_refl
        split: if_splits dest!: rpc_evolves invalidate_dir_evolves intro!: evolves_put_after
        dest!: evolves_trans [OF mark] intro: evolves_trans evolves_refl)
qed

lemma kurma_lookup_path_evolves:
  "ensures (kurma_lookup_path svc p w) (\<lambda>(st, res, w'). evolves w w')"
proof -
  have root: "evolves w (w\<lparr>w_root_handle := r\<rparr>)" for r and w :: "('a, 'b) kurma_world_scheme"
    by (simp add: evolves_fields)
  show ?thesis
    unfolding kurma_lookup_path_def
    by (intro ensures_rules; auto simp del: evolves_refl dest!: rpc_evolves
        intro: evolves_trans root evolves_refl)
qed

lemma kurma_create_handle_evolves:
  "ensures (kurma_create_handle d w) (\<lambda>(st, res, w'). evolves w w')"
  unfolding kurma_create_handle_def
  by (intro ensures_rules; auto dest!: rpc_evolves)

lemma kurma_release_wf:
  assumes "kurma_release h w = Some w'" "world_wf w"
  shows "world_wf w' \<and> w_next w' = w_next w \<and> w_handles w' = (w_handles w)(h := None)"
  using assms
  by (auto simp: kurma_release_def bind_eq_Some_conv world_wf_def set_remove1_eq split: if_splits)

section \<open>The handle table as a state machine\<close>

text \<open>
  One step is one operation of the interface, with any service and any arguments, that
  returns.  A step is labelled with the handle it releases, if any.  The readdir callback
  of the upper layer only acts through the interface, so it evolves the table; its own state is
  part of the extension of the world.
\<close>

inductive kurma_step ::
    "'s kurma_service \<Rightarrow> ('s, 'b) kurma_world_scheme \<Rightarrow> nat option \<Rightarrow> ('s, 'b) kurma_world_scheme \<Rightarrow> bool"
  for svc where
  lookup: "kurma_lookup svc d n w = Some (st, res, w') \<Longrightarrow> kurma_step svc w None w'"
| create: "kurma_create svc d n a w = Some (st, outs, w') \<Longrightarrow> kurma_step svc w None w'"
| makedir: "kurma_makedir svc d n a w = Some (st, outs, w') \<Longrightarrow> kurma_step svc w None w'"
| makesymlink: "kurma_makesymlink svc d n l a w = Some (st, outs, w') \<Longrightarrow> kurma_step svc w None w'"
| readsymlink: "kurma_readsymlink svc h desc w = Some (st, b, w') \<Longrightarrow> kurma_step svc w None w'"
| readdir: "kurma_readdir svc cb h () w = Some (st, outs, w')
    \<Longrightarrow> (\<And>n w. ensures (cb n () w) (\<lambda>(go, c', w'). evolves w w')) \<Longrightarrow> kurma_step svc w None w'"
| rename: "kurma_rename svc s n d n' w = Some (st, w') \<Longrightarrow> kurma_step svc w None w'"
| getattrs: "kurma_getattrs svc h w = Some (st, w') \<Longrightarrow> kurma_step svc w None w'"
| setattrs: "kurma_setattrs svc h a w = Some (st, a', w') \<Longrightarrow> kurma_step svc w None w'"
| unlink: "kurma_unlink svc d n w = Some (st, w') \<Longrightarrow> kurma_step svc w None w'"
| openf: "handle_open svc h fl w = Some (st, w') \<Longrightarrow> kurma_step svc w None w'"
| closef: "handle_close svc h w = Some (st, w') \<Longrightarrow> kurma_step svc w None w'"
| readf: "handle_read svc h off cnt buf ra eof w = Some (st, outs, w') \<Longrightarrow> kurma_step svc w None w'"
| writef: "handle_write svc h off cnt buf wa fs w = Some (st, outs, w') \<Longrightarrow> kurma_step svc w None w'"
| lookup_path: "kurma_lookup_path svc p w = Some (st, res, w') \<Longrightarrow> kurma_step svc w None w'"
| create_handle: "kurma_create_handle key w = Some (st, res, w') \<Longrightarrow> kurma_step svc w None w'"
| release: "kurma_release h w = Some w' \<Longrightarrow> kurma_step svc w (Some h) w'"

inductive kurma_run ::
    "'s kurma_service \<Rightarrow> ('s, 'b) kurma_world_scheme \<Rightarrow> nat list \<Rightarrow> ('s, 'b) kurma_world_scheme \<Rightarrow> bool"
  for svc where
  start: "kurma_run svc w [] w"
| step: "kurma_run svc w hs w1 \<Longrightarrow> kurma_step svc w1 l w2
    \<Longrightarrow> kurma_run svc w (hs @ (case l of None \<Rightarrow> [] | Some h \<Rightarrow> [h])) w2"

lemma kurma_step_cases:
  assumes "kurma_step svc w l w'"
  shows "(l = None \<and> evolves w w') \<or> (\<exists>h. l = Some h \<and> kurma_release h w = Some w')"
  using assms
proof cases
  case (readdir cb h st outs)
  then show ?thesis using ensuresD [OF kurma_readdir_evolves [of cb]] by (fastforce simp: old.unit.exhaust)
qed (auto dest: handle_io_evolves ensuresD [OF kurma_lookup_evolves]
    ensuresD [OF kurma_create_evolves] ensuresD [OF kurma_makedir_evolves]
    ensuresD [OF kurma_makesymlink_evolves] ensuresD [OF kurma_readsymlink_evolves]
    ensuresD [OF kurma_rename_evolves] ensuresD [OF kurma_getattrs_evolves]
    ensuresD [OF kurma_setattrs_evolves] ensuresD [OF kurma_unlink_evolves]
    ensuresD [OF kurma_lookup_path_evolves] ensuresD [OF kurma_create_handle_evolves])

lemma kurma_run_wf:
  assumes "kurma_run svc w hs w'" "world_wf w"
  shows "world_wf w'"
  using assms
proof induction
  case (step w hs w1 l w2)
  from kurma_step_cases [OF step.hyps(2)] step show ?case
    by (auto simp: evolves_def dest: kurma_release_wf)
qed

lemma kurma_run_stable:
  assumes "kurma_run svc w hs w'" "world_wf w" "w_handles w h = Some k" "h \<notin> set hs"
  shows "\<exists>k'. w_handles w' h = Some k' \<and> same_object k k'"
  using assms
proof induction
  case start
  then show ?case by auto
next
  case (step w hs w1 l w2)
  have wf: "world_wf w1" using kurma_run_wf [OF step.hyps(1)] step.prems by simp
  from step have "h \<notin> set hs" by simp
  with step obtain k1 where k1: "w_handles w1 h = Some k1" "same_object k k1" by blast
  from kurma_step_cases [OF step.hyps(2)] show ?case
  proof (elim disjE conjE exE)
    assume "evolves w1 w2"
    with wf k1 obtain k2 where "w_handles w2 h = Some k2" "same_object k1 k2"
      by (auto simp: evolves_def)
    with k1 show ?thesis by (blast intro: same_object_trans)
  next
    fix h' assume "l = Some h'" "kurma_release h' w1 = Some w2"
    with step.prems kurma_release_wf [OF _ wf] k1 show ?thesis by auto
  qed
qed

end
