(* ===== verification/Kurma_Handle_Props.thy ===== *)
theory Kurma_Handle_Props
  imports Kurma_Handle_Inv
begin

text \<open>
  The properties of the object operations of \<^verbatim>\<open>handle.c\<close>, on top of the invariant of the
  table of handles.
\<close>

section \<open>A small server for examples\<close>

text \<open>
  The server of the examples has one directory and answers every lookup with it; its listing
  has a file and a directory, and removing or looking up a name gives the file.
\<close>

definition demo_dir :: ObjectID where
  "demo_dir = new_object_id\<lparr>id1 := 1, oid_type := 7\<rparr>"

definition demo_file :: ObjectID where
  "demo_file = new_object_id\<lparr>id1 := 2, oid_type := 1\<rparr>"

definition demo_service :: "unit kurma_service" where
  "demo_service = null_service\<lparr>
     svc_lookup := (\<lambda>_ _ n s.
       (Some (new_kurma_result\<lparr>r_dir_data :=
         [\<lparr>de_oid = if n = ''f'' then demo_file else demo_dir, de_name = n\<rparr>]\<rparr>), s)),
     svc_listdir := (\<lambda>_ _ s. (Some (new_kurma_result\<lparr>r_dir_data :=
       [\<lparr>de_oid = demo_file, de_name = ''f''\<rparr>, \<lparr>de_oid = demo_dir, de_name = ''d''\<rparr>]\<rparr>), s)),
     svc_restore_snapshot := (\<lambda>_ _ _ _ s. (Some new_kurma_result, s)),
     svc_unlink := (\<lambda>_ _ _ s. (Some (new_kurma_result\<lparr>r_oid := demo_file, r_isset_oid := True\<rparr>), s))\<rparr>"

definition demo_world :: "unit kurma_world" where
  "demo_world = \<lparr>w_srv = (), w_kurma_server = [], w_kurma_port = 0, w_client = True,
     w_sessionid = Some [1], w_orc = sample_oracle, w_handles = Map.empty, w_next = 0, w_list = [],
     w_inode_number = 1, w_deleted_id1 = 0, w_deleted_id2 = 0, w_deleted_creator = 0,
     w_snapshot_enabled = True, w_creds = \<lparr>caller_uid = 0, caller_gid = 0, caller_garray = []\<rparr>,
     w_export_path = ''/k'', w_root_handle = None, w_invalidated = []\<rparr>"

text \<open>The world after the export's root was looked up: one live handle, at address 0.\<close>

definition demo_rooted :: "unit kurma_world" where
  "demo_rooted = (case kurma_lookup_path demo_service ''/k'' demo_world of
     None \<Rightarrow> demo_world | Some (st, res, w) \<Rightarrow> w)"

lemma demo_rooted_run: "kurma_run demo_service demo_world [] demo_rooted"
proof -
  have "kurma_lookup_path demo_service ''/k'' demo_world \<noteq> None"
    by code_simp
  then have "kurma_step demo_service demo_world None demo_rooted"
    by (auto simp: demo_rooted_def intro: kurma_step.lookup_path split: option.splits)
  from kurma_run.step [OF kurma_run.start this] show ?thesis by simp
qed

lemma demo_world_empty: "w_handles demo_world = Map.empty" "w_list demo_world = []"
  by (simp_all add: demo_world_def)

lemma empty_world_wf: "w_handles w = Map.empty \<Longrightarrow> w_list w = [] \<Longrightarrow> world_wf w"
  by (simp add: world_wf_def)

lemma demo_rooted_wf: "world_wf demo_rooted"
  using kurma_run_wf [OF demo_rooted_run empty_world_wf] demo_world_empty by simp

definition demo_root :: kurma_fsal_obj_handle where
  "demo_root = (case w_handles demo_rooted 0 of None \<Rightarrow> sample_handle | Some k \<Rightarrow> k)"

lemma demo_root_live: "w_handles demo_rooted 0 = Some demo_root"
proof -
  have "w_handles demo_rooted 0 \<noteq> None" by code_simp
  then show ?thesis by (auto simp: demo_root_def)
qed

section \<open>The table of handles\<close>

text \<open>
  C5 Whatever the server answers and whichever operations are called in which order, starting from
  an empty table, \<^verbatim>\<open>fsal->handles\<close> holds every live handle exactly once, and the opaque bytes of every
  live handle are the packed form of its own object identifier in a zeroed buffer.
\<close>

theorem reachable_table:
  assumes "kurma_run svc w hs w'" "w_handles w = Map.empty" "w_list w = []"
  shows "distinct (w_list w') \<and> set (w_list w') = dom (w_handles w')
    \<and> (\<forall>k \<in> ran (w_handles w'). \<exists>sid.
         package_kurma_handle (replicate V4_FH_OPAQUE_SIZE 0) (kh_oid k) sid = Some (kh_opaque k))"
  using kurma_run_wf [OF assms(1) empty_world_wf [OF assms(2,3)]]
  by (auto simp: world_wf_def handle_wf_def package_zero ran_def eq_commute [of "key_of _ _"])

theorem reachable_table_witness:
  "w_list demo_rooted = [0] \<and> dom (w_handles demo_rooted) = {0}"
proof -
  have "w_list demo_rooted = [0]" by code_simp
  with reachable_table [OF demo_rooted_run demo_world_empty] show ?thesis by simp
qed

text \<open>
  C10 A handle keeps its identity as long as it lives: along any sequence of operations that does not
  release it, the handle stays in the table with the same object identifier, opaque bytes, parent and
  name, so no operation redirects a handle the upper layers hold to another object.
\<close>

theorem live_handle_stable:
  assumes "kurma_run svc w0 hs0 w" "w_handles w0 = Map.empty" "w_list w0 = []"
    and "w_handles w h = Some k" "kurma_run svc w hs w'" "h \<notin> set hs"
  shows "\<exists>k'. w_handles w' h = Some k' \<and> kh_oid k' = kh_oid k \<and> kh_opaque k' = kh_opaque k
    \<and> kh_parent k' = kh_parent k \<and> kh_name k' = kh_name k"
  using kurma_run_stable [OF assms(5) kurma_run_wf [OF assms(1) empty_world_wf [OF assms(2,3)]] assms(4,6)]
  by (auto simp: same_object_def)

definition demo_looked :: "unit kurma_world" where
  "demo_looked = (case kurma_lookup demo_service 0 ''f'' demo_rooted of
     None \<Rightarrow> demo_rooted | Some (st, res, w) \<Rightarrow> w)"

lemma demo_looked_run: "kurma_run demo_service demo_rooted [] demo_looked"
proof -
  have "kurma_lookup demo_service 0 ''f'' demo_rooted \<noteq> None"
    by code_simp
  then have "kurma_step demo_service demo_rooted None demo_looked"
    by (auto simp: demo_looked_def intro: kurma_step.lookup split: option.splits)
  from kurma_run.step [OF kurma_run.start this] show ?thesis by simp
qed

theorem live_handle_stable_witness:
  "w_list demo_looked = [1, 0] \<and>
   (\<exists>k'. w_handles demo_looked 0 = Some k' \<and> kh_oid k' = kh_oid demo_root
      \<and> kh_opaque k' = kh_opaque demo_root)"
proof -
  have "w_list demo_looked = [1, 0]" by code_simp
  with live_handle_stable [OF demo_rooted_run demo_world_empty demo_root_live demo_looked_run]
  show ?thesis by auto
qed

section \<open>Wire handles\<close>

lemma find_handle_found:
  assumes "set hl \<subseteq> dom hs"
  shows "\<exists>r. find_handle hs key hl = Some r \<and>
    (case r of None \<Rightarrow> \<forall>h k. h \<in> set hl \<longrightarrow> hs h = Some k \<longrightarrow> kh_opaque k \<noteq> key
     | Some h \<Rightarrow> h \<in> set hl \<and> (\<exists>k. hs h = Some k \<and> kh_opaque k = key))"
  using assms
proof (induction hl)
  case (Cons h hl)
  from Cons.prems obtain k where k: "hs h = Some k" by auto
  from Cons obtain r where "find_handle hs key hl = Some r"
    "case r of None \<Rightarrow> \<forall>h k. h \<in> set hl \<longrightarrow> hs h = Some k \<longrightarrow> kh_opaque k \<noteq> key
     | Some h \<Rightarrow> h \<in> set hl \<and> (\<exists>k. hs h = Some k \<and> kh_opaque k = key)"
    by auto
  with k show ?case by (cases "kh_opaque k = key"; cases r) auto
qed simp

lemma handle_wf_length: "handle_wf k \<Longrightarrow> length (kh_opaque k) = V4_FH_OPAQUE_SIZE"
  by (auto simp: handle_wf_def)

lemma handle_digest_eq:
  assumes "handle_wf k" "V4_FH_OPAQUE_SIZE \<le> len" "len \<le> length addr"
  shows "handle_digest k ty addr len = Some (fsalstat ERR_FSAL_NO_ERROR 0,
    kh_opaque k @ drop V4_FH_OPAQUE_SIZE addr, V4_FH_OPAQUE_SIZE)"
  using assms handle_wf_length [OF assms(1)]
  by (simp add: handle_digest_def load_bytes_def store_bytes_def overlay_def)

text \<open>
  C11 A wire handle of a live object finds the object again: the bytes \<^verbatim>\<open>handle_digest\<close> writes for a live
  handle of a reachable world make \<^verbatim>\<open>kurma_create_handle\<close> return, without allocating and without any
  change, a live handle with the same opaque bytes and so the same object.
\<close>

theorem digest_create_handle_roundtrip:
  assumes "kurma_run svc w0 hs w" "w_handles w0 = Map.empty" "w_list w0 = []"
    and "w_handles w h = Some k" "V4_FH_OPAQUE_SIZE \<le> len" "len \<le> length addr"
  shows "\<exists>out n h' k'. handle_digest k ty addr len = Some (fsalstat ERR_FSAL_NO_ERROR 0, out, n)
    \<and> kurma_create_handle (take n out) w = Some (fsalstat ERR_FSAL_NO_ERROR 0, Some h', w)
    \<and> w_handles w h' = Some k' \<and> kh_opaque k' = kh_opaque k \<and> is_same_file (kh_oid k') (kh_oid k)"
proof -
  have wf: "world_wf w" using kurma_run_wf [OF assms(1) empty_world_wf [OF assms(2,3)]] .
  with assms(4) have kwf: "handle_wf k" and hl: "h \<in> set (w_list w)"
    by (auto simp: world_wf_def)
  note dg = handle_digest_eq [OF kwf assms(5,6), of ty]
  obtain h' k' where f: "find_handle (w_handles w) (kh_opaque k) (w_list w) = Some (Some h')"
      "w_handles w h' = Some k'" "kh_opaque k' = kh_opaque k"
    using find_handle_found [of "w_list w" "w_handles w" "kh_opaque k"] wf assms(4) hl
    by (auto simp: world_wf_def split: option.splits)
  with wf have "handle_wf k'" by (auto simp: world_wf_def)
  with kwf f(3) have "is_same_file (kh_oid k') (kh_oid k)"
    by (auto simp: handle_wf_def key_of_inject handle_id_def is_same_file_def)
  with dg f handle_wf_length [OF kwf] show ?thesis
    by (auto simp: kurma_create_handle_def)
qed

theorem digest_create_handle_roundtrip_witness:
  "\<exists>out n h' k'. handle_digest demo_root FSAL_DIGEST_NFSV4 (replicate 128 0) 128
      = Some (fsalstat ERR_FSAL_NO_ERROR 0, out, n)
    \<and> kurma_create_handle (take n out) demo_rooted = Some (fsalstat ERR_FSAL_NO_ERROR 0, Some h', demo_rooted)
    \<and> w_handles demo_rooted h' = Some k' \<and> kh_opaque k' = kh_opaque demo_root"
  using digest_create_handle_roundtrip [OF demo_rooted_run demo_world_empty demo_root_live,
      of 128 "replicate 128 0" FSAL_DIGEST_NFSV4]
  by (fastforce simp: V4_FH_OPAQUE_SIZE_def)

lemma alloc_handle_total: "\<exists>res w'. alloc_handle p n oid a sid w = Some (res, w')"
  using package_zero [of oid sid]
  by (simp add: alloc_handle_def calloc_handle_def Let_def split: prod.splits)

lemma extract_key_of:
  "extract_kurma_handle (key_of oid sid) new_object_id = Some (oid\<lparr>oid_set := oid_set new_object_id\<rparr>, sid)"
  by (subst extract_kurma_handle_eq [where a = "id1 oid"])
    (auto simp: key_of_def dec_handle_append handle_id_def new_object_id_def)

text \<open>
  C23 A wire handle of an object without a live handle is recovered from its bytes, except for the
  snapshot: \<^verbatim>\<open>kurma_create_handle\<close> always returns, and unless memory runs out it gives a new handle of
  the object the bytes name, but with snapshot id 0, so the new handle has the opaque bytes the client
  sent exactly when the client's handle was not one of a snapshot.
\<close>

theorem create_handle_recovers:
  assumes "kurma_run svc w0 hs w" "w_handles w0 = Map.empty" "w_list w0 = []"
    and key: "package_kurma_handle (replicate V4_FH_OPAQUE_SIZE 0) oid sid = Some key"
    and new: "\<forall>k \<in> ran (w_handles w). kh_opaque k \<noteq> key"
  shows "\<exists>st res w'. kurma_create_handle key w = Some (st, res, w')
    \<and> (st = fsalstat ERR_FSAL_NOMEM c_ENOMEM \<and> res = None
       \<or> st = fsalstat ERR_FSAL_NO_ERROR 0 \<and> (\<exists>k. res = Some (w_next w) \<and> w_handles w' (w_next w) = Some k
          \<and> is_same_file (kh_oid k) oid \<and> kh_snapshot_id k = 0 \<and> kh_parent k = None
          \<and> (kh_opaque k = key \<longleftrightarrow> sid = 0)))"
proof -
  have wf: "world_wf w" using kurma_run_wf [OF assms(1) empty_world_wf [OF assms(2,3)]] .
  from key have key: "key = key_of oid sid" by (simp add: package_zero)
  have f: "find_handle (w_handles w) key (w_list w) = Some None"
    using find_handle_found [of "w_list w" "w_handles w" key] wf new
    by (fastforce simp: world_wf_def ran_def split: option.splits)
  let ?oid = "oid\<lparr>oid_set := oid_set new_object_id\<rparr>"
  obtain res w' where a: "alloc_handle None ''RECOVERED_HANDLE'' ?oid None 0 w = Some (res, w')"
    using alloc_handle_total by blast
  have run: "kurma_create_handle key w =
      (case res of None \<Rightarrow> Some (fsalstat ERR_FSAL_NOMEM c_ENOMEM, None, w')
       | Some h \<Rightarrow> Some (fsalstat ERR_FSAL_NO_ERROR 0, Some h, w'))"
    using f a extract_key_of [of oid sid] by (simp add: kurma_create_handle_def key)
  from a show ?thesis
  proof (cases rule: alloc_handle_cases)
    case fail
    with run show ?thesis by simp
  next
    case (ok k)
    have "kh_opaque k = key \<longleftrightarrow> sid = 0"
      using ok(2) by (auto simp: fresh_handle_def key key_of_inject handle_id_def)
    with ok run show ?thesis by (auto simp: fresh_handle_def is_same_file_def)
  qed
qed

theorem create_handle_recovers_witness:
  "\<exists>key st k w'. package_kurma_handle (replicate V4_FH_OPAQUE_SIZE 0) demo_file 5 = Some key
    \<and> kurma_create_handle key demo_rooted = Some (fsalstat ERR_FSAL_NO_ERROR 0, Some 1, w')
    \<and> w_handles w' 1 = Some k \<and> kh_opaque k \<noteq> key"
proof -
  have p: "package_kurma_handle (replicate V4_FH_OPAQUE_SIZE 0) demo_file 5 = Some (key_of demo_file 5)"
    by (rule package_zero)
  have "w_list demo_rooted = [0]" by code_simp
  then have dom: "dom (w_handles demo_rooted) = {0}"
    using demo_rooted_wf by (simp add: world_wf_def)
  have "kh_opaque demo_root \<noteq> key_of demo_file 5" by code_simp
  then have new: "\<forall>k \<in> ran (w_handles demo_rooted). kh_opaque k \<noteq> key_of demo_file 5"
  proof (intro ballI)
    fix k assume "k \<in> ran (w_handles demo_rooted)"
    then obtain a where a: "w_handles demo_rooted a = Some k" by (auto simp: ran_def)
    with dom have "a = 0" by auto
    with a demo_root_live \<open>kh_opaque demo_root \<noteq> _\<close> show "kh_opaque k \<noteq> key_of demo_file 5" by simp
  qed
  have st: "\<exists>w'. kurma_create_handle (key_of demo_file 5) demo_rooted = Some (fsalstat ERR_FSAL_NO_ERROR 0, Some 1, w')"
  proof -
    have "map_option (\<lambda>(st, res, w'). (st, res)) (kurma_create_handle (key_of demo_file 5) demo_rooted)
        = Some (fsalstat ERR_FSAL_NO_ERROR 0, Some 1)" by code_simp
    then show ?thesis by auto
  qed
  with create_handle_recovers [OF demo_rooted_run demo_world_empty p new] p show ?thesis
    by (auto simp: fsalstat_def)
qed

section \<open>Attributes and removal\<close>

lemma kurma_getattrs_cached:
  assumes "w_handles w h = Some k" "w_draw draw_time w = (t, w1)"
  shows "t - kh_attrs_timestamp k \<le> KURMA_ATTRS_EXPIRE_SEC \<Longrightarrow>
      kurma_getattrs svc h w = Some (fsalstat ERR_FSAL_NO_ERROR 0, w1)"
    and "t - kh_attrs_timestamp k > KURMA_ATTRS_EXPIRE_SEC \<Longrightarrow> is_deleted_obj (kh_oid k) w \<Longrightarrow>
      kurma_getattrs svc h w = Some (fsalstat ERR_FSAL_NOENT c_ENOENT, w1)"
  using assms more_fields [OF w_draw_more [OF assms(2)]]
  by (simp_all add: kurma_getattrs_def kurma_to_fsal_status_def is_deleted_obj_def)

lemma try_update_keeps:
  assumes "try_update_handle h a w = Some w'"
  shows "w_deleted_id1 w' = w_deleted_id1 w" "w_deleted_id2 w' = w_deleted_id2 w"
    "w_deleted_creator w' = w_deleted_creator w" "w_snapshot_enabled w' = w_snapshot_enabled w"
proof -
  obtain k k' w1 where "kurma_try_update_attributes k a w = (k', w1)" "w' = put_handle h k' w1"
    using assms by (auto simp: try_update_handle_def bind_eq_Some_conv)
      (metis (no_types, lifting) option.inject prod.case_eq_if prod.collapse)
  with kurma_try_update_same [of k a w k' w1] more_fields [of w1 w]
  show "w_deleted_id1 w' = w_deleted_id1 w" "w_deleted_id2 w' = w_deleted_id2 w"
    "w_deleted_creator w' = w_deleted_creator w" "w_snapshot_enabled w' = w_snapshot_enabled w"
    by (simp_all add: put_handle_def)
qed

definition deleted_is :: "ObjectID \<Rightarrow> ('s, 'b) kurma_world_scheme \<Rightarrow> bool" where
  "deleted_is oid w \<longleftrightarrow> w_deleted_id1 w = id1 oid \<and> w_deleted_id2 w = id2 oid \<and> w_deleted_creator w = creator oid"

lemma deleted_is_try: "try_update_handle h a w = Some w' \<Longrightarrow> deleted_is oid w' = deleted_is oid w"
  by (simp add: deleted_is_def try_update_keeps)

lemma rpc_unlink_oid:
  assumes "svc_unlink svc (w_sessionid w) oid n (w_srv w) = (Some r, s)"
    "rpc_unlink svc oid n (Some x) a w = Some (st, (res, a'), w')" "st = KURMA_OKAY"
  shows "res = Some (r_oid r)"
  using assms
  by (auto simp: rpc_unlink_def with_status_def rpc_call_def get_client_def bind_eq_Some_conv
      split: if_splits)

lemma kurma_unlink_marks:
  assumes "w_handles w d = Some dir" "\<not> is_snapshot_dir (kh_snapshot_id dir)" "\<not> is_snapshot_dirname n"
    and r: "svc_unlink svc (w_sessionid w) (kh_oid dir) n (w_srv w) = (Some r, s)"
  shows "ensures (kurma_unlink svc d n w)
    (\<lambda>(st, w'). st_major st = ERR_FSAL_NO_ERROR \<longrightarrow> deleted_is (r_oid r) w')"
  unfolding kurma_unlink_def
  using assms(1-3)
  by (intro ensures_rules;
      auto dest!: rpc_unlink_oid [OF r] deleted_is_try split: if_splits
        simp: invalidate_dir_contents_def bind_eq_Some_conv deleted_is_def)

definition demo_stale :: "unit kurma_world" where
  "demo_stale = (case w_handles demo_looked 1 of None \<Rightarrow> demo_looked
     | Some k \<Rightarrow> put_handle 1 (k\<lparr>kh_attrs_timestamp := 0\<rparr>) demo_looked)"

definition demo_unlinked :: "unit kurma_world" where
  "demo_unlinked = (case kurma_unlink demo_service 0 ''f'' demo_stale of
     None \<Rightarrow> demo_stale | Some (st, w) \<Rightarrow> w)"

definition demo_child :: kurma_fsal_obj_handle where
  "demo_child = (case w_handles demo_unlinked 1 of None \<Rightarrow> sample_handle | Some k \<Rightarrow> k)"


section \<open>Snapshots\<close>



text \<open>
  Objects of snapshots are read-only through the handle operations: creating a directory or a
  symbolic link in one, setting its attributes or reading it as a link is refused with a
  permission error, before any call to the server and without any change.
\<close>

theorem snapshot_object_readonly:
  assumes "w_handles w h = Some k" "is_snapshot_obj (kh_snapshot_id k)"
  shows "kurma_makesymlink svc h n l a w = Some (fsalstat ERR_FSAL_PERM 0, (None, a), w)
    \<and> kurma_setattrs svc h a w = Some (fsalstat ERR_FSAL_PERM 0, a, w)
    \<and> kurma_readsymlink svc h desc w = Some (fsalstat ERR_FSAL_PERM 0, desc, w)
    \<and> kurma_makedir svc h n a w = Some (fsalstat
         (if kh_type k = DIRECTORY then ERR_FSAL_PERM else ERR_FSAL_NOTDIR) 0, (None, a), w)"
  using assms
  by (simp add: kurma_makesymlink_def kurma_setattrs_def kurma_readsymlink_def kurma_makedir_def handle_is_def)

theorem snapshot_object_readonly_witness:
  "is_snapshot_obj 9 \<and> kurma_setattrs demo_service 4 zero_attrs
      (put_handle 4 (sample_handle\<lparr>kh_snapshot_id := 9\<rparr>) demo_world)
    = Some (fsalstat ERR_FSAL_PERM 0, zero_attrs, put_handle 4 (sample_handle\<lparr>kh_snapshot_id := 9\<rparr>) demo_world)"
proof -
  have s: "is_snapshot_obj 9" by code_simp
  with snapshot_object_readonly [of "put_handle 4 (sample_handle\<lparr>kh_snapshot_id := 9\<rparr>) demo_world" 4
      "sample_handle\<lparr>kh_snapshot_id := 9\<rparr>" demo_service "[]" "[]" zero_attrs "[]"]
  show ?thesis by (simp add: put_handle_def)
qed

section \<open>Directory listings\<close>

text \<open>
  What a listing delivers: every name, each regular file followed by its snapshot directory
  when snapshots are shown.  The callback of the property keeps the names and stops after \<open>lim\<close> of them.
\<close>

definition listing_names :: "bool \<Rightarrow> DirEntry list \<Rightarrow> string list" where
  "listing_names snaps es = concat (map (\<lambda>e. de_name e #
     (if snaps \<and> oid_type (de_oid e) = 1 then [SNAPSHOT_DIR_PREFIX @ de_name e] else [])) es)"

definition collect_cb :: "nat \<Rightarrow> (string list, ('s, 'b) kurma_world_scheme) readdir_cb" where
  "collect_cb lim n d w = Some (length d + 1 < lim, d @ [n], w)"

definition mallocs_ok :: "('s, 'b) rpc_world_scheme \<Rightarrow> bool" where
  "mallocs_ok w \<longleftrightarrow> (\<forall>t. e_malloc (o_env (w_orc w)) t)"

lemma mallocs_ok_draw: "mallocs_ok w \<Longrightarrow> w_draw draw_malloc w = (b, w') \<Longrightarrow> b \<and> mallocs_ok w'"
  by (auto simp: mallocs_ok_def w_draw_def draw_malloc_def tick_def)

lemma readdir_loop_collect:
  assumes "mallocs_ok w" "length d < lim"
    and "\<forall>e \<in> set es. length (de_name e) \<le> 236"
  shows "\<exists>w'. readdir_loop (collect_cb lim) l es d w =
    (let all = d @ listing_names (w_snapshot_enabled w \<and> \<not> l) es
     in Some (length all < lim, take lim all, w'))"
  using assms
proof (induction es arbitrary: d w)
  case Nil
  then show ?case by (simp add: listing_names_def)
next
  case (Cons e es)
  obtain b w1 where dr: "w_draw draw_malloc w = (b, w1)" by force
  note ok = mallocs_ok_draw [OF Cons.prems(1) dr] more_fields(8) [OF w_draw_more [OF dr]]
  have name: "get_snapshot_dirname (de_name e) = Some (SNAPSHOT_DIR_PREFIX @ de_name e)"
    using Cons.prems(3) by (simp add: get_snapshot_dirname_def NAME_MAX_def SNAPSHOT_DIR_PREFIX_def)
  let ?s = "w_snapshot_enabled w \<and> \<not> l"
  show ?case
  proof (cases "length d + 1 < lim")
    case False
    with Cons.prems(2) have "lim = Suc (length d)" by simp
    then show ?thesis by (auto simp: collect_cb_def listing_names_def)
  next
    case True
    then show ?thesis
    proof (cases "?s \<and> oid_type (de_oid e) = 1")
      case reg: True
      show ?thesis
      proof (cases "length d + 2 < lim")
        case more: True
        from Cons.IH [of w1 "d @ [de_name e, SNAPSHOT_DIR_PREFIX @ de_name e]"] ok more Cons.prems(3)
        show ?thesis using True reg dr name by (auto simp: collect_cb_def listing_names_def Let_def)
      next
        case False
        with True have "lim = Suc (Suc (length d))" by simp
        then show ?thesis using reg dr name ok by (auto simp: collect_cb_def listing_names_def)
      qed
    next
      case False
      from Cons.IH [of w "d @ [de_name e]"] Cons.prems True False
      show ?thesis by (auto simp: collect_cb_def listing_names_def Let_def)
    qed
  qed
qed

lemma draw_env:
  "w_draw draw_time w = (t, w') \<Longrightarrow> o_env (w_orc w') = o_env (w_orc w)"
  "w_draw draw_trylock w = (b, w') \<Longrightarrow> o_env (w_orc w') = o_env (w_orc w)"
  by (auto simp: w_draw_def draw_time_def draw_trylock_def tick_def)

lemma try_update_returns:
  assumes "w_handles w h = Some k"
  shows "\<exists>w' k'. try_update_handle h a w = Some w' \<and> w_handles w' h = Some k'
    \<and> w_snapshot_enabled w' = w_snapshot_enabled w \<and> mallocs_ok w' = mallocs_ok w"
proof -
  obtain k' w1 where u: "kurma_try_update_attributes k a w = (k', w1)" by force
  have "o_env (w_orc w1) = o_env (w_orc w)"
    using u by (auto simp: kurma_try_update_attributes_def Let_def dest!: draw_env
        split: prod.splits if_splits)
  with u kurma_try_update_same [OF u] more_fields(8) [of w1 w] assms show ?thesis
    by (simp add: try_update_handle_def put_handle_def mallocs_ok_def)
qed



section \<open>Restoring a snapshot\<close>

lemma get_client_fields [simp]:
  "w_sessionid (get_client w) = w_sessionid w" "w_srv (get_client w) = w_srv w"
  "w_orc (get_client w) = w_orc w"
  by (simp_all add: get_client_def)

lemma get_client_handles [simp]:
  "w_handles (get_client w) = w_handles w" "w_invalidated (get_client w) = w_invalidated w"
  by (simp_all add: get_client_def)

lemma rpc_lookup_okay:
  assumes "svc_lookup svc (w_sessionid w) d n (w_srv w) = (Some r, s)" "r_errcode r = 0"
    "r_dir_data r = [e]" "kattrs_wf (r_new_attrs r)"
  shows "rpc_lookup svc (Some d) n oid (Some a) None w = Some (KURMA_OKAY,
    (de_oid e, Some ((fsal_view (r_new_attrs r) a)\<lparr>a_type := extract_object_type (de_oid e)\<rparr>), None),
    (get_client w)\<lparr>w_srv := s\<rparr>)"
  using assms(1-3) kurma_attrs_to_fsal_eq [OF assms(4), of a]
  by (simp add: rpc_lookup_def rpc_call_def with_status_def opt_fsal_attrs_def
      kurma_result_to_fsal_attrs_def Let_def)

lemma rpc_restore_okay:
  assumes "svc_restore_snapshot svc (w_sessionid w) oid n 0 (w_srv w) = (Some r, s)" "r_errcode r = 0"
    "kattrs_wf (r_new_attrs r)"
  shows "\<exists>outs. rpc_restore_snapshot svc oid n None a w = Some (KURMA_OKAY, outs, (get_client w)\<lparr>w_srv := s\<rparr>)"
  using assms(1,2) kurma_attrs_to_fsal_eq [OF assms(3), of a]
  by (simp add: rpc_restore_snapshot_def rpc_call_def with_status_def
      kurma_result_to_fsal_attrs_def)

text \<open>
  C25 Renaming out of a snapshot directory restores: when the target name is not the file the
  directory belongs to, the request is refused as invalid without asking the server to restore; when
  it is and the server restores, the caller gets "exists", the snapshot directory's contents are
  invalidated under its key, and the file's attributes are invalidated under a key whose bytes after
  the 24 packed ones are whatever the stack held, not the zeros of the live handles' keys.
\<close>

theorem rename_restores_snapshot:
  assumes "w_handles w s = Some src" "w_handles w d = Some dst" "is_snapshot_dir (kh_snapshot_id src)"
    and l: "svc_lookup svc (w_sessionid w) (kh_oid dst) n' (w_srv w) = (Some r, s1)" "r_errcode r = 0"
      "r_dir_data r = [e]" "kattrs_wf (r_new_attrs r)"
    and q: "svc_restore_snapshot svc (w_sessionid w) (de_oid e) n 0 s1 = (Some r2, s2)" "r_errcode r2 = 0"
      "kattrs_wf (r_new_attrs r2)"
  shows "\<exists>w'. kurma_rename svc s n d n' w =
      Some (fsalstat (if is_same_file (kh_oid src) (de_oid e) then ERR_FSAL_EXIST else ERR_FSAL_INVAL) 0, w')
    \<and> (if is_same_file (kh_oid src) (de_oid e)
       then w_srv w' = s2 \<and> w_invalidated w' = (kh_opaque src, True)
         # (enc_handle (handle_id (de_oid e) 0)
              @ drop 24 (fst (draw_garbage V4_FH_OPAQUE_SIZE (w_orc w))), False) # w_invalidated w
       else w_srv w' = s1 \<and> w_invalidated w' = w_invalidated w)"
proof -
  let ?w1 = "(get_client w)\<lparr>w_srv := s1\<rparr>"
  note lk = rpc_lookup_okay [OF l, of new_object_id zero_attrs]
  have "\<exists>outs. rpc_restore_snapshot svc (de_oid e) n None
      ((fsal_view (r_new_attrs r) zero_attrs)\<lparr>a_type := extract_object_type (de_oid e)\<rparr>) ?w1
      = Some (KURMA_OKAY, outs, (get_client ?w1)\<lparr>w_srv := s2\<rparr>)"
    by (rule rpc_restore_okay) (use q in simp_all)
  then obtain outs where q': "rpc_restore_snapshot svc (de_oid e) n None
      ((fsal_view (r_new_attrs r) zero_attrs)\<lparr>a_type := extract_object_type (de_oid e)\<rparr>) ?w1
      = Some (KURMA_OKAY, outs, (get_client ?w1)\<lparr>w_srv := s2\<rparr>)" ..
  obtain g o' where g: "draw_garbage V4_FH_OPAQUE_SIZE (w_orc w) = (g, o')" by force
  then have len: "V4_FH_OPAQUE_SIZE \<le> length g"
    using length_draw_garbage [of V4_FH_OPAQUE_SIZE "w_orc w"] by simp
  show ?thesis
    using assms(1-3) lk q' g package_kurma_handle_eq [OF len, of "de_oid e" 0]
    by (auto simp: kurma_rename_def kurma_restore_snapshot_def the_attrs_def invalidate_object_attributes_def
        invalidate_dir_contents_def w_draw_def)
qed

definition demo_snapdir :: "unit kurma_world" where
  "demo_snapdir = put_handle 5 ((calloc_handle demo_file)\<lparr>kh_snapshot_id := SNAPSHOT_DIR, kh_type := DIRECTORY,
     kh_opaque := [9]\<rparr>) (put_handle 4 (calloc_handle demo_dir) demo_world)"

theorem rename_restores_snapshot_witness:
  "\<exists>w'. kurma_rename demo_service 5 ''s'' 4 ''f'' demo_snapdir = Some (fsalstat ERR_FSAL_EXIST 0, w')
    \<and> w_invalidated w' = [([9], True), (enc_handle (handle_id demo_file 0) @ replicate 98 0xAA, False)]"
proof -
  have wf: "kattrs_wf (r_new_attrs new_kurma_result)"
    by (simp add: kattrs_wf_def new_kurma_result_def new_object_attributes_def)
  have g: "drop 24 (fst (draw_garbage V4_FH_OPAQUE_SIZE (w_orc demo_snapdir))) = replicate 98 0xAA"
    by code_simp
  show ?thesis
    using rename_restores_snapshot [of demo_snapdir 5 "(calloc_handle demo_file)\<lparr>kh_snapshot_id := SNAPSHOT_DIR,
        kh_type := DIRECTORY, kh_opaque := [9]\<rparr>" 4 "calloc_handle demo_dir" demo_service "''f''"
        "new_kurma_result\<lparr>r_dir_data := [\<lparr>de_oid = demo_file, de_name = ''f''\<rparr>]\<rparr>" "()"
        "\<lparr>de_oid = demo_file, de_name = ''f''\<rparr>" "''s''" new_kurma_result "()"] wf g
    by (simp add: demo_snapdir_def put_handle_def demo_service_def new_kurma_result_def is_snapshot_dir_def
        calloc_handle_def is_same_file_def demo_world_def)
qed

section \<open>Symbolic links\<close>

definition link_service :: "(ObjectID \<Rightarrow> bytes) kurma_service" where
  "link_service = mem_service\<lparr>svc_open := (\<lambda>_ _ _ s. (Some new_kurma_result, s)),
     svc_close := (\<lambda>_ _ s. (Some new_kurma_result, s))\<rparr>"

definition link_world :: "nat \<Rightarrow> (ObjectID \<Rightarrow> bytes) kurma_world" where
  "link_world n = \<lparr>w_srv = (\<lambda>_. replicate n 65), w_kurma_server = [], w_kurma_port = 0, w_client = True,
     w_sessionid = Some [1], w_orc = sample_oracle,
     w_handles = [3 \<mapsto> sample_handle\<lparr>kh_attrs := zero_attrs\<lparr>a_filesize := of_nat n\<rparr>\<rparr>], w_next = 4, w_list = [3],
     w_inode_number = 1, w_deleted_id1 = 0, w_deleted_id2 = 0, w_deleted_creator = 0,
     w_snapshot_enabled = True, w_creds = \<lparr>caller_uid = 0, caller_gid = 0, caller_garray = []\<rparr>,
     w_export_path = ''/k'', w_root_handle = None, w_invalidated = []\<rparr>"

text \<open>
  Reading a symbolic link writes the target over the caller's 16-byte buffer descriptor: a
  ten-byte target overwrites the descriptor's first bytes, and a target of 20 bytes writes past the
  descriptor, which is undefined behaviour.
\<close>

theorem readsymlink_overwrites_descriptor:
  "map_option (\<lambda>(st, desc, w). (st_major st, desc))
     (kurma_readsymlink link_service 3 (replicate sizeof_gsh_buffdesc 0) (link_world 10))
     = Some (ERR_FSAL_NO_ERROR, replicate 10 65 @ replicate 6 0)
   \<and> kurma_readsymlink link_service 3 (replicate sizeof_gsh_buffdesc 0) (link_world 20) = None"
  by code_simp
end
