(* ===== verification/Kurma_Export.thy ===== *)
theory Kurma_Export
  imports Kurma_Handle_Inv
begin

text \<open>
  The module and export objects of the Kurma file-system layer: \<^verbatim>\<open>FSAL_KURMA/main.c\<close>, \<^verbatim>\<open>export.c\<close> and
  \<^verbatim>\<open>xattrs.c\<close> with the helpers of \<^verbatim>\<open>FSAL/fsal_config.c\<close>, \<^verbatim>\<open>FSAL/commonlib.c\<close> and \<^verbatim>\<open>FSAL/fsal_convert.c\<close>
  they call.
\<close>

section \<open>Static information\<close>

record fsal_staticfsinfo_t =
  si_maxfilesize :: u64
  si_maxlink :: u32
  si_maxnamelen :: u32
  si_maxpathlen :: u32
  si_no_trunc :: bool
  si_chown_restricted :: bool
  si_case_insensitive :: bool
  si_case_preserving :: bool
  si_link_support :: bool
  si_symlink_support :: bool
  si_lock_support :: bool
  si_lock_support_owner :: bool
  si_lock_support_async_block :: bool
  si_named_attr :: bool
  si_unique_handles :: bool
  si_lease_time :: timespec
  si_acl_support :: u32
  si_cansettime :: bool
  si_homogenous :: bool
  si_supported_attrs :: u64
  si_maxread :: u64
  si_maxwrite :: u64
  si_umask :: u32
  si_auth_exportpath_xdev :: bool
  si_xattr_access_rights :: u32
  si_accesscheck_support :: bool
  si_share_support :: bool
  si_share_support_owner :: bool
  si_delegations :: bool
  si_pnfs_file :: bool
  si_reopen_method :: bool
  si_fsal_trace :: bool

datatype fsal_fsinfo_options_t =
    fso_no_trunc | fso_chown_restricted | fso_case_insensitive | fso_case_preserving
  | fso_link_support | fso_symlink_support | fso_lock_support | fso_lock_support_owner
  | fso_lock_support_async_block | fso_named_attr | fso_unique_handles | fso_cansettime
  | fso_homogenous | fso_auth_exportpath_xdev | fso_delegations | fso_accesscheck_support
  | fso_share_support | fso_share_support_owner | fso_pnfs_ds_supported | fso_reopen_method

fun fsal_supports :: "fsal_staticfsinfo_t \<Rightarrow> fsal_fsinfo_options_t \<Rightarrow> bool" where
  "fsal_supports info fso_no_trunc = si_no_trunc info"
| "fsal_supports info fso_chown_restricted = si_chown_restricted info"
| "fsal_supports info fso_case_insensitive = si_case_insensitive info"
| "fsal_supports info fso_case_preserving = si_case_preserving info"
| "fsal_supports info fso_link_support = si_link_support info"
| "fsal_supports info fso_symlink_support = si_symlink_support info"
| "fsal_supports info fso_lock_support = si_lock_support info"
| "fsal_supports info fso_lock_support_owner = si_lock_support_owner info"
| "fsal_supports info fso_lock_support_async_block = si_lock_support_async_block info"
| "fsal_supports info fso_named_attr = si_named_attr info"
| "fsal_supports info fso_unique_handles = si_unique_handles info"
| "fsal_supports info fso_cansettime = si_cansettime info"
| "fsal_supports info fso_homogenous = si_homogenous info"
| "fsal_supports info fso_auth_exportpath_xdev = si_auth_exportpath_xdev info"
| "fsal_supports info fso_delegations = si_delegations info"
| "fsal_supports info fso_pnfs_ds_supported = si_pnfs_file info"
| "fsal_supports info fso_accesscheck_support = si_accesscheck_support info"
| "fsal_supports info fso_share_support = si_share_support info"
| "fsal_supports info fso_share_support_owner = si_share_support_owner info"
| "fsal_supports info fso_reopen_method = si_reopen_method info"

definition fsal_maxfilesize :: "fsal_staticfsinfo_t \<Rightarrow> u64" where
  "fsal_maxfilesize info = si_maxfilesize info"

definition fsal_maxlink :: "fsal_staticfsinfo_t \<Rightarrow> u32" where
  "fsal_maxlink info = si_maxlink info"

definition fsal_maxnamelen :: "fsal_staticfsinfo_t \<Rightarrow> u32" where
  "fsal_maxnamelen info = si_maxnamelen info"

definition fsal_maxpathlen :: "fsal_staticfsinfo_t \<Rightarrow> u32" where
  "fsal_maxpathlen info = si_maxpathlen info"

definition fsal_lease_time :: "fsal_staticfsinfo_t \<Rightarrow> timespec" where
  "fsal_lease_time info = si_lease_time info"

definition fsal_acl_support :: "fsal_staticfsinfo_t \<Rightarrow> u32" where
  "fsal_acl_support info = si_acl_support info"

definition fsal_supported_attrs :: "fsal_staticfsinfo_t \<Rightarrow> u64" where
  "fsal_supported_attrs info = si_supported_attrs info"

text \<open>The sizes are 64-bit fields returned as 32-bit values.\<close>

definition fsal_maxread :: "fsal_staticfsinfo_t \<Rightarrow> u32" where
  "fsal_maxread info = ucast (si_maxread info)"

definition fsal_maxwrite :: "fsal_staticfsinfo_t \<Rightarrow> u32" where
  "fsal_maxwrite info = ucast (si_maxwrite info)"

definition fsal_umask :: "fsal_staticfsinfo_t \<Rightarrow> u32" where
  "fsal_umask info = si_umask info"

definition fsal_xattr_access_rights :: "fsal_staticfsinfo_t \<Rightarrow> u32" where
  "fsal_xattr_access_rights info = si_xattr_access_rights info"

section \<open>The module\<close>

definition FSAL_MAXIOSIZE :: u64 where "FSAL_MAXIOSIZE = 64 * 1024 * 1024"

definition KURMA_SUPPORTED_ATTRIBUTES :: u64 where
  "KURMA_SUPPORTED_ATTRIBUTES =
     ATTR_TYPE OR ATTR_SIZE OR ATTR_FSID OR ATTR_FILEID OR ATTR_MODE OR ATTR_NUMLINKS
     OR ATTR_OWNER OR ATTR_GROUP OR ATTR_ATIME OR ATTR_RAWDEV OR ATTR_CTIME OR ATTR_MTIME
     OR ATTR_SPACEUSED OR ATTR_CHGTIME"

text \<open>\<^verbatim>\<open>MAXNAMLEN\<close> is 255 and \<^verbatim>\<open>MAXPATHLEN\<close> 4096 on Linux; fields without an initialiser are zero.\<close>

definition default_posix_info :: fsal_staticfsinfo_t where
  "default_posix_info = \<lparr>si_maxfilesize = 2 ^ 63 - 1, si_maxlink = 0, si_maxnamelen = 255,
     si_maxpathlen = 4096, si_no_trunc = True, si_chown_restricted = True,
     si_case_insensitive = False, si_case_preserving = True, si_link_support = False,
     si_symlink_support = False, si_lock_support = False, si_lock_support_owner = False,
     si_lock_support_async_block = False, si_named_attr = False, si_unique_handles = True,
     si_lease_time = \<lparr>tv_sec = 10, tv_nsec = 0\<rparr>, si_acl_support = 0, si_cansettime = True,
     si_homogenous = True, si_supported_attrs = KURMA_SUPPORTED_ATTRIBUTES,
     si_maxread = FSAL_MAXIOSIZE, si_maxwrite = FSAL_MAXIOSIZE, si_umask = 0,
     si_auth_exportpath_xdev = False, si_xattr_access_rights = 0x100,
     si_accesscheck_support = False, si_share_support = False, si_share_support_owner = False,
     si_delegations = False, si_pnfs_file = False, si_reopen_method = False, si_fsal_trace = False\<rparr>"

record kurma_fsal_module =
  km_fs_info :: fsal_staticfsinfo_t
  km_kurma_info :: kurma_specific_initinfo_t

definition kurma_staticinfo :: "kurma_fsal_module \<Rightarrow> fsal_staticfsinfo_t" where
  "kurma_staticinfo hdl = km_fs_info hdl"

text \<open>
  The configuration parser is a parameter: it fills the module from the configuration file
  and says whether the errors it met are harmless.
\<close>

type_synonym config_loader = "kurma_fsal_module \<Rightarrow> kurma_fsal_module \<times> bool"

definition init_config ::
    "'s kurma_service \<Rightarrow> config_loader \<Rightarrow> int \<Rightarrow> kurma_fsal_module \<Rightarrow> ('s, 'b) kurma_world_scheme
      \<Rightarrow> (fsal_status \<times> kurma_fsal_module \<times> ('s, 'b) kurma_world_scheme) option" where
  "init_config svc load_config thread_err kurma_me w = do {
     let kurma_me = kurma_me\<lparr>km_fs_info := default_posix_info\<rparr>;
     let (kurma_me, harmless) = load_config kurma_me;
     if \<not> harmless then Some (fsalstat ERR_FSAL_INVAL 0, kurma_me, w)
     else do {
       (st, w) \<leftarrow> rpc_init svc (km_kurma_info kurma_me) thread_err w;
       if st \<noteq> KURMA_OKAY then Some (fsalstat ERR_FSAL_BAD_INIT 0, kurma_me, w)
       else Some (fsalstat ERR_FSAL_NO_ERROR 0, kurma_me,
                  w\<lparr>w_snapshot_enabled := ki_enable_snapshot (km_kurma_info kurma_me)\<rparr>) } }"

section \<open>Errors\<close>

text \<open>
  \<^verbatim>\<open>posix2fsal_error\<close> on Linux: the error numbers are those of the kernel, the results those of
  \<^verbatim>\<open>fsal_errors_t\<close>.
\<close>

definition posix2fsal_error :: "int \<Rightarrow> fsal_errors_t" where
  "posix2fsal_error e =
     (if e = 0 then ERR_FSAL_NO_ERROR
      else if e = 1 then ERR_FSAL_PERM
      else if e = 2 then ERR_FSAL_NOENT
      else if e \<in> {111, 103, 104, 5, 23, 24, 32} then ERR_FSAL_IO
      else if e \<in> {25, 19, 6} then 6
      else if e = 9 then 20010
      else if e \<in> {12, 37} then ERR_FSAL_NOMEM
      else if e = 13 then 13
      else if e = 14 then ERR_FSAL_FAULT
      else if e = 17 then ERR_FSAL_EXIST
      else if e = 18 then 18
      else if e = 20 then ERR_FSAL_NOTDIR
      else if e = 21 then 21
      else if e = 22 then ERR_FSAL_INVAL
      else if e = 30 then 30
      else if e = 26 then 10015
      else if e = 27 then 27
      else if e = 28 then 28
      else if e = 31 then 31
      else if e = 122 then 49
      else if e = 3 then 20005
      else if e = 36 then 78
      else if e \<in> {39, - 39} then ERR_FSAL_NOTEMPTY
      else if e = 116 then ERR_FSAL_STALE
      else if e \<in> {11, 16, 62} then 10008
      else if e = 95 then ERR_FSAL_NOTSUPP
      else if e = 75 then 20012
      else if e = 35 then 20011
      else if e = 4 then 20013
      else ERR_FSAL_SERVERFAULT)"

section \<open>Exports\<close>

text \<open>
  The allocated exports with their three operation vectors, the list \<^verbatim>\<open>fsal_hdl->exports\<close>, the reference
  count of the module, the path of the export being configured (\<^verbatim>\<open>op_ctx->export->fullpath\<close>) and
  \<^verbatim>\<open>op_ctx->fsal_export\<close>.  \<open>w_export_path\<close> and \<open>w_root_handle\<close> are the fields of the current export.
\<close>

record fsal_export =
  fe_ops :: bool
  fe_obj_ops :: bool
  fe_ds_ops :: bool

record 's export_world = "'s kurma_world" +
  x_refcount :: int
  x_exports :: "nat list"
  x_heap :: "nat \<rightharpoonup> fsal_export"
  x_next :: nat
  x_fullpath :: string
  x_fsal_export :: "nat option"

definition fsal_attach_export :: "nat \<Rightarrow> ('s, 'b) export_world_scheme \<Rightarrow> int \<times> ('s, 'b) export_world_scheme" where
  "fsal_attach_export e w =
     (if x_refcount w > 0 then (0, w\<lparr>x_exports := e # x_exports w\<rparr>) else (c_EINVAL, w))"

definition fsal_detach_export :: "nat \<Rightarrow> ('s, 'b) export_world_scheme \<Rightarrow> ('s, 'b) export_world_scheme" where
  "fsal_detach_export e w = w\<lparr>x_exports := remove1 e (x_exports w)\<rparr>"

definition fsal_export_init ::
    "('s, 'b) export_world_scheme \<Rightarrow> int \<times> fsal_export \<times> ('s, 'b) export_world_scheme" where
  "fsal_export_init w =
     (let exp = \<lparr>fe_ops = False, fe_obj_ops = False, fe_ds_ops = False\<rparr>;
          (ok, w) = w_draw draw_malloc w in
      if \<not> ok then (c_ENOMEM, exp, w)
      else let exp = exp\<lparr>fe_ops := True\<rparr>; (ok, w) = w_draw draw_malloc w in
      if \<not> ok then (c_ENOMEM, exp, w)
      else let exp = exp\<lparr>fe_obj_ops := True\<rparr>; (ok, w) = w_draw draw_malloc w in
      if \<not> ok then (c_ENOMEM, exp, w)
      else (0, exp\<lparr>fe_ds_ops := True\<rparr>, w))"

definition free_export_ops :: "fsal_export \<Rightarrow> fsal_export" where
  "free_export_ops exp = exp\<lparr>fe_ops := False, fe_obj_ops := False, fe_ds_ops := False\<rparr>"

definition kurma_create_export ::
    "('s, 'b) export_world_scheme \<Rightarrow> fsal_status \<times> ('s, 'b) export_world_scheme" where
  "kurma_create_export w =
     (let (ok, w) = w_draw draw_malloc w in
      if \<not> ok then (fsalstat (posix2fsal_error c_ENOMEM) c_ENOMEM, w)
      else let e = x_next w;
               w = w\<lparr>x_next := Suc e\<rparr>;
               (retval, exp, w) = fsal_export_init w in
      if retval \<noteq> 0 then (fsalstat (posix2fsal_error retval) retval, w)
      else let w = w\<lparr>x_heap := (x_heap w)(e \<mapsto> exp)\<rparr>;
               (retval, w) = fsal_attach_export e w in
      if retval \<noteq> 0
      then (fsalstat (posix2fsal_error retval) retval, w\<lparr>x_heap := (x_heap w)(e := None)\<rparr>)
      else let (ok, w) = w_draw draw_malloc w in
      if \<not> ok
      then (fsalstat (posix2fsal_error c_ENOMEM) c_ENOMEM, w\<lparr>x_heap := (x_heap w)(e := None)\<rparr>)
      else (fsalstat ERR_FSAL_NO_ERROR 0,
            w\<lparr>w_export_path := x_fullpath w, w_root_handle := None, x_fsal_export := Some e\<rparr>))"

text \<open>\<^verbatim>\<open>fsal_obj_handle_uninit\<close> takes the root handle off \<^verbatim>\<open>fsal->handles\<close>, then it is freed.\<close>

definition export_release ::
    "nat \<Rightarrow> ('s, 'b) export_world_scheme \<Rightarrow> ('s, 'b) export_world_scheme option" where
  "export_release e w = do {
     exp \<leftarrow> x_heap w e;
     w \<leftarrow> (case w_root_handle w of
           None \<Rightarrow> Some w
         | Some h \<Rightarrow> do {
             k \<leftarrow> w_handles w h;
             Some (w\<lparr>w_list := remove1 h (w_list w), w_handles := (w_handles w)(h := None),
                     w_root_handle := None\<rparr>) });
     let w = fsal_detach_export e w;
     Some (w\<lparr>x_heap := (x_heap w)(e := None)\<rparr>) }"

section \<open>Export methods\<close>

record fsal_dynamicfsinfo_t =
  df_total_bytes :: u64
  df_free_bytes :: u64
  df_avail_bytes :: u64
  df_total_files :: u64
  df_free_files :: u64
  df_avail_files :: u64
  df_time_delta :: timespec

text \<open>\<^verbatim>\<open>dinfo\<close> is not initialised: \<open>garbage\<close> are the values it holds when the call fails.\<close>

definition get_dynamic_info ::
    "'s kurma_service \<Rightarrow> DynamicInfo \<Rightarrow> ('s, 'b) rpc_world_scheme
      \<Rightarrow> fsal_status \<times> fsal_dynamicfsinfo_t \<times> ('s, 'b) rpc_world_scheme" where
  "get_dynamic_info svc garbage w =
     (let (st, dinfo, w) = rpc_get_dynamic_info svc garbage w in
      (fsalstat st 0,
       \<lparr>df_total_bytes = word_of_int (di_bytes dinfo), df_free_bytes = 2 ^ 40, df_avail_bytes = 2 ^ 40,
        df_total_files = word_of_int (di_files dinfo), df_free_files = 2 ^ 40, df_avail_files = 2 ^ 40,
        df_time_delta = \<lparr>tv_sec = 1, tv_nsec = 0\<rparr>\<rparr>, w))"

definition fs_supports :: "kurma_fsal_module \<Rightarrow> fsal_fsinfo_options_t \<Rightarrow> bool" where
  "fs_supports m option = fsal_supports (kurma_staticinfo m) option"

definition fs_maxfilesize :: "kurma_fsal_module \<Rightarrow> u64" where
  "fs_maxfilesize m = fsal_maxfilesize (kurma_staticinfo m)"

definition fs_maxread :: "kurma_fsal_module \<Rightarrow> u32" where
  "fs_maxread m = fsal_maxread (kurma_staticinfo m)"

definition fs_maxwrite :: "kurma_fsal_module \<Rightarrow> u32" where
  "fs_maxwrite m = fsal_maxwrite (kurma_staticinfo m)"

definition fs_maxlink :: "kurma_fsal_module \<Rightarrow> u32" where
  "fs_maxlink m = fsal_maxlink (kurma_staticinfo m)"

definition fs_maxnamelen :: "kurma_fsal_module \<Rightarrow> u32" where
  "fs_maxnamelen m = fsal_maxnamelen (kurma_staticinfo m)"

definition fs_maxpathlen :: "kurma_fsal_module \<Rightarrow> u32" where
  "fs_maxpathlen m = fsal_maxpathlen (kurma_staticinfo m)"

definition fs_lease_time :: "kurma_fsal_module \<Rightarrow> timespec" where
  "fs_lease_time m = fsal_lease_time (kurma_staticinfo m)"

definition fs_acl_support :: "kurma_fsal_module \<Rightarrow> u32" where
  "fs_acl_support m = fsal_acl_support (kurma_staticinfo m)"

definition fs_supported_attrs :: "kurma_fsal_module \<Rightarrow> u64" where
  "fs_supported_attrs m = fsal_supported_attrs (kurma_staticinfo m)"

definition fs_umask :: "kurma_fsal_module \<Rightarrow> u32" where
  "fs_umask m = fsal_umask (kurma_staticinfo m)"

definition fs_xattr_access_rights :: "kurma_fsal_module \<Rightarrow> u32" where
  "fs_xattr_access_rights m = fsal_xattr_access_rights (kurma_staticinfo m)"

definition get_quota :: "string \<Rightarrow> int \<Rightarrow> fsal_status" where
  "get_quota filepath quota_type = fsalstat ERR_FSAL_NOTSUPP 0"

definition set_quota :: "string \<Rightarrow> int \<Rightarrow> fsal_status" where
  "set_quota filepath quota_type = fsalstat ERR_FSAL_NOTSUPP 0"

definition kurma_extract_handle :: "fsal_digesttype_t \<Rightarrow> nat \<Rightarrow> fsal_status" where
  "kurma_extract_handle in_type len =
     (let fh_min = 1 in
      if len < fh_min then fsalstat ERR_FSAL_SERVERFAULT 0 else fsalstat ERR_FSAL_NO_ERROR 0)"

section \<open>Extended attributes\<close>

definition kurma_list_ext_attrs :: "kurma_fsal_obj_handle \<Rightarrow> u32 \<Rightarrow> fsal_status" where
  "kurma_list_ext_attrs obj cookie = fsalstat ERR_FSAL_NOTSUPP c_ENOTSUP"

definition kurma_getextattr_id_by_name :: "kurma_fsal_obj_handle \<Rightarrow> string \<Rightarrow> fsal_status" where
  "kurma_getextattr_id_by_name obj xattr_name = fsalstat ERR_FSAL_NOTSUPP c_ENOTSUP"

definition kurma_getextattr_value_by_id :: "kurma_fsal_obj_handle \<Rightarrow> u32 \<Rightarrow> fsal_status" where
  "kurma_getextattr_value_by_id obj xattr_id = fsalstat ERR_FSAL_NOTSUPP c_ENOTSUP"

definition kurma_getextattr_value_by_name :: "kurma_fsal_obj_handle \<Rightarrow> string \<Rightarrow> fsal_status" where
  "kurma_getextattr_value_by_name obj xattr_name = fsalstat ERR_FSAL_NOTSUPP c_ENOTSUP"

definition kurma_setextattr_value :: "kurma_fsal_obj_handle \<Rightarrow> string \<Rightarrow> bytes \<Rightarrow> fsal_status" where
  "kurma_setextattr_value obj xattr_name buffer = fsalstat ERR_FSAL_NOTSUPP c_ENOTSUP"

definition kurma_setextattr_value_by_id :: "kurma_fsal_obj_handle \<Rightarrow> u32 \<Rightarrow> bytes \<Rightarrow> fsal_status" where
  "kurma_setextattr_value_by_id obj xattr_id buffer = fsalstat ERR_FSAL_NOTSUPP c_ENOTSUP"

definition kurma_getextattr_attrs :: "kurma_fsal_obj_handle \<Rightarrow> u32 \<Rightarrow> fsal_status" where
  "kurma_getextattr_attrs obj xattr_id = fsalstat ERR_FSAL_NOTSUPP c_ENOTSUP"

definition kurma_remove_extattr_by_id :: "kurma_fsal_obj_handle \<Rightarrow> u32 \<Rightarrow> fsal_status" where
  "kurma_remove_extattr_by_id obj xattr_id = fsalstat ERR_FSAL_NOTSUPP c_ENOTSUP"

definition kurma_remove_extattr_by_name :: "kurma_fsal_obj_handle \<Rightarrow> string \<Rightarrow> fsal_status" where
  "kurma_remove_extattr_by_name obj xattr_name = fsalstat ERR_FSAL_NOTSUPP c_ENOTSUP"

section \<open>Properties\<close>

text \<open>
  The list of exports is well-formed when it holds every allocated export once and nothing
  else.
\<close>

definition exports_wf :: "('s, 'b) export_world_scheme \<Rightarrow> bool" where
  "exports_wf w \<longleftrightarrow> distinct (x_exports w) \<and> set (x_exports w) = dom (x_heap w)
     \<and> (\<forall>e \<in> set (x_exports w). e < x_next w)"

definition keeps_exports :: "('s, 'b) export_world_scheme \<Rightarrow> ('s, 'b) export_world_scheme \<Rightarrow> bool" where
  "keeps_exports w w' \<longleftrightarrow> x_refcount w' = x_refcount w \<and> x_exports w' = x_exports w \<and> x_heap w' = x_heap w
     \<and> x_next w' = x_next w \<and> x_fullpath w' = x_fullpath w"

lemma keeps_exports_draw: "w_draw d w = (b, w') \<Longrightarrow> keeps_exports w w'"
  by (auto simp: w_draw_def keeps_exports_def split: prod.splits)

lemma keeps_exports_init:
  assumes "fsal_export_init w = (r, exp, w')"
  shows "keeps_exports w w' \<and> (r = 0 \<or> r = c_ENOMEM)"
  using assms
  by (auto simp: fsal_export_init_def Let_def split: prod.splits if_splits dest!: keeps_exports_draw)
    (auto simp: keeps_exports_def)

lemma create_export_cases:
  obtains w' where "kurma_create_export w = (fsalstat ERR_FSAL_NOMEM c_ENOMEM, w')"
      "x_heap w' = x_heap w" "x_exports w' = x_exports w" "x_next w \<le> x_next w'"
  | w' where "kurma_create_export w = (fsalstat ERR_FSAL_INVAL c_EINVAL, w')"
      "\<not> x_refcount w > 0" "x_heap w' = (x_heap w)(x_next w := None)" "x_exports w' = x_exports w" "x_next w' = Suc (x_next w)"
  | w' where "kurma_create_export w = (fsalstat ERR_FSAL_NOMEM c_ENOMEM, w')"
      "x_refcount w > 0" "x_heap w' = (x_heap w)(x_next w := None)" "x_exports w' = x_next w # x_exports w"
  | w' exp where "kurma_create_export w = (fsalstat ERR_FSAL_NO_ERROR 0, w')"
      "x_heap w' = (x_heap w)(x_next w \<mapsto> exp)" "x_exports w' = x_next w # x_exports w" "x_next w' = Suc (x_next w)"
      "w_export_path w' = x_fullpath w" "w_root_handle w' = None" "x_fsal_export w' = Some (x_next w)"
proof -
  obtain b1 w1 where d1: "w_draw draw_malloc w = (b1, w1)" by force
  obtain r exp w2 where i: "fsal_export_init (w1\<lparr>x_next := Suc (x_next w1)\<rparr>) = (r, exp, w2)"
    by (metis prod.exhaust)
  note k1 = keeps_exports_draw [OF d1] and k2 = keeps_exports_init [OF i]
  let ?w3 = "w2\<lparr>x_heap := (x_heap w2)(x_next w1 \<mapsto> exp)\<rparr>"
  obtain r2 w4 where a: "fsal_attach_export (x_next w1) ?w3 = (r2, w4)" by force
  obtain b2 w5 where d2: "w_draw draw_malloc w4 = (b2, w5)" by force
  note k3 = keeps_exports_draw [OF d2]
  have pe: "posix2fsal_error c_ENOMEM = ERR_FSAL_NOMEM" "posix2fsal_error c_EINVAL = ERR_FSAL_INVAL"
    by (simp_all add: posix2fsal_error_def)
  consider "\<not> b1" | "b1" "r \<noteq> 0" | "b1" "r = 0" "\<not> x_refcount w > 0" | "b1" "r = 0" "x_refcount w > 0"
    by blast
  then show thesis
  proof cases
    case 1
    with d1 have "kurma_create_export w = (fsalstat ERR_FSAL_NOMEM c_ENOMEM, w1)"
      by (simp add: kurma_create_export_def pe)
    with that(1) k1 show ?thesis by (simp add: keeps_exports_def)
  next
    case 2
    with d1 i k2 have "kurma_create_export w = (fsalstat ERR_FSAL_NOMEM c_ENOMEM, w2)"
      by (auto simp: kurma_create_export_def Let_def pe)
    with that(1) k1 k2 show ?thesis by (simp add: keeps_exports_def)
  next
    case 3
    with k1 k2 a have "r2 = c_EINVAL" "w4 = ?w3" by (auto simp: fsal_attach_export_def keeps_exports_def)
    with 3 d1 i a have "kurma_create_export w
        = (fsalstat ERR_FSAL_INVAL c_EINVAL, ?w3\<lparr>x_heap := (x_heap ?w3)(x_next w1 := None)\<rparr>)"
      by (simp add: kurma_create_export_def Let_def pe)
    with that(2) 3 k1 k2 show ?thesis by (simp add: keeps_exports_def)
  next
    case 4
    with k1 k2 a have r2: "r2 = 0" "w4 = ?w3\<lparr>x_exports := x_next w1 # x_exports ?w3\<rparr>"
      by (auto simp: fsal_attach_export_def keeps_exports_def)
    show ?thesis
    proof (cases b2)
      case False
      with 4 r2 d1 i a d2 have "kurma_create_export w
          = (fsalstat ERR_FSAL_NOMEM c_ENOMEM, w5\<lparr>x_heap := (x_heap w5)(x_next w1 := None)\<rparr>)"
        by (simp add: kurma_create_export_def Let_def pe)
      with that(3) 4 r2 k1 k2 k3 show ?thesis by (simp add: keeps_exports_def)
    next
      case True
      with 4 r2 d1 i a d2 have "kurma_create_export w = (fsalstat ERR_FSAL_NO_ERROR 0,
          w5\<lparr>w_export_path := x_fullpath w5, w_root_handle := None, x_fsal_export := Some (x_next w1)\<rparr>)"
        by (simp add: kurma_create_export_def Let_def)
      with that(4) r2 k1 k2 k3 show ?thesis by (simp add: keeps_exports_def)
    qed
  qed
qed


definition export_demo :: "(nat \<Rightarrow> bool) \<Rightarrow> unit export_world" where
  "export_demo mallocs = \<lparr>w_srv = (), w_kurma_server = [], w_kurma_port = 0, w_client = True,
     w_sessionid = Some [1], w_orc = sample_oracle\<lparr>o_env := (o_env sample_oracle)\<lparr>e_malloc := mallocs\<rparr>\<rparr>,
     w_handles = Map.empty, w_next = 0, w_list = [],
     w_inode_number = 1, w_deleted_id1 = 0, w_deleted_id2 = 0, w_deleted_creator = 0,
     w_snapshot_enabled = True, w_creds = \<lparr>caller_uid = 0, caller_gid = 0, caller_garray = []\<rparr>,
     w_export_path = [], w_root_handle = None, w_invalidated = [],
     x_refcount = 1, x_exports = [], x_heap = Map.empty, x_next = 0, x_fullpath = ''/k'', x_fsal_export = None\<rparr>"




lemma rpc_create_session_stores:
  assumes "rpc_create_session svc c v w = Some (KURMA_OKAY, w')"
  shows "w_sessionid w' \<noteq> None"
proof -
  obtain res w1 where "rpc_call (svc_create_session svc c v) w = (res, w1)" by force
  with assms show ?thesis
    by (cases res) (auto simp: rpc_create_session_def bind_eq_Some_conv split: if_splits option.splits)
qed

text \<open>
  The limits of a configured module are the configured ones: when the configuration only
  holds transfer sizes of its documented range, 512 bytes to 64 MiB, the 32-bit values the export
  reports lose nothing of the 64-bit fields, and a module that initialised has a session and the
  snapshot setting of the configuration.
\<close>

theorem init_config_limits:
  assumes "load_config (m\<lparr>km_fs_info := default_posix_info\<rparr>) = (m', True)"
    and "512 \<le> si_maxread (km_fs_info m')" "si_maxread (km_fs_info m') \<le> FSAL_MAXIOSIZE"
      "512 \<le> si_maxwrite (km_fs_info m')" "si_maxwrite (km_fs_info m') \<le> FSAL_MAXIOSIZE"
    and "init_config svc load_config thread_err m w = Some (fsalstat ERR_FSAL_NO_ERROR 0, m2, w')"
  shows "unat (fs_maxread m2) = unat (si_maxread (km_fs_info m'))
    \<and> unat (fs_maxwrite m2) = unat (si_maxwrite (km_fs_info m'))
    \<and> w_snapshot_enabled w' = ki_enable_snapshot (km_kurma_info m2) \<and> w_sessionid w' \<noteq> None"
proof -
  have "unat (ucast x :: u32) = unat (x :: u64)" if "x \<le> FSAL_MAXIOSIZE" for x
    using that by (simp add: FSAL_MAXIOSIZE_def word_le_nat_alt unsigned_ucast_eq take_bit_nat_eq_self)
  moreover have "w_sessionid w' \<noteq> None"
    using assms(1,6)
    by (auto simp: init_config_def rpc_init_def bind_eq_Some_conv fsalstat_def
        split: if_splits dest!: rpc_create_session_stores)
  ultimately show ?thesis using assms
    by (auto simp: init_config_def fs_maxread_def fs_maxwrite_def fsal_maxread_def fsal_maxwrite_def
        kurma_staticinfo_def fsalstat_def bind_eq_Some_conv split: if_splits)
qed

theorem init_config_limits_witness:
  "\<exists>m2 w'. init_config (null_service\<lparr>svc_create_session := (\<lambda>_ _ s.
        (Some (new_kurma_result\<lparr>r_sessionid := Some [3]\<rparr>), s))\<rparr>)
      (\<lambda>m. (m\<lparr>km_fs_info := (km_fs_info m)\<lparr>si_maxread := 4096\<rparr>\<rparr>, True)) 0
      \<lparr>km_fs_info = default_posix_info, km_kurma_info = \<lparr>ki_server = [], ki_port = 9091, ki_clientid = [7],
         ki_volumeid = [], ki_renew_interval = 1, ki_enable_snapshot = True\<rparr>\<rparr> (export_demo (\<lambda>t. True))
      = Some (fsalstat ERR_FSAL_NO_ERROR 0, m2, w')
    \<and> unat (fs_maxread m2) = 4096 \<and> w_snapshot_enabled w'"
proof -
  let ?svc = "null_service\<lparr>svc_create_session := (\<lambda>_ _ s.
        (Some (new_kurma_result\<lparr>r_sessionid := Some [3]\<rparr>), s))\<rparr> :: unit kurma_service"
  let ?ld = "\<lambda>m. (m\<lparr>km_fs_info := (km_fs_info m)\<lparr>si_maxread := 4096\<rparr>\<rparr>, True)"
  let ?m = "\<lparr>km_fs_info = default_posix_info, km_kurma_info = \<lparr>ki_server = [], ki_port = 9091, ki_clientid = [7],
         ki_volumeid = [], ki_renew_interval = 1, ki_enable_snapshot = True\<rparr>\<rparr>"
  let ?m' = "?m\<lparr>km_fs_info := default_posix_info\<lparr>si_maxread := 4096\<rparr>\<rparr>"
  have ld: "?ld (?m\<lparr>km_fs_info := default_posix_info\<rparr>) = (?m', True)" by simp
  obtain w' where run: "init_config ?svc ?ld 0 ?m (export_demo (\<lambda>t. True))
      = Some (fsalstat ERR_FSAL_NO_ERROR 0, ?m', w')"
    by (simp add: init_config_def rpc_init_def rpc_create_session_def rpc_call_def get_client_def
        new_kurma_result_def export_demo_def)
  from init_config_limits [OF ld _ _ _ _ run] run show ?thesis
    by (simp add: FSAL_MAXIOSIZE_def default_posix_info_def)
qed

end
