(* ===== verification/State_Lock.thy ===== *)
theory State_Lock
  imports Kurma_Export
begin

text \<open>
  The byte-range locks of the server, \<^verbatim>\<open>SAL/state_lock.c\<close>: the lock list of a file, conflicts, merging,
  splitting, blocked locks and the lock, unlock, test and cancel operations.  The Kurma
  file-system layer has no locks of its own (\<open>default_posix_info\<close>), so this list is the only lock state
  of its files.

  A lock entry carries its address as an identity.  The back links of an entry (the lists of its
  owner, export, client and state) follow its fields and are not represented.
\<close>

section \<open>Types\<close>

datatype fsal_lock_t = FSAL_LOCK_R | FSAL_LOCK_W | FSAL_NO_LOCK

datatype fsal_sle_type = FSAL_POSIX_LOCK | FSAL_LEASE_LOCK

record fsal_lock_param_t =
  lock_sle_type :: fsal_sle_type
  lock_type :: fsal_lock_t
  lock_start :: u64
  lock_length :: u64
  lock_reclaim :: bool

datatype fsal_lock_op_t = FSAL_OP_LOCKT | FSAL_OP_LOCK | FSAL_OP_LOCKB | FSAL_OP_UNLOCK | FSAL_OP_CANCEL

datatype state_blocking_t =
  STATE_NON_BLOCKING | STATE_NLM_BLOCKING | STATE_NFSV4_BLOCKING | STATE_GRANTING | STATE_CANCELED

datatype lock_type_t = POSIX_LOCK | LEASE_LOCK

datatype state_owner_type_t =
    STATE_LOCK_OWNER_UNKNOWN | STATE_LOCK_OWNER_NLM | STATE_LOCK_OWNER_9P
  | STATE_OPEN_OWNER_NFSV4 | STATE_LOCK_OWNER_NFSV4 | STATE_CLIENTID_OWNER_NFSV4

text \<open>
  The parts of an owner that are compared: the name, the NFSv4 client id, the NLM client (a number per
  class of \<^verbatim>\<open>compare_nlm_client\<close>) with its svid, and the 9P process id.
\<close>

record state_owner_t =
  so_type :: state_owner_type_t
  so_owner_val :: bytes
  so_clientid :: u64
  so_nlm_client :: nat
  so_nlm_svid :: u32
  so_proc_id :: u32

text \<open>Owners are addresses; the heap of owners is a parameter of what reads them.\<close>

type_synonym owner_heap = "nat \<Rightarrow> state_owner_t"

datatype state_grant_type_t =
  STATE_GRANT_NONE | STATE_GRANT_INTERNAL | STATE_GRANT_FSAL | STATE_GRANT_FSAL_AVAILABLE

record state_block_data_t =
  sbd_grant_type :: state_grant_type_t
  sbd_blocked_cookie :: "u64 option"
  sbd_nlm_fh :: bytes

record state_lock_entry_t =
  sle_id :: nat
  sle_export :: nat
  sle_owner :: nat
  sle_state :: "nat option"
  sle_blocked :: state_blocking_t
  sle_ref_count :: int
  sle_lock :: fsal_lock_param_t
  sle_type :: lock_type_t
  sle_block_data :: "state_block_data_t option"

datatype state_status_t =
    STATE_SUCCESS | STATE_MALLOC_ERROR | STATE_POOL_MUTEX_INIT_ERROR | STATE_GET_NEW_LRU_ENTRY
  | STATE_INIT_ENTRY_FAILED | STATE_FSAL_ERROR | STATE_LRU_ERROR | STATE_HASH_SET_ERROR
  | STATE_NOT_A_DIRECTORY | STATE_INCONSISTENT_ENTRY | STATE_BAD_TYPE | STATE_ENTRY_EXISTS
  | STATE_DIR_NOT_EMPTY | STATE_NOT_FOUND | STATE_INVALID_ARGUMENT | STATE_INSERT_ERROR
  | STATE_HASH_TABLE_ERROR | STATE_FSAL_EACCESS | STATE_IS_A_DIRECTORY | STATE_FSAL_EPERM
  | STATE_NO_SPACE_LEFT | STATE_READ_ONLY_FS | STATE_IO_ERROR | STATE_FSAL_ESTALE
  | STATE_FSAL_ERR_SEC | STATE_STATE_CONFLICT | STATE_QUOTA_EXCEEDED | STATE_DEAD_ENTRY
  | STATE_ASYNC_POST_ERROR | STATE_NOT_SUPPORTED | STATE_STATE_ERROR | STATE_FSAL_DELAY
  | STATE_NAME_TOO_LONG | STATE_LOCK_CONFLICT | STATE_LOCK_BLOCKED | STATE_LOCK_DEADLOCK
  | STATE_BAD_COOKIE | STATE_FILE_BIG | STATE_GRACE_PERIOD | STATE_CACHE_INODE_ERR
  | STATE_SIGNAL_ERROR | STATE_KILLED | STATE_FILE_OPEN | STATE_MLINK | STATE_SERVERFAULT
  | STATE_TOOSMALL | STATE_XDEV | STATE_FSAL_SHARE_DENIED | STATE_IN_GRACE | STATE_BADHANDLE

datatype cache_inode_status_t =
    CACHE_INODE_SUCCESS | CACHE_INODE_MALLOC_ERROR | CACHE_INODE_POOL_MUTEX_INIT_ERROR
  | CACHE_INODE_GET_NEW_LRU_ENTRY | CACHE_INODE_INIT_ENTRY_FAILED | CACHE_INODE_FSAL_ERROR
  | CACHE_INODE_LRU_ERROR | CACHE_INODE_HASH_SET_ERROR | CACHE_INODE_NOT_A_DIRECTORY
  | CACHE_INODE_INCONSISTENT_ENTRY | CACHE_INODE_BAD_TYPE | CACHE_INODE_ENTRY_EXISTS
  | CACHE_INODE_DIR_NOT_EMPTY | CACHE_INODE_NOT_FOUND | CACHE_INODE_INVALID_ARGUMENT
  | CACHE_INODE_INSERT_ERROR | CACHE_INODE_HASH_TABLE_ERROR | CACHE_INODE_FSAL_EACCESS
  | CACHE_INODE_IS_A_DIRECTORY | CACHE_INODE_FSAL_EPERM | CACHE_INODE_NO_SPACE_LEFT
  | CACHE_INODE_READ_ONLY_FS | CACHE_INODE_IO_ERROR | CACHE_INODE_FSAL_ESTALE
  | CACHE_INODE_FSAL_ERR_SEC | CACHE_INODE_STATE_CONFLICT | CACHE_INODE_QUOTA_EXCEEDED
  | CACHE_INODE_DEAD_ENTRY | CACHE_INODE_ASYNC_POST_ERROR | CACHE_INODE_NOT_SUPPORTED
  | CACHE_INODE_STATE_ERROR | CACHE_INODE_DELAY | CACHE_INODE_NAME_TOO_LONG
  | CACHE_INODE_BAD_COOKIE | CACHE_INODE_FILE_BIG | CACHE_INODE_KILLED | CACHE_INODE_FILE_OPEN
  | CACHE_INODE_FSAL_XDEV | CACHE_INODE_FSAL_MLINK | CACHE_INODE_SERVERFAULT
  | CACHE_INODE_TOOSMALL | CACHE_INODE_FSAL_SHARE_DENIED | CACHE_INODE_BADNAME
  | CACHE_INODE_UNION_NOTSUPP | CACHE_INODE_CROSS_JUNCTION | CACHE_INODE_IN_GRACE
  | CACHE_INODE_BADHANDLE

fun cache_inode_status_to_state_status :: "cache_inode_status_t \<Rightarrow> state_status_t" where
  "cache_inode_status_to_state_status CACHE_INODE_SUCCESS = STATE_SUCCESS"
| "cache_inode_status_to_state_status CACHE_INODE_MALLOC_ERROR = STATE_MALLOC_ERROR"
| "cache_inode_status_to_state_status CACHE_INODE_POOL_MUTEX_INIT_ERROR = STATE_POOL_MUTEX_INIT_ERROR"
| "cache_inode_status_to_state_status CACHE_INODE_GET_NEW_LRU_ENTRY = STATE_GET_NEW_LRU_ENTRY"
| "cache_inode_status_to_state_status CACHE_INODE_INIT_ENTRY_FAILED = STATE_INIT_ENTRY_FAILED"
| "cache_inode_status_to_state_status CACHE_INODE_FSAL_ERROR = STATE_FSAL_ERROR"
| "cache_inode_status_to_state_status CACHE_INODE_LRU_ERROR = STATE_LRU_ERROR"
| "cache_inode_status_to_state_status CACHE_INODE_HASH_SET_ERROR = STATE_HASH_SET_ERROR"
| "cache_inode_status_to_state_status CACHE_INODE_NOT_A_DIRECTORY = STATE_NOT_A_DIRECTORY"
| "cache_inode_status_to_state_status CACHE_INODE_INCONSISTENT_ENTRY = STATE_INCONSISTENT_ENTRY"
| "cache_inode_status_to_state_status CACHE_INODE_BAD_TYPE = STATE_BAD_TYPE"
| "cache_inode_status_to_state_status CACHE_INODE_ENTRY_EXISTS = STATE_ENTRY_EXISTS"
| "cache_inode_status_to_state_status CACHE_INODE_DIR_NOT_EMPTY = STATE_DIR_NOT_EMPTY"
| "cache_inode_status_to_state_status CACHE_INODE_NOT_FOUND = STATE_NOT_FOUND"
| "cache_inode_status_to_state_status CACHE_INODE_INVALID_ARGUMENT = STATE_INVALID_ARGUMENT"
| "cache_inode_status_to_state_status CACHE_INODE_INSERT_ERROR = STATE_INSERT_ERROR"
| "cache_inode_status_to_state_status CACHE_INODE_HASH_TABLE_ERROR = STATE_HASH_TABLE_ERROR"
| "cache_inode_status_to_state_status CACHE_INODE_FSAL_EACCESS = STATE_FSAL_EACCESS"
| "cache_inode_status_to_state_status CACHE_INODE_IS_A_DIRECTORY = STATE_IS_A_DIRECTORY"
| "cache_inode_status_to_state_status CACHE_INODE_FSAL_EPERM = STATE_FSAL_EPERM"
| "cache_inode_status_to_state_status CACHE_INODE_NO_SPACE_LEFT = STATE_NO_SPACE_LEFT"
| "cache_inode_status_to_state_status CACHE_INODE_READ_ONLY_FS = STATE_READ_ONLY_FS"
| "cache_inode_status_to_state_status CACHE_INODE_IO_ERROR = STATE_IO_ERROR"
| "cache_inode_status_to_state_status CACHE_INODE_FSAL_ESTALE = STATE_FSAL_ESTALE"
| "cache_inode_status_to_state_status CACHE_INODE_FSAL_ERR_SEC = STATE_FSAL_ERR_SEC"
| "cache_inode_status_to_state_status CACHE_INODE_STATE_CONFLICT = STATE_STATE_CONFLICT"
| "cache_inode_status_to_state_status CACHE_INODE_QUOTA_EXCEEDED = STATE_QUOTA_EXCEEDED"
| "cache_inode_status_to_state_status CACHE_INODE_DEAD_ENTRY = STATE_DEAD_ENTRY"
| "cache_inode_status_to_state_status CACHE_INODE_ASYNC_POST_ERROR = STATE_ASYNC_POST_ERROR"
| "cache_inode_status_to_state_status CACHE_INODE_NOT_SUPPORTED = STATE_NOT_SUPPORTED"
| "cache_inode_status_to_state_status CACHE_INODE_STATE_ERROR = STATE_STATE_ERROR"
| "cache_inode_status_to_state_status CACHE_INODE_DELAY = STATE_FSAL_DELAY"
| "cache_inode_status_to_state_status CACHE_INODE_NAME_TOO_LONG = STATE_NAME_TOO_LONG"
| "cache_inode_status_to_state_status CACHE_INODE_BAD_COOKIE = STATE_BAD_COOKIE"
| "cache_inode_status_to_state_status CACHE_INODE_FILE_BIG = STATE_FILE_BIG"
| "cache_inode_status_to_state_status CACHE_INODE_KILLED = STATE_KILLED"
| "cache_inode_status_to_state_status CACHE_INODE_FILE_OPEN = STATE_FILE_OPEN"
| "cache_inode_status_to_state_status CACHE_INODE_FSAL_XDEV = STATE_XDEV"
| "cache_inode_status_to_state_status CACHE_INODE_FSAL_MLINK = STATE_MLINK"
| "cache_inode_status_to_state_status CACHE_INODE_SERVERFAULT = STATE_SERVERFAULT"
| "cache_inode_status_to_state_status CACHE_INODE_TOOSMALL = STATE_TOOSMALL"
| "cache_inode_status_to_state_status CACHE_INODE_FSAL_SHARE_DENIED = STATE_FSAL_SHARE_DENIED"
| "cache_inode_status_to_state_status CACHE_INODE_BADNAME = STATE_INVALID_ARGUMENT"
| "cache_inode_status_to_state_status CACHE_INODE_UNION_NOTSUPP = STATE_NOT_SUPPORTED"
| "cache_inode_status_to_state_status CACHE_INODE_CROSS_JUNCTION = STATE_INVALID_ARGUMENT"
| "cache_inode_status_to_state_status CACHE_INODE_IN_GRACE = STATE_IN_GRACE"
| "cache_inode_status_to_state_status CACHE_INODE_BADHANDLE = STATE_BADHANDLE"

definition state_error_convert :: "fsal_status \<Rightarrow> state_status_t" where
  "state_error_convert fsal_status =
     (let major = st_major fsal_status in
      if major = ERR_FSAL_NO_ERROR then STATE_SUCCESS
      else if major = ERR_FSAL_NOENT then STATE_NOT_FOUND
      else if major \<in> {10008, 13} then STATE_LOCK_CONFLICT
      else if major = ERR_FSAL_PERM then STATE_FSAL_EPERM
      else if major = 28 then STATE_NO_SPACE_LEFT
      else if major = 30 then STATE_READ_ONLY_FS
      else if major \<in> {ERR_FSAL_IO, 6} then STATE_IO_ERROR
      else if major \<in> {ERR_FSAL_STALE, 10014} then STATE_FSAL_ESTALE
      else if major \<in> {ERR_FSAL_INVAL, 20012} then STATE_INVALID_ARGUMENT
      else if major = 20004 then STATE_FSAL_ERR_SEC
      else if major \<in> {ERR_FSAL_NOTSUPP, 10032, 10094} then STATE_NOT_SUPPORTED
      else if major = ERR_FSAL_NOMEM then STATE_MALLOC_ERROR
      else if major = 20011 then STATE_LOCK_DEADLOCK
      else if major = 10003 then STATE_BAD_COOKIE
      else if major = 20010 then STATE_FSAL_ERROR
      else if major \<in> {10029, 10007} then STATE_BAD_TYPE
      else if major = 21 then STATE_IS_A_DIRECTORY
      else if major = 27 then STATE_FILE_BIG
      else if major = 10046 then STATE_FILE_OPEN
      else if major = 10015 then STATE_FSAL_SHARE_DENIED
      else if major = 20014 then STATE_LOCK_BLOCKED
      else if major = 10095 then STATE_IN_GRACE
      else if major = ERR_FSAL_BADHANDLE then STATE_BADHANDLE
      else STATE_FSAL_ERROR)"

section \<open>Owners and ranges\<close>

definition compare_nlm_owner :: "state_owner_t \<Rightarrow> state_owner_t \<Rightarrow> bool" where
  "compare_nlm_owner owner1 owner2 \<longleftrightarrow>
     so_nlm_client owner1 \<noteq> so_nlm_client owner2 \<or> so_nlm_svid owner1 \<noteq> so_nlm_svid owner2
     \<or> so_owner_val owner1 \<noteq> so_owner_val owner2"

definition compare_9p_owner :: "state_owner_t \<Rightarrow> state_owner_t \<Rightarrow> bool" where
  "compare_9p_owner owner1 owner2 \<longleftrightarrow>
     so_proc_id owner1 \<noteq> so_proc_id owner2 \<or> so_owner_val owner1 \<noteq> so_owner_val owner2"

definition compare_nfs4_owner :: "state_owner_t \<Rightarrow> state_owner_t \<Rightarrow> bool" where
  "compare_nfs4_owner owner1 owner2 \<longleftrightarrow>
     so_clientid owner1 \<noteq> so_clientid owner2 \<or> so_owner_val owner1 \<noteq> so_owner_val owner2"

definition different_owners :: "owner_heap \<Rightarrow> nat \<Rightarrow> nat \<Rightarrow> bool" where
  "different_owners so owner1 owner2 =
     (if owner1 = owner2 then False
      else if so_type (so owner1) \<noteq> so_type (so owner2) then True
      else case so_type (so owner1) of
        STATE_LOCK_OWNER_NLM \<Rightarrow> compare_nlm_owner (so owner1) (so owner2)
      | STATE_LOCK_OWNER_9P \<Rightarrow> compare_9p_owner (so owner1) (so owner2)
      | STATE_LOCK_OWNER_UNKNOWN \<Rightarrow> True
      | _ \<Rightarrow> compare_nfs4_owner (so owner1) (so owner2))"

definition lock_owner_is_nlm :: "owner_heap \<Rightarrow> state_lock_entry_t \<Rightarrow> bool" where
  "lock_owner_is_nlm so e \<longleftrightarrow> so_type (so (sle_owner e)) = STATE_LOCK_OWNER_NLM"

definition lock_end :: "fsal_lock_param_t \<Rightarrow> u64" where
  "lock_end lock =
     (if lock_length lock = 0 then - 1 else lock_start lock + lock_length lock - 1)"

definition different_lock :: "fsal_lock_param_t \<Rightarrow> fsal_lock_param_t \<Rightarrow> bool" where
  "different_lock lock1 lock2 \<longleftrightarrow>
     lock_type lock1 \<noteq> lock_type lock2 \<or> lock_start lock1 \<noteq> lock_start lock2
     \<or> lock_length lock1 \<noteq> lock_length lock2"

text \<open>The test of the searches: the ranges overlap, one lock is exclusive and the owners differ.\<close>

definition overlaps :: "fsal_lock_param_t \<Rightarrow> fsal_lock_param_t \<Rightarrow> bool" where
  "overlaps found lock \<longleftrightarrow> lock_end found \<ge> lock_start lock \<and> lock_start found \<le> lock_end lock"

definition conflicts :: "owner_heap \<Rightarrow> nat \<Rightarrow> fsal_lock_param_t \<Rightarrow> state_lock_entry_t \<Rightarrow> bool" where
  "conflicts so owner lock found \<longleftrightarrow>
     overlaps (sle_lock found) lock
     \<and> (lock_type (sle_lock found) = FSAL_LOCK_W \<or> lock_type lock = FSAL_LOCK_W)
     \<and> different_owners so (sle_owner found) owner"

fun get_overlapping_entry ::
    "owner_heap \<Rightarrow> nat \<Rightarrow> fsal_lock_param_t \<Rightarrow> state_lock_entry_t list \<Rightarrow> state_lock_entry_t option" where
  "get_overlapping_entry so owner lock [] = None"
| "get_overlapping_entry so owner lock (found_entry # rest) =
     (if sle_blocked found_entry = STATE_NLM_BLOCKING
         \<or> sle_blocked found_entry = STATE_NFSV4_BLOCKING
         \<or> sle_blocked found_entry = STATE_CANCELED
      then get_overlapping_entry so owner lock rest
      else if conflicts so owner lock found_entry then Some found_entry
      else get_overlapping_entry so owner lock rest)"

section \<open>Entries\<close>

text \<open>
  The allocator of entries: the next address and the source of nondeterminism.  A mutex that cannot
  be initialised fails like memory.
\<close>

type_synonym alloc = "nat \<times> c_oracle"

definition create_state_lock_entry ::
    "nat \<Rightarrow> state_blocking_t \<Rightarrow> nat \<Rightarrow> nat option \<Rightarrow> fsal_lock_param_t \<Rightarrow> lock_type_t \<Rightarrow> alloc
      \<Rightarrow> state_lock_entry_t option \<times> alloc" where
  "create_state_lock_entry export blocked owner state lock ty al =
     (let (next, orc) = al; (ok, orc) = draw_malloc orc in
      if \<not> ok then (None, next, orc)
      else (Some \<lparr>sle_id = next, sle_export = export, sle_owner = owner, sle_state = state,
                  sle_blocked = blocked, sle_ref_count = 1, sle_lock = lock, sle_type = ty,
                  sle_block_data = None\<rparr>,
            Suc next, orc))"

definition state_lock_entry_t_dup :: "state_lock_entry_t \<Rightarrow> alloc \<Rightarrow> state_lock_entry_t option \<times> alloc" where
  "state_lock_entry_t_dup orig_entry al =
     create_state_lock_entry (sle_export orig_entry) (sle_blocked orig_entry) (sle_owner orig_entry)
       (sle_state orig_entry) (sle_lock orig_entry) (sle_type orig_entry) al"

section \<open>Merging\<close>

text \<open>
  One turn of the loop of \<^verbatim>\<open>merge_lock_entry\<close> for the entry \<open>check\<close>: it is skipped, cut on the right or on
  the left, split in two (the second part in a new entry), or absorbed into the lock.  A split
  without memory leaves the entry as it is.
\<close>

datatype merge_action =
    Merge_Keep
  | Merge_Shrink state_lock_entry_t
  | Merge_Split state_lock_entry_t state_lock_entry_t
  | Merge_Absorb fsal_lock_param_t

definition shrink_right :: "u64 \<Rightarrow> u64 \<Rightarrow> state_lock_entry_t \<Rightarrow> state_lock_entry_t" where
  "shrink_right lock_entry_end check_entry_end e =
     e\<lparr>sle_lock := (sle_lock e)\<lparr>lock_start := lock_entry_end + 1,
        lock_length := check_entry_end - lock_entry_end\<rparr>\<rparr>"

definition shrink_left :: "u64 \<Rightarrow> state_lock_entry_t \<Rightarrow> state_lock_entry_t" where
  "shrink_left start e =
     e\<lparr>sle_lock := (sle_lock e)\<lparr>lock_length := start - lock_start (sle_lock e)\<rparr>\<rparr>"

definition merge_turn ::
    "owner_heap \<Rightarrow> state_lock_entry_t \<Rightarrow> state_lock_entry_t \<Rightarrow> alloc \<Rightarrow> merge_action \<times> alloc" where
  "merge_turn so lock_entry check_entry al =
     (if sle_id check_entry = sle_id lock_entry then (Merge_Keep, al)
      else if different_owners so (sle_owner check_entry) (sle_owner lock_entry) then (Merge_Keep, al)
      else if sle_blocked check_entry \<noteq> STATE_NON_BLOCKING then (Merge_Keep, al)
      else
        let check_entry_end = lock_end (sle_lock check_entry);
            lock_entry_end = lock_end (sle_lock lock_entry);
            cstart = lock_start (sle_lock check_entry);
            lstart = lock_start (sle_lock lock_entry) in
        if check_entry_end + 1 < lstart then (Merge_Keep, al)
        else if lock_entry_end + 1 < cstart then (Merge_Keep, al)
        else if lock_type (sle_lock check_entry) \<noteq> lock_type (sle_lock lock_entry)
                \<and> (lock_entry_end < check_entry_end \<or> cstart < lstart) then
          (if lock_entry_end < check_entry_end \<and> cstart < lstart then
             (case state_lock_entry_t_dup check_entry al of
                (None, al) \<Rightarrow> (Merge_Keep, al)
              | (Some right, al) \<Rightarrow>
                  (Merge_Split (shrink_left lstart check_entry)
                     (shrink_right lock_entry_end check_entry_end right), al))
           else if lock_entry_end < check_entry_end then
             (Merge_Shrink (shrink_right lock_entry_end check_entry_end check_entry), al)
           else (Merge_Shrink (shrink_left lstart check_entry), al))
        else
          let lock_entry_end = (if lock_entry_end < check_entry_end then check_entry_end
                                else lock_entry_end);
              start = (if cstart < lstart then cstart else lstart) in
          (Merge_Absorb ((sle_lock lock_entry)\<lparr>lock_start := start,
             lock_length := lock_entry_end - start + 1\<rparr>), al))"

text \<open>
  The loop runs over the list with the next node read before the turn: a part appended to the
  list is visited unless the entry split was the last one.  \<open>seen\<close> are the nodes before the current one.
  A lock whose end lies before its start can split entries for ever, so the loop is a partial
  function; \<open>merge_lock_entry_returns\<close> below shows that it returns for every well-formed lock.
\<close>

partial_function (option) merge_loop ::
    "owner_heap \<Rightarrow> state_lock_entry_t \<Rightarrow> state_lock_entry_t list \<Rightarrow> state_lock_entry_t list \<Rightarrow> alloc
      \<Rightarrow> (state_lock_entry_t \<times> state_lock_entry_t list \<times> alloc) option" where
  "merge_loop so lock_entry seen todo al =
     (case todo of
        [] \<Rightarrow> Some (lock_entry, seen, al)
      | check_entry # rest \<Rightarrow>
          (case merge_turn so lock_entry check_entry al of (act, al) \<Rightarrow>
             (case act of
                Merge_Keep \<Rightarrow> merge_loop so lock_entry (seen @ [check_entry]) rest al
              | Merge_Shrink e \<Rightarrow> merge_loop so lock_entry (seen @ [e]) rest al
              | Merge_Split e right \<Rightarrow>
                  (if rest = [] then Some (lock_entry, seen @ [e, right], al)
                   else merge_loop so lock_entry (seen @ [e]) (rest @ [right]) al)
              | Merge_Absorb lock \<Rightarrow> merge_loop so (lock_entry\<lparr>sle_lock := lock\<rparr>) seen rest al)))"

definition merge_lock_entry ::
    "owner_heap \<Rightarrow> state_lock_entry_t \<Rightarrow> state_lock_entry_t list \<Rightarrow> alloc
      \<Rightarrow> (state_lock_entry_t \<times> state_lock_entry_t list \<times> alloc) option" where
  "merge_lock_entry so lock_entry ls al = merge_loop so lock_entry [] ls al"

section \<open>Subtracting\<close>

text \<open>
  \<^verbatim>\<open>subtract_lock_from_entry\<close>: the parts of the entry outside the range, in the order they join the
  split list, or the failure to allocate one; \<open>None\<close> when the range does not meet the entry.
\<close>

definition subtract_lock_from_entry ::
    "state_lock_entry_t \<Rightarrow> fsal_lock_param_t \<Rightarrow> alloc
      \<Rightarrow> state_status_t \<times> state_lock_entry_t list option \<times> alloc" where
  "subtract_lock_from_entry found_entry lock al =
     (let found_entry_end = lock_end (sle_lock found_entry);
          range_end = lock_end lock;
          fstart = lock_start (sle_lock found_entry) in
      if range_end < fstart then (STATE_SUCCESS, None, al)
      else if found_entry_end < lock_start lock then (STATE_SUCCESS, None, al)
      else if lock_start lock \<le> fstart \<and> range_end \<ge> found_entry_end then (STATE_SUCCESS, Some [], al)
      else
        let (status, left, al) =
          (if lock_start lock > fstart then
             (case state_lock_entry_t_dup found_entry al of
                (None, al) \<Rightarrow> (STATE_MALLOC_ERROR, [], al)
              | (Some e, al) \<Rightarrow> (STATE_SUCCESS, [shrink_left (lock_start lock) e], al))
           else (STATE_SUCCESS, [], al)) in
        if status \<noteq> STATE_SUCCESS then (status, None, al)
        else if range_end < found_entry_end then
          (case state_lock_entry_t_dup found_entry al of
             (None, al) \<Rightarrow> (STATE_MALLOC_ERROR, None, al)
           | (Some e, al) \<Rightarrow>
               (STATE_SUCCESS, Some (left @ [shrink_right range_end found_entry_end e]), al))
        else (STATE_SUCCESS, Some left, al))"

text \<open>
  The loop of \<^verbatim>\<open>subtract_lock_from_list\<close>: \<open>keep\<close> is the list as far as it was visited, \<open>split\<close> the parts
  made and \<open>gone\<close> the entries taken off the list.
\<close>

definition subtract_skips ::
    "owner_heap \<Rightarrow> nat option \<Rightarrow> nat option \<Rightarrow> state_lock_entry_t \<Rightarrow> bool" where
  "subtract_skips so owner state found_entry \<longleftrightarrow>
     (case owner of None \<Rightarrow> False | Some ow \<Rightarrow> different_owners so (sle_owner found_entry) ow)
     \<or> sle_blocked found_entry \<noteq> STATE_NON_BLOCKING
     \<or> (state \<noteq> None \<and> lock_owner_is_nlm so found_entry \<and> sle_state found_entry = state)"

fun subtract_loop ::
    "owner_heap \<Rightarrow> nat option \<Rightarrow> nat option \<Rightarrow> fsal_lock_param_t \<Rightarrow> state_lock_entry_t list
      \<Rightarrow> state_lock_entry_t list \<Rightarrow> state_lock_entry_t list \<Rightarrow> state_lock_entry_t list \<Rightarrow> alloc
      \<Rightarrow> state_status_t \<times> state_lock_entry_t list \<times> bool \<times> alloc" where
  "subtract_loop so owner state lock keep split gone [] al =
     (STATE_SUCCESS, keep @ split, gone \<noteq> [], al)"
| "subtract_loop so owner state lock keep split gone (found_entry # rest) al =
     (if subtract_skips so owner state found_entry
      then subtract_loop so owner state lock (keep @ [found_entry]) split gone rest al
      else case subtract_lock_from_entry found_entry lock al of
        (status, res, al) \<Rightarrow>
          (if status \<noteq> STATE_SUCCESS
           then (status, keep @ found_entry # rest @ gone, gone \<noteq> [], al)
           else case res of
             None \<Rightarrow> subtract_loop so owner state lock (keep @ [found_entry]) split gone rest al
           | Some parts \<Rightarrow>
               subtract_loop so owner state lock keep (split @ parts) (gone @ [found_entry]) rest al))"

definition subtract_lock_from_list ::
    "owner_heap \<Rightarrow> nat option \<Rightarrow> nat option \<Rightarrow> fsal_lock_param_t \<Rightarrow> state_lock_entry_t list \<Rightarrow> alloc
      \<Rightarrow> state_status_t \<times> state_lock_entry_t list \<times> bool \<times> alloc" where
  "subtract_lock_from_list so owner state lock ls al =
     subtract_loop so owner state lock [] [] [] ls al"

definition subtract_deleg_from_list ::
    "owner_heap \<Rightarrow> nat option \<Rightarrow> state_lock_entry_t list \<Rightarrow> state_lock_entry_t list \<times> bool" where
  "subtract_deleg_from_list so owner ls =
     (let hit = (\<lambda>e. \<not> (case owner of None \<Rightarrow> False | Some ow \<Rightarrow> different_owners so (sle_owner e) ow)
                      \<and> sle_type e = LEASE_LOCK)
      in (filter (\<lambda>e. \<not> hit e) ls, list_ex hit ls))"

fun subtract_list_from_list ::
    "owner_heap \<Rightarrow> state_lock_entry_t list \<Rightarrow> state_lock_entry_t list \<Rightarrow> alloc
      \<Rightarrow> state_status_t \<times> state_lock_entry_t list \<times> alloc" where
  "subtract_list_from_list so target [] al = (STATE_SUCCESS, target, al)"
| "subtract_list_from_list so target (found_entry # source) al =
     (case subtract_lock_from_list so None None (sle_lock found_entry) target al of
        (status, target, removed, al) \<Rightarrow>
          (if status \<noteq> STATE_SUCCESS then (status, target, al)
           else subtract_list_from_list so target source al))"

end
