(* ===== verification/State_Lock_Range.thy ===== *)
theory State_Lock_Range
  imports State_Lock "HOL-Library.Multiset"
begin

text \<open>
  What the lists of \<open>State_Lock\<close> mean: the bytes a lock covers, the bytes each owner holds in each mode,
  and the effect of merging and subtracting on them.
\<close>

section \<open>Owners\<close>

lemma not_different_owners_refl [simp]: "\<not> different_owners so a a"
  by (simp add: different_owners_def)

lemma different_owners_sym: "different_owners so a b \<longleftrightarrow> different_owners so b a"
  unfolding different_owners_def compare_nlm_owner_def compare_9p_owner_def compare_nfs4_owner_def
  by (auto split: state_owner_type_t.splits)

lemma same_owner_trans:
  assumes "\<not> different_owners so a b" and "\<not> different_owners so b c"
  shows "\<not> different_owners so a c"
  using assms
  unfolding different_owners_def compare_nlm_owner_def compare_9p_owner_def compare_nfs4_owner_def
  by (simp split: state_owner_type_t.splits if_splits)

section \<open>Bytes\<close>

definition covers :: "fsal_lock_param_t \<Rightarrow> u64 \<Rightarrow> bool" where
  "covers lock x \<longleftrightarrow> lock_start lock \<le> x \<and> x \<le> lock_end lock"

definition lock_wf :: "fsal_lock_param_t \<Rightarrow> bool" where
  "lock_wf lock \<longleftrightarrow> lock_start lock \<le> lock_end lock"

lemma lock_end_succ: "lock_end lock + 1 = lock_start lock \<Longrightarrow> lock_start lock = 0"
  by (auto simp: lock_end_def split: if_splits)

lemma lock_end_length: "len \<noteq> 0 \<Longrightarrow> lock_end (l\<lparr>lock_length := len\<rparr>) = lock_start l + len - 1"
  by (simp add: lock_end_def)

lemma unat_u64_max: "unat (- 1 :: u64) = 18446744073709551615"
  by (simp add: unsigned_minus_1_eq_mask mask_eq_exp_minus_1)

lemma u64_eq_max: "(a::u64) = - 1 \<longleftrightarrow> unat a = 18446744073709551615"
  by (metis unat_u64_max word_eq_iff_unsigned)

lemma unat_succ: "unat ((a::u64) + 1) = (if unat a = 18446744073709551615 then 0 else Suc (unat a))"
proof (cases "a = - 1")
  case True
  then show ?thesis by (simp add: unat_u64_max)
next
  case False
  then have "a + 1 \<noteq> 0" using max_word_wrap by blast
  then have "unat (1 + a) = Suc (unat a)" by (intro unatSuc) (simp add: add.commute)
  then show ?thesis using False by (simp add: u64_eq_max add.commute)
qed

lemma unat_le_max: "unat (a::u64) \<le> 18446744073709551615"
  using unsigned_less [of a, where ?'a = nat] by simp

lemma unat_pred: "unat ((a::u64) - 1) = (if unat a = 0 then 18446744073709551615 else unat a - 1)"
  by (simp add: unat_sub_if')

lemmas u64_arith = word_less_nat_alt word_le_nat_alt unat_succ unat_pred u64_eq_max

lemma lock_end_shrink_left:
  "lock_start (sle_lock e) < s \<Longrightarrow> lock_end (sle_lock (shrink_left s e)) = s - 1"
  by (auto simp: shrink_left_def lock_end_def)

lemma lock_end_shrink_right:
  "r < f \<Longrightarrow> lock_end (sle_lock (shrink_right r f e)) = f"
  by (auto simp: shrink_right_def lock_end_def [of "_\<lparr>lock_length := _\<rparr>"] algebra_simps)

lemma covers_shrink_left:
  assumes "lock_start (sle_lock e) < s" and "s - 1 \<le> lock_end (sle_lock e)"
  shows "covers (sle_lock (shrink_left s e)) x \<longleftrightarrow> covers (sle_lock e) x \<and> x < s"
  using assms lock_end_shrink_left [OF assms(1)]
  by (auto simp: covers_def shrink_left_def u64_arith split: if_splits)

lemma covers_shrink_right:
  assumes "r < lock_end (sle_lock e)" and "lock_start (sle_lock e) \<le> r + 1"
  shows "covers (sle_lock (shrink_right r (lock_end (sle_lock e)) e)) x \<longleftrightarrow> covers (sle_lock e) x \<and> r < x"
  using assms lock_end_shrink_right [OF assms(1)] unat_le_max [of r] unat_le_max [of "lock_end (sle_lock e)"]
  by (auto simp: covers_def shrink_right_def u64_arith split: if_splits)

lemma u64_eq_iff: "(a::u64) = b \<longleftrightarrow> unat a = unat b"
  by (simp add: word_eq_iff_unsigned)

lemma hull_gap:
  fixes cs ce ls le :: u64
  assumes "\<not> ce + 1 < ls" and "\<not> le + 1 < cs"
    and "ce + 1 = cs \<Longrightarrow> cs = 0" and "le + 1 = ls \<Longrightarrow> ls = 0"
    and "(if le < ce then ce else le) + 1 = (if cs < ls then cs else ls)"
  shows "(if cs < ls then cs else ls) = 0"
  using assms unat_le_max [of ce] unat_le_max [of le] unat_le_max [of cs] unat_le_max [of ls]
  by (auto simp: u64_eq_iff u64_arith split: if_splits)

lemma hull_range:
  fixes cs ce ls le x :: u64
  assumes "\<not> ce + 1 < ls" and "\<not> le + 1 < cs"
    and "ce + 1 = cs \<Longrightarrow> cs = 0" and "le + 1 = ls \<Longrightarrow> ls = 0"
  shows "(if cs < ls then cs else ls) \<le> x \<and> x \<le> (if le < ce then ce else le)
     \<longleftrightarrow> (ls \<le> x \<and> x \<le> le) \<or> (cs \<le> x \<and> x \<le> ce)"
  using assms unat_le_max [of ce] unat_le_max [of le] unat_le_max [of cs] unat_le_max [of ls] unat_le_max [of x]
  by (auto simp: u64_eq_iff u64_arith split: if_splits)

text \<open>The hull of two locks that overlap or touch covers the bytes of both and no others.\<close>

definition hull :: "fsal_lock_param_t \<Rightarrow> fsal_lock_param_t \<Rightarrow> fsal_lock_param_t" where
  "hull c l =
     (let e = (if lock_end l < lock_end c then lock_end c else lock_end l);
          s = (if lock_start c < lock_start l then lock_start c else lock_start l)
      in l\<lparr>lock_start := s, lock_length := e - s + 1\<rparr>)"

lemma lock_end_range:
  assumes "e + 1 = s \<Longrightarrow> s = 0"
  shows "lock_end (l\<lparr>lock_start := s, lock_length := e - s + 1\<rparr>) = e"
proof (cases "e - s + 1 = 0")
  case True
  then have "e + 1 = s" by (simp add: algebra_simps eq_neg_iff_add_eq_0)
  then have "e = - 1" using assms by (metis max_word_wrap)
  then show ?thesis using True by (simp add: lock_end_def)
next
  case False
  then show ?thesis by (simp add: lock_end_def)
qed

lemma lock_start_hull:
  "lock_start (hull c l) = (if lock_start c < lock_start l then lock_start c else lock_start l)"
  by (simp add: hull_def Let_def)

lemma lock_end_hull:
  assumes "\<not> lock_end c + 1 < lock_start l" and "\<not> lock_end l + 1 < lock_start c"
  shows "lock_end (hull c l) = (if lock_end l < lock_end c then lock_end c else lock_end l)"
  unfolding hull_def Let_def
  by (rule lock_end_range, rule hull_gap [OF assms]) (auto dest: lock_end_succ)

lemma covers_hull:
  assumes "\<not> lock_end c + 1 < lock_start l" and "\<not> lock_end l + 1 < lock_start c"
  shows "covers (hull c l) x \<longleftrightarrow> covers l x \<or> covers c x"
  unfolding covers_def lock_end_hull [OF assms] lock_start_hull
  by (rule hull_range [OF assms lock_end_succ lock_end_succ])

section \<open>What a list of locks holds\<close>

definition held_by :: "state_blocking_t set \<Rightarrow> owner_heap \<Rightarrow> state_lock_entry_t \<Rightarrow> (nat \<times> fsal_lock_t \<times> u64) set" where
  "held_by B so e = {(ow, t, x). sle_blocked e \<in> B \<and> \<not> different_owners so (sle_owner e) ow
      \<and> lock_type (sle_lock e) = t \<and> covers (sle_lock e) x}"

definition held :: "state_blocking_t set \<Rightarrow> owner_heap \<Rightarrow> state_lock_entry_t list \<Rightarrow> (nat \<times> fsal_lock_t \<times> u64) set" where
  "held B so ls = (\<Union>e\<in>set ls. held_by B so e)"

lemma held_simps [simp]:
  "held B so [] = {}"
  "held B so (e # ls) = held_by B so e \<union> held B so ls"
  "held B so (xs @ ys) = held B so xs \<union> held B so ys"
  by (simp_all add: held_def)

fun merged :: "state_lock_entry_t \<Rightarrow> state_lock_entry_t \<Rightarrow> merge_action \<Rightarrow> state_lock_entry_t list" where
  "merged l c Merge_Keep = [l, c]"
| "merged l c (Merge_Shrink e) = [l, e]"
| "merged l c (Merge_Split e right) = [l, e, right]"
| "merged l c (Merge_Absorb lock) = [l\<lparr>sle_lock := lock\<rparr>]"

lemma dup_SomeD:
  assumes "state_lock_entry_t_dup e al = (Some r, al')"
  shows "r = e\<lparr>sle_id := fst al, sle_ref_count := 1, sle_block_data := None\<rparr>" and "fst al' = Suc (fst al)"
  using assms
  by (auto simp: state_lock_entry_t_dup_def create_state_lock_entry_def split: prod.splits if_splits)

definition meets :: "owner_heap \<Rightarrow> state_lock_entry_t \<Rightarrow> state_lock_entry_t \<Rightarrow> bool" where
  "meets so l c \<longleftrightarrow> sle_id c \<noteq> sle_id l \<and> \<not> different_owners so (sle_owner c) (sle_owner l)
     \<and> sle_blocked c = STATE_NON_BLOCKING
     \<and> \<not> lock_end (sle_lock c) + 1 < lock_start (sle_lock l)
     \<and> \<not> lock_end (sle_lock l) + 1 < lock_start (sle_lock c)"

lemma merge_turn_cases [consumes 1, case_names keep right left split absorb]:
  assumes "merge_turn so l c al = (act, al')"
  obtains
    "act = Merge_Keep" "\<not> meets so l c \<or> state_lock_entry_t_dup c al = (None, al')"
  | "meets so l c" "lock_type (sle_lock c) \<noteq> lock_type (sle_lock l)" "al' = al"
    "lock_end (sle_lock l) < lock_end (sle_lock c)" "\<not> lock_start (sle_lock c) < lock_start (sle_lock l)"
    "act = Merge_Shrink (shrink_right (lock_end (sle_lock l)) (lock_end (sle_lock c)) c)"
  | "meets so l c" "lock_type (sle_lock c) \<noteq> lock_type (sle_lock l)" "al' = al"
    "\<not> lock_end (sle_lock l) < lock_end (sle_lock c)" "lock_start (sle_lock c) < lock_start (sle_lock l)"
    "act = Merge_Shrink (shrink_left (lock_start (sle_lock l)) c)"
  | r where "meets so l c" "lock_type (sle_lock c) \<noteq> lock_type (sle_lock l)"
    "lock_end (sle_lock l) < lock_end (sle_lock c)" "lock_start (sle_lock c) < lock_start (sle_lock l)"
    "state_lock_entry_t_dup c al = (Some r, al')"
    "act = Merge_Split (shrink_left (lock_start (sle_lock l)) c)
       (shrink_right (lock_end (sle_lock l)) (lock_end (sle_lock c)) r)"
  | "meets so l c" "al' = al"
    "lock_type (sle_lock c) = lock_type (sle_lock l) \<or> \<not> lock_end (sle_lock l) < lock_end (sle_lock c)
       \<and> \<not> lock_start (sle_lock c) < lock_start (sle_lock l)"
    "act = Merge_Absorb (hull (sle_lock c) (sle_lock l))"
  using assms
  unfolding merge_turn_def meets_def hull_def Let_def
  by (auto split: if_splits prod.splits option.splits)

lemma shrink_fields [simp]:
  "sle_id (shrink_left s e) = sle_id e" "sle_owner (shrink_left s e) = sle_owner e"
  "sle_blocked (shrink_left s e) = sle_blocked e"
  "lock_type (sle_lock (shrink_left s e)) = lock_type (sle_lock e)"
  "lock_start (sle_lock (shrink_left s e)) = lock_start (sle_lock e)"
  "sle_id (shrink_right r f e) = sle_id e" "sle_owner (shrink_right r f e) = sle_owner e"
  "sle_blocked (shrink_right r f e) = sle_blocked e"
  "lock_type (sle_lock (shrink_right r f e)) = lock_type (sle_lock e)"
  by (simp_all add: shrink_left_def shrink_right_def)

lemma covers_left_piece:
  assumes "meets so l c" and "lock_start (sle_lock c) < lock_start (sle_lock l)"
  shows "covers (sle_lock (shrink_left (lock_start (sle_lock l)) c)) x
     \<longleftrightarrow> covers (sle_lock c) x \<and> x < lock_start (sle_lock l)"
  using assms
  by (intro covers_shrink_left) (auto simp: meets_def u64_arith split: if_splits)

lemma covers_right_piece:
  assumes "meets so l c" and "lock_end (sle_lock l) < lock_end (sle_lock c)" and "sle_lock r = sle_lock c"
  shows "covers (sle_lock (shrink_right (lock_end (sle_lock l)) (lock_end (sle_lock c)) r)) x
     \<longleftrightarrow> covers (sle_lock c) x \<and> lock_end (sle_lock l) < x"
  using covers_shrink_right [of "lock_end (sle_lock l)" r] assms by (auto simp: meets_def)

lemma hull_type [simp]: "lock_type (hull c l) = lock_type l"
  by (simp add: hull_def Let_def)

lemma merge_turn_held:
  assumes "merge_turn so l c al = (act, al')" and "STATE_NON_BLOCKING \<in> B" and "sle_blocked l \<in> B"
  shows "held B so (merged l c act) \<subseteq> held B so [l, c]"
  using assms(1)
proof (cases rule: merge_turn_cases)
  case (split r)
  then show ?thesis
    using dup_SomeD(1) [OF split(5)]
    by (auto simp: held_by_def covers_left_piece covers_right_piece)
next
  case absorb
  have "covers (hull (sle_lock c) (sle_lock l)) x \<longleftrightarrow> covers (sle_lock l) x \<or> covers (sle_lock c) x" for x
    using absorb by (intro covers_hull) (auto simp: meets_def)
  moreover have "covers (sle_lock c) x \<Longrightarrow> lock_type (sle_lock c) = lock_type (sle_lock l) \<or> covers (sle_lock l) x" for x
    using absorb by (auto simp: covers_def)
  moreover have "\<not> different_owners so (sle_owner l) ow \<Longrightarrow> \<not> different_owners so (sle_owner c) ow" for ow
    using absorb same_owner_trans by (auto simp: meets_def)
  ultimately show ?thesis
    using absorb assms(2,3) by (auto simp: held_by_def meets_def)
qed (use assms in \<open>auto simp: held_by_def covers_left_piece covers_right_piece\<close>)

section \<open>Merging\<close>

lemma merge_loop_induct [consumes 1, case_names nil keep shrink last split absorb]:
  assumes "merge_loop so l seen todo al = Some r"
    and "\<And>l seen al. P l seen [] al (l, seen, al)"
    and "\<And>l seen c rest al al' r. merge_turn so l c al = (Merge_Keep, al') \<Longrightarrow>
       P l (seen @ [c]) rest al' r \<Longrightarrow> P l seen (c # rest) al r"
    and "\<And>l seen c rest al e al' r. merge_turn so l c al = (Merge_Shrink e, al') \<Longrightarrow>
       P l (seen @ [e]) rest al' r \<Longrightarrow> P l seen (c # rest) al r"
    and "\<And>l seen c al e right al'. merge_turn so l c al = (Merge_Split e right, al') \<Longrightarrow>
       P l seen [c] al (l, seen @ [e, right], al')"
    and "\<And>l seen c rest al e right al' r. merge_turn so l c al = (Merge_Split e right, al') \<Longrightarrow> rest \<noteq> [] \<Longrightarrow>
       P l (seen @ [e]) (rest @ [right]) al' r \<Longrightarrow> P l seen (c # rest) al r"
    and "\<And>l seen c rest al lock al' r. merge_turn so l c al = (Merge_Absorb lock, al') \<Longrightarrow>
       P (l\<lparr>sle_lock := lock\<rparr>) seen rest al' r \<Longrightarrow> P l seen (c # rest) al r"
  shows "P l seen todo al r"
proof (rule merge_loop.raw_induct [where P = "\<lambda>s l seen todo al r. s = so \<longrightarrow> P l seen todo al r", THEN mp,
      OF _ assms(1) refl], rule impI)
  fix loop so' l seen todo al r
  assume IH: "\<And>so' l seen todo al r. loop so' l seen todo al = Some r \<Longrightarrow> so' = so \<longrightarrow> P l seen todo al r"
    and step: "(case todo of [] \<Rightarrow> Some (l, seen, al) | c # rest \<Rightarrow>
          (case merge_turn so' l c al of (act, al) \<Rightarrow>
             (case act of
                Merge_Keep \<Rightarrow> loop so' l (seen @ [c]) rest al
              | Merge_Shrink e \<Rightarrow> loop so' l (seen @ [e]) rest al
              | Merge_Split e right \<Rightarrow>
                  (if rest = [] then Some (l, seen @ [e, right], al)
                   else loop so' l (seen @ [e]) (rest @ [right]) al)
              | Merge_Absorb lock \<Rightarrow> loop so' (l\<lparr>sle_lock := lock\<rparr>) seen rest al))) = Some r"
    and so: "so' = so"
  show "P l seen todo al r"
  proof (cases todo)
    case Nil
    then show ?thesis using step assms(2) [of l seen al] by simp
  next
    case (Cons c rest)
    obtain act al' where turn: "merge_turn so l c al = (act, al')" by (rule prod.exhaust)
    show ?thesis
    proof (cases act)
      case Merge_Keep
      then show ?thesis using turn step so Cons IH assms(3) by simp
    next
      case (Merge_Shrink e)
      then show ?thesis using turn step so Cons IH assms(4) by simp
    next
      case (Merge_Split e right)
      then show ?thesis using turn step so Cons IH assms(5) [of l c al] assms(6) [of l c al] by (auto split: if_splits)
    next
      case (Merge_Absorb lock)
      then show ?thesis using turn step so Cons IH assms(7) by simp
    qed
  qed
qed

lemma merge_loop_simps [code]:
  "merge_loop so l seen [] al = Some (l, seen, al)"
  "merge_loop so l seen (c # rest) al =
     (case merge_turn so l c al of (act, al) \<Rightarrow>
        (case act of
           Merge_Keep \<Rightarrow> merge_loop so l (seen @ [c]) rest al
         | Merge_Shrink e \<Rightarrow> merge_loop so l (seen @ [e]) rest al
         | Merge_Split e right \<Rightarrow>
             (if rest = [] then Some (l, seen @ [e, right], al)
              else merge_loop so l (seen @ [e]) (rest @ [right]) al)
         | Merge_Absorb lock \<Rightarrow> merge_loop so (l\<lparr>sle_lock := lock\<rparr>) seen rest al))"
  by (subst merge_loop.simps, simp)+

lemma hull_wf:
  assumes "meets so l c" and "lock_wf (sle_lock l)"
  shows "lock_wf (hull (sle_lock c) (sle_lock l))" and "lock_start (hull (sle_lock c) (sle_lock l)) \<le> lock_start (sle_lock l)"
proof -
  have "covers (hull (sle_lock c) (sle_lock l)) (lock_start (sle_lock l))"
    using assms covers_hull [of "sle_lock c" "sle_lock l"] by (auto simp: meets_def lock_wf_def covers_def)
  then show "lock_wf (hull (sle_lock c) (sle_lock l))"
    and "lock_start (hull (sle_lock c) (sle_lock l)) \<le> lock_start (sle_lock l)"
    by (auto simp: covers_def lock_wf_def)
qed

lemma merge_loop_returns:
  assumes "lock_wf (sle_lock l)"
  shows "\<exists>r. merge_loop so l seen todo al = Some r"
  using assms
proof (induction "length todo + length (filter (\<lambda>e. lock_start (sle_lock e) < lock_start (sle_lock l)) todo)"
    arbitrary: l seen todo al rule: less_induct)
  case less
  show ?case
  proof (cases todo)
    case Nil
    then show ?thesis by (simp add: merge_loop_simps)
  next
    case (Cons c rest)
    obtain act al' where turn: "merge_turn so l c al = (act, al')" by (rule prod.exhaust)
    note IH = less.hyps [where al = al']
    from turn show ?thesis
    proof (cases rule: merge_turn_cases)
      case (split r)
      let ?r = "shrink_right (lock_end (sle_lock l)) (lock_end (sle_lock c)) r"
      have "\<not> lock_start (sle_lock ?r) < lock_start (sle_lock l)"
        using split(3) less.prems unat_le_max [of "lock_end (sle_lock c)"]
        by (auto simp: shrink_right_def lock_wf_def u64_arith)
      then show ?thesis
        using split turn Cons less.prems IH [of "rest @ [?r]" l]
        by (auto simp: merge_loop_simps)
    next
      case absorb
      have "length (filter (\<lambda>e. lock_start (sle_lock e) < lock_start (hull (sle_lock c) (sle_lock l))) rest)
         \<le> length (filter (\<lambda>e. lock_start (sle_lock e) < lock_start (sle_lock l)) rest)"
        using hull_wf(2) [OF absorb(1) less.prems]
        by (induction rest) auto
      then show ?thesis
        using absorb turn Cons less.prems hull_wf(1) [OF absorb(1) less.prems]
          IH [of rest "l\<lparr>sle_lock := hull (sle_lock c) (sle_lock l)\<rparr>"]
        by (auto simp: merge_loop_simps)
    qed (use turn Cons less.prems IH [of rest l] in \<open>auto simp: merge_loop_simps\<close>)
  qed
qed

lemma merge_loop_held:
  assumes "merge_loop so l seen todo al = Some r" and "STATE_NON_BLOCKING \<in> B" and "sle_blocked l \<in> B"
  shows "held B so (fst r # fst (snd r)) \<subseteq> held B so (l # seen @ todo)"
  using assms(1,3)
proof (induction rule: merge_loop_induct)
  case (keep l seen c rest al al' r)
  then show ?case by auto
next
  case (shrink l seen c rest al e al' r)
  then show ?case
    using merge_turn_held [OF shrink(1) assms(2)]
    by auto
next
  case (last l seen c al e right al')
  then show ?case
    using merge_turn_held [OF last(1) assms(2)]
    by auto
next
  case (split l seen c rest al e right al' r)
  then show ?case
    using merge_turn_held [OF split(1) assms(2)]
    by auto
next
  case (absorb l seen c rest al lock al' r)
  then show ?case
    using merge_turn_held [OF absorb(1) assms(2)]
    by auto
qed simp

lemma merge_loop_entry:
  assumes "merge_loop so l seen todo al = Some r"
  shows "fst r = l\<lparr>sle_lock := sle_lock (fst r)\<rparr> \<and> lock_type (sle_lock (fst r)) = lock_type (sle_lock l)
     \<and> (lock_wf (sle_lock l) \<longrightarrow> lock_wf (sle_lock (fst r)))"
  using assms
proof (induction rule: merge_loop_induct)
  case (absorb l seen c rest al lock al' r)
  from absorb(1) show ?case
    by (cases rule: merge_turn_cases) (use absorb(2) hull_wf(1) in auto)
qed auto

definition memory_ok :: "c_oracle \<Rightarrow> bool" where
  "memory_ok orc \<longleftrightarrow> (\<forall>n. e_malloc (o_env orc) n)"

lemma dup_memory_ok:
  assumes "memory_ok (snd al)"
  shows "\<exists>r. state_lock_entry_t_dup e al = (Some r, Suc (fst al), tick (snd al))" and "memory_ok (tick (snd al))"
  using assms
  by (auto simp: memory_ok_def state_lock_entry_t_dup_def create_state_lock_entry_def draw_malloc_def
      tick_def Let_def split: prod.splits)

text \<open>
  The abstract effect of granting a lock: in its range its owner holds its mode and nothing else, and
  elsewhere everybody holds what they held.
\<close>

definition inside :: "owner_heap \<Rightarrow> state_lock_entry_t \<Rightarrow> (nat \<times> fsal_lock_t \<times> u64) set" where
  "inside so l = {(ow, t, x). \<not> different_owners so (sle_owner l) ow \<and> covers (sle_lock l) x}"

definition assign :: "owner_heap \<Rightarrow> (nat \<times> fsal_lock_t \<times> u64) set \<Rightarrow> state_lock_entry_t \<Rightarrow> (nat \<times> fsal_lock_t \<times> u64) set" where
  "assign so H l = (H - inside so l) \<union> held_by {STATE_NON_BLOCKING} so l"

text \<open>
  What merging relies on: the owner has one mode per byte, and none of its locks reaches the last
  offset, where the tests for touching ranges wrap around.
\<close>

definition one_mode :: "nat \<Rightarrow> (nat \<times> fsal_lock_t \<times> u64) set \<Rightarrow> bool" where
  "one_mode ow H \<longleftrightarrow> (\<forall>t1 t2 x. (ow, t1, x) \<in> H \<longrightarrow> (ow, t2, x) \<in> H \<longrightarrow> t1 = t2)"

definition eof_free :: "owner_heap \<Rightarrow> nat \<Rightarrow> state_lock_entry_t \<Rightarrow> bool" where
  "eof_free so ow e \<longleftrightarrow>
     (sle_blocked e = STATE_NON_BLOCKING \<longrightarrow> \<not> different_owners so (sle_owner e) ow \<longrightarrow>
      lock_end (sle_lock e) \<noteq> - 1)"

lemma held_same_owner:
  assumes "\<not> different_owners so ow ow'"
  shows "(ow, t, x) \<in> held B so ls \<longleftrightarrow> (ow', t, x) \<in> held B so ls"
    and "(ow, t, x) \<in> held_by B so e \<longleftrightarrow> (ow', t, x) \<in> held_by B so e"
  using assms same_owner_trans different_owners_sym unfolding held_def held_by_def
  by (simp_all, metis+)

lemma meets_same_owner:
  assumes "meets so l c"
  shows "different_owners so (sle_owner c) ow \<longleftrightarrow> different_owners so (sle_owner l) ow"
  using assms same_owner_trans different_owners_sym unfolding meets_def by metis

lemma merge_turn_exact:
  assumes "merge_turn so l c al = (act, al')"
    and "sle_blocked l = STATE_NON_BLOCKING" and "lock_wf (sle_lock l)" and "eof_free so (sle_owner l) l" and "eof_free so (sle_owner l) c"
    and "sle_id c \<noteq> sle_id l" and "memory_ok (snd al)"
  shows "case act of
      Merge_Keep \<Rightarrow> held_by {STATE_NON_BLOCKING} so c \<inter> inside so l = {}
    | Merge_Shrink e \<Rightarrow> held_by {STATE_NON_BLOCKING} so e = held_by {STATE_NON_BLOCKING} so c - inside so l
    | Merge_Split e r \<Rightarrow> held_by {STATE_NON_BLOCKING} so e \<union> held_by {STATE_NON_BLOCKING} so r
        = held_by {STATE_NON_BLOCKING} so c - inside so l
    | Merge_Absorb k \<Rightarrow>
        (held_by {STATE_NON_BLOCKING} so c \<subseteq> inside so l
           \<and> inside so (l\<lparr>sle_lock := k\<rparr>) = inside so l
           \<and> held_by {STATE_NON_BLOCKING} so (l\<lparr>sle_lock := k\<rparr>) = held_by {STATE_NON_BLOCKING} so l)
        \<or> (inside so (l\<lparr>sle_lock := k\<rparr>) = inside so l \<union> inside so c
           \<and> inside so c = {(ow, t, x). (ow, lock_type (sle_lock c), x) \<in> held_by {STATE_NON_BLOCKING} so c}
           \<and> held_by {STATE_NON_BLOCKING} so c \<inter> inside so l \<subseteq> held_by {STATE_NON_BLOCKING} so l
           \<and> held_by {STATE_NON_BLOCKING} so (l\<lparr>sle_lock := k\<rparr>)
               = held_by {STATE_NON_BLOCKING} so l \<union> held_by {STATE_NON_BLOCKING} so c)"
  using assms(1)
proof (cases rule: merge_turn_cases)
  case keep
  then have "\<not> meets so l c" using dup_memory_ok(1) [OF assms(7), of c] by auto
  moreover have "\<not> different_owners so (sle_owner c) ow \<Longrightarrow> \<not> different_owners so (sle_owner l) ow
      \<Longrightarrow> \<not> different_owners so (sle_owner c) (sle_owner l)" for ow
    using same_owner_trans different_owners_sym by metis
  ultimately show ?thesis
    using keep assms(2,4-6)
    by (auto simp: meets_def held_by_def inside_def covers_def eof_free_def u64_arith split: if_splits)
next
  case right
  then show ?thesis
    by (auto simp: held_by_def inside_def covers_right_piece meets_same_owner) (auto simp: covers_def)
next
  case left
  then show ?thesis
    by (auto simp: held_by_def inside_def covers_left_piece meets_same_owner) (auto simp: covers_def)
next
  case (split r)
  have r: "sle_lock r = sle_lock c" "sle_owner r = sle_owner c" "sle_blocked r = sle_blocked c"
    using dup_SomeD(1) [OF split(5)] by simp_all
  show ?thesis
    using split(1-4,6) assms(3)
    by (auto simp: r held_by_def inside_def covers_left_piece covers_right_piece [OF _ _ r(1)] meets_same_owner)
      (auto simp: covers_def lock_wf_def)
next
  case absorb
  have cov: "covers (hull (sle_lock c) (sle_lock l)) x \<longleftrightarrow> covers (sle_lock l) x \<or> covers (sle_lock c) x" for x
    using absorb by (intro covers_hull) (auto simp: meets_def)
  have nb: "sle_blocked c = STATE_NON_BLOCKING" using absorb(1) by (simp add: meets_def)
  show ?thesis
  proof (cases "lock_type (sle_lock c) = lock_type (sle_lock l)")
    case True
    then show ?thesis
      using absorb(4) assms(2) nb
      by (auto simp: held_by_def inside_def cov meets_same_owner [OF absorb(1)])
  next
    case False
    then have "covers (sle_lock c) x \<Longrightarrow> covers (sle_lock l) x" for x
      using absorb(3) by (auto simp: covers_def)
    then show ?thesis
      using absorb(4) assms(2) nb
      by (auto simp: held_by_def inside_def cov meets_same_owner [OF absorb(1)])
  qed
qed

lemma merge_turn_alloc:
  assumes "merge_turn so l c al = (act, al')"
  shows "fst al \<le> fst al'" and "memory_ok (snd al) \<Longrightarrow> memory_ok (snd al')"
proof -
  have "fst al \<le> fst al' \<and> (memory_ok (snd al) \<longrightarrow> memory_ok (snd al'))"
    using assms
  proof (cases rule: merge_turn_cases)
    case keep
    then show ?thesis
      using assms dup_memory_ok(1) [of al c] dup_memory_ok(2) [of al]
      by (auto simp: merge_turn_def state_lock_entry_t_dup_def create_state_lock_entry_def Let_def split: if_splits prod.splits option.splits)
  next
    case (split r)
    then show ?thesis using dup_SomeD(2) [OF split(5)] dup_memory_ok(1) [of al c] dup_memory_ok(2) [of al] by auto
  qed simp_all
  then show "fst al \<le> fst al'" and "memory_ok (snd al) \<Longrightarrow> memory_ok (snd al')" by auto
qed

lemma merge_turn_pieces:
  assumes "merge_turn so l c al = (act, al')"
  shows "act = Merge_Shrink e \<Longrightarrow> eof_free so ow c \<Longrightarrow> eof_free so ow e \<and> sle_id e = sle_id c"
    and "act = Merge_Split e r \<Longrightarrow> eof_free so ow c \<Longrightarrow>
       eof_free so ow e \<and> eof_free so ow r \<and> sle_id e = sle_id c \<and> sle_id r = fst al"
    and "act = Merge_Absorb k \<Longrightarrow> eof_free so (sle_owner l) c \<Longrightarrow> eof_free so (sle_owner l) l \<Longrightarrow>
       eof_free so (sle_owner l) (l\<lparr>sle_lock := k\<rparr>)"
proof -
  assume act: "act = Merge_Shrink e" and "eof_free so ow c"
  show "eof_free so ow e \<and> sle_id e = sle_id c"
    using assms act \<open>eof_free so ow c\<close>
    by (cases rule: merge_turn_cases)
      (auto simp: eof_free_def lock_end_shrink_left lock_end_shrink_right)
next
  assume act: "act = Merge_Split e r" and "eof_free so ow c"
  show "eof_free so ow e \<and> eof_free so ow r \<and> sle_id e = sle_id c \<and> sle_id r = fst al"
    using assms act
  proof (cases rule: merge_turn_cases)
    case (split r')
    then show ?thesis
      using \<open>eof_free so ow c\<close> act dup_SomeD(1) [OF split(5)]
      by (auto simp: eof_free_def lock_end_shrink_left lock_end_shrink_right)
  qed simp_all
next
  assume act: "act = Merge_Absorb k" and free: "eof_free so (sle_owner l) c" "eof_free so (sle_owner l) l"
  show "eof_free so (sle_owner l) (l\<lparr>sle_lock := k\<rparr>)"
    using assms act
  proof (cases rule: merge_turn_cases)
    case absorb
    then show ?thesis
      using act free by (auto simp: eof_free_def meets_def lock_end_hull)
  qed simp_all
qed

definition merge_inv :: "owner_heap \<Rightarrow> state_lock_entry_t \<Rightarrow> state_lock_entry_t list \<Rightarrow> state_lock_entry_t list \<Rightarrow> alloc \<Rightarrow> bool" where
  "merge_inv so l seen todo al \<longleftrightarrow>
     sle_blocked l = STATE_NON_BLOCKING \<and> lock_wf (sle_lock l) \<and> memory_ok (snd al)
     \<and> sle_id l < fst al \<and> (\<forall>c\<in>set todo. sle_id c \<noteq> sle_id l)
     \<and> eof_free so (sle_owner l) l \<and> (\<forall>c\<in>set todo. eof_free so (sle_owner l) c)
     \<and> one_mode (sle_owner l) (held {STATE_NON_BLOCKING} so (seen @ todo))
     \<and> held {STATE_NON_BLOCKING} so seen \<inter> inside so l \<subseteq> held_by {STATE_NON_BLOCKING} so l"

lemma one_mode_subset: "one_mode ow H \<Longrightarrow> H' \<subseteq> H \<Longrightarrow> one_mode ow H'"
  unfolding one_mode_def by blast

lemma absorb_same_mode:
  assumes "meets so l c" and "one_mode (sle_owner l) H" and "held_by {STATE_NON_BLOCKING} so c \<subseteq> H"
    and "H' \<subseteq> H" and "H = held {STATE_NON_BLOCKING} so ls"
    and "inside so c = {(ow, t, x). (ow, lock_type (sle_lock c), x) \<in> held_by {STATE_NON_BLOCKING} so c}"
  shows "H' \<inter> inside so c \<subseteq> held_by {STATE_NON_BLOCKING} so c"
proof clarify
  fix ow t x
  assume *: "(ow, t, x) \<in> H'" "(ow, t, x) \<in> inside so c"
  then have c: "(ow, lock_type (sle_lock c), x) \<in> held_by {STATE_NON_BLOCKING} so c" using assms(6) by auto
  have same: "\<not> different_owners so ow (sle_owner l)"
    using *(2) assms(1) by (metis (mono_tags) case_prodD different_owners_sym inside_def mem_Collect_eq meets_same_owner)
  have "t = lock_type (sle_lock c)"
    using assms(2-5) * c held_same_owner(1) [OF same, of _ x "{STATE_NON_BLOCKING}" ls]
    unfolding one_mode_def by blast
  then show "(ow, t, x) \<in> held_by {STATE_NON_BLOCKING} so c" using c by simp
qed

lemma merge_loop_exact:
  assumes "merge_loop so l seen todo al = Some r" and "merge_inv so l seen todo al"
  shows "held_by {STATE_NON_BLOCKING} so (fst r) \<union> held {STATE_NON_BLOCKING} so (fst (snd r))
     = assign so (held {STATE_NON_BLOCKING} so (seen @ todo)) l"
  using assms
proof (induction rule: merge_loop_induct)
  case (nil l seen al)
  then show ?case by (auto simp: merge_inv_def assign_def)
next
  case (keep l seen c rest al al' r)
  have "merge_inv so l (seen @ [c]) rest al'"
    using keep(3) merge_turn_exact [OF keep(1)] merge_turn_alloc [OF keep(1)]
    by (auto simp: merge_inv_def)
  then show ?case using keep(2) by simp
next
  case (shrink l seen c rest al e al' r)
  have e: "held_by {STATE_NON_BLOCKING} so e = held_by {STATE_NON_BLOCKING} so c - inside so l"
    using shrink(3) merge_turn_exact [OF shrink(1)] by (auto simp: merge_inv_def)
  then have "merge_inv so l (seen @ [e]) rest al'"
    using shrink(3) merge_turn_alloc [OF shrink(1)]
      one_mode_subset [of "sle_owner l" "held {STATE_NON_BLOCKING} so (seen @ c # rest)"
        "held {STATE_NON_BLOCKING} so (seen @ e # rest)"]
    by (auto simp: merge_inv_def)
  then show ?case using shrink(2) e by (auto simp: assign_def)
next
  case (last l seen c al e right al')
  have "held_by {STATE_NON_BLOCKING} so e \<union> held_by {STATE_NON_BLOCKING} so right
      = held_by {STATE_NON_BLOCKING} so c - inside so l"
    using last(2) merge_turn_exact [OF last(1)] by (auto simp: merge_inv_def)
  then show ?case using last(2) by (auto simp: merge_inv_def assign_def)
next
  case (split l seen c rest al e right al' r)
  have e: "held_by {STATE_NON_BLOCKING} so e \<union> held_by {STATE_NON_BLOCKING} so right
      = held_by {STATE_NON_BLOCKING} so c - inside so l"
    using split(4) merge_turn_exact [OF split(1)] by (auto simp: merge_inv_def)
  then have "merge_inv so l (seen @ [e]) (rest @ [right]) al'"
    using split(4) merge_turn_alloc [OF split(1)] merge_turn_pieces(2) [OF split(1) refl, of "sle_owner l"]
      one_mode_subset [of "sle_owner l" "held {STATE_NON_BLOCKING} so (seen @ c # rest)"
        "held {STATE_NON_BLOCKING} so (seen @ e # rest @ [right])"]
    by (auto simp: merge_inv_def)
  then show ?case using split(3) e by (auto simp: assign_def)
next
  case (absorb l seen c rest al lock al' r)
  let ?l = "l\<lparr>sle_lock := lock\<rparr>"
  have m: "meets so l c" and k: "lock = hull (sle_lock c) (sle_lock l)" and al: "al' = al"
    using absorb(1) by (cases rule: merge_turn_cases; simp)+
  have own [simp]: "sle_owner ?l = sle_owner l" "sle_blocked ?l = sle_blocked l" "sle_id ?l = sle_id l" by simp_all
  let ?H = "held {STATE_NON_BLOCKING} so"
  have exact: "(held_by {STATE_NON_BLOCKING} so c \<subseteq> inside so l
           \<and> inside so ?l = inside so l
           \<and> held_by {STATE_NON_BLOCKING} so ?l = held_by {STATE_NON_BLOCKING} so l)
        \<or> (inside so ?l = inside so l \<union> inside so c
           \<and> inside so c = {(ow, t, x). (ow, lock_type (sle_lock c), x) \<in> held_by {STATE_NON_BLOCKING} so c}
           \<and> held_by {STATE_NON_BLOCKING} so c \<inter> inside so l \<subseteq> held_by {STATE_NON_BLOCKING} so l
           \<and> held_by {STATE_NON_BLOCKING} so ?l
               = held_by {STATE_NON_BLOCKING} so l \<union> held_by {STATE_NON_BLOCKING} so c)" (is "?whole \<or> ?part")
    using absorb(3) merge_turn_exact [OF absorb(1)] by (simp add: merge_inv_def)
  have om: "one_mode (sle_owner l) (?H (seen @ c # rest))" using absorb(3) by (simp add: merge_inv_def)
  have part: "(?H seen \<union> ?H rest) \<inter> inside so c \<subseteq> held_by {STATE_NON_BLOCKING} so c" if "?part"
    by (rule absorb_same_mode [OF m om _ _ refl]) (use that in auto)
  have "?H seen \<inter> inside so ?l \<subseteq> held_by {STATE_NON_BLOCKING} so ?l"
    using exact part absorb(3) by (auto simp: merge_inv_def)
  moreover have "one_mode (sle_owner l) (?H (seen @ rest))"
    by (rule one_mode_subset [OF om]) auto
  ultimately have "merge_inv so ?l seen rest al'"
    using absorb(3) m k al hull_wf(1) [OF m] merge_turn_pieces(3) [OF absorb(1) refl]
    by (simp add: merge_inv_def)
  then have "held_by {STATE_NON_BLOCKING} so (fst r) \<union> ?H (fst (snd r)) = assign so (?H (seen @ rest)) ?l"
    by (rule absorb(2))
  also have "\<dots> = assign so (?H (seen @ c # rest)) l"
    using exact part by (auto simp: assign_def)
  finally show ?case .
qed

lemma merge_exact:
  assumes "lock_wf (sle_lock l)" and "sle_blocked l = STATE_NON_BLOCKING"
    and "sle_id l < fst al" and "\<forall>e\<in>set ls. sle_id e \<noteq> sle_id l" and "memory_ok (snd al)"
    and "\<forall>e\<in>set (l # ls). eof_free so (sle_owner l) e"
    and "one_mode (sle_owner l) (held {STATE_NON_BLOCKING} so ls)"
  shows "\<exists>l' ls' al'. merge_lock_entry so l ls al = Some (l', ls', al')
     \<and> held {STATE_NON_BLOCKING} so (ls' @ [l']) = assign so (held {STATE_NON_BLOCKING} so ls) l"
proof -
  obtain l' ls' al' where r: "merge_lock_entry so l ls al = Some (l', ls', al')"
    using merge_loop_returns [OF assms(1), of so "[]" ls al] by (auto simp: merge_lock_entry_def)
  have "merge_inv so l [] ls al" using assms by (simp add: merge_inv_def)
  then show ?thesis
    using r merge_loop_exact [of so l "[]" ls al "(l', ls', al')"]
    by (auto simp: merge_lock_entry_def)
qed

section \<open>Subtracting\<close>

definition covered :: "fsal_lock_param_t \<Rightarrow> (nat \<times> fsal_lock_t \<times> u64) set" where
  "covered lock = {(ow, t, x). covers lock x}"

lemma dup_eq:
  "state_lock_entry_t_dup f al =
     (if e_malloc (o_env (snd al)) (o_tick (snd al))
      then (Some (f\<lparr>sle_id := fst al, sle_ref_count := 1, sle_block_data := None\<rparr>), Suc (fst al), tick (snd al))
      else (None, fst al, tick (snd al)))"
  by (cases al) (simp add: state_lock_entry_t_dup_def create_state_lock_entry_def draw_malloc_def)

lemma subtract_entry_cases [consumes 1, case_names apart whole parts error]:
  assumes "subtract_lock_from_entry f lock al = (status, res, al')"
  obtains
    "status = STATE_SUCCESS" "res = None" "al' = al"
    "lock_end lock < lock_start (sle_lock f) \<or> lock_end (sle_lock f) < lock_start lock"
  | "status = STATE_SUCCESS" "res = Some []" "al' = al"
    "lock_start lock \<le> lock_start (sle_lock f)" "lock_end (sle_lock f) \<le> lock_end lock"
  | left right where "status = STATE_SUCCESS" "res = Some (left @ right)"
    "\<not> lock_end lock < lock_start (sle_lock f)" "\<not> lock_end (sle_lock f) < lock_start lock"
    "if lock_start (sle_lock f) < lock_start lock
     then \<exists>i. left = [shrink_left (lock_start lock) (f\<lparr>sle_id := i, sle_ref_count := 1, sle_block_data := None\<rparr>)]
     else left = []"
    "if lock_end lock < lock_end (sle_lock f)
     then \<exists>i. right = [shrink_right (lock_end lock) (lock_end (sle_lock f))
              (f\<lparr>sle_id := i, sle_ref_count := 1, sle_block_data := None\<rparr>)]
     else right = []"
  | "status = STATE_MALLOC_ERROR" "res = None" "\<not> memory_ok (snd al)"
proof -
  note defs = subtract_lock_from_entry_def dup_eq memory_ok_def tick_def Let_def
  consider "lock_end lock < lock_start (sle_lock f) \<or> lock_end (sle_lock f) < lock_start lock"
    | "\<not> (lock_end lock < lock_start (sle_lock f) \<or> lock_end (sle_lock f) < lock_start lock)"
      "lock_start lock \<le> lock_start (sle_lock f) \<and> lock_end (sle_lock f) \<le> lock_end lock"
    | "\<not> (lock_end lock < lock_start (sle_lock f) \<or> lock_end (sle_lock f) < lock_start lock)"
      "\<not> (lock_start lock \<le> lock_start (sle_lock f) \<and> lock_end (sle_lock f) \<le> lock_end lock)"
    by blast
  then show thesis
  proof cases
    case 1
    then show thesis using that(1) assms by (auto simp: defs split: if_splits)
  next
    case 2
    then show thesis using that(2) assms by (auto simp: defs split: if_splits)
  next
    case 3
    then show thesis
      using that(3) [of "if lock_start (sle_lock f) < lock_start lock then
             [shrink_left (lock_start lock) (f\<lparr>sle_id := fst al, sle_ref_count := 1, sle_block_data := None\<rparr>)] else []"]
        that(4) assms
      by (auto simp: defs split: if_splits)
  qed
qed

lemma word_le_succ: "(r::u64) < f \<Longrightarrow> \<not> r < s \<Longrightarrow> s \<le> r + 1"
  using unat_le_max [of f] by (simp add: u64_arith)

lemma subtract_entry_held:
  assumes "subtract_lock_from_entry f lock al = (STATE_SUCCESS, res, al')"
  shows "res = None \<Longrightarrow> held_by B so f \<inter> covered lock = {}"
    and "res = Some parts \<Longrightarrow> held B so parts = held_by B so f - covered lock"
    and "res = Some parts \<Longrightarrow> e \<in> set parts \<Longrightarrow> sle_blocked e = sle_blocked f"
proof -
  assume "res = None"
  with assms show "held_by B so f \<inter> covered lock = {}"
    by (cases rule: subtract_entry_cases) (auto simp: held_by_def covered_def covers_def)
next
  assume parts: "res = Some parts"
  from assms have "held B so parts = held_by B so f - covered lock \<and> (\<forall>e\<in>set parts. sle_blocked e = sle_blocked f)"
  proof (cases rule: subtract_entry_cases)
    case whole
    then show ?thesis using parts by (auto simp: held_by_def covered_def covers_def)
  next
    case (parts left right)
    let ?dup = "\<lambda>i. f\<lparr>sle_id := i, sle_ref_count := 1, sle_block_data := None\<rparr>"
    have left: "covers (sle_lock (shrink_left (lock_start lock) (?dup i))) x \<longleftrightarrow> covers (sle_lock f) x \<and> x < lock_start lock"
      if "lock_start (sle_lock f) < lock_start lock" for x i
      using parts(4) by (subst covers_shrink_left) (use that in \<open>auto simp: u64_arith split: if_splits\<close>)
    have right: "covers (sle_lock (shrink_right (lock_end lock) (lock_end (sle_lock f)) (?dup i))) x
        \<longleftrightarrow> covers (sle_lock f) x \<and> lock_end lock < x" if "lock_end lock < lock_end (sle_lock f)" for x i
      using covers_shrink_right [of "lock_end lock" "?dup i" x] that parts(3) word_le_succ [OF that, of "lock_start (sle_lock f)"]
      by simp
    have l: "held B so left = {(ow, t, x) \<in> held_by B so f. x < lock_start lock} \<and> (\<forall>e\<in>set left. sle_blocked e = sle_blocked f)"
    proof (cases "lock_start (sle_lock f) < lock_start lock")
      case True
      then obtain i where "left = [shrink_left (lock_start lock) (?dup i)]" using parts(5) by auto
      then show ?thesis using left [OF True] by (auto simp: held_by_def)
    next
      case False
      then show ?thesis using parts(5) by (auto simp: held_by_def covers_def)
    qed
    have r: "held B so right = {(ow, t, x) \<in> held_by B so f. lock_end lock < x} \<and> (\<forall>e\<in>set right. sle_blocked e = sle_blocked f)"
    proof (cases "lock_end lock < lock_end (sle_lock f)")
      case True
      then obtain i where "right = [shrink_right (lock_end lock) (lock_end (sle_lock f)) (?dup i)]" using parts(6) by auto
      then show ?thesis using right [OF True] by (auto simp: held_by_def)
    next
      case False
      then show ?thesis using parts(6) by (auto simp: held_by_def covers_def)
    qed
    have "held_by B so f - covered lock
        = {(ow, t, x) \<in> held_by B so f. x < lock_start lock} \<union> {(ow, t, x) \<in> held_by B so f. lock_end lock < x}"
      unfolding covered_def covers_def by (auto simp: not_le)
    moreover have "parts = left @ right" using parts(2) \<open>res = Some parts\<close> by simp
    ultimately show ?thesis
      using l r by (simp add: ball_Un)
  qed (use \<open>res = Some parts\<close> in simp_all)
  then show "held B so parts = held_by B so f - covered lock"
    and "e \<in> set parts \<Longrightarrow> sle_blocked e = sle_blocked f" by simp_all
qed

lemma subtract_entry_status:
  assumes "subtract_lock_from_entry f lock al = (st, res, al')"
  shows "st = STATE_SUCCESS \<or> st = STATE_MALLOC_ERROR" and "memory_ok (snd al) \<Longrightarrow> st = STATE_SUCCESS"
    and "memory_ok (snd al) \<Longrightarrow> memory_ok (snd al')" and "fst al \<le> fst al'"
  using assms
  by (auto simp: subtract_lock_from_entry_def dup_eq memory_ok_def tick_def Let_def split: if_splits)

lemma subtract_loop_cases [consumes 1, case_names nil skip error apart parts]:
  assumes "subtract_loop so owner state lock keep split gone todo al = (status, ls, removed, al')"
  obtains
    "todo = []" "status = STATE_SUCCESS" "ls = keep @ split" "removed = (gone \<noteq> [])" "al' = al"
  | f rest where "todo = f # rest" "subtract_skips so owner state f"
    "subtract_loop so owner state lock (keep @ [f]) split gone rest al = (status, ls, removed, al')"
  | f rest st res where "todo = f # rest" "\<not> subtract_skips so owner state f"
    "subtract_lock_from_entry f lock al = (st, res, al')" "st \<noteq> STATE_SUCCESS" "status = st"
    "ls = keep @ f # rest @ gone"
  | f rest al1 where "todo = f # rest" "\<not> subtract_skips so owner state f"
    "subtract_lock_from_entry f lock al = (STATE_SUCCESS, None, al1)"
    "subtract_loop so owner state lock (keep @ [f]) split gone rest al1 = (status, ls, removed, al')"
  | f rest parts al1 where "todo = f # rest" "\<not> subtract_skips so owner state f"
    "subtract_lock_from_entry f lock al = (STATE_SUCCESS, Some parts, al1)"
    "subtract_loop so owner state lock keep (split @ parts) (gone @ [f]) rest al1 = (status, ls, removed, al')"
  using assms
  by (cases todo) (auto split: if_splits prod.splits option.splits)

lemma subtract_loop_status:
  assumes "subtract_loop so owner state lock keep split gone todo al = (status, ls, removed, al')"
  shows "(status = STATE_SUCCESS \<or> status = STATE_MALLOC_ERROR)
     \<and> (memory_ok (snd al) \<longrightarrow> status = STATE_SUCCESS \<and> memory_ok (snd al')) \<and> fst al \<le> fst al'"
  using assms
proof (induction todo arbitrary: keep split gone al)
  case Nil
  then show ?case by simp
next
  case (Cons f rest)
  from Cons.prems show ?case
  proof (cases rule: subtract_loop_cases)
    case (error f' rest' st res)
    then show ?thesis using subtract_entry_status [OF error(3)] by auto
  next
    case (apart f' rest' al1)
    then show ?thesis
      using subtract_entry_status [OF apart(3)] Cons.IH [of "keep @ [f]" split gone al1] by auto
  next
    case (parts f' rest' ps al1)
    then show ?thesis
      using subtract_entry_status [OF parts(3)] Cons.IH [of keep "split @ ps" "gone @ [f]" al1] by auto
  qed (use Cons.IH in auto)
qed

lemma subtract_loop_failure:
  assumes "subtract_loop so owner state lock keep split gone todo al = (status, ls, removed, al')"
    and "status \<noteq> STATE_SUCCESS"
  shows "mset ls = mset (keep @ gone @ todo)"
  using assms(1)
proof (induction todo arbitrary: keep split gone al)
  case Nil
  then show ?case using assms(2) by simp
next
  case (Cons f rest)
  from Cons.prems show ?case
    by (cases rule: subtract_loop_cases) (use assms(2) in \<open>auto dest!: Cons.IH\<close>)
qed

lemma subtract_loop_held:
  assumes "subtract_loop so owner state lock keep split gone todo al = (status, ls, removed, al')"
    and "status = STATE_SUCCESS"
  shows "held B so ls = held B so keep \<union> held B so split
       \<union> held B so (filter (subtract_skips so owner state) todo)
       \<union> (held B so (filter (\<lambda>e. \<not> subtract_skips so owner state e) todo) - covered lock)"
  using assms(1)
proof (induction todo arbitrary: keep split gone al)
  case Nil
  then show ?case by auto
next
  case (Cons f rest)
  from Cons.prems show ?case
  proof (cases rule: subtract_loop_cases)
    case (skip f' rest')
    then show ?thesis using Cons.IH [of "keep @ [f]" split gone al] by auto
  next
    case (apart f' rest' al1)
    then show ?thesis
      using Cons.IH [of "keep @ [f]" split gone al1] subtract_entry_held(1) [OF apart(3), of B so] by auto
  next
    case (parts f' rest' ps al1)
    then show ?thesis
      using Cons.IH [of keep "split @ ps" "gone @ [f]" al1] subtract_entry_held(2) [OF parts(3) refl, of B so]
      by auto
  qed (use assms(2) in auto)
qed

lemma subtract_loop_others:
  assumes "subtract_loop so owner state lock keep split gone todo al = (status, ls, removed, al')"
    and "status = STATE_SUCCESS" and "\<forall>e\<in>set split. sle_blocked e = STATE_NON_BLOCKING"
  shows "filter (\<lambda>e. sle_blocked e \<noteq> STATE_NON_BLOCKING) ls
       = filter (\<lambda>e. sle_blocked e \<noteq> STATE_NON_BLOCKING) (keep @ todo)"
  using assms(1,3)
proof (induction todo arbitrary: keep split gone al)
  case Nil
  then show ?case by (auto simp: filter_empty_conv)
next
  case (Cons f rest)
  from Cons.prems(1) show ?case
  proof (cases rule: subtract_loop_cases)
    case (parts f' rest' ps al1)
    then have nb: "sle_blocked f = STATE_NON_BLOCKING" by (auto simp: subtract_skips_def)
    have "\<forall>e\<in>set (split @ ps). sle_blocked e = STATE_NON_BLOCKING"
      using Cons.prems(2) subtract_entry_held(3) [OF parts(3) refl] nb parts(1) by auto
    then show ?thesis using parts(1,4) nb Cons.IH [of keep "split @ ps" "gone @ [f]" al1] by auto
  qed (use Cons.IH Cons.prems(2) assms(2) in auto)
qed

section \<open>Addresses\<close>

abbreviation ids :: "state_lock_entry_t list \<Rightarrow> nat list" where
  "ids ls \<equiv> map sle_id ls"

definition fresh_ids :: "nat list \<Rightarrow> nat \<Rightarrow> bool" where
  "fresh_ids is n \<longleftrightarrow> distinct is \<and> (\<forall>i\<in>set is. i < n)"

lemma fresh_ids_mono: "fresh_ids is n \<Longrightarrow> n \<le> m \<Longrightarrow> fresh_ids is m"
  by (auto simp: fresh_ids_def)

lemma fresh_ids_snoc: "fresh_ids is n \<Longrightarrow> fresh_ids (is @ [n]) (Suc n)"
  by (auto simp: fresh_ids_def less_Suc_eq)

text \<open>What an operation on a list may do to the addresses: drop some and allocate new ones.\<close>

definition ids_evolve :: "nat list \<Rightarrow> nat \<Rightarrow> nat list \<Rightarrow> nat \<Rightarrow> bool" where
  "ids_evolve is n is' n' \<longleftrightarrow>
     n \<le> n' \<and> set is' \<subseteq> set is \<union> {n..<n'} \<and> (fresh_ids is n \<longrightarrow> fresh_ids is' n')"

lemma ids_evolve_refl [simp]: "ids_evolve is n is n"
  by (simp add: ids_evolve_def)

lemma ids_evolve_trans: "ids_evolve is n is' n' \<Longrightarrow> ids_evolve is' n' is'' n'' \<Longrightarrow> ids_evolve is n is'' n''"
  unfolding ids_evolve_def by fastforce

lemma ids_evolve_alloc: "n \<le> n' \<Longrightarrow> ids_evolve is n is n'"
  by (auto simp: ids_evolve_def intro: fresh_ids_mono)

lemma ids_evolve_snoc: "ids_evolve is n (is @ [n]) (Suc n)"
  by (auto simp: ids_evolve_def intro: fresh_ids_snoc)

lemma ids_evolve_drop: "ids_evolve (is @ i # js) n (is @ js) n"
  by (auto simp: ids_evolve_def fresh_ids_def)

lemma merge_turn_ids:
  assumes "merge_turn so l c al = (act, al')"
  shows "act = Merge_Shrink e \<Longrightarrow> sle_id e = sle_id c \<and> al' = al"
    and "act = Merge_Split e r \<Longrightarrow> sle_id e = sle_id c \<and> sle_id r = fst al \<and> fst al' = Suc (fst al)"
    and "act = Merge_Absorb k \<Longrightarrow> al' = al"
  using assms by (cases rule: merge_turn_cases; auto dest: dup_SomeD)+

lemma merge_loop_ids:
  assumes "merge_loop so l seen todo al = Some r"
  shows "ids_evolve (ids (seen @ todo)) (fst al) (ids (fst (snd r))) (fst (snd (snd r)))"
  using assms
proof (induction rule: merge_loop_induct)
  case (keep l seen c rest al al' r)
  then show ?case
    using ids_evolve_trans [OF ids_evolve_alloc [OF merge_turn_alloc(1) [OF keep(1)]]] by simp
next
  case (shrink l seen c rest al e al' r)
  then show ?case using merge_turn_ids(1) [OF shrink(1) refl] by simp
next
  case (last l seen c al e right al')
  then show ?case
    using merge_turn_ids(2) [OF last(1) refl] ids_evolve_snoc [of "ids (seen @ [c])" "fst al"] by simp
next
  case (split l seen c rest al e right al' r)
  then show ?case
    using merge_turn_ids(2) [OF split(1) refl] ids_evolve_snoc [of "ids (seen @ c # rest)" "fst al"]
    by (auto elim: ids_evolve_trans)
next
  case (absorb l seen c rest al lock al' r)
  then show ?case
    using merge_turn_ids(3) [OF absorb(1) refl] ids_evolve_drop [of "ids seen" "sle_id c" "ids rest" "fst al"]
    by (auto elim: ids_evolve_trans)
qed simp

lemma ids_evolve_perm: "mset is = mset js \<Longrightarrow> ids_evolve is n js n"
  unfolding ids_evolve_def fresh_ids_def by (metis Un_upper1 le_refl mset_eq_imp_distinct_iff set_mset_mset)

lemma ids_evolve_new: "n \<le> n' \<Longrightarrow> ids_evolve is n (is @ [n..<n']) n'"
  by (fastforce simp: ids_evolve_def fresh_ids_def)

lemma ids_evolve_subseq: "ids_evolve (is @ js @ ks) n (is @ ks) n"
  by (auto simp: ids_evolve_def fresh_ids_def)

lemma subtract_entry_ids:
  assumes "subtract_lock_from_entry f lock al = (st, res, al')"
  shows "res = Some parts \<Longrightarrow> ids parts = [fst al..<fst al']"
  using assms
  by (auto simp: subtract_lock_from_entry_def dup_eq Let_def split: if_splits)

lemma subtract_loop_ids:
  assumes "subtract_loop so owner state lock keep split gone todo al = (status, ls, removed, al')"
  shows "ids_evolve (ids (keep @ todo @ split @ gone)) (fst al) (ids ls) (fst al')"
  using assms
proof (induction todo arbitrary: keep split gone al)
  case Nil
  then show ?case using ids_evolve_subseq [of "ids (keep @ split)" "ids gone" "[]"] by auto
next
  case (Cons f rest)
  from Cons.prems show ?case
  proof (cases rule: subtract_loop_cases)
    case (skip f' rest')
    then show ?thesis using Cons.IH [of "keep @ [f]" split gone al] by simp
  next
    case (error f' rest' st res)
    have "ids_evolve (ids (keep @ (f # rest) @ split @ gone)) (fst al) (ids ls) (fst al)"
      using error ids_evolve_subseq [of "ids (keep @ f # rest)" "ids split" "ids gone"] by simp
    then show ?thesis
      by (rule ids_evolve_trans [OF _ ids_evolve_alloc [OF subtract_entry_status(4) [OF error(3)]]])
  next
    case (apart f' rest' al1)
    then show ?thesis
      using ids_evolve_trans [OF ids_evolve_alloc [OF subtract_entry_status(4) [OF apart(3)]]
          Cons.IH [of "keep @ [f]" split gone al1]]
      by simp
  next
    case (parts f' rest' ps al1)
    have "ids_evolve (ids (keep @ (f # rest) @ split @ gone)) (fst al)
        (ids (keep @ (f # rest) @ split @ gone) @ ids ps) (fst al1)"
      unfolding subtract_entry_ids [OF parts(3) refl]
      by (rule ids_evolve_new [OF subtract_entry_status(4) [OF parts(3)]])
    moreover have "ids_evolve (ids (keep @ (f # rest) @ split @ gone) @ ids ps) (fst al1)
        (ids (keep @ rest @ (split @ ps) @ gone @ [f])) (fst al1)"
      by (rule ids_evolve_perm) simp
    moreover have "ids_evolve (ids (keep @ rest @ (split @ ps) @ gone @ [f])) (fst al1) (ids ls) (fst al')"
      using parts by (intro Cons.IH) simp
    ultimately show ?thesis by (blast intro: ids_evolve_trans)
  qed (use Cons.prems in simp_all)
qed

text \<open>Merging leaves alone the entry itself, when it is on the list, and every entry that is not granted.\<close>

definition untouched :: "nat \<Rightarrow> state_lock_entry_t \<Rightarrow> bool" where
  "untouched i e \<longleftrightarrow> sle_blocked e \<noteq> STATE_NON_BLOCKING \<or> sle_id e = i"

lemma merge_turn_touches:
  assumes "merge_turn so l c al = (act, al')" and "sle_id l < fst al"
  shows "act = Merge_Shrink e \<Longrightarrow> \<not> untouched (sle_id l) c \<and> \<not> untouched (sle_id l) e"
    and "act = Merge_Split e r \<Longrightarrow>
       \<not> untouched (sle_id l) c \<and> \<not> untouched (sle_id l) e \<and> \<not> untouched (sle_id l) r"
    and "act = Merge_Absorb k \<Longrightarrow> \<not> untouched (sle_id l) c"
  using assms
  by (cases rule: merge_turn_cases; auto simp: untouched_def meets_def dest: dup_SomeD)+

lemma merge_loop_others:
  assumes "merge_loop so l seen todo al = Some r" and "sle_id l < fst al"
  shows "filter (untouched (sle_id l)) (fst (snd r)) = filter (untouched (sle_id l)) (seen @ todo)"
  using assms
proof (induction rule: merge_loop_induct)
  case (keep l seen c rest al al' r)
  then show ?case using merge_turn_alloc(1) [OF keep(1)] by simp
next
  case (shrink l seen c rest al e al' r)
  then show ?case using merge_turn_alloc(1) [OF shrink(1)] merge_turn_touches(1) [OF shrink(1) shrink(3) refl] by simp
next
  case (last l seen c al e right al')
  then show ?case using merge_turn_touches(2) [OF last(1) last(2) refl] by simp
next
  case (split l seen c rest al e right al' r)
  then show ?case using merge_turn_alloc(1) [OF split(1)] merge_turn_touches(2) [OF split(1) split(4) refl] by simp
next
  case (absorb l seen c rest al lock al' r)
  then show ?case using merge_turn_alloc(1) [OF absorb(1)] merge_turn_touches(3) [OF absorb(1) absorb(3) refl] by simp
qed simp

text \<open>A predicate that parts of an entry inherit.\<close>

definition piecewise :: "(state_lock_entry_t \<Rightarrow> bool) \<Rightarrow> bool" where
  "piecewise P \<longleftrightarrow> (\<forall>e i s r f. P e \<longrightarrow> P (shrink_left s e) \<and> P (shrink_right r f e)
     \<and> P (e\<lparr>sle_id := i, sle_ref_count := 1, sle_block_data := None\<rparr>))"

lemma merge_turn_all:
  assumes "merge_turn so l c al = (act, al')" and "P c" and "piecewise P"
  shows "act = Merge_Shrink e \<Longrightarrow> P e" and "act = Merge_Split e r \<Longrightarrow> P e \<and> P r"
proof -
  assume "act = Merge_Shrink e"
  with assms(1) show "P e"
    by (cases rule: merge_turn_cases) (use assms(2,3) in \<open>auto simp: piecewise_def\<close>)
next
  assume act: "act = Merge_Split e r"
  from assms(1) show "P e \<and> P r"
  proof (cases rule: merge_turn_cases)
    case (split r')
    have "P r'" unfolding dup_SomeD(1) [OF split(5)] using assms(2,3) by (simp add: piecewise_def)
    then show ?thesis using split(6) act assms(2,3) by (simp add: piecewise_def)
  qed (use act in simp_all)
qed

lemma merge_loop_all:
  assumes "merge_loop so l seen todo al = Some r" and "\<forall>e\<in>set (seen @ todo). P e" and "piecewise P"
  shows "\<forall>e\<in>set (fst (snd r)). P e"
  using assms(1,2)
proof (induction rule: merge_loop_induct)
  case (shrink l seen c rest al e al' r)
  then show ?case using merge_turn_all(1) [OF shrink(1) _ assms(3) refl] by simp
next
  case (last l seen c al e right al')
  then show ?case using merge_turn_all(2) [OF last(1) _ assms(3) refl] by simp
next
  case (split l seen c rest al e right al' r)
  then show ?case using merge_turn_all(2) [OF split(1) _ assms(3) refl] by simp
qed simp_all

lemma merge_loop_fields:
  assumes "merge_loop so l seen todo al = Some (l', ls, al')"
  shows "sle_id l' = sle_id l" "sle_owner l' = sle_owner l" "sle_blocked l' = sle_blocked l" "sle_type l' = sle_type l"
proof -
  have eq: "l' = l\<lparr>sle_lock := sle_lock l'\<rparr>" using merge_loop_entry [OF assms] by simp
  show "sle_id l' = sle_id l" "sle_owner l' = sle_owner l" "sle_blocked l' = sle_blocked l" "sle_type l' = sle_type l"
    using arg_cong [OF eq, of sle_id] arg_cong [OF eq, of sle_owner] arg_cong [OF eq, of sle_blocked]
      arg_cong [OF eq, of sle_type]
    by simp_all
qed

lemma subtract_entry_all:
  assumes "subtract_lock_from_entry f lock al = (st, Some parts, al')" and "P f" and "piecewise P"
  shows "\<forall>e\<in>set parts. P e"
  using assms(1)
proof (cases rule: subtract_entry_cases)
  case (parts left right)
  have dup: "P (f\<lparr>sle_id := i, sle_ref_count := 1, sle_block_data := None\<rparr>)" for i
    using assms(2,3) by (simp add: piecewise_def)
  have "\<forall>e\<in>set left. P e"
    using parts(5) dup assms(3) by (auto simp: piecewise_def split: if_splits)
  moreover have "\<forall>e\<in>set right. P e"
    using parts(6) dup assms(3) by (auto simp: piecewise_def split: if_splits)
  ultimately show ?thesis using parts(2) by auto
qed simp_all

lemma subtract_loop_all:
  assumes "subtract_loop so owner state lock keep split gone todo al = (status, ls, removed, al')"
    and "\<forall>e\<in>set (keep @ split @ gone @ todo). P e" and "piecewise P"
  shows "\<forall>e\<in>set ls. P e"
  using assms(1,2)
proof (induction todo arbitrary: keep split gone al)
  case Nil
  then show ?case by auto
next
  case (Cons f rest)
  from Cons.prems(1) show ?case
  proof (cases rule: subtract_loop_cases)
    case (skip f' rest')
    show ?thesis by (rule Cons.IH [of "keep @ [f]" split gone al]) (use skip Cons.prems(2) in simp_all)
  next
    case (apart f' rest' al1)
    show ?thesis by (rule Cons.IH [of "keep @ [f]" split gone al1]) (use apart Cons.prems(2) in simp_all)
  next
    case (parts f' rest' ps al1)
    have "\<forall>e\<in>set ps. P e" using subtract_entry_all [OF parts(3) _ assms(3)] parts(1) Cons.prems(2) by simp
    then show ?thesis by (intro Cons.IH [of keep "split @ ps" "gone @ [f]" al1]) (use parts Cons.prems(2) in auto)
  qed (use Cons.prems(2) in auto)
qed

end
