(* ===== verification/State_Lock_Ops.thy ===== *)
theory State_Lock_Ops
  imports State_Lock_Range
begin

text \<open>
  The lock operations of \<^verbatim>\<open>SAL/state_lock.c\<close> on one file, with the granting of blocked locks and the NLM
  callback of \<^verbatim>\<open>Protocols/NLM/nlm_util.c\<close> that grants them.  The operations run under the state lock
  of the file, so each is one step; a cookie that one operation has taken out of the table and
  another one uses later is an interleaving of such steps.
\<close>

section \<open>State\<close>

text \<open>The \<^verbatim>\<open>NLMPROC4_GRANTED_MSG\<close> that a grant queues.\<close>

record nlm_grant_msg =
  gm_cookie :: u64
  gm_exclusive :: bool
  gm_svid :: u32
  gm_offset :: u64
  gm_len :: u64
  gm_oh :: bytes
  gm_fh :: bytes

text \<open>
  The file: its lock and delegation lists, the entries off the lists that a cookie still references,
  the pins of its cache entry (dead when it is on the cleanup queue), the cookie objects by key with
  their lock entry, the keys of the cookie table, the entries on the global list of blocked locks,
  the queued messages, and the state of the file-system layer.  A key that is in the table but
  has no object is a dangling pointer.
\<close>

record 'f lock_world =
  lw_locks :: "state_lock_entry_t list"
  lw_delegs :: "state_lock_entry_t list"
  lw_off :: "state_lock_entry_t list"
  lw_next :: nat
  lw_orc :: c_oracle
  lw_pins :: int
  lw_dead :: bool
  lw_gc_cookie :: u64
  lw_cookies :: "(u64 \<times> nat) list"
  lw_cookie_table :: "u64 list"
  lw_blocked :: "nat list"
  lw_async :: "nlm_grant_msg list"
  lw_fsal :: 'f

text \<open>
  What an operation runs in: the owners, the export of the request, the capabilities and the \<^verbatim>\<open>lock_op\<close> of
  the file-system layer, \<^verbatim>\<open>cache_inode_open\<close>, the unknown owner and whether the file is regular.
\<close>

record 'f lock_env =
  le_owners :: owner_heap
  le_export :: nat
  le_supports :: "fsal_fsinfo_options_t \<Rightarrow> bool"
  le_lock_op :: "nat option \<Rightarrow> fsal_lock_op_t \<Rightarrow> fsal_lock_param_t \<Rightarrow> 'f
    \<Rightarrow> (fsal_status \<times> fsal_lock_param_t) \<times> 'f"
  le_open :: "bool \<Rightarrow> bool \<Rightarrow> 'f \<Rightarrow> cache_inode_status_t \<times> 'f"
  le_unknown_owner :: nat
  le_regular :: bool

definition lw_malloc :: "'f lock_world \<Rightarrow> bool \<times> 'f lock_world" where
  "lw_malloc w = (let (ok, orc) = draw_malloc (lw_orc w) in (ok, w\<lparr>lw_orc := orc\<rparr>))"

definition lw_alloc :: "'f lock_world \<Rightarrow> alloc" where
  "lw_alloc w = (lw_next w, lw_orc w)"

definition set_alloc :: "alloc \<Rightarrow> 'f lock_world \<Rightarrow> 'f lock_world" where
  "set_alloc al w = w\<lparr>lw_next := fst al, lw_orc := snd al\<rparr>"

definition find_lock :: "nat \<Rightarrow> 'f lock_world \<Rightarrow> state_lock_entry_t option" where
  "find_lock i w = find (\<lambda>e. sle_id e = i) (lw_locks w)"

definition find_off :: "nat \<Rightarrow> 'f lock_world \<Rightarrow> state_lock_entry_t option" where
  "find_off i w = find (\<lambda>e. sle_id e = i) (lw_off w)"

definition update_lock ::
    "nat \<Rightarrow> (state_lock_entry_t \<Rightarrow> state_lock_entry_t) \<Rightarrow> 'f lock_world \<Rightarrow> 'f lock_world" where
  "update_lock i f w =
     w\<lparr>lw_locks := map (\<lambda>e. if sle_id e = i then f e else e) (lw_locks w)\<rparr>"

definition update_off ::
    "nat \<Rightarrow> (state_lock_entry_t \<Rightarrow> state_lock_entry_t) \<Rightarrow> 'f lock_world \<Rightarrow> 'f lock_world" where
  "update_off i f w = w\<lparr>lw_off := map (\<lambda>e. if sle_id e = i then f e else e) (lw_off w)\<rparr>"

definition cache_inode_inc_pin_ref :: "'f lock_world \<Rightarrow> cache_inode_status_t \<times> 'f lock_world" where
  "cache_inode_inc_pin_ref w =
     (if lw_dead w then (CACHE_INODE_DEAD_ENTRY, w)
      else (CACHE_INODE_SUCCESS, w\<lparr>lw_pins := lw_pins w + 1\<rparr>))"

definition cache_inode_dec_pin_ref :: "'f lock_world \<Rightarrow> 'f lock_world" where
  "cache_inode_dec_pin_ref w = w\<lparr>lw_pins := lw_pins w - 1\<rparr>"

definition dec_pin_if_empty :: "'f lock_world \<Rightarrow> 'f lock_world" where
  "dec_pin_if_empty w = (if lw_locks w = [] then cache_inode_dec_pin_ref w else w)"

section \<open>Entries and their references\<close>

definition lock_entry_inc_ref :: "nat \<Rightarrow> 'f lock_world \<Rightarrow> 'f lock_world" where
  "lock_entry_inc_ref i = update_lock i (\<lambda>e. e\<lparr>sle_ref_count := sle_ref_count e + 1\<rparr>)"

text \<open>\<^verbatim>\<open>lock_entry_dec_ref\<close> of an entry that is on no list: the last reference frees it.\<close>

definition lock_entry_dec_ref :: "state_lock_entry_t \<Rightarrow> 'f lock_world \<Rightarrow> 'f lock_world" where
  "lock_entry_dec_ref e w =
     (if sle_ref_count e - 1 = 0
      then (if sle_block_data e \<noteq> None
            then w\<lparr>lw_blocked := removeAll (sle_id e) (lw_blocked w)\<rparr> else w)
      else w\<lparr>lw_off := lw_off w @ [e\<lparr>sle_ref_count := sle_ref_count e - 1\<rparr>]\<rparr>)"

definition remove_from_locklist :: "state_lock_entry_t \<Rightarrow> 'f lock_world \<Rightarrow> 'f lock_world" where
  "remove_from_locklist e w =
     lock_entry_dec_ref e (w\<lparr>lw_locks := filter (\<lambda>x. sle_id x \<noteq> sle_id e) (lw_locks w)\<rparr>)"

text \<open>
  The lock list becomes \<open>ls\<close>: the entries that left it are removed from the lock list, as merging does and
  as \<^verbatim>\<open>free_list\<close> does after a subtraction.
\<close>

definition relink :: "state_lock_entry_t list \<Rightarrow> 'f lock_world \<Rightarrow> 'f lock_world" where
  "relink ls w =
     fold lock_entry_dec_ref (filter (\<lambda>e. sle_id e \<notin> set (ids ls)) (lw_locks w)) (w\<lparr>lw_locks := ls\<rparr>)"

section \<open>The file-system layer\<close>

fun unlock_ranges ::
    "'f lock_env \<Rightarrow> state_lock_entry_t list \<Rightarrow> state_status_t \<Rightarrow> 'f lock_world \<Rightarrow> state_status_t \<times> 'f lock_world" where
  "unlock_ranges env [] status w = (status, w)"
| "unlock_ranges env (found_entry # rest) status w =
     (let ((fsal_status, _), f) = le_lock_op env None FSAL_OP_UNLOCK (sle_lock found_entry) (lw_fsal w);
          w = w\<lparr>lw_fsal := f\<rparr>;
          w = (if st_major fsal_status = ERR_FSAL_STALE then w\<lparr>lw_dead := True\<rparr> else w);
          t_status = state_error_convert fsal_status in
      unlock_ranges env rest (if t_status \<noteq> STATE_SUCCESS then t_status else status) w)"

definition do_unlock_no_owner ::
    "'f lock_env \<Rightarrow> fsal_lock_param_t \<Rightarrow> lock_type_t \<Rightarrow> 'f lock_world \<Rightarrow> state_status_t \<times> 'f lock_world" where
  "do_unlock_no_owner env lock ty w =
     (case create_state_lock_entry (le_export env) STATE_NON_BLOCKING (le_unknown_owner env) None lock ty
             (lw_alloc w) of
        (None, al) \<Rightarrow> (STATE_MALLOC_ERROR, set_alloc al w)
      | (Some unlock_entry, al) \<Rightarrow>
          (case subtract_list_from_list (le_owners env) [unlock_entry] (lw_locks w) al of
             (status, fsal_unlock_list, al) \<Rightarrow>
               unlock_ranges env fsal_unlock_list status (set_alloc al w)))"

text \<open>
  \<^verbatim>\<open>do_lock_op\<close> gives the status with the holder and the conflict it reports, when there is one.
\<close>

definition sle_type_of :: "lock_type_t \<Rightarrow> fsal_sle_type" where
  "sle_type_of ty = (case ty of POSIX_LOCK \<Rightarrow> FSAL_POSIX_LOCK | LEASE_LOCK \<Rightarrow> FSAL_LEASE_LOCK)"

type_synonym conflict_info = "(nat \<times> fsal_lock_param_t) option"

definition do_lock_op ::
    "'f lock_env \<Rightarrow> fsal_lock_op_t \<Rightarrow> nat option \<Rightarrow> fsal_lock_param_t \<Rightarrow> bool \<Rightarrow> lock_type_t \<Rightarrow> 'f lock_world
      \<Rightarrow> (state_status_t \<times> conflict_info \<times> 'f lock_world) option" where
  "do_lock_op env lock_op owner lock overlap ty w =
     (let lock = lock\<lparr>lock_sle_type := sle_type_of ty\<rparr>;
          async = le_supports env fso_lock_support_async_block;
          owners = le_supports env fso_lock_support_owner in
      if \<not> le_supports env fso_lock_support
         \<or> (\<not> async \<and> lock_op = FSAL_OP_CANCEL) \<or> (\<not> async \<and> overlap) \<or> (\<not> owners \<and> overlap)
      then Some (STATE_SUCCESS, None, w)
      else if owners \<or> lock_op \<noteq> FSAL_OP_UNLOCK then
        let lock_op = (if lock_op = FSAL_OP_LOCKB \<and> \<not> async then FSAL_OP_LOCK else lock_op);
            ((fsal_status, conflicting_lock), f) =
              le_lock_op env (if owners then owner else None) lock_op lock (lw_fsal w);
            status = state_error_convert fsal_status;
            status = (if status = STATE_LOCK_BLOCKED \<and> lock_op \<noteq> FSAL_OP_LOCKB then STATE_FSAL_ERROR
                      else status) in
        Some (status,
          if status = STATE_LOCK_CONFLICT then Some (le_unknown_owner env, conflicting_lock) else None,
          w\<lparr>lw_fsal := f\<rparr>)
      else
        (case owner of
           None \<Rightarrow> None
         | Some ow \<Rightarrow>
             if so_type (le_owners env ow) = STATE_LOCK_OWNER_9P then Some (STATE_SUCCESS, None, w)
             else case do_unlock_no_owner env lock ty w of
               (status, w) \<Rightarrow>
                 Some (status,
                   if status = STATE_LOCK_CONFLICT
                   then Some (le_unknown_owner env,
                     \<lparr>lock_sle_type = FSAL_POSIX_LOCK, lock_type = FSAL_LOCK_R, lock_start = 0,
                      lock_length = 0, lock_reclaim = False\<rparr>) else None, w)))"

section \<open>Cookies\<close>

definition free_cookie :: "u64 \<Rightarrow> bool \<Rightarrow> 'f lock_world \<Rightarrow> 'f lock_world option" where
  "free_cookie k unblock w =
     do {
       i \<leftarrow> map_of (lw_cookies w) k;
       w \<leftarrow> (if unblock then
               (let unhook = (\<lambda>e. e\<lparr>sle_block_data :=
                      map_option (\<lambda>b. b\<lparr>sbd_blocked_cookie := None\<rparr>) (sle_block_data e)\<rparr>) in
                case find_lock i w of
                  Some e \<Rightarrow>
                    (if sle_ref_count e = 1 then None
                     else Some (update_lock i (\<lambda>e. (unhook e)\<lparr>sle_ref_count := sle_ref_count e - 1\<rparr>) w))
                | None \<Rightarrow>
                    do {
                      e \<leftarrow> find_off i w;
                      Some (lock_entry_dec_ref (unhook e)
                        (w\<lparr>lw_off := filter (\<lambda>x. sle_id x \<noteq> i) (lw_off w)\<rparr>))
                    })
             else Some w);
       Some (w\<lparr>lw_cookies := filter (\<lambda>(k', _). k' \<noteq> k) (lw_cookies w)\<rparr>)
     }"

definition state_find_grant :: "u64 \<Rightarrow> 'f lock_world \<Rightarrow> state_status_t \<times> 'f lock_world" where
  "state_find_grant k w =
     (if k \<in> set (lw_cookie_table w)
      then (STATE_SUCCESS, w\<lparr>lw_cookie_table := removeAll k (lw_cookie_table w)\<rparr>)
      else (STATE_BAD_COOKIE, w))"

text \<open>
  \<^verbatim>\<open>do_lock_op\<close> on the lock of an entry, which writes the kind of lock into it.  An entry off the lists has
  no owner.
\<close>

definition entry_lock_op ::
    "'f lock_env \<Rightarrow> fsal_lock_op_t \<Rightarrow> nat \<Rightarrow> 'f lock_world \<Rightarrow> (state_status_t \<times> 'f lock_world) option" where
  "entry_lock_op env lock_op i w =
     (let posix = (\<lambda>e. e\<lparr>sle_lock := (sle_lock e)\<lparr>lock_sle_type := FSAL_POSIX_LOCK\<rparr>\<rparr>) in
      case find_lock i w of
        Some e \<Rightarrow>
          do {
            (status, _, w) \<leftarrow> do_lock_op env lock_op (Some (sle_owner e)) (sle_lock e) False POSIX_LOCK
              (update_lock i posix w);
            Some (status, w)
          }
      | None \<Rightarrow>
          do {
            e \<leftarrow> find_off i w;
            (status, _, w) \<leftarrow> do_lock_op env lock_op None (sle_lock e) False POSIX_LOCK (update_off i posix w);
            Some (status, w)
          })"

text \<open>
  The steps of \<^verbatim>\<open>state_add_grant_cookie\<close>: the cookie joins the table and the entry, then the lock is
  acquired as the kind of grant asks.
\<close>

definition attach_cookie :: "u64 \<Rightarrow> nat \<Rightarrow> state_block_data_t \<Rightarrow> 'f lock_world \<Rightarrow> 'f lock_world" where
  "attach_cookie cookie i b w =
     (let w = w\<lparr>lw_cookies := (cookie, i) # lw_cookies w,
                lw_cookie_table := cookie # lw_cookie_table w\<rparr>;
          w = lock_entry_inc_ref i w in
      update_lock i (\<lambda>e. e\<lparr>sle_block_data := Some (b\<lparr>sbd_blocked_cookie := Some cookie\<rparr>)\<rparr>) w)"

definition acquire_grant ::
    "'f lock_env \<Rightarrow> state_grant_type_t \<Rightarrow> nat \<Rightarrow> 'f lock_world \<Rightarrow> (state_status_t \<times> 'f lock_world) option" where
  "acquire_grant env grant_type i w =
     (case grant_type of
        STATE_GRANT_NONE \<Rightarrow> Some (STATE_INCONSISTENT_ENTRY, w)
      | STATE_GRANT_FSAL_AVAILABLE \<Rightarrow> entry_lock_op env FSAL_OP_LOCKB i w
      | STATE_GRANT_INTERNAL \<Rightarrow> entry_lock_op env FSAL_OP_LOCK i w
      | STATE_GRANT_FSAL \<Rightarrow> Some (STATE_SUCCESS, w))"

definition state_add_grant_cookie ::
    "'f lock_env \<Rightarrow> u64 \<Rightarrow> nat \<Rightarrow> 'f lock_world \<Rightarrow> (state_status_t \<times> 'f lock_world) option" where
  "state_add_grant_cookie env cookie i w =
     do {
       e \<leftarrow> find_lock i w;
       case sle_block_data e of
         None \<Rightarrow> Some (STATE_INCONSISTENT_ENTRY, w)
       | Some b \<Rightarrow>
           (let (ok, w) = lw_malloc w in
            if \<not> ok then Some (STATE_MALLOC_ERROR, w)
            else let (ok, w) = lw_malloc w in
            if \<not> ok then Some (STATE_MALLOC_ERROR, w)
            else if cookie \<in> set (lw_cookie_table w) then Some (STATE_HASH_TABLE_ERROR, w)
            else let (ok, w) = lw_malloc w in
            if \<not> ok then Some (STATE_HASH_TABLE_ERROR, w)
            else
              do {
                (status, w) \<leftarrow> acquire_grant env (sbd_grant_type b) i (attach_cookie cookie i b w);
                if status \<noteq> STATE_SUCCESS then do { w \<leftarrow> free_cookie cookie False w; Some (status, w) }
                else Some (status, w)
              })
     }"

definition state_cancel_grant ::
    "'f lock_env \<Rightarrow> u64 \<Rightarrow> 'f lock_world \<Rightarrow> (state_status_t \<times> 'f lock_world) option" where
  "state_cancel_grant env k w =
     do {
       i \<leftarrow> map_of (lw_cookies w) k;
       (status, w) \<leftarrow> entry_lock_op env FSAL_OP_UNLOCK i w;
       w \<leftarrow> free_cookie k True w;
       Some (status, w)
     }"

section \<open>The NLM callback\<close>

definition next_granted_cookie :: "'f lock_world \<Rightarrow> u64 \<times> 'f lock_world" where
  "next_granted_cookie w = (let k = lw_gc_cookie w + 1 in (k, w\<lparr>lw_gc_cookie := k\<rparr>))"

text \<open>An allocation that the code skips when it needs no bytes.\<close>

definition fill_netobj :: "bytes \<Rightarrow> 'f lock_world \<Rightarrow> bool \<times> 'f lock_world" where
  "fill_netobj data w = (if data \<noteq> [] then lw_malloc w else (True, w))"

definition state_async_schedule :: "nlm_grant_msg \<Rightarrow> 'f lock_world \<Rightarrow> state_status_t \<times> 'f lock_world" where
  "state_async_schedule arg w =
     (let (ok, w) = lw_malloc w in
      if ok then (STATE_SUCCESS, w\<lparr>lw_async := lw_async w @ [arg]\<rparr>) else (STATE_SIGNAL_ERROR, w))"

text \<open>The part of \<^verbatim>\<open>nlm_granted_callback\<close> after the cookie: the arguments of the call and its scheduling.\<close>

definition schedule_grant ::
    "'f lock_env \<Rightarrow> u64 \<Rightarrow> state_lock_entry_t \<Rightarrow> 'f lock_world \<Rightarrow> state_status_t \<times> 'f lock_world" where
  "schedule_grant env cookie e w =
     (let fh = (case sle_block_data e of Some b \<Rightarrow> sbd_nlm_fh b | None \<Rightarrow> []);
          owner = le_owners env (sle_owner e);
          (ok, w) = fill_netobj fh w in
      if \<not> ok then (STATE_MALLOC_ERROR, w)
      else let (ok, w) = fill_netobj (so_owner_val owner) w in
      if \<not> ok then (STATE_MALLOC_ERROR, w)
      else let (ok, w) = lw_malloc w in
      if \<not> ok then (STATE_MALLOC_ERROR, w)
      else let (ok, w) = lw_malloc w in
      if \<not> ok then (STATE_MALLOC_ERROR, w)
      else state_async_schedule
        \<lparr>gm_cookie = cookie, gm_exclusive = (lock_type (sle_lock e) = FSAL_LOCK_W),
         gm_svid = so_nlm_svid owner, gm_offset = lock_start (sle_lock e),
         gm_len = lock_length (sle_lock e), gm_oh = so_owner_val owner, gm_fh = fh\<rparr> w)"

definition nlm_granted_callback ::
    "'f lock_env \<Rightarrow> nat \<Rightarrow> 'f lock_world \<Rightarrow> (state_status_t \<times> 'f lock_world) option" where
  "nlm_granted_callback env i w =
     (let (ok, w) = lw_malloc w in
      if \<not> ok then Some (STATE_MALLOC_ERROR, w)
      else
        let (cookie, w) = next_granted_cookie w in
        do {
          (status, w) \<leftarrow> state_add_grant_cookie env cookie i w;
          if status \<noteq> STATE_SUCCESS then Some (status, w)
          else do {
            e \<leftarrow> find_lock i w;
            let (status, w) = schedule_grant env cookie e w;
            if status = STATE_SUCCESS then Some (status, w)
            else do {
              (_, w) \<leftarrow> state_cancel_grant env cookie w;
              Some (status, w)
            }
          }
        })"

section \<open>Granting blocked locks\<close>

definition set_blocked :: "nat \<Rightarrow> state_blocking_t \<Rightarrow> 'f lock_world \<Rightarrow> 'f lock_world" where
  "set_blocked i blocked = update_lock i (\<lambda>e. e\<lparr>sle_blocked := blocked\<rparr>)"

definition try_to_grant_lock :: "'f lock_env \<Rightarrow> nat \<Rightarrow> 'f lock_world \<Rightarrow> 'f lock_world option" where
  "try_to_grant_lock env i w =
     do {
       e \<leftarrow> find_lock i w;
       (kept, w) \<leftarrow>
         (if sle_blocked e \<noteq> STATE_CANCELED \<and> sle_block_data e \<noteq> None then
            do {
              (status, w) \<leftarrow> nlm_granted_callback env i
                (update_lock i (\<lambda>e. e\<lparr>sle_blocked := STATE_GRANTING,
                    sle_block_data := map_option (\<lambda>b. if sbd_grant_type b = STATE_GRANT_NONE
                      then b\<lparr>sbd_grant_type := STATE_GRANT_INTERNAL\<rparr> else b) (sle_block_data e)\<rparr>) w);
              Some (if status = STATE_LOCK_BLOCKED then (True, set_blocked i (sle_blocked e) w)
                    else (status = STATE_SUCCESS, w))
            }
          else Some (False, w));
       if kept then Some w
       else do { e \<leftarrow> find_lock i w; Some (remove_from_locklist e w) }
     }"

fun grant_loop :: "'f lock_env \<Rightarrow> nat list \<Rightarrow> 'f lock_world \<Rightarrow> 'f lock_world option" where
  "grant_loop env [] w = Some w"
| "grant_loop env (i # rest) w =
     do {
       found_entry \<leftarrow> find_lock i w;
       if sle_blocked found_entry \<noteq> STATE_NLM_BLOCKING \<and> sle_blocked found_entry \<noteq> STATE_NFSV4_BLOCKING
       then grant_loop env rest w
       else if get_overlapping_entry (le_owners env) (sle_owner found_entry) (sle_lock found_entry) (lw_locks w) \<noteq> None
       then grant_loop env rest w
       else do { w \<leftarrow> try_to_grant_lock env i w; grant_loop env rest w }
     }"

definition grant_blocked_locks :: "'f lock_env \<Rightarrow> 'f lock_world \<Rightarrow> 'f lock_world option" where
  "grant_blocked_locks env w =
     (if le_supports env fso_lock_support_async_block then Some w
      else grant_loop env (ids (lw_locks w)) w)"

text \<open>\<^verbatim>\<open>merge_lock_entry\<close> on an entry of the list.\<close>

definition merge_listed :: "'f lock_env \<Rightarrow> nat \<Rightarrow> 'f lock_world \<Rightarrow> 'f lock_world option" where
  "merge_listed env i w =
     do {
       e \<leftarrow> find_lock i w;
       (e', ls, al) \<leftarrow> merge_lock_entry (le_owners env) e (lw_locks w) (lw_alloc w);
       Some (relink (map (\<lambda>x. if sle_id x = i then e' else x) ls) (set_alloc al w))
     }"

definition grant_blocked_lock_immediate :: "'f lock_env \<Rightarrow> nat \<Rightarrow> 'f lock_world \<Rightarrow> 'f lock_world option" where
  "grant_blocked_lock_immediate env i w =
     do {
       e \<leftarrow> find_lock i w;
       (go, w) \<leftarrow>
         (case sle_block_data e of
            None \<Rightarrow> Some (True, w)
          | Some b \<Rightarrow>
              (case sbd_blocked_cookie b of
                 None \<Rightarrow> Some (True, update_lock i (\<lambda>e. e\<lparr>sle_block_data := None\<rparr>) w)
               | Some k \<Rightarrow>
                   do {
                     _ \<leftarrow> map_of (lw_cookies w) k;
                     case state_find_grant k w of
                       (status, w) \<Rightarrow>
                         if status = STATE_SUCCESS then do { w \<leftarrow> free_cookie k True w; Some (True, w) }
                         else Some (False, w)
                   }));
       if \<not> go then Some w
       else do {
         w \<leftarrow> merge_listed env i (set_blocked i STATE_NON_BLOCKING w);
         grant_blocked_locks env w
       }
     }"

definition state_complete_grant :: "'f lock_env \<Rightarrow> u64 \<Rightarrow> 'f lock_world \<Rightarrow> 'f lock_world option" where
  "state_complete_grant env k w =
     do {
       i \<leftarrow> map_of (lw_cookies w) k;
       w \<leftarrow> (case find_lock i w of
               Some e \<Rightarrow>
                 (if sle_blocked e = STATE_GRANTING then
                    do {
                      w \<leftarrow> merge_listed env i (set_blocked i STATE_NON_BLOCKING w);
                      grant_blocked_locks env w
                    }
                  else Some w)
             | None \<Rightarrow>
                 do {
                   e \<leftarrow> find_off i w;
                   if sle_blocked e = STATE_GRANTING
                   then grant_blocked_locks env (update_off i (\<lambda>e. e\<lparr>sle_blocked := STATE_NON_BLOCKING\<rparr>) w)
                   else Some w
                 });
       w \<leftarrow> free_cookie k True w;
       Some (dec_pin_if_empty w)
     }"

definition process_blocked_lock_upcall :: "'f lock_env \<Rightarrow> nat \<Rightarrow> 'f lock_world \<Rightarrow> 'f lock_world option" where
  "process_blocked_lock_upcall env i w =
     do { w \<leftarrow> try_to_grant_lock env i w; Some (dec_pin_if_empty w) }"

definition cancel_blocked_lock :: "'f lock_env \<Rightarrow> nat \<Rightarrow> 'f lock_world \<Rightarrow> 'f lock_world option" where
  "cancel_blocked_lock env i w =
     do {
       e \<leftarrow> find_lock i w;
       let w = set_blocked i STATE_CANCELED w;
       (go, w) \<leftarrow>
         (case Option.bind (sle_block_data e) sbd_blocked_cookie of
            Some k \<Rightarrow>
              do {
                _ \<leftarrow> map_of (lw_cookies w) k;
                case state_find_grant k w of
                  (status, w) \<Rightarrow>
                    if status = STATE_SUCCESS then do { w \<leftarrow> free_cookie k True w; Some (True, w) }
                    else Some (True, w)
              }
          | None \<Rightarrow>
              do {
                (status, w) \<leftarrow> entry_lock_op env FSAL_OP_CANCEL i w;
                Some (status = STATE_SUCCESS, w)
              });
       if \<not> go then Some w
       else do { e \<leftarrow> find_lock i w; Some (remove_from_locklist e w) }
     }"

fun cancel_loop ::
    "'f lock_env \<Rightarrow> nat option \<Rightarrow> nat option \<Rightarrow> fsal_lock_param_t \<Rightarrow> nat list \<Rightarrow> 'f lock_world
      \<Rightarrow> 'f lock_world option" where
  "cancel_loop env owner state lock [] w = Some w"
| "cancel_loop env owner state lock (i # rest) w =
     do {
       found_entry \<leftarrow> find_lock i w;
       if (case owner of None \<Rightarrow> False | Some ow \<Rightarrow> different_owners (le_owners env) (sle_owner found_entry) ow)
          \<or> (state \<noteq> None \<and> lock_owner_is_nlm (le_owners env) found_entry \<and> sle_state found_entry = state)
          \<or> sle_blocked found_entry = STATE_NON_BLOCKING
          \<or> \<not> overlaps (sle_lock found_entry) lock
       then cancel_loop env owner state lock rest w
       else do { w \<leftarrow> cancel_blocked_lock env i w; cancel_loop env owner state lock rest w }
     }"

definition cancel_blocked_locks_range ::
    "'f lock_env \<Rightarrow> nat option \<Rightarrow> nat option \<Rightarrow> fsal_lock_param_t \<Rightarrow> 'f lock_world \<Rightarrow> 'f lock_world option" where
  "cancel_blocked_locks_range env owner state lock w =
     cancel_loop env owner state lock (ids (lw_locks w)) w"

definition state_release_grant ::
    "'f lock_env \<Rightarrow> u64 \<Rightarrow> 'f lock_world \<Rightarrow> (state_status_t \<times> 'f lock_world) option" where
  "state_release_grant env k w =
     do {
       i \<leftarrow> map_of (lw_cookies w) k;
       (status, w) \<leftarrow>
         (case find_lock i w of
            Some e \<Rightarrow>
              (if sle_blocked e = STATE_GRANTING then
                 do {
                   (status, w) \<leftarrow> entry_lock_op env FSAL_OP_UNLOCK i (set_blocked i STATE_CANCELED w);
                   if status \<noteq> STATE_SUCCESS then Some (status, w)
                   else do { e \<leftarrow> find_lock i w; Some (status, remove_from_locklist e w) }
                 }
               else Some (STATE_SUCCESS, w))
          | None \<Rightarrow>
              do {
                e \<leftarrow> find_off i w;
                if sle_blocked e = STATE_GRANTING then
                  do {
                    (status, w) \<leftarrow> entry_lock_op env FSAL_OP_UNLOCK i
                      (update_off i (\<lambda>e. e\<lparr>sle_blocked := STATE_CANCELED\<rparr>) w);
                    if status \<noteq> STATE_SUCCESS then Some (status, w) else None
                  }
                else Some (STATE_SUCCESS, w)
              });
       w \<leftarrow> free_cookie k True w;
       w \<leftarrow> grant_blocked_locks env w;
       Some (status, dec_pin_if_empty w)
     }"

section \<open>The lock interface\<close>

definition state_test ::
    "'f lock_env \<Rightarrow> nat \<Rightarrow> fsal_lock_param_t \<Rightarrow> 'f lock_world \<Rightarrow> (state_status_t \<times> conflict_info \<times> 'f lock_world) option" where
  "state_test env owner lock w =
     (let (cache_status, w) = cache_inode_inc_pin_ref w in
      if cache_status \<noteq> CACHE_INODE_SUCCESS
      then Some (cache_inode_status_to_state_status cache_status, None, w)
      else
        let (cache_status, f) = le_open env False False (lw_fsal w); w = w\<lparr>lw_fsal := f\<rparr> in
        if cache_status \<noteq> CACHE_INODE_SUCCESS
        then Some (cache_inode_status_to_state_status cache_status, None, cache_inode_dec_pin_ref w)
        else case get_overlapping_entry (le_owners env) owner lock (lw_locks w) of
          Some found_entry \<Rightarrow>
            Some (STATE_LOCK_CONFLICT, Some (sle_owner found_entry, sle_lock found_entry),
              cache_inode_dec_pin_ref w)
        | None \<Rightarrow>
            do {
              (status, conflict, w) \<leftarrow> do_lock_op env FSAL_OP_LOCKT (Some owner) lock False POSIX_LOCK w;
              Some (status, conflict, cache_inode_dec_pin_ref w)
            })"

text \<open>
  The searches of \<^verbatim>\<open>state_lock\<close>: for an identical blocked request, and for conflicts and an entry that
  already covers the request.
\<close>

fun find_blocked_request ::
    "'f lock_env \<Rightarrow> nat \<Rightarrow> state_blocking_t \<Rightarrow> fsal_lock_param_t \<Rightarrow> state_lock_entry_t list \<Rightarrow> state_status_t option" where
  "find_blocked_request env owner blocking lock [] = None"
| "find_blocked_request env owner blocking lock (found_entry # rest) =
     (if different_owners (le_owners env) (sle_owner found_entry) owner
      then find_blocked_request env owner blocking lock rest
      else if sle_export found_entry \<noteq> le_export env then Some STATE_INVALID_ARGUMENT
      else if sle_blocked found_entry \<noteq> blocking then find_blocked_request env owner blocking lock rest
      else if different_lock (sle_lock found_entry) lock then find_blocked_request env owner blocking lock rest
      else Some STATE_LOCK_BLOCKED)"

datatype lock_scan =
    Scan_Export_Conflict
  | Scan_Conflict state_lock_entry_t
  | Scan_Existing state_lock_entry_t
  | Scan_Clear bool

fun scan_locks ::
    "'f lock_env \<Rightarrow> nat \<Rightarrow> fsal_lock_param_t \<Rightarrow> bool \<Rightarrow> state_lock_entry_t list \<Rightarrow> lock_scan" where
  "scan_locks env owner lock overlap [] = Scan_Clear overlap"
| "scan_locks env owner lock overlap (found_entry # rest) =
     (let so = le_owners env; found_entry_end = lock_end (sle_lock found_entry); range_end = lock_end lock in
      if sle_type found_entry = LEASE_LOCK \<and> lock_sle_type lock = FSAL_LEASE_LOCK
         \<and> so_clientid (so owner) = so_clientid (so (sle_owner found_entry))
      then scan_locks env owner lock overlap rest
      else if sle_export found_entry \<noteq> le_export env \<and> \<not> different_owners so (sle_owner found_entry) owner
      then Scan_Export_Conflict
      else if conflicts so owner lock found_entry then Scan_Conflict found_entry
      else if found_entry_end \<ge> range_end \<and> lock_start (sle_lock found_entry) \<le> lock_start lock
              \<and> lock_type (sle_lock found_entry) = lock_type lock
              \<and> (sle_blocked found_entry = STATE_NON_BLOCKING \<or> sle_blocked found_entry = STATE_GRANTING)
      then (if \<not> different_owners so (sle_owner found_entry) owner then Scan_Existing found_entry
            else scan_locks env owner lock True rest)
      else scan_locks env owner lock overlap rest)"

text \<open>The last part of \<^verbatim>\<open>state_lock\<close>, once the new entry is there: what becomes of it.\<close>

definition pin_if_empty :: "'f lock_world \<Rightarrow> 'f lock_world" where
  "pin_if_empty w = (if lw_locks w = [] then snd (cache_inode_inc_pin_ref w) else w)"

definition state_lock_finish ::
    "'f lock_env \<Rightarrow> state_blocking_t \<Rightarrow> state_block_data_t option \<Rightarrow> lock_type_t \<Rightarrow> state_lock_entry_t
      \<Rightarrow> state_status_t \<Rightarrow> 'f lock_world \<Rightarrow> 'f lock_world option" where
  "state_lock_finish env blocking block_data ty found_entry status w =
     (if status = STATE_SUCCESS \<and> ty = LEASE_LOCK then
        Some (cache_inode_dec_pin_ref (w\<lparr>lw_delegs := lw_delegs w @ [found_entry]\<rparr>))
      else if status = STATE_SUCCESS \<and> ty = POSIX_LOCK then
        do {
          (found_entry, ls, al) \<leftarrow> merge_lock_entry (le_owners env) found_entry (lw_locks w) (lw_alloc w);
          let w = pin_if_empty (relink ls (set_alloc al w));
          w \<leftarrow> grant_blocked_locks env (w\<lparr>lw_locks := lw_locks w @ [found_entry]\<rparr>);
          Some (cache_inode_dec_pin_ref w)
        }
      else if status = STATE_LOCK_BLOCKED then
        do {
          b \<leftarrow> block_data;
          let e = found_entry\<lparr>sle_block_data := Some b, sle_blocked := blocking\<rparr>;
          let w = pin_if_empty w;
          Some (cache_inode_dec_pin_ref
            (w\<lparr>lw_locks := lw_locks w @ [e], lw_blocked := lw_blocked w @ [sle_id e]\<rparr>))
        }
      else Some (cache_inode_dec_pin_ref w))"

definition state_lock_new ::
    "'f lock_env \<Rightarrow> nat \<Rightarrow> nat option \<Rightarrow> state_blocking_t \<Rightarrow> state_block_data_t option \<Rightarrow> fsal_lock_param_t
      \<Rightarrow> lock_type_t \<Rightarrow> state_lock_entry_t option \<Rightarrow> bool \<Rightarrow> 'f lock_world
      \<Rightarrow> (state_status_t \<times> conflict_info \<times> 'f lock_world) option" where
  "state_lock_new env owner state blocking block_data lock ty conflicting overlap w =
     (let async = le_supports env fso_lock_support_async_block;
          allow = (conflicting = None);
          known = map_option (\<lambda>e. (sle_owner e, sle_lock e)) conflicting in
      if \<not> (async \<and> blocking = STATE_NLM_BLOCKING) \<and> \<not> (allow \<or> blocking = STATE_NLM_BLOCKING)
      then Some (STATE_LOCK_CONFLICT, known, cache_inode_dec_pin_ref w)
      else
        let lock_op = (if async \<and> blocking = STATE_NLM_BLOCKING then FSAL_OP_LOCKB else FSAL_OP_LOCK) in
        case create_state_lock_entry (le_export env) STATE_NON_BLOCKING owner state lock ty (lw_alloc w) of
          (None, al) \<Rightarrow> Some (STATE_MALLOC_ERROR, known, cache_inode_dec_pin_ref (set_alloc al w))
        | (Some found_entry, al) \<Rightarrow>
            do {
              (status, conflict, w) \<leftarrow>
                (if allow \<or> async
                 then do_lock_op env lock_op (Some owner) lock overlap ty (set_alloc al w)
                 else Some (STATE_LOCK_BLOCKED, None, set_alloc al w));
              w \<leftarrow> state_lock_finish env blocking block_data ty found_entry status w;
              Some (status, if allow then conflict else known, w)
            })"

text \<open>What the search finds decides: an export mismatch, a lock the owner has already, or a new entry.\<close>

definition state_lock_search ::
    "'f lock_env \<Rightarrow> nat \<Rightarrow> nat option \<Rightarrow> state_blocking_t \<Rightarrow> state_block_data_t option \<Rightarrow> fsal_lock_param_t
      \<Rightarrow> lock_type_t \<Rightarrow> 'f lock_world \<Rightarrow> (state_status_t \<times> conflict_info \<times> 'f lock_world) option" where
  "state_lock_search env owner state blocking block_data lock ty w =
     (case scan_locks env owner lock False (lw_locks w) of
        Scan_Export_Conflict \<Rightarrow> Some (STATE_INVALID_ARGUMENT, None, cache_inode_dec_pin_ref w)
      | Scan_Existing found_entry \<Rightarrow>
          do {
            w \<leftarrow> (if sle_blocked found_entry = STATE_GRANTING
                   then grant_blocked_lock_immediate env (sle_id found_entry) w else Some w);
            Some (STATE_SUCCESS, None, cache_inode_dec_pin_ref w)
          }
      | Scan_Conflict found_entry \<Rightarrow>
          state_lock_new env owner state blocking block_data lock ty (Some found_entry) True w
      | Scan_Clear overlap \<Rightarrow>
          state_lock_new env owner state blocking block_data lock ty None overlap w)"

definition state_lock ::
    "'f lock_env \<Rightarrow> nat \<Rightarrow> nat option \<Rightarrow> state_blocking_t \<Rightarrow> state_block_data_t option \<Rightarrow> fsal_lock_param_t
      \<Rightarrow> lock_type_t \<Rightarrow> 'f lock_world \<Rightarrow> (state_status_t \<times> conflict_info \<times> 'f lock_world) option" where
  "state_lock env owner state blocking block_data lock ty w =
     (let (cache_status, w) = cache_inode_inc_pin_ref w in
      if cache_status \<noteq> CACHE_INODE_SUCCESS
      then Some (cache_inode_status_to_state_status cache_status, None, w)
      else
        let rdwr = \<not> (lock_type lock = FSAL_LOCK_R \<and> le_supports env fso_reopen_method);
            (cache_status, f) = le_open env rdwr (lock_reclaim lock) (lw_fsal w); w = w\<lparr>lw_fsal := f\<rparr> in
        if cache_status \<noteq> CACHE_INODE_SUCCESS
        then Some (cache_inode_status_to_state_status cache_status, None, cache_inode_dec_pin_ref w)
        else
          case (if blocking \<noteq> STATE_NON_BLOCKING then find_blocked_request env owner blocking lock (lw_locks w)
                else None) of
            Some status \<Rightarrow> Some (status, None, cache_inode_dec_pin_ref w)
          | None \<Rightarrow>
              state_lock_search env owner state blocking block_data lock ty w)"

text \<open>\<^verbatim>\<open>state_unlock\<close>; \<open>deleg\<close> tells whether \<open>state\<close> is a delegation.\<close>

definition state_unlock_list ::
    "'f lock_env \<Rightarrow> nat \<Rightarrow> nat option \<Rightarrow> fsal_lock_param_t \<Rightarrow> lock_type_t \<Rightarrow> 'f lock_world
      \<Rightarrow> (state_status_t \<times> 'f lock_world) option" where
  "state_unlock_list env owner state lock ty w =
     do {
       w \<leftarrow> cancel_blocked_locks_range env (Some owner) state lock w;
       let (status, ls, removed, al) =
         subtract_lock_from_list (le_owners env) (Some owner) state lock (lw_locks w) (lw_alloc w);
       let w = dec_pin_if_empty (relink ls (set_alloc al w));
       if status \<noteq> STATE_SUCCESS then Some (status, cache_inode_dec_pin_ref w)
       else do {
         (status, _, w) \<leftarrow> do_lock_op env FSAL_OP_UNLOCK (Some owner) lock False ty w;
         w \<leftarrow> grant_blocked_locks env w;
         Some (status, cache_inode_dec_pin_ref w)
       }
     }"

definition state_unlock ::
    "'f lock_env \<Rightarrow> nat \<Rightarrow> nat option \<Rightarrow> bool \<Rightarrow> fsal_lock_param_t \<Rightarrow> lock_type_t \<Rightarrow> 'f lock_world
      \<Rightarrow> (state_status_t \<times> 'f lock_world) option" where
  "state_unlock env owner state deleg lock ty w =
     (let (cache_status, w) = cache_inode_inc_pin_ref w in
      if cache_status \<noteq> CACHE_INODE_SUCCESS then Some (cache_inode_status_to_state_status cache_status, w)
      else if \<not> le_regular env then Some (STATE_BAD_TYPE, w)
      else if state \<noteq> None \<and> deleg then
        (if lw_delegs w = [] then Some (STATE_SUCCESS, cache_inode_dec_pin_ref w)
         else state_unlock_list env owner state lock ty
           (w\<lparr>lw_delegs := fst (subtract_deleg_from_list (le_owners env) (Some owner) (lw_delegs w))\<rparr>))
      else if lw_locks w = [] then Some (STATE_SUCCESS, cache_inode_dec_pin_ref w)
      else state_unlock_list env owner state lock ty w)"

definition state_cancel ::
    "'f lock_env \<Rightarrow> nat \<Rightarrow> fsal_lock_param_t \<Rightarrow> 'f lock_world \<Rightarrow> (state_status_t \<times> 'f lock_world) option" where
  "state_cancel env owner lock w =
     (if \<not> le_regular env then Some (STATE_BAD_TYPE, w)
      else
        let (cache_status, w) = cache_inode_inc_pin_ref w in
        if cache_status \<noteq> CACHE_INODE_SUCCESS then Some (cache_inode_status_to_state_status cache_status, w)
        else if lw_locks w = [] then Some (STATE_SUCCESS, cache_inode_dec_pin_ref w)
        else
          do {
            w \<leftarrow> (case find (\<lambda>e. \<not> different_owners (le_owners env) (sle_owner e) owner
                       \<and> sle_blocked e \<noteq> STATE_NON_BLOCKING \<and> \<not> different_lock (sle_lock e) lock) (lw_locks w) of
                    None \<Rightarrow> Some w
                  | Some found_entry \<Rightarrow>
                      do {
                        w \<leftarrow> cancel_blocked_lock env (sle_id found_entry) w;
                        grant_blocked_locks env w
                      });
            Some (STATE_SUCCESS, cache_inode_dec_pin_ref (dec_pin_if_empty w))
          })"

text \<open>\<^verbatim>\<open>nlm4_Granted_Res\<close>: the answer of a client to a granted lock.\<close>

definition nlm4_Granted_Res :: "'f lock_env \<Rightarrow> u64 \<Rightarrow> bool \<Rightarrow> 'f lock_world \<Rightarrow> 'f lock_world option" where
  "nlm4_Granted_Res env cookie granted w =
     (case state_find_grant cookie w of
        (status, w) \<Rightarrow>
          if status \<noteq> STATE_SUCCESS then Some w
          else do {
            i \<leftarrow> map_of (lw_cookies w) cookie;
            e \<leftarrow> (case find_lock i w of Some e \<Rightarrow> Some e | None \<Rightarrow> find_off i w);
            if sle_block_data e = None then Some w
            else
              let env = env\<lparr>le_export := sle_export e\<rparr> in
              if \<not> granted then do { (_, w) \<leftarrow> state_release_grant env cookie w; Some w }
              else state_complete_grant env cookie w
          })"

text \<open>
  \<^verbatim>\<open>nlm4_send_grant_msg\<close> sends a queued message; one that could not be sent releases the grant.
\<close>

definition nlm4_send_grant_msg :: "'f lock_env \<Rightarrow> nlm_grant_msg \<Rightarrow> bool \<Rightarrow> 'f lock_world \<Rightarrow> 'f lock_world option" where
  "nlm4_send_grant_msg env arg sent w =
     (let cookie = gm_cookie arg; w = w\<lparr>lw_async := remove1 arg (lw_async w)\<rparr> in
      if sent then Some w
      else case state_find_grant cookie w of
        (status, w) \<Rightarrow>
          if status \<noteq> STATE_SUCCESS then Some w
          else do {
            i \<leftarrow> map_of (lw_cookies w) cookie;
            e \<leftarrow> (case find_lock i w of Some e \<Rightarrow> Some e | None \<Rightarrow> find_off i w);
            if sle_block_data e = None then Some w
            else do { (_, w) \<leftarrow> state_release_grant (env\<lparr>le_export := sle_export e\<rparr>) cookie w; Some w }
          })"

end
