(* ===== verification/State_Lock_Inv.thy ===== *)
theory State_Lock_Inv
  imports State_Lock_Ops
begin

text \<open>
  The invariant of the lock list of a file under every operation of \<open>State_Lock_Ops\<close>: no byte is held by
  two owners when one of them holds it exclusively.  It needs a file-system layer without
  asynchronous blocking locks, which is what the Kurma layer declares.
\<close>

section \<open>Exclusion\<close>

abbreviation active :: "state_blocking_t set" where
  "active \<equiv> {STATE_NON_BLOCKING, STATE_GRANTING}"

definition exclusive :: "owner_heap \<Rightarrow> (nat \<times> fsal_lock_t \<times> u64) set \<Rightarrow> bool" where
  "exclusive so H \<longleftrightarrow> (\<forall>o1 t1 o2 t2 x. (o1, t1, x) \<in> H \<longrightarrow> (o2, t2, x) \<in> H \<longrightarrow>
     different_owners so o1 o2 \<longrightarrow> t1 \<noteq> FSAL_LOCK_W \<and> t2 \<noteq> FSAL_LOCK_W)"

lemma exclusive_subset: "exclusive so H \<Longrightarrow> H' \<subseteq> H \<Longrightarrow> exclusive so H'"
  unfolding exclusive_def by blast

lemma covers_overlaps: "covers f x \<Longrightarrow> covers l x \<Longrightarrow> overlaps f l"
  unfolding covers_def overlaps_def by (meson order_trans)

lemma held_by_same_owner:
  assumes "(o1, t1, x) \<in> held_by B so e" and "(o2, t2, x) \<in> held_by B so e"
  shows "\<not> different_owners so o1 o2"
proof (rule same_owner_trans)
  show "\<not> different_owners so o1 (sle_owner e)"
    using assms(1) by (simp add: held_by_def different_owners_sym)
  show "\<not> different_owners so (sle_owner e) o2"
    using assms(2) by (simp add: held_by_def)
qed

lemma exclusive_insert:
  assumes "exclusive so (held B so ls)"
    and "\<And>f. f \<in> set ls \<Longrightarrow> sle_blocked f \<in> B \<Longrightarrow> \<not> conflicts so (sle_owner e) (sle_lock e) f"
  shows "exclusive so (held_by B so e \<union> held B so ls)"
proof -
  have new: "t1 \<noteq> FSAL_LOCK_W \<and> t2 \<noteq> FSAL_LOCK_W"
    if h1: "(o1, t1, x) \<in> held_by B so e" and h2: "(o2, t2, x) \<in> held B so ls" and d: "different_owners so o1 o2" for o1 t1 o2 t2 x
  proof -
    obtain f where f: "f \<in> set ls" "sle_blocked f \<in> B" "\<not> different_owners so (sle_owner f) o2"
        "lock_type (sle_lock f) = t2" "covers (sle_lock f) x"
      using h2 by (auto simp: held_def held_by_def)
    have e: "\<not> different_owners so (sle_owner e) o1" "lock_type (sle_lock e) = t1" "covers (sle_lock e) x"
      using h1 by (auto simp: held_by_def)
    have "different_owners so (sle_owner f) (sle_owner e)"
      using f(3) e(1) d same_owner_trans different_owners_sym by metis
    then show ?thesis
      using assms(2) [OF f(1,2)] f e covers_overlaps by (auto simp: conflicts_def)
  qed
  show ?thesis
    unfolding exclusive_def
  proof (intro allI impI)
    fix o1 t1 o2 t2 x
    assume m: "(o1, t1, x) \<in> held_by B so e \<union> held B so ls" "(o2, t2, x) \<in> held_by B so e \<union> held B so ls"
      and d: "different_owners so o1 o2"
    have d': "different_owners so o2 o1" using d by (simp add: different_owners_sym)
    from m show "t1 \<noteq> FSAL_LOCK_W \<and> t2 \<noteq> FSAL_LOCK_W"
    proof (elim UnE)
      assume "(o1, t1, x) \<in> held_by B so e" "(o2, t2, x) \<in> held_by B so e"
      then show ?thesis using held_by_same_owner d by blast
    next
      assume "(o1, t1, x) \<in> held_by B so e" "(o2, t2, x) \<in> held B so ls"
      then show ?thesis using new d by blast
    next
      assume "(o1, t1, x) \<in> held B so ls" "(o2, t2, x) \<in> held_by B so e"
      then show ?thesis using new [of o2 t2 x o1 t1] d' by blast
    next
      assume "(o1, t1, x) \<in> held B so ls" "(o2, t2, x) \<in> held B so ls"
      then show ?thesis using assms(1) d unfolding exclusive_def by blast
    qed
  qed
qed

lemma get_overlapping_entry_None:
  assumes "get_overlapping_entry so owner lock ls = None" and "f \<in> set ls" and "sle_blocked f \<in> active"
  shows "\<not> conflicts so owner lock f"
  using assms
  by (induction so owner lock ls rule: get_overlapping_entry.induct) (auto split: if_splits)

lemma get_overlapping_entry_Some:
  assumes "get_overlapping_entry so owner lock ls = Some f"
  shows "f \<in> set ls \<and> sle_blocked f \<in> active \<and> conflicts so owner lock f"
  using assms
  by (induction so owner lock ls rule: get_overlapping_entry.induct)
    (auto split: if_splits intro: state_blocking_t.exhaust)

section \<open>Operations that add no lock\<close>

text \<open>
  What most steps do: the addresses stay fresh, the entries stay byte-range locks, and nobody holds
  more than before.
\<close>

definition shrinks :: "owner_heap \<Rightarrow> 'f lock_world \<Rightarrow> 'f lock_world \<Rightarrow> bool" where
  "shrinks so w w' \<longleftrightarrow>
     ids_evolve (ids (lw_locks w)) (lw_next w) (ids (lw_locks w')) (lw_next w')
     \<and> ((\<forall>e\<in>set (lw_locks w). sle_type e = POSIX_LOCK) \<longrightarrow> (\<forall>e\<in>set (lw_locks w'). sle_type e = POSIX_LOCK))
     \<and> held active so (lw_locks w') \<subseteq> held active so (lw_locks w)"

lemma shrinks_refl [simp]: "shrinks so w w"
  by (simp add: shrinks_def)

lemma shrinks_trans [trans]: "shrinks so w w' \<Longrightarrow> shrinks so w' w'' \<Longrightarrow> shrinks so w w''"
  unfolding shrinks_def by (meson ids_evolve_trans subset_trans)

lemma shrinks_same:
  "lw_locks w' = lw_locks w \<Longrightarrow> lw_next w \<le> lw_next w' \<Longrightarrow> shrinks so w w'"
  by (simp add: shrinks_def ids_evolve_alloc)

lemma held_map_subset:
  assumes "\<And>e. e \<in> set ls \<Longrightarrow> sle_id e = i \<Longrightarrow> held_by B so (f e) \<subseteq> held_by B so e"
  shows "held B so (map (\<lambda>e. if sle_id e = i then f e else e) ls) \<subseteq> held B so ls"
  using assms by (auto simp: held_def split: if_splits)

lemma update_lock_shrinks:
  assumes "\<And>e. e \<in> set (lw_locks w) \<Longrightarrow> sle_id e = i \<Longrightarrow>
      sle_id (f e) = i \<and> sle_type (f e) = sle_type e \<and> held_by active so (f e) \<subseteq> held_by active so e"
  shows "shrinks so w (update_lock i f w)"
proof -
  have "map (sle_id \<circ> (\<lambda>e. if sle_id e = i then f e else e)) (lw_locks w) = ids (lw_locks w)"
    using assms by simp
  moreover have "held active so (map (\<lambda>e. if sle_id e = i then f e else e) (lw_locks w)) \<subseteq> held active so (lw_locks w)"
    by (rule held_map_subset) (use assms in blast)
  ultimately show ?thesis
    using assms unfolding shrinks_def update_lock_def by (auto simp del: map_eq_conv)
qed

lemma lock_entry_dec_ref_frame [simp]:
  "lw_locks (lock_entry_dec_ref e w) = lw_locks w" "lw_next (lock_entry_dec_ref e w) = lw_next w"
  "lw_pins (lock_entry_dec_ref e w) = lw_pins w" "lw_delegs (lock_entry_dec_ref e w) = lw_delegs w"
  "lw_orc (lock_entry_dec_ref e w) = lw_orc w" "lw_fsal (lock_entry_dec_ref e w) = lw_fsal w"
  "lw_dead (lock_entry_dec_ref e w) = lw_dead w"
  by (simp_all add: lock_entry_dec_ref_def)

lemma fold_dec_ref_frame [simp]:
  "lw_locks (fold lock_entry_dec_ref es w) = lw_locks w" "lw_next (fold lock_entry_dec_ref es w) = lw_next w"
  "lw_pins (fold lock_entry_dec_ref es w) = lw_pins w" "lw_delegs (fold lock_entry_dec_ref es w) = lw_delegs w"
  "lw_orc (fold lock_entry_dec_ref es w) = lw_orc w" "lw_fsal (fold lock_entry_dec_ref es w) = lw_fsal w"
  "lw_dead (fold lock_entry_dec_ref es w) = lw_dead w"
  by (induction es arbitrary: w) simp_all

lemma relink_frame [simp]:
  "lw_locks (relink ls w) = ls" "lw_next (relink ls w) = lw_next w" "lw_pins (relink ls w) = lw_pins w"
  "lw_orc (relink ls w) = lw_orc w" "lw_dead (relink ls w) = lw_dead w" "lw_fsal (relink ls w) = lw_fsal w"
  by (simp_all add: relink_def)

lemma pin_frame [simp]:
  "lw_locks (cache_inode_dec_pin_ref w) = lw_locks w" "lw_next (cache_inode_dec_pin_ref w) = lw_next w"
  "lw_locks (dec_pin_if_empty w) = lw_locks w" "lw_next (dec_pin_if_empty w) = lw_next w"
  "lw_locks (snd (cache_inode_inc_pin_ref w)) = lw_locks w" "lw_next (snd (cache_inode_inc_pin_ref w)) = lw_next w"
  "lw_locks (pin_if_empty w) = lw_locks w" "lw_next (pin_if_empty w) = lw_next w"
  by (simp_all add: cache_inode_dec_pin_ref_def dec_pin_if_empty_def cache_inode_inc_pin_ref_def pin_if_empty_def)

lemma set_alloc_frame [simp]:
  "lw_locks (set_alloc al w) = lw_locks w" "lw_next (set_alloc al w) = fst al" "lw_orc (set_alloc al w) = snd al"
  "lw_pins (set_alloc al w) = lw_pins w" "lw_dead (set_alloc al w) = lw_dead w"
  by (simp_all add: set_alloc_def)

lemma lw_malloc_frame:
  "lw_malloc w = (ok, w') \<Longrightarrow> shrinks so w w'"
  by (auto simp: lw_malloc_def split: prod.splits intro: shrinks_same)

lemma remove_from_locklist_shrinks: "shrinks so w (remove_from_locklist e w)"
proof -
  have "ids_evolve (ids ls) n (ids (filter P ls)) n" for ls n P
    by (auto simp: ids_evolve_def fresh_ids_def distinct_map_filter)
  then show ?thesis
    by (auto simp: shrinks_def remove_from_locklist_def held_def)
qed

lemma set_blocked_shrinks:
  assumes "b \<notin> active \<or> (\<forall>e\<in>set (lw_locks w). sle_id e = i \<longrightarrow> sle_blocked e \<in> active)"
  shows "shrinks so w (set_blocked i b w)"
  unfolding set_blocked_def using assms
  by (intro update_lock_shrinks) (auto simp: held_by_def)

lemma find_lock_SomeD:
  assumes "find_lock i w = Some e"
  shows "e \<in> set (lw_locks w)" and "sle_id e = i"
  using assms by (auto simp: find_lock_def find_Some_iff in_set_conv_nth)

lemma subtract_list_alloc:
  "subtract_list_from_list so target source al = (status, ls, al') \<Longrightarrow> fst al \<le> fst al'"
proof (induction source arbitrary: target al)
  case (Cons f source)
  obtain st t r al1 where s: "subtract_lock_from_list so None None (sle_lock f) target al = (st, t, r, al1)"
    by (rule prod_cases4)
  then have "fst al \<le> fst al1"
    using subtract_loop_status unfolding subtract_lock_from_list_def by blast
  then show ?case using Cons.IH [of t al1] Cons.prems s by (auto split: if_splits)
qed simp

lemma unlock_ranges_frame:
  "unlock_ranges env ls status w = (st, w') \<Longrightarrow> lw_locks w' = lw_locks w \<and> lw_next w' = lw_next w \<and> lw_pins w' = lw_pins w"
  by (induction env ls status w rule: unlock_ranges.induct) (auto simp: Let_def split: prod.splits if_splits)

lemma create_alloc:
  "create_state_lock_entry export blocked owner state lock ty al = (r, al') \<Longrightarrow> fst al \<le> fst al'"
  by (auto simp: create_state_lock_entry_def split: prod.splits if_splits)

definition quiet :: "'f lock_world \<Rightarrow> 'f lock_world \<Rightarrow> bool" where
  "quiet w w' \<longleftrightarrow> lw_locks w' = lw_locks w \<and> lw_next w \<le> lw_next w' \<and> lw_pins w' = lw_pins w"

lemma quiet_refl [simp]: "quiet w w"
  by (simp add: quiet_def)

lemma quiet_shrinks: "quiet w w' \<Longrightarrow> shrinks so w w'"
  by (simp add: quiet_def shrinks_same)

lemma do_unlock_no_owner_quiet:
  "do_unlock_no_owner env lock ty w = (st, w') \<Longrightarrow> quiet w w'"
  unfolding do_unlock_no_owner_def quiet_def
  by (auto split: prod.splits option.splits dest!: unlock_ranges_frame create_alloc subtract_list_alloc
      simp: lw_alloc_def)

lemma do_lock_op_quiet:
  "ensures (do_lock_op env op owner lock overlap ty w) (\<lambda>(status, conflict, w'). quiet w w')"
  unfolding do_lock_op_def Let_def
  by (intro ensures_rules; auto dest!: do_unlock_no_owner_quiet simp: quiet_def)

lemma do_lock_op_shrinks:
  "do_lock_op env op owner lock overlap ty w = Some (status, conflict, w') \<Longrightarrow> shrinks so w w'"
  by (drule ensuresD [OF do_lock_op_quiet]) (simp add: quiet_shrinks)

lemma posix_update_shrinks:
  "shrinks so w (update_lock i (\<lambda>e. e\<lparr>sle_lock := (sle_lock e)\<lparr>lock_sle_type := FSAL_POSIX_LOCK\<rparr>\<rparr>) w)"
  by (rule update_lock_shrinks) (auto simp: held_by_def covers_def lock_end_def)

lemma update_off_shrinks: "shrinks so w (update_off i f w)"
  by (rule shrinks_same) (simp_all add: update_off_def)

lemma entry_lock_op_shrinks:
  "ensures (entry_lock_op env op i w) (\<lambda>(status, w'). shrinks so w w')"
  unfolding entry_lock_op_def Let_def
  by (intro ensures_rules; auto dest!: do_lock_op_shrinks [where so = so]
      intro: shrinks_trans [OF posix_update_shrinks] shrinks_trans [OF update_off_shrinks])

lemma shrinks_fields [simp]:
  "shrinks so w (w'\<lparr>lw_cookies := cs\<rparr>) = shrinks so w w'" "shrinks so w (w'\<lparr>lw_fsal := f\<rparr>) = shrinks so w w'"
  "shrinks so w (w'\<lparr>lw_cookie_table := t\<rparr>) = shrinks so w w'" "shrinks so w (w'\<lparr>lw_off := os\<rparr>) = shrinks so w w'"
  "shrinks so w (w'\<lparr>lw_gc_cookie := k\<rparr>) = shrinks so w w'" "shrinks so w (w'\<lparr>lw_async := as\<rparr>) = shrinks so w w'"
  "shrinks so w (w'\<lparr>lw_orc := orc\<rparr>) = shrinks so w w'" "shrinks so w (w'\<lparr>lw_delegs := ds\<rparr>) = shrinks so w w'"
  "shrinks so w (lock_entry_dec_ref e w') = shrinks so w w'"
  "shrinks so w (cache_inode_dec_pin_ref w') = shrinks so w w'" "shrinks so w (dec_pin_if_empty w') = shrinks so w w'"
  "shrinks so w (snd (cache_inode_inc_pin_ref w')) = shrinks so w w'"
  by (simp_all add: shrinks_def)

lemma free_cookie_shrinks:
  "free_cookie k unblock w = Some w' \<Longrightarrow> shrinks so w w'"
  unfolding free_cookie_def Let_def
  by (auto simp: bind_eq_Some_conv held_by_def split: if_splits option.splits intro!: update_lock_shrinks)

lemma state_find_grant_shrinks:
  "state_find_grant k w = (status, w') \<Longrightarrow> shrinks so w w'"
  by (auto simp: state_find_grant_def split: if_splits intro: shrinks_same)

lemma inc_ref_shrinks: "shrinks so w (lock_entry_inc_ref i w)"
  unfolding lock_entry_inc_ref_def by (rule update_lock_shrinks) (auto simp: held_by_def)

lemma block_data_shrinks:
  "shrinks so w (update_lock i (\<lambda>e. e\<lparr>sle_block_data := f e\<rparr>) w)"
  by (rule update_lock_shrinks) (auto simp: held_by_def)

lemma entry_lock_op_shrinksD:
  "entry_lock_op env op i w = Some (status, w') \<Longrightarrow> shrinks so w w'"
  by (drule ensuresD [OF entry_lock_op_shrinks]) simp

lemma attach_cookie_shrinks: "shrinks so w (attach_cookie k i b w)"
  unfolding attach_cookie_def Let_def
  by (intro shrinks_trans [OF _ block_data_shrinks] shrinks_trans [OF _ inc_ref_shrinks]) simp

lemma acquire_grant_shrinks:
  "acquire_grant env ty i w = Some (status, w') \<Longrightarrow> shrinks so w w'"
  by (auto simp: acquire_grant_def split: state_grant_type_t.splits dest: entry_lock_op_shrinksD)

lemma shrinks_attach: "shrinks so w w' \<Longrightarrow> shrinks so (attach_cookie k i b w') w'' \<Longrightarrow> shrinks so w w''"
  using attach_cookie_shrinks shrinks_trans by blast

lemma state_add_grant_cookie_ensures:
  "ensures (state_add_grant_cookie env k i w) (\<lambda>(status, w'). shrinks so w w')"
  unfolding state_add_grant_cookie_def
  by (intro ensures_rules; auto dest!: lw_malloc_frame [where so = so]
      acquire_grant_shrinks [where so = so] free_cookie_shrinks [where so = so])
    (meson shrinks_trans shrinks_attach)+

lemma state_add_grant_cookie_shrinks:
  "state_add_grant_cookie env k i w = Some (status, w') \<Longrightarrow> shrinks so w w'"
  by (drule ensuresD [OF state_add_grant_cookie_ensures]) simp

lemma fill_netobj_shrinks: "fill_netobj d w = (ok, w') \<Longrightarrow> shrinks so w w'"
  by (auto simp: fill_netobj_def split: if_splits dest: lw_malloc_frame)

lemma schedule_grant_shrinks: "schedule_grant env k e w = (status, w') \<Longrightarrow> shrinks so w w'"
  unfolding schedule_grant_def state_async_schedule_def Let_def
  by (auto split: prod.splits if_splits dest!: fill_netobj_shrinks [where so = so] lw_malloc_frame [where so = so])
    (meson shrinks_trans)+

lemma state_cancel_grant_shrinks:
  "state_cancel_grant env k w = Some (status, w') \<Longrightarrow> shrinks so w w'"
  unfolding state_cancel_grant_def
  by (auto simp: bind_eq_Some_conv dest!: entry_lock_op_shrinksD [where so = so] free_cookie_shrinks [where so = so]
      intro: shrinks_trans)

lemma next_granted_cookie_shrinks: "next_granted_cookie w = (k, w') \<Longrightarrow> shrinks so w w'"
  by (auto simp: next_granted_cookie_def Let_def)

lemma nlm_granted_callback_ensures:
  "ensures (nlm_granted_callback env i w) (\<lambda>(status, w'). shrinks so w w')"
  unfolding nlm_granted_callback_def
  by (intro ensures_rules; auto dest!: next_granted_cookie_shrinks [where so = so] lw_malloc_frame [where so = so]
      state_add_grant_cookie_shrinks [where so = so] schedule_grant_shrinks [where so = so]
      state_cancel_grant_shrinks [where so = so])
    (meson shrinks_trans)+

section \<open>The invariant\<close>

definition lock_inv :: "owner_heap \<Rightarrow> 'f lock_world \<Rightarrow> bool" where
  "lock_inv so w \<longleftrightarrow>
     fresh_ids (ids (lw_locks w)) (lw_next w) \<and> (\<forall>e\<in>set (lw_locks w). sle_type e = POSIX_LOCK)
     \<and> exclusive so (held active so (lw_locks w))"

lemma lock_inv_shrinks: "shrinks so w w' \<Longrightarrow> lock_inv so w \<Longrightarrow> lock_inv so w'"
  unfolding lock_inv_def shrinks_def ids_evolve_def by (blast intro: exclusive_subset)

lemma distinct_ids_unique:
  "distinct (ids ls) \<Longrightarrow> e \<in> set ls \<Longrightarrow> e' \<in> set ls \<Longrightarrow> sle_id e = sle_id e' \<Longrightarrow> e = e'"
  by (metis distinct_map inj_onD)

lemma granting_inv:
  assumes "lock_inv so w" and "find_lock i w = Some e"
    and "get_overlapping_entry so (sle_owner e) (sle_lock e) (lw_locks w) = None"
    and "sle_id (f e) = i" "sle_type (f e) = sle_type e" "sle_owner (f e) = sle_owner e" "sle_lock (f e) = sle_lock e"
  shows "lock_inv so (update_lock i f w)"
proof -
  let ?ls = "map (\<lambda>e. if sle_id e = i then f e else e) (lw_locks w)"
  have dist: "distinct (ids (lw_locks w))" using assms(1) by (simp add: lock_inv_def fresh_ids_def)
  note e = find_lock_SomeD [OF assms(2)]
  have uniq: "x = e" if "x \<in> set (lw_locks w)" "sle_id x = i" for x
    using distinct_ids_unique [OF dist] that e by simp
  have "map (sle_id \<circ> (\<lambda>e. if sle_id e = i then f e else e)) (lw_locks w) = ids (lw_locks w)"
    using uniq assms(4) by auto
  moreover have "held active so ?ls \<subseteq> held_by active so (f e) \<union> held active so (lw_locks w)"
    using uniq by (auto simp: held_def split: if_splits)
  moreover have "exclusive so (held_by active so (f e) \<union> held active so (lw_locks w))"
    using assms(1,3,6,7) get_overlapping_entry_None
    by (intro exclusive_insert) (simp_all add: lock_inv_def)
  moreover have "\<forall>x\<in>set ?ls. sle_type x = POSIX_LOCK"
    using uniq assms(1,5) e(1) by (auto simp: lock_inv_def)
  ultimately show ?thesis
    using assms(1) unfolding lock_inv_def update_lock_def
    by (auto simp del: map_eq_conv intro: exclusive_subset)
qed

lemma nlm_granted_callback_shrinks:
  "nlm_granted_callback env i w = Some (status, w') \<Longrightarrow> shrinks so w w'"
  by (drule ensuresD [OF nlm_granted_callback_ensures]) simp

lemma try_to_grant_lock_inv:
  assumes "try_to_grant_lock env i w = Some w'" and "lock_inv so w" and "find_lock i w = Some e"
    and "get_overlapping_entry so (sle_owner e) (sle_lock e) (lw_locks w) = None" and "sle_blocked e \<notin> active"
  shows "lock_inv so w'"
proof -
  let ?f = "\<lambda>e. e\<lparr>sle_blocked := STATE_GRANTING,
      sle_block_data := map_option (\<lambda>b. if sbd_grant_type b = STATE_GRANT_NONE
        then b\<lparr>sbd_grant_type := STATE_GRANT_INTERNAL\<rparr> else b) (sle_block_data e)\<rparr>"
  have inv: "lock_inv so (update_lock i ?f w)"
    using assms(2-4) find_lock_SomeD(2) [OF assms(3)] by (intro granting_inv [OF assms(2,3,4)]) simp_all
  have callback: "lock_inv so w2" if "nlm_granted_callback env i (update_lock i ?f w) = Some (st, w2)" for st w2
    using lock_inv_shrinks [OF nlm_granted_callback_shrinks [OF that] inv] .
  have block: "lock_inv so (set_blocked i (sle_blocked e) w2)" if "lock_inv so w2" for w2
    using assms(5) that by (intro lock_inv_shrinks [OF set_blocked_shrinks]) auto
  have drop: "lock_inv so (remove_from_locklist x w2)" if "lock_inv so w2" for x w2
    using lock_inv_shrinks [OF remove_from_locklist_shrinks that] .
  show ?thesis
    using assms(1,2,3) unfolding try_to_grant_lock_def
    by (auto simp: bind_eq_Some_conv split: if_splits intro: callback block drop)
qed

lemma grant_loop_inv:
  "grant_loop env is w = Some w' \<Longrightarrow> lock_inv (le_owners env) w \<Longrightarrow> lock_inv (le_owners env) w'"
proof (induction "is" arbitrary: w)
  case (Cons i "is")
  obtain e where e: "find_lock i w = Some e" using Cons.prems(1) by (auto simp: bind_eq_Some_conv)
  then consider "grant_loop env is w = Some w'"
    | w1 where "try_to_grant_lock env i w = Some w1" "grant_loop env is w1 = Some w'"
      "get_overlapping_entry (le_owners env) (sle_owner e) (sle_lock e) (lw_locks w) = None" "sle_blocked e \<notin> active"
    using Cons.prems(1) by (auto simp: bind_eq_Some_conv split: if_splits)
  then show ?case
    by cases (use Cons e try_to_grant_lock_inv in blast)+
qed simp

lemma grant_blocked_locks_inv:
  "grant_blocked_locks env w = Some w' \<Longrightarrow> lock_inv (le_owners env) w \<Longrightarrow> lock_inv (le_owners env) w'"
  by (auto simp: grant_blocked_locks_def split: if_splits dest: grant_loop_inv)

lemma piecewise_type [simp]: "piecewise (\<lambda>e. sle_type e = ty)"
  by (simp add: piecewise_def shrink_left_def shrink_right_def)

lemma map_replace_ids: "sle_id e' = i \<Longrightarrow> ids (map (\<lambda>x. if sle_id x = i then e' else x) ls) = ids ls"
  by simp

lemma merge_listed_shrinks:
  assumes "merge_listed env i w = Some w'" and "\<forall>e\<in>set (lw_locks w). sle_id e = i \<longrightarrow> sle_blocked e = STATE_NON_BLOCKING"
  shows "shrinks (le_owners env) w w'"
proof -
  obtain e e' ls al where e: "find_lock i w = Some e"
    and m: "merge_loop (le_owners env) e [] (lw_locks w) (lw_alloc w) = Some (e', ls, al)"
    and w': "w' = relink (map (\<lambda>x. if sle_id x = i then e' else x) ls) (set_alloc al w)"
    using assms(1) by (auto simp: merge_listed_def merge_lock_entry_def bind_eq_Some_conv)
  note in_list = find_lock_SomeD [OF e]
  note fields = merge_loop_fields [OF m]
  have nb: "sle_blocked e = STATE_NON_BLOCKING" using assms(2) in_list by blast
  let ?ls = "map (\<lambda>x. if sle_id x = i then e' else x) ls"
  have same_ids: "ids ?ls = ids ls" by (rule map_replace_ids) (simp add: fields(1) in_list(2))
  have "ids_evolve (ids (lw_locks w)) (lw_next w) (ids ?ls) (fst al)"
    unfolding same_ids using merge_loop_ids [OF m] by (simp add: lw_alloc_def)
  moreover have "\<forall>x\<in>set ?ls. sle_type x = POSIX_LOCK" if p: "\<forall>x\<in>set (lw_locks w). sle_type x = POSIX_LOCK"
  proof -
    have "\<forall>x\<in>set ls. sle_type x = POSIX_LOCK"
      using merge_loop_all [OF m, where P = "\<lambda>x. sle_type x = POSIX_LOCK"] p by simp
    moreover have "sle_type e' = POSIX_LOCK" using fields(4) in_list(1) p by simp
    ultimately show ?thesis by auto
  qed
  moreover have "held active (le_owners env) ?ls \<subseteq> held_by active (le_owners env) e' \<union> held active (le_owners env) ls"
    unfolding held_def by force
  moreover have "held_by active (le_owners env) e' \<union> held active (le_owners env) ls \<subseteq> held active (le_owners env) (lw_locks w)"
  proof -
    have "held_by active (le_owners env) e \<subseteq> held active (le_owners env) (lw_locks w)"
      using in_list(1) unfolding held_def by blast
    moreover have "held_by active (le_owners env) e' \<union> held active (le_owners env) ls
        \<subseteq> held_by active (le_owners env) e \<union> held active (le_owners env) (lw_locks w)"
      using merge_loop_held [OF m, of active] nb by simp
    ultimately show ?thesis by blast
  qed
  ultimately show ?thesis
    unfolding w' shrinks_def relink_frame set_alloc_frame by blast
qed

lemma lock_inv_find:
  assumes "lock_inv so w" and "find_lock i w = Some e" and "x \<in> set (lw_locks w)" and "sle_id x = i"
  shows "x = e"
  using assms(1) find_lock_SomeD [OF assms(2)] assms(3,4)
  by (intro distinct_ids_unique [of "lw_locks w"]) (simp_all add: lock_inv_def fresh_ids_def)

lemma set_blocked_id: "e \<in> set (lw_locks (set_blocked i b w)) \<Longrightarrow> sle_id e = i \<Longrightarrow> sle_blocked e = b"
proof -
  assume "e \<in> set (lw_locks (set_blocked i b w))" and i: "sle_id e = i"
  then have "e \<in> (\<lambda>x. if sle_id x = i then x\<lparr>sle_blocked := b\<rparr> else x) ` set (lw_locks w)"
    unfolding set_blocked_def update_lock_def by simp
  then obtain x where x: "e = (if sle_id x = i then x\<lparr>sle_blocked := b\<rparr> else x)"
    by (rule imageE)
  show "sle_blocked e = b" using x i by (cases "sle_id x = i") simp_all
qed

lemma complete_merge_inv:
  assumes "lock_inv (le_owners env) w" and "find_lock i w = Some e" and "sle_blocked e \<in> active"
    and "merge_listed env i (set_blocked i STATE_NON_BLOCKING w) = Some w'"
  shows "lock_inv (le_owners env) w'"
proof -
  have "\<forall>x\<in>set (lw_locks w). sle_id x = i \<longrightarrow> sle_blocked x \<in> active"
    using lock_inv_find [OF assms(1,2)] assms(3) by blast
  then have "shrinks (le_owners env) w (set_blocked i STATE_NON_BLOCKING w)" by (intro set_blocked_shrinks) blast
  then have "lock_inv (le_owners env) (set_blocked i STATE_NON_BLOCKING w)" by (rule lock_inv_shrinks [OF _ assms(1)])
  moreover have "shrinks (le_owners env) (set_blocked i STATE_NON_BLOCKING w) w'"
    by (rule merge_listed_shrinks [OF assms(4)]) (simp add: set_blocked_id)
  ultimately show ?thesis using lock_inv_shrinks by blast
qed

lemma find_lock_update_other:
  assumes "find_lock i w = Some e" and "\<And>x. sle_id (f x) = sle_id x"
  shows "find_lock i (update_lock j f w) = Some (if i = j then f e else e)"
proof -
  have "find (\<lambda>x. sle_id x = i) (map (\<lambda>x. if sle_id x = j then f x else x) ls)
      = map_option (\<lambda>x. if sle_id x = j then f x else x) (find (\<lambda>x. sle_id x = i) ls)" for ls
    by (induction ls) (auto simp: assms(2))
  then show ?thesis
    using assms(1) find_lock_SomeD(2) [OF assms(1)] by (auto simp: find_lock_def update_lock_def)
qed

definition unhook :: "state_lock_entry_t \<Rightarrow> state_lock_entry_t" where
  "unhook e = e\<lparr>sle_block_data := map_option (\<lambda>b. b\<lparr>sbd_blocked_cookie := None\<rparr>) (sle_block_data e),
     sle_ref_count := sle_ref_count e - 1\<rparr>"

lemma free_cookie_cases [consumes 1, case_names keep listed off]:
  assumes "free_cookie k unblock w = Some w'"
  obtains i where "\<not> unblock" "map_of (lw_cookies w) k = Some i"
      "w' = w\<lparr>lw_cookies := filter (\<lambda>(k', _). k' \<noteq> k) (lw_cookies w)\<rparr>"
    | i e where "unblock" "map_of (lw_cookies w) k = Some i" "find_lock i w = Some e" "sle_ref_count e \<noteq> 1"
      "w' = (update_lock i unhook w)\<lparr>lw_cookies := filter (\<lambda>(k', _). k' \<noteq> k) (lw_cookies w)\<rparr>"
    | i e where "unblock" "map_of (lw_cookies w) k = Some i" "find_lock i w = None" "find_off i w = Some e"
      "lw_locks w' = lw_locks w"
proof -
  obtain i where i: "map_of (lw_cookies w) k = Some i"
    using assms by (auto simp: free_cookie_def bind_eq_Some_conv)
  show thesis
  proof (cases unblock)
    case False
    then show thesis using assms i that(1) by (simp add: free_cookie_def)
  next
    case unb: True
    show thesis
    proof (cases "find_lock i w")
      case None
      then show thesis using assms i that(3) unb by (auto simp: free_cookie_def bind_eq_Some_conv)
    next
      case (Some e)
      then show thesis using assms i that(2) unb
        by (auto simp: free_cookie_def unhook_def [abs_def] update_lock_def split: if_splits)
    qed
  qed
qed

lemma free_cookie_blocked:
  assumes "free_cookie k True w = Some w'" and "find_lock i w = Some e"
  shows "\<exists>e'. find_lock i w' = Some e' \<and> sle_blocked e' = sle_blocked e"
  using assms(1)
proof (cases rule: free_cookie_cases)
  case (listed j x)
  then show ?thesis
    using find_lock_update_other [OF assms(2), of unhook j] by (auto simp: unhook_def find_lock_def)
next
  case (off j x)
  then show ?thesis using assms(2) by (simp add: find_lock_def)
qed simp

lemma state_find_grant_frame:
  "state_find_grant k w = (status, w') \<Longrightarrow> find_lock i w' = find_lock i w \<and> lw_cookies w' = lw_cookies w"
  by (auto simp: state_find_grant_def find_lock_def split: if_splits)

lemma finish_grant_inv:
  assumes "lock_inv (le_owners env) w" and "find_lock i w = Some e" and "sle_blocked e \<in> active"
    and "(do { w \<leftarrow> merge_listed env i (set_blocked i STATE_NON_BLOCKING w); grant_blocked_locks env w }) = Some w'"
  shows "lock_inv (le_owners env) w'"
proof -
  obtain w1 where "merge_listed env i (set_blocked i STATE_NON_BLOCKING w) = Some w1"
    and "grant_blocked_locks env w1 = Some w'"
    using assms(4) unfolding bind_eq_Some_conv by blast
  then show ?thesis using complete_merge_inv [OF assms(1-3)] grant_blocked_locks_inv by blast
qed

lemma grant_blocked_lock_immediate_inv:
  assumes "grant_blocked_lock_immediate env i w = Some w'" and "lock_inv (le_owners env) w"
    and "find_lock i w = Some e" and "sle_blocked e \<in> active"
  shows "lock_inv (le_owners env) w'"
proof -
  let ?finish = "\<lambda>w. do { w \<leftarrow> merge_listed env i (set_blocked i STATE_NON_BLOCKING w); grant_blocked_locks env w }"
  consider (keep) "lock_inv (le_owners env) w'"
    | (go) w1 e1 where "shrinks (le_owners env) w w1" "find_lock i w1 = Some e1" "sle_blocked e1 = sle_blocked e"
      "?finish w1 = Some w'"
  proof (cases "sle_block_data e")
    case None
    then show thesis
      using go [of w e] assms(1,3) by (simp add: grant_blocked_lock_immediate_def)
  next
    case (Some b)
    show thesis
    proof (cases "sbd_blocked_cookie b")
      case None
      show thesis
        by (rule go [of "update_lock i (\<lambda>e. e\<lparr>sle_block_data := None\<rparr>) w" "e\<lparr>sle_block_data := None\<rparr>"])
          (use block_data_shrinks assms(1,3) Some None in
            \<open>simp_all add: find_lock_update_other [OF assms(3)] grant_blocked_lock_immediate_def\<close>)
    next
      case k: (Some k)
      obtain st w1 where f: "state_find_grant k w = (st, w1)" by (rule prod.exhaust)
      note frame = state_find_grant_frame [OF f, of i] state_find_grant_shrinks [OF f, of "le_owners env"]
      show thesis
      proof (cases "st = STATE_SUCCESS")
        case True
        then obtain w2 where w2: "free_cookie k True w1 = Some w2" "?finish w2 = Some w'"
          using assms(1,3) Some k f by (auto simp: grant_blocked_lock_immediate_def bind_eq_Some_conv)
        then show thesis
          using go [of w2] free_cookie_blocked [OF w2(1), of i e] frame assms(3)
            shrinks_trans [OF frame(2) free_cookie_shrinks [OF w2(1)]] by auto
      next
        case False
        then have "w' = w1" using assms(1,3) Some k f by (auto simp: grant_blocked_lock_immediate_def bind_eq_Some_conv)
        then show thesis using keep lock_inv_shrinks [OF frame(2) assms(2)] by simp
      qed
    qed
  qed
  then show ?thesis
  proof cases
    case go
    then show ?thesis
      using finish_grant_inv [OF lock_inv_shrinks [OF go(1) assms(2)] go(2)] assms(4) by simp
  qed
qed

lemma state_complete_grant_inv:
  assumes "state_complete_grant env k w = Some w'" and "lock_inv (le_owners env) w"
  shows "lock_inv (le_owners env) w'"
proof -
  obtain i w1 w2 where i: "map_of (lw_cookies w) k = Some i" and w1: "free_cookie k True w1 = Some w2"
    and w': "w' = dec_pin_if_empty w2"
    and step: "(case find_lock i w of
               Some e \<Rightarrow>
                 (if sle_blocked e = STATE_GRANTING then
                    do {
                      w \<leftarrow> merge_listed env i (set_blocked i STATE_NON_BLOCKING w);
                      grant_blocked_locks env w
                    }
                  else Some w)
             | None \<Rightarrow>
                 do {
                   e \<leftarrow> find_off i w;
                   if sle_blocked e = STATE_GRANTING
                   then grant_blocked_locks env (update_off i (\<lambda>e. e\<lparr>sle_blocked := STATE_NON_BLOCKING\<rparr>) w)
                   else Some w
                 }) = Some w1"
    using assms(1) unfolding state_complete_grant_def bind_eq_Some_conv by auto
  have "lock_inv (le_owners env) w1"
  proof (cases "find_lock i w")
    case None
    then show ?thesis
      using step assms(2) lock_inv_shrinks [OF update_off_shrinks assms(2)]
      by (auto simp: bind_eq_Some_conv split: if_splits dest: grant_blocked_locks_inv)
  next
    case (Some e)
    then show ?thesis
      using step assms(2) finish_grant_inv [OF assms(2) Some] by (auto split: if_splits)
  qed
  then show ?thesis
    using lock_inv_shrinks [OF free_cookie_shrinks [OF w1]] lock_inv_shrinks [of _ w2 w'] w' by auto
qed

lemma cancel_blocked_lock_ensures:
  "ensures (cancel_blocked_lock env i w) (shrinks so w)"
proof -
  have cancel: "shrinks so w (set_blocked i STATE_CANCELED w)" by (rule set_blocked_shrinks) simp
  have chain: "shrinks so w w1" if "shrinks so (set_blocked i STATE_CANCELED w) w1" for w1
    using shrinks_trans [OF cancel that] .
  have found: "shrinks so w1 w2" if "state_find_grant k w1 = (st, w1')" "free_cookie k True w1' = Some w2" for k st w1 w1' w2
    using shrinks_trans [OF state_find_grant_shrinks [OF that(1)] free_cookie_shrinks [OF that(2)]] .
  show ?thesis
    unfolding cancel_blocked_lock_def
    by (intro ensures_rules; auto simp: bind_eq_Some_conv split: option.splits prod.splits if_splits
        intro!: shrinks_trans [OF _ remove_from_locklist_shrinks] chain
        dest: found entry_lock_op_shrinksD state_find_grant_shrinks)
qed

lemma cancel_blocked_lock_shrinks: "cancel_blocked_lock env i w = Some w' \<Longrightarrow> shrinks so w w'"
  by (drule ensuresD [OF cancel_blocked_lock_ensures])

lemma cancel_loop_shrinks:
  "cancel_loop env owner state lock is w = Some w' \<Longrightarrow> shrinks so w w'"
proof (induction "is" arbitrary: w)
  case (Cons i "is")
  then consider "cancel_loop env owner state lock is w = Some w'"
    | w1 where "cancel_blocked_lock env i w = Some w1" "cancel_loop env owner state lock is w1 = Some w'"
    by (auto simp: bind_eq_Some_conv split: if_splits)
  then show ?case
    by cases (use Cons.IH cancel_blocked_lock_shrinks shrinks_trans in blast)+
qed simp

lemma subtract_relink_shrinks:
  assumes "subtract_lock_from_list so owner state lock (lw_locks w) (lw_alloc w) = (status, ls, removed, al)"
  shows "shrinks so w (relink ls (set_alloc al w))"
proof -
  note loop = assms [unfolded subtract_lock_from_list_def]
  have "ids_evolve (ids (lw_locks w)) (lw_next w) (ids ls) (fst al)"
    using subtract_loop_ids [OF loop] by (simp add: lw_alloc_def)
  moreover have "(\<forall>e\<in>set (lw_locks w). sle_type e = POSIX_LOCK) \<longrightarrow> (\<forall>e\<in>set ls. sle_type e = POSIX_LOCK)"
    using subtract_loop_all [OF loop, where P = "\<lambda>e. sle_type e = POSIX_LOCK"] by simp
  moreover have "held active so ls \<subseteq> held active so (lw_locks w)"
  proof (cases "status = STATE_SUCCESS")
    case True
    then show ?thesis using subtract_loop_held [OF loop True, of active] by (auto simp: held_def)
  next
    case False
    then have "mset ls = mset (lw_locks w)" using subtract_loop_failure [OF loop] by simp
    then have "set ls = set (lw_locks w)" by (rule mset_eq_setD)
    then show ?thesis by (simp add: held_def)
  qed
  ultimately show ?thesis by (simp add: shrinks_def)
qed

lemma state_unlock_list_inv:
  assumes "state_unlock_list env owner state lock ty w = Some (status, w')" and "lock_inv (le_owners env) w"
  shows "lock_inv (le_owners env) w'"
proof -
  let ?so = "le_owners env"
  obtain w1 st ls removed al where w1: "cancel_blocked_locks_range env (Some owner) state lock w = Some w1"
    and s: "subtract_lock_from_list ?so (Some owner) state lock (lw_locks w1) (lw_alloc w1) = (st, ls, removed, al)"
    using assms(1) unfolding state_unlock_list_def bind_eq_Some_conv by (metis prod_cases4)
  define w2 where "w2 = dec_pin_if_empty (relink ls (set_alloc al w1))"
  have inv: "lock_inv ?so w2"
    using w1 subtract_relink_shrinks [OF s] cancel_loop_shrinks [of env "Some owner" state lock _ w w1 ?so] assms(2)
    unfolding cancel_blocked_locks_range_def w2_def
    by (metis lock_inv_shrinks shrinks_fields(11))
  have rest: "(if st \<noteq> STATE_SUCCESS then Some (st, cache_inode_dec_pin_ref w2)
       else do {
         (status, _, w) \<leftarrow> do_lock_op env FSAL_OP_UNLOCK (Some owner) lock False ty w2;
         w \<leftarrow> grant_blocked_locks env w;
         Some (status, cache_inode_dec_pin_ref w)
       }) = Some (status, w')"
    using assms(1) w1 s unfolding state_unlock_list_def w2_def by (simp add: Let_def)
  have unpin: "lock_inv ?so x \<Longrightarrow> lock_inv ?so (cache_inode_dec_pin_ref x)" for x :: "'a lock_world"
    by (simp add: lock_inv_def)
  show ?thesis
  proof (cases "st = STATE_SUCCESS")
    case False
    then show ?thesis using rest inv unpin by auto
  next
    case True
    then obtain st' c w3 w4 where "do_lock_op env FSAL_OP_UNLOCK (Some owner) lock False ty w2 = Some (st', c, w3)"
      and w4: "grant_blocked_locks env w3 = Some w4" and w': "w' = cache_inode_dec_pin_ref w4"
      using rest by (auto simp: bind_eq_Some_conv)
    then have "lock_inv ?so w3" using lock_inv_shrinks [OF do_lock_op_shrinks inv] by blast
    then show ?thesis unfolding w' by (intro unpin grant_blocked_locks_inv [OF w4])
  qed
qed

lemma lock_inv_fields [simp]:
  "lock_inv so (cache_inode_dec_pin_ref w) = lock_inv so w" "lock_inv so (dec_pin_if_empty w) = lock_inv so w"
  "lock_inv so (w\<lparr>lw_delegs := ds\<rparr>) = lock_inv so w" "lock_inv so (w\<lparr>lw_fsal := f\<rparr>) = lock_inv so w"
  "lock_inv so (w\<lparr>lw_async := as\<rparr>) = lock_inv so w" "lock_inv so (w\<lparr>lw_pins := p\<rparr>) = lock_inv so w"
  by (simp_all add: lock_inv_def)

lemma inc_pin_inv: "cache_inode_inc_pin_ref w = (st, w') \<Longrightarrow> lock_inv so w' = lock_inv so w"
  by (auto simp: cache_inode_inc_pin_ref_def split: if_splits)

lemma state_unlock_inv:
  "ensures (state_unlock env owner state deleg lock ty w) (\<lambda>(status, w').
     lock_inv (le_owners env) w \<longrightarrow> lock_inv (le_owners env) w')"
  unfolding state_unlock_def
  by (intro ensures_rules ensuresI; auto dest!: inc_pin_inv [where so = "le_owners env"] state_unlock_list_inv)

lemma state_cancel_inv:
  "ensures (state_cancel env owner lock w) (\<lambda>(status, w').
     lock_inv (le_owners env) w \<longrightarrow> lock_inv (le_owners env) w')"
  unfolding state_cancel_def
  by (intro ensures_rules; auto simp: bind_eq_Some_conv split: option.splits
      dest!: inc_pin_inv [where so = "le_owners env"] grant_blocked_locks_inv
        cancel_blocked_lock_shrinks [where so = "le_owners env"] intro: lock_inv_shrinks)

lemma state_release_grant_inv:
  "ensures (state_release_grant env k w) (\<lambda>(status, w').
     lock_inv (le_owners env) w \<longrightarrow> lock_inv (le_owners env) w')"
proof -
  let ?so = "le_owners env"
  have cancel: "shrinks ?so x (set_blocked i STATE_CANCELED x)" for i and x :: "'a lock_world"
    by (rule set_blocked_shrinks) simp
  have free: "lock_inv ?so y \<Longrightarrow> free_cookie k True y = Some z \<Longrightarrow> lock_inv ?so z" for y z
    using lock_inv_shrinks [OF free_cookie_shrinks] .
  have step: "shrinks ?so w r" if "(case find_lock i w of
            Some e \<Rightarrow>
              (if sle_blocked e = STATE_GRANTING then
                 do {
                   (status, w) \<leftarrow> entry_lock_op env FSAL_OP_UNLOCK i (set_blocked i STATE_CANCELED w);
                   if status \<noteq> STATE_SUCCESS then Some (status, w)
                   else do { e \<leftarrow> find_lock i w; Some (status, remove_from_locklist e w) }
                 }
               else Some (STATE_SUCCESS, w))
          | None \<Rightarrow>
              do {
                e \<leftarrow> find_off i w;
                if sle_blocked e = STATE_GRANTING then
                  do {
                    (status, w) \<leftarrow> entry_lock_op env FSAL_OP_UNLOCK i
                      (update_off i (\<lambda>e. e\<lparr>sle_blocked := STATE_CANCELED\<rparr>) w);
                    if status \<noteq> STATE_SUCCESS then Some (status, w) else None
                  }
                else Some (STATE_SUCCESS, w)
              }) = Some (status, r)" for i status r
  proof (cases "find_lock i w")
    case None
    then show ?thesis
      using that shrinks_trans [OF update_off_shrinks] entry_lock_op_shrinksD
      by (auto simp: bind_eq_Some_conv split: if_splits) blast
  next
    case (Some e)
    then show ?thesis
      using that shrinks_trans [OF cancel] entry_lock_op_shrinksD shrinks_trans [OF _ remove_from_locklist_shrinks]
      by (auto simp: bind_eq_Some_conv split: if_splits) blast+
  qed
  show ?thesis
    unfolding state_release_grant_def
    by (intro ensures_rules) (auto dest!: step, meson free grant_blocked_locks_inv lock_inv_shrinks)
qed

lemma scan_locks_clear:
  assumes "scan_locks env owner lock b ls = Scan_Clear overlap" and "f \<in> set ls" and "sle_type f = POSIX_LOCK"
  shows "\<not> conflicts (le_owners env) owner lock f"
  using assms
  by (induction env owner lock b ls rule: scan_locks.induct) (auto simp: Let_def split: if_splits)

lemma scan_locks_found:
  "scan_locks env owner lock b ls = Scan_Existing f \<Longrightarrow> f \<in> set ls \<and> sle_blocked f \<in> active
     \<and> \<not> different_owners (le_owners env) (sle_owner f) owner \<and> lock_type (sle_lock f) = lock_type lock
     \<and> lock_start (sle_lock f) \<le> lock_start lock \<and> lock_end lock \<le> lock_end (sle_lock f)"
  by (induction env owner lock b ls rule: scan_locks.induct) (auto simp: Let_def split: if_splits)

lemma scan_locks_conflict:
  "scan_locks env owner lock b ls = Scan_Conflict f \<Longrightarrow> f \<in> set ls \<and> conflicts (le_owners env) owner lock f"
  by (induction env owner lock b ls rule: scan_locks.induct) (auto simp: Let_def split: if_splits)

lemma insert_lock_inv:
  assumes "lock_inv so w" and "sle_id e \<notin> set (ids (lw_locks w))" and "sle_id e < lw_next w" and "sle_type e = POSIX_LOCK"
    and "\<And>f. f \<in> set (lw_locks w) \<Longrightarrow> sle_blocked f \<in> active \<Longrightarrow> sle_blocked e \<in> active \<Longrightarrow>
       \<not> conflicts so (sle_owner e) (sle_lock e) f"
  shows "lock_inv so (w\<lparr>lw_locks := lw_locks w @ [e]\<rparr>)"
proof -
  have "exclusive so (held_by active so e \<union> held active so (lw_locks w))"
  proof (cases "sle_blocked e \<in> active")
    case True
    then show ?thesis using assms(1,5) by (intro exclusive_insert) (auto simp: lock_inv_def)
  next
    case False
    then have "held_by active so e = {}" by (auto simp: held_by_def)
    then show ?thesis using assms(1) by (simp add: lock_inv_def)
  qed
  then show ?thesis using assms(1-4) by (auto simp: lock_inv_def fresh_ids_def Un_commute)
qed

lemma merge_new_inv:
  assumes "lock_inv so w" and "sle_id e \<notin> set (ids (lw_locks w))" and "sle_id e < lw_next w" and "sle_type e = POSIX_LOCK"
    and "sle_blocked e = STATE_NON_BLOCKING"
    and "\<And>f. f \<in> set (lw_locks w) \<Longrightarrow> \<not> conflicts so (sle_owner e) (sle_lock e) f"
    and "merge_lock_entry so e (lw_locks w) (lw_alloc w) = Some (e', ls, al)"
  shows "lock_inv so (w\<lparr>lw_locks := ls @ [e'], lw_next := fst al\<rparr>)"
proof -
  note m = assms(7) [unfolded merge_lock_entry_def]
  note fields = merge_loop_fields [OF m]
  have ids: "ids_evolve (ids (lw_locks w)) (lw_next w) (ids ls) (fst al)"
    using merge_loop_ids [OF m] by (simp add: lw_alloc_def)
  have "fresh_ids (ids ls @ [sle_id e']) (fst al)"
    using ids assms(1-3) fields(1) by (auto simp: ids_evolve_def lock_inv_def fresh_ids_def)
  moreover have "\<forall>x\<in>set (ls @ [e']). sle_type x = POSIX_LOCK"
    using merge_loop_all [OF m, where P = "\<lambda>e. sle_type e = POSIX_LOCK"] assms(1,4) fields(4)
    by (simp add: lock_inv_def)
  moreover have "exclusive so (held active so (ls @ [e']))"
  proof (rule exclusive_subset)
    show "exclusive so (held_by active so e \<union> held active so (lw_locks w))"
      using assms(1,6) by (intro exclusive_insert) (auto simp: lock_inv_def)
    show "held active so (ls @ [e']) \<subseteq> held_by active so e \<union> held active so (lw_locks w)"
      using merge_loop_held [OF m, of active] assms(5) by simp
  qed
  ultimately show ?thesis by (simp add: lock_inv_def)
qed

lemma create_entry_fields:
  assumes "create_state_lock_entry export blocked owner state lock ty al = (Some e, al')"
  shows "sle_id e = fst al" "fst al' = Suc (fst al)" "sle_type e = ty" "sle_blocked e = blocked"
    "sle_owner e = owner" "sle_lock e = lock" "sle_state e = state" "sle_export e = export"
  using assms by (auto simp: create_state_lock_entry_def Let_def split: prod.splits if_splits)

lemma state_lock_finish_inv:
  assumes "state_lock_finish env blocking block_data ty e status w = Some w'" and "lock_inv (le_owners env) w"
    and "sle_id e \<notin> set (ids (lw_locks w))" and "sle_id e < lw_next w" and "sle_type e = ty"
    and "sle_blocked e = STATE_NON_BLOCKING" and "ty = LEASE_LOCK \<Longrightarrow> block_data = None"
    and "\<And>f. status = STATE_SUCCESS \<or> blocking \<in> active \<Longrightarrow> f \<in> set (lw_locks w) \<Longrightarrow>
      \<not> conflicts (le_owners env) (sle_owner e) (sle_lock e) f"
  shows "lock_inv (le_owners env) w'"
proof -
  let ?so = "le_owners env"
  consider (lease) "status = STATE_SUCCESS" "ty = LEASE_LOCK" | (posix) "status = STATE_SUCCESS" "ty = POSIX_LOCK"
    | (blocked) "status = STATE_LOCK_BLOCKED" | (other) "status \<noteq> STATE_SUCCESS" "status \<noteq> STATE_LOCK_BLOCKED"
    by (cases ty) auto
  then show ?thesis
  proof cases
    case posix
    then obtain e' ls al w1 where m: "merge_lock_entry ?so e (lw_locks w) (lw_alloc w) = Some (e', ls, al)"
      and g: "grant_blocked_locks env ((pin_if_empty (relink ls (set_alloc al w)))\<lparr>lw_locks := ls @ [e']\<rparr>) = Some w1"
      and w': "w' = cache_inode_dec_pin_ref w1"
      using assms(1) by (auto simp: state_lock_finish_def bind_eq_Some_conv)
    have "lock_inv ?so (w\<lparr>lw_locks := ls @ [e'], lw_next := fst al\<rparr>)"
      using assms posix by (intro merge_new_inv [OF _ _ _ _ _ _ m]) auto
    then have "lock_inv ?so ((pin_if_empty (relink ls (set_alloc al w)))\<lparr>lw_locks := ls @ [e']\<rparr>)"
      by (simp add: lock_inv_def)
    then show ?thesis using grant_blocked_locks_inv [OF g] w' by simp
  next
    case blocked
    then obtain b where b: "block_data = Some b"
      and w': "lw_locks w' = lw_locks w @ [e\<lparr>sle_block_data := Some b, sle_blocked := blocking\<rparr>]" "lw_next w' = lw_next w"
      using assms(1) by (auto simp: state_lock_finish_def bind_eq_Some_conv Let_def)
    have "ty = POSIX_LOCK" using assms(7) b by (cases ty) auto
    then have "lock_inv ?so (w\<lparr>lw_locks := lw_locks w @ [e\<lparr>sle_block_data := Some b, sle_blocked := blocking\<rparr>]\<rparr>)"
      using assms(2-5,8) by (intro insert_lock_inv) auto
    then show ?thesis using w' by (simp add: lock_inv_def)
  qed (use assms(1,2) in \<open>auto simp: state_lock_finish_def\<close>)
qed

lemma state_lock_new_inv:
  assumes "state_lock_new env owner state blocking block_data lock ty conflicting overlap w = Some (status, conflict, w')"
    and "lock_inv (le_owners env) w" and "\<not> le_supports env fso_lock_support_async_block"
    and "ty = LEASE_LOCK \<Longrightarrow> block_data = None"
    and "\<And>f. conflicting = None \<Longrightarrow> f \<in> set (lw_locks w) \<Longrightarrow> \<not> conflicts (le_owners env) owner lock f"
  shows "lock_inv (le_owners env) w'"
proof -
  let ?so = "le_owners env"
  obtain r al where c: "create_state_lock_entry (le_export env) STATE_NON_BLOCKING owner state lock ty (lw_alloc w) = (r, al)"
    by (rule prod.exhaust)
  have next_le: "lw_next w \<le> fst al" using create_alloc [OF c] by (simp add: lw_alloc_def)
  have inv: "lock_inv ?so (set_alloc al w)"
    by (rule lock_inv_shrinks [OF shrinks_same assms(2)]) (simp_all add: next_le)
  show ?thesis
  proof (cases "conflicting = None \<or> blocking = STATE_NLM_BLOCKING")
    case False
    then show ?thesis using assms(1-3) by (auto simp: state_lock_new_def)
  next
    case True
    show ?thesis
    proof (cases r)
      case None
      then show ?thesis using True assms(1,3) c inv by (auto simp: state_lock_new_def)
    next
      case (Some e)
      obtain st cf w1 where op: "(if conflicting = None then do_lock_op env FSAL_OP_LOCK (Some owner) lock overlap ty (set_alloc al w)
             else Some (STATE_LOCK_BLOCKED, None, set_alloc al w)) = Some (st, cf, w1)"
        and fin: "state_lock_finish env blocking block_data ty e st w1 = Some w'"
        using True assms(1,3) c Some by (auto simp: state_lock_new_def bind_eq_Some_conv Let_def split: if_splits)
      have q: "quiet (set_alloc al w) w1"
        using op ensuresD [OF do_lock_op_quiet] by (auto split: if_splits)
      note e = create_entry_fields [OF c [unfolded Some]]
      have clear: "\<not> conflicts ?so (sle_owner e) (sle_lock e) f"
        if "st = STATE_SUCCESS \<or> blocking \<in> active" "f \<in> set (lw_locks w1)" for f
        using that op q True assms(5) e(5,6) by (auto simp: quiet_def split: if_splits)
      have id: "sle_id e \<notin> set (ids (lw_locks w1))" "sle_id e < lw_next w1"
        using q e(1,2) assms(2) by (auto simp: quiet_def lock_inv_def fresh_ids_def lw_alloc_def)
      show ?thesis
        using state_lock_finish_inv [OF fin lock_inv_shrinks [OF quiet_shrinks [OF q] inv] id e(3,4)] assms(4) clear
        by blast
    qed
  qed
qed


lemma scan_existing_listed:
  assumes "scan_locks env owner lock b (lw_locks w) = Scan_Existing f" and "lock_inv so w"
  shows "find_lock (sle_id f) w = Some f" "sle_blocked f \<in> active"
proof -
  note f = scan_locks_found [OF assms(1)]
  then have "find_lock (sle_id f) w \<noteq> None" by (auto simp: find_lock_def find_None_iff)
  then show "find_lock (sle_id f) w = Some f" using lock_inv_find [OF assms(2)] f by (metis option.exhaust)
  show "sle_blocked f \<in> active" using f by blast
qed

lemma state_lock_search_inv:
  assumes "state_lock_search env owner state blocking block_data lock ty w = Some (status, conflict, w')"
    and "lock_inv (le_owners env) w" and "\<not> le_supports env fso_lock_support_async_block"
    and "ty = LEASE_LOCK \<Longrightarrow> block_data = None"
  shows "lock_inv (le_owners env) w'"
proof (cases "scan_locks env owner lock False (lw_locks w)")
  case (Scan_Existing f)
  note f = scan_existing_listed [OF Scan_Existing assms(2)]
  show ?thesis
    using assms(1,2) Scan_Existing grant_blocked_lock_immediate_inv [OF _ assms(2) f]
    by (auto simp: state_lock_search_def bind_eq_Some_conv split: if_splits)
next
  case (Scan_Clear overlap)
  have "\<not> conflicts (le_owners env) owner lock f" if "f \<in> set (lw_locks w)" for f
    using scan_locks_clear [OF Scan_Clear that] that assms(2) by (simp add: lock_inv_def)
  then show ?thesis
    using assms(1) Scan_Clear by (auto simp: state_lock_search_def intro: state_lock_new_inv [OF _ assms(2,3,4)])
next
  case (Scan_Conflict f)
  then show ?thesis
    using assms(1) by (auto simp: state_lock_search_def intro: state_lock_new_inv [OF _ assms(2,3,4)])
qed (use assms in \<open>auto simp: state_lock_search_def\<close>)

lemma state_lock_inv:
  assumes "\<not> le_supports env fso_lock_support_async_block" and "ty = LEASE_LOCK \<Longrightarrow> block_data = None"
  shows "ensures (state_lock env owner state blocking block_data lock ty w) (\<lambda>(status, conflict, w').
     lock_inv (le_owners env) w \<longrightarrow> lock_inv (le_owners env) w')"
proof (rule ensuresI, clarify)
  fix status conflict w'
  assume run: "state_lock env owner state blocking block_data lock ty w = Some (status, conflict, w')"
    and inv: "lock_inv (le_owners env) w"
  obtain st w1 where pin: "cache_inode_inc_pin_ref w = (st, w1)" by (rule prod.exhaust)
  obtain st2 f where op: "le_open env (\<not> (lock_type lock = FSAL_LOCK_R \<and> le_supports env fso_reopen_method))
      (lock_reclaim lock) (lw_fsal w1) = (st2, f)" by (rule prod.exhaust)
  have inv1: "lock_inv (le_owners env) w1" using inc_pin_inv [OF pin] inv by simp
  have inv2: "lock_inv (le_owners env) (w1\<lparr>lw_fsal := f\<rparr>)" using inv1 by simp
  show "lock_inv (le_owners env) w'"
    using run pin op inv1 state_lock_search_inv [OF _ inv2 assms]
    by (auto simp: state_lock_def Let_def split: if_splits option.splits)
qed

lemma nlm4_Granted_Res_inv:
  "ensures (nlm4_Granted_Res env k granted w) (\<lambda>w'. lock_inv (le_owners env) w \<longrightarrow> lock_inv (le_owners env) w')"
proof (rule ensuresI, rule impI)
  fix w'
  assume run: "nlm4_Granted_Res env k granted w = Some w'" and inv: "lock_inv (le_owners env) w"
  obtain st w1 where g: "state_find_grant k w = (st, w1)" by (rule prod.exhaust)
  have inv1: "lock_inv (le_owners env) w1"
    using state_find_grant_shrinks [OF g] inv lock_inv_shrinks by blast
  have "lock_inv (le_owners env) w''" if "state_release_grant (env\<lparr>le_export := x\<rparr>) k w1 = Some (s, w'')" for x s w''
    using ensuresD [OF state_release_grant_inv that] inv1 by simp
  moreover have "lock_inv (le_owners env) w''" if "state_complete_grant (env\<lparr>le_export := x\<rparr>) k w1 = Some w''" for x w''
    using state_complete_grant_inv [OF that] inv1 by simp
  ultimately show "lock_inv (le_owners env) w'"
    using run g inv1 by (auto simp: nlm4_Granted_Res_def bind_eq_Some_conv Let_def split: if_splits option.splits)
qed

lemma nlm4_send_grant_msg_inv:
  "ensures (nlm4_send_grant_msg env arg sent w) (\<lambda>w'. lock_inv (le_owners env) w \<longrightarrow> lock_inv (le_owners env) w')"
proof (rule ensuresI, rule impI)
  fix w'
  assume run: "nlm4_send_grant_msg env arg sent w = Some w'" and inv: "lock_inv (le_owners env) w"
  let ?w = "w\<lparr>lw_async := remove1 arg (lw_async w)\<rparr>"
  obtain st w1 where g: "state_find_grant (gm_cookie arg) ?w = (st, w1)" by (rule prod.exhaust)
  have inv1: "lock_inv (le_owners env) w1"
    using state_find_grant_shrinks [OF g] inv lock_inv_shrinks by (metis lock_inv_fields(5))
  have "lock_inv (le_owners env) w''"
    if "state_release_grant (env\<lparr>le_export := x\<rparr>) (gm_cookie arg) w1 = Some (s, w'')" for x s w''
    using ensuresD [OF state_release_grant_inv that] inv1 by simp
  then show "lock_inv (le_owners env) w'"
    using run g inv inv1 by (auto simp: nlm4_send_grant_msg_def bind_eq_Some_conv Let_def split: if_splits option.splits)
qed

end
