(* ===== verification/State_Lock_Props.thy ===== *)
theory State_Lock_Props
  imports State_Lock_Inv
begin

text \<open>
  What the lock operations of \<^verbatim>\<open>SAL/state_lock.c\<close> guarantee: locks exclude each other in every reachable
  state, granting and unlocking change the bytes held as the specification says, no lock that could be
  granted is left waiting, and what a test or a failed request reports.
\<close>

section \<open>Runs of lock operations\<close>

text \<open>
  The requests that reach the locks of a file, in any order and on any export.  The messages the
  callback queued are sent, or fail to be sent, at any later time, and clients answer at any time.
\<close>

inductive lock_step :: "'f lock_env \<Rightarrow> 'f lock_world \<Rightarrow> 'f lock_world \<Rightarrow> bool" for env where
  lock: "state_lock (env\<lparr>le_export := x\<rparr>) owner state blocking block_data lock ty w = Some (status, conflict, w')
    \<Longrightarrow> (ty = LEASE_LOCK \<Longrightarrow> block_data = None) \<Longrightarrow> lock_step env w w'"
| unlock: "state_unlock (env\<lparr>le_export := x\<rparr>) owner state deleg lock ty w = Some (status, w') \<Longrightarrow> lock_step env w w'"
| cancel: "state_cancel (env\<lparr>le_export := x\<rparr>) owner lock w = Some (status, w') \<Longrightarrow> lock_step env w w'"
| test: "state_test (env\<lparr>le_export := x\<rparr>) owner lock w = Some (status, conflict, w') \<Longrightarrow> lock_step env w w'"
| answer: "nlm4_Granted_Res (env\<lparr>le_export := x\<rparr>) cookie granted w = Some w' \<Longrightarrow> lock_step env w w'"
| send: "arg \<in> set (lw_async w) \<Longrightarrow> nlm4_send_grant_msg (env\<lparr>le_export := x\<rparr>) arg sent w = Some w'
    \<Longrightarrow> lock_step env w w'"

inductive lock_run :: "'f lock_env \<Rightarrow> 'f lock_world \<Rightarrow> 'f lock_world \<Rightarrow> bool" for env where
  start: "lock_run env w w"
| step: "lock_run env w w1 \<Longrightarrow> lock_step env w1 w2 \<Longrightarrow> lock_run env w w2"

lemma state_test_inv:
  "ensures (state_test env owner lock w) (\<lambda>(status, conflict, w').
     lock_inv (le_owners env) w \<longrightarrow> lock_inv (le_owners env) w')"
  unfolding state_test_def Let_def
  by (intro ensures_rules; auto dest!: inc_pin_inv [where so = "le_owners env"]
      do_lock_op_shrinks [where so = "le_owners env"] intro: lock_inv_shrinks)

lemma lock_step_inv:
  assumes "lock_step env w w'" and "\<not> le_supports env fso_lock_support_async_block" and "lock_inv (le_owners env) w"
  shows "lock_inv (le_owners env) w'"
  using assms(1)
proof cases
  case (lock x owner state blocking block_data lk ty status conflict)
  then show ?thesis using ensuresD [OF state_lock_inv lock(1)] assms(2,3) by simp
next
  case (unlock x owner state deleg lk ty status)
  then show ?thesis using ensuresD [OF state_unlock_inv unlock] assms(3) by simp
next
  case (cancel x owner lk status)
  then show ?thesis using ensuresD [OF state_cancel_inv cancel] assms(3) by simp
next
  case (test x owner lk status conflict)
  then show ?thesis using ensuresD [OF state_test_inv test] assms(3) by simp
next
  case (answer x cookie granted)
  then show ?thesis using ensuresD [OF nlm4_Granted_Res_inv answer] assms(3) by simp
next
  case (send arg x sent)
  then show ?thesis using ensuresD [OF nlm4_send_grant_msg_inv send(2)] assms(3) by simp
qed

lemma lock_run_inv:
  assumes "lock_run env w w'" and "\<not> le_supports env fso_lock_support_async_block" and "lock_inv (le_owners env) w"
  shows "lock_inv (le_owners env) w'"
  using assms by (induction rule: lock_run.induct) (auto dest: lock_step_inv)

lemma lock_inv_entries:
  assumes "lock_inv so w" and "e \<in> set (lw_locks w)" "f \<in> set (lw_locks w)" "sle_blocked e \<in> active" "sle_blocked f \<in> active"
    and "covers (sle_lock e) x" "covers (sle_lock f) x" and "different_owners so (sle_owner e) (sle_owner f)"
  shows "lock_type (sle_lock e) \<noteq> FSAL_LOCK_W" "lock_type (sle_lock f) \<noteq> FSAL_LOCK_W"
proof -
  have "(sle_owner g, lock_type (sle_lock g), x) \<in> held active so (lw_locks w)" if "g \<in> {e, f}" for g
    using that assms(2-7) by (auto simp: held_def held_by_def)
  then show "lock_type (sle_lock e) \<noteq> FSAL_LOCK_W" "lock_type (sle_lock f) \<noteq> FSAL_LOCK_W"
    using assms(1,8) unfolding lock_inv_def exclusive_def by blast+
qed

text \<open>A file with two NLM clients, on a file system that leaves locking to the server.\<close>

definition demo_env :: "unit lock_env" where
  "demo_env = \<lparr>le_owners = (\<lambda>n. \<lparr>so_type = STATE_LOCK_OWNER_NLM, so_owner_val = [of_nat n], so_clientid = 0,
       so_nlm_client = n, so_nlm_svid = of_nat n, so_proc_id = 0\<rparr>),
     le_export = 1, le_supports = (\<lambda>_. False),
     le_lock_op = (\<lambda>owner op lock f. ((fsalstat ERR_FSAL_NOTSUPP c_ENOTSUP, lock), f)),
     le_open = (\<lambda>rdwr reclaim f. (CACHE_INODE_SUCCESS, f)), le_unknown_owner = 0, le_regular = True\<rparr>"

definition demo_file :: "unit lock_world" where
  "demo_file = \<lparr>lw_locks = [], lw_delegs = [], lw_off = [], lw_next = 0, lw_orc = sample_oracle, lw_pins = 0,
     lw_dead = False, lw_gc_cookie = 0, lw_cookies = [], lw_cookie_table = [], lw_blocked = [], lw_async = [],
     lw_fsal = ()\<rparr>"

definition demo_lock :: "fsal_lock_t \<Rightarrow> u64 \<Rightarrow> u64 \<Rightarrow> fsal_lock_param_t" where
  "demo_lock t start len = \<lparr>lock_sle_type = FSAL_POSIX_LOCK, lock_type = t, lock_start = start,
     lock_length = len, lock_reclaim = False\<rparr>"

definition demo_block :: state_block_data_t where
  "demo_block = \<lparr>sbd_grant_type = STATE_GRANT_NONE, sbd_blocked_cookie = None, sbd_nlm_fh = [9]\<rparr>"

text \<open>
  The same file after three requests: client 1 locks 0-9, client 2 asks for 5-14 and waits,
  and client 1 unlocks.  Client 2 is being granted its lock then.
\<close>

definition after_lock :: "nat \<Rightarrow> state_blocking_t \<Rightarrow> fsal_lock_param_t \<Rightarrow> unit lock_world \<Rightarrow> unit lock_world" where
  "after_lock owner blocking lk w =
     (case state_lock demo_env owner None blocking (if blocking = STATE_NON_BLOCKING then None else Some demo_block) lk
             POSIX_LOCK w of
        Some (_, _, w') \<Rightarrow> w' | None \<Rightarrow> w)"

definition after_unlock :: "nat \<Rightarrow> fsal_lock_param_t \<Rightarrow> unit lock_world \<Rightarrow> unit lock_world" where
  "after_unlock owner lk w =
     (case state_unlock demo_env owner None False lk POSIX_LOCK w of Some (_, w') \<Rightarrow> w' | None \<Rightarrow> w)"

definition demo_waiting :: "unit lock_world" where
  "demo_waiting = after_lock 2 STATE_NLM_BLOCKING (demo_lock FSAL_LOCK_W 5 10)
     (after_lock 1 STATE_NON_BLOCKING (demo_lock FSAL_LOCK_W 0 10) demo_file)"

definition demo_granting :: "unit lock_world" where
  "demo_granting = after_unlock 1 (demo_lock FSAL_LOCK_W 0 10) demo_waiting"

lemma after_lock_step: "lock_run demo_env w (after_lock owner blocking lk w)"
proof (cases "state_lock demo_env owner None blocking (if blocking = STATE_NON_BLOCKING then None else Some demo_block)
    lk POSIX_LOCK w")
  case None
  then show ?thesis by (simp add: after_lock_def lock_run.start)
next
  case (Some r)
  obtain status conflict w' where r: "r = (status, conflict, w')" by (rule prod_cases3)
  have "demo_env\<lparr>le_export := 1\<rparr> = demo_env" by (simp add: demo_env_def)
  then have "state_lock (demo_env\<lparr>le_export := 1\<rparr>) owner None blocking
      (if blocking = STATE_NON_BLOCKING then None else Some demo_block) lk POSIX_LOCK w = Some (status, conflict, w')"
    using Some r by (simp only:)
  then have "lock_step demo_env w w'" by (rule lock_step.lock) simp
  then show ?thesis
    using Some r lock_run.step [OF lock_run.start] by (simp add: after_lock_def)
qed

lemma after_unlock_step: "lock_run demo_env w (after_unlock owner lk w)"
proof (cases "state_unlock demo_env owner None False lk POSIX_LOCK w")
  case None
  then show ?thesis by (simp add: after_unlock_def lock_run.start)
next
  case (Some r)
  obtain status w' where r: "r = (status, w')" by (rule prod.exhaust)
  have "demo_env\<lparr>le_export := 1\<rparr> = demo_env" by (simp add: demo_env_def)
  then have "lock_step demo_env w w'"
    using lock_step.unlock [where env = demo_env and x = 1] Some r by auto
  then show ?thesis
    using Some r lock_run.step [OF lock_run.start] by (simp add: after_unlock_def)
qed

lemma lock_run_trans: "lock_run env w1 w2 \<Longrightarrow> lock_run env w w1 \<Longrightarrow> lock_run env w w2"
  by (induction rule: lock_run.induct) (auto intro: lock_run.step)

lemma demo_runs: "lock_run demo_env demo_file demo_waiting" "lock_run demo_env demo_file demo_granting"
  unfolding demo_granting_def demo_waiting_def
  by (blast intro: lock_run_trans after_lock_step after_unlock_step)+

section \<open>Exclusion\<close>

text \<open>
  C3 Locks exclude each other.  Whatever sequence of lock, unlock, cancel and test requests, grant
  messages and client answers reaches a file that had no locks, on a file system that does not block in
  the background, no byte is locked exclusively for one owner while another owner holds or is being
  granted a lock on it: failed allocations, cancelled grants, splits, merges and downgrades included.
\<close>

theorem locks_exclude:
  assumes "lock_run env w w'" and "lw_locks w = []" and "\<not> le_supports env fso_lock_support_async_block"
    and "e \<in> set (lw_locks w')" "f \<in> set (lw_locks w')"
    and "sle_blocked e \<in> {STATE_NON_BLOCKING, STATE_GRANTING}" "sle_blocked f \<in> {STATE_NON_BLOCKING, STATE_GRANTING}"
    and "covers (sle_lock e) x" "covers (sle_lock f) x"
    and "lock_type (sle_lock e) = FSAL_LOCK_W"
  shows "\<not> different_owners (le_owners env) (sle_owner e) (sle_owner f)"
proof -
  have "lock_inv (le_owners env) w" using assms(2) by (simp add: lock_inv_def fresh_ids_def exclusive_def)
  from lock_inv_entries(1) [OF lock_run_inv [OF assms(1,3) this] assms(4-9)] assms(10) show ?thesis by blast
qed

definition demo_downgraded :: "unit lock_world" where
  "demo_downgraded = after_lock 1 STATE_NON_BLOCKING (demo_lock FSAL_LOCK_R 10 10)
     (after_lock 1 STATE_NON_BLOCKING (demo_lock FSAL_LOCK_W 0 0) demo_file)"

theorem locks_exclude_witness:
  "map (\<lambda>e. (sle_owner e, sle_blocked e)) (lw_locks demo_waiting) = [(1, STATE_NON_BLOCKING), (2, STATE_NLM_BLOCKING)]
   \<and> map (\<lambda>e. (sle_owner e, sle_blocked e)) (lw_locks demo_granting) = [(2, STATE_GRANTING)]
   \<and> (\<exists>e f. lw_locks demo_downgraded = [e, f] \<and> \<not> different_owners (le_owners demo_env) (sle_owner e) (sle_owner f))"
proof (intro conjI)
  show "map (\<lambda>e. (sle_owner e, sle_blocked e)) (lw_locks demo_waiting) = [(1, STATE_NON_BLOCKING), (2, STATE_NLM_BLOCKING)]"
    "map (\<lambda>e. (sle_owner e, sle_blocked e)) (lw_locks demo_granting) = [(2, STATE_GRANTING)]" by code_simp+
  have "map (\<lambda>e. (sle_blocked e, sle_lock e)) (lw_locks demo_downgraded)
      = [(STATE_NON_BLOCKING, demo_lock FSAL_LOCK_W 0 0), (STATE_NON_BLOCKING, demo_lock FSAL_LOCK_R 10 10)]"
    by code_simp
  then obtain e f where ef: "lw_locks demo_downgraded = [e, f]" "sle_blocked e = STATE_NON_BLOCKING"
    "sle_blocked f = STATE_NON_BLOCKING" "sle_lock e = demo_lock FSAL_LOCK_W 0 0" "sle_lock f = demo_lock FSAL_LOCK_R 10 10"
    by auto
  have run: "lock_run demo_env demo_file demo_downgraded"
    unfolding demo_downgraded_def by (blast intro: lock_run_trans after_lock_step)
  have "covers (sle_lock e) 12" "covers (sle_lock f) 12" by (simp_all add: ef demo_lock_def covers_def lock_end_def)
  then show "\<exists>e f. lw_locks demo_downgraded = [e, f] \<and> \<not> different_owners (le_owners demo_env) (sle_owner e) (sle_owner f)"
    using locks_exclude [OF run, of e f 12] ef by (simp add: demo_file_def demo_env_def demo_lock_def)
qed

section \<open>What an entry stands for\<close>

text \<open>
  The part of an entry that decides who holds what: references, block data and the kind of lock that
  \<^verbatim>\<open>do_lock_op\<close> writes into the parameters play no role.
\<close>

definition view :: "state_lock_entry_t \<Rightarrow> state_lock_entry_t" where
  "view e = e\<lparr>sle_ref_count := 0, sle_block_data := None,
     sle_lock := (sle_lock e)\<lparr>lock_sle_type := FSAL_POSIX_LOCK\<rparr>\<rparr>"

abbreviation views :: "'f lock_world \<Rightarrow> state_lock_entry_t list" where
  "views w \<equiv> map view (lw_locks w)"

lemma view_fields [simp]:
  "sle_id (view e) = sle_id e" "sle_owner (view e) = sle_owner e" "sle_blocked (view e) = sle_blocked e"
  "lock_type (sle_lock (view e)) = lock_type (sle_lock e)" "lock_start (sle_lock (view e)) = lock_start (sle_lock e)"
  "lock_length (sle_lock (view e)) = lock_length (sle_lock e)" "lock_end (sle_lock (view e)) = lock_end (sle_lock e)"
  "covers (sle_lock (view e)) x = covers (sle_lock e) x"
  by (simp_all add: view_def lock_end_def covers_def)

lemma view_same [simp]:
  "held_by B so (view e) = held_by B so e" "conflicts so ow lk (view e) = conflicts so ow lk e"
  "conflicts so ow (sle_lock (view e)) f = conflicts so ow (sle_lock e) f"
  by (simp_all add: held_by_def conflicts_def overlaps_def)

lemma held_views: "held B so (map view ls) = held B so ls"
  by (simp add: held_def)

lemma overlapping_views: "get_overlapping_entry so ow lk (map view ls) = map_option view (get_overlapping_entry so ow lk ls)"
  by (induction ls) auto

lemma update_lock_views: "(\<And>e. view (f e) = view e) \<Longrightarrow> views (update_lock i f w) = views w"
  by (simp add: update_lock_def)

lemma do_lock_op_views:
  "ensures (do_lock_op env op owner lk overlap ty w) (\<lambda>(status, conflict, w').
     views w' = views w)"
proof -
  have "lw_locks w'' = lw_locks w'"
    if "unlock_ranges env es st w' = (st', w'')" for es st st' and w' w'' :: "'a lock_world"
    using that by (induction env es st w' rule: unlock_ranges.induct) (auto simp: Let_def split: prod.splits if_splits)
  then have "views w'' = views w'"
    if "do_unlock_no_owner env l ty w' = (st', w'')" for l st' and w' w'' :: "'a lock_world"
    using that unfolding do_unlock_no_owner_def
    by (auto simp: set_alloc_def split: prod.splits option.splits)
  then show ?thesis
    unfolding do_lock_op_def Let_def by (intro ensures_rules; auto)
qed

lemma entry_lock_op_views:
  "ensures (entry_lock_op env op i w) (\<lambda>(status, w'). views w' = views w)"
proof -
  have posix: "views (update_lock i (\<lambda>e. e\<lparr>sle_lock := (sle_lock e)\<lparr>lock_sle_type := FSAL_POSIX_LOCK\<rparr>\<rparr>) w) = views w" for i w
    by (rule update_lock_views) (simp add: view_def)
  show ?thesis
    unfolding entry_lock_op_def Let_def
    by (intro ensures_rules; auto dest!: ensuresD [OF do_lock_op_views] simp: posix simp del: map_eq_conv)
      (simp_all add: update_lock_def update_off_def)
qed


lemma views_frame [simp]:
  "views (w\<lparr>lw_cookies := a\<rparr>) = views w" "views (w\<lparr>lw_cookie_table := t\<rparr>) = views w"
  "views (w\<lparr>lw_orc := orc\<rparr>) = views w" "views (w\<lparr>lw_async := as\<rparr>) = views w" "views (w\<lparr>lw_gc_cookie := k\<rparr>) = views w"
  by simp_all

lemma malloc_views: "lw_malloc w = (ok, w') \<Longrightarrow> views w' = views w"
  by (auto simp: lw_malloc_def split: prod.splits)

lemma free_cookie_views: "ensures (free_cookie k unblock w) (\<lambda>w'. views w' = views w)"
  unfolding free_cookie_def Let_def
  by (intro ensures_rules; auto simp: bind_eq_Some_conv update_lock_def view_def lock_entry_dec_ref_def
      split: if_splits option.splits)

lemma attach_cookie_views: "views (attach_cookie k i b w) = views w"
  by (simp add: attach_cookie_def Let_def lock_entry_inc_ref_def update_lock_def view_def)

lemma acquire_grant_views: "ensures (acquire_grant env t i w) (\<lambda>(status, w'). views w' = views w)"
  unfolding acquire_grant_def
  by (cases t) (auto intro!: ensures_rules entry_lock_op_views)

lemma state_add_grant_cookie_views:
  "ensures (state_add_grant_cookie env k i w) (\<lambda>(status, w'). views w' = views w)"
  unfolding state_add_grant_cookie_def Let_def
  by (intro ensures_rules; auto dest!: malloc_views ensuresD [OF acquire_grant_views] ensuresD [OF free_cookie_views]
      simp: attach_cookie_views simp del: map_eq_conv)

lemma state_cancel_grant_views:
  "ensures (state_cancel_grant env k w) (\<lambda>(status, w'). views w' = views w)"
  unfolding state_cancel_grant_def
  by (intro ensures_rules; auto dest!: ensuresD [OF entry_lock_op_views] ensuresD [OF free_cookie_views] simp del: map_eq_conv)

lemma schedule_grant_views: "schedule_grant env k e w = (status, w') \<Longrightarrow> views w' = views w"
  by (auto simp: schedule_grant_def fill_netobj_def state_async_schedule_def lw_malloc_def Let_def
      split: prod.splits if_splits option.splits)

lemma nlm_granted_callback_views:
  "ensures (nlm_granted_callback env i w) (\<lambda>(status, w'). views w' = views w)"
  unfolding nlm_granted_callback_def Let_def next_granted_cookie_def
  by (intro ensures_rules; auto dest!: malloc_views ensuresD [OF state_add_grant_cookie_views] schedule_grant_views
      ensuresD [OF state_cancel_grant_views] simp del: map_eq_conv)

section \<open>Granting leaves the locks that are held alone\<close>

abbreviation waiting :: "state_blocking_t set" where
  "waiting \<equiv> {STATE_NLM_BLOCKING, STATE_NFSV4_BLOCKING}"

definition settled :: "'f lock_world \<Rightarrow> state_lock_entry_t list" where
  "settled w = filter (\<lambda>e. sle_blocked e = STATE_NON_BLOCKING) (views w)"

lemma settled_views: "views w' = views w \<Longrightarrow> settled w' = settled w"
  by (simp add: settled_def)

lemma settled_held: "held {STATE_NON_BLOCKING} so (lw_locks w) = held {STATE_NON_BLOCKING} so (settled w)"
proof -
  have "held {STATE_NON_BLOCKING} so (filter (\<lambda>e. sle_blocked e = STATE_NON_BLOCKING) ls) = held {STATE_NON_BLOCKING} so ls" for ls
    by (auto simp: held_def held_by_def)
  then show ?thesis by (simp add: settled_def held_views)
qed

lemma settled_set_blocked:
  assumes "b \<noteq> STATE_NON_BLOCKING" and "\<forall>e\<in>set (lw_locks w). sle_id e = i \<longrightarrow> sle_blocked e \<noteq> STATE_NON_BLOCKING"
    and "\<And>e. view (f e) = view (e\<lparr>sle_blocked := b\<rparr>)"
  shows "settled (update_lock i f w) = settled w"
proof -
  have "filter (\<lambda>e. sle_blocked e = STATE_NON_BLOCKING) (map view (map (\<lambda>e. if sle_id e = i then f e else e) ls))
      = filter (\<lambda>e. sle_blocked e = STATE_NON_BLOCKING) (map view ls)"
    if "\<forall>e\<in>set ls. sle_id e = i \<longrightarrow> sle_blocked e \<noteq> STATE_NON_BLOCKING" for ls
    using that
  proof (induction ls)
    case (Cons e ls)
    have "sle_blocked (f e) = b" using arg_cong [OF assms(3) [of e], of sle_blocked] by simp
    then show ?case using Cons assms(1) by simp
  qed simp
  then show ?thesis using assms(2) by (simp add: settled_def update_lock_def)
qed

lemma settled_remove:
  assumes "\<forall>x\<in>set (lw_locks w). sle_id x = sle_id e \<longrightarrow> sle_blocked x \<noteq> STATE_NON_BLOCKING"
  shows "settled (remove_from_locklist e w) = settled w"
proof -
  have "filter (\<lambda>e. sle_blocked e = STATE_NON_BLOCKING) (map view (filter (\<lambda>x. sle_id x \<noteq> sle_id e) ls))
      = filter (\<lambda>e. sle_blocked e = STATE_NON_BLOCKING) (map view ls)"
    if "\<forall>x\<in>set ls. sle_id x = sle_id e \<longrightarrow> sle_blocked x \<noteq> STATE_NON_BLOCKING" for ls
    using that by (induction ls) auto
  then show ?thesis using assms by (simp add: settled_def remove_from_locklist_def)
qed

lemma update_lock_elem:
  assumes "x \<in> set (lw_locks (update_lock i f w))"
  obtains y where "y \<in> set (lw_locks w)" "sle_id y = i" "x = f y" | "x \<in> set (lw_locks w)" "sle_id x \<noteq> i"
  using assms by (auto simp: update_lock_def split: if_splits)

lemma views_id_blocked:
  assumes "views w' = views w"
  shows "(\<forall>e\<in>set (lw_locks w'). sle_id e = i \<longrightarrow> P (sle_blocked e)) = (\<forall>e\<in>set (lw_locks w). sle_id e = i \<longrightarrow> P (sle_blocked e))"
proof -
  have "(\<forall>e\<in>set ls. sle_id e = i \<longrightarrow> P (sle_blocked e)) = (\<forall>v\<in>set (map view ls). sle_id v = i \<longrightarrow> P (sle_blocked v))" for ls
    by auto
  then show ?thesis using assms by metis
qed

lemma try_to_grant_lock_settled:
  assumes "try_to_grant_lock env i w = Some w'" and "\<forall>e\<in>set (lw_locks w). sle_id e = i \<longrightarrow> sle_blocked e \<in> waiting"
  shows "settled w' = settled w"
proof -
  let ?f = "\<lambda>e. e\<lparr>sle_blocked := STATE_GRANTING,
      sle_block_data := map_option (\<lambda>b. if sbd_grant_type b = STATE_GRANT_NONE
        then b\<lparr>sbd_grant_type := STATE_GRANT_INTERNAL\<rparr> else b) (sle_block_data e)\<rparr>"
  have nb: "\<forall>e\<in>set (lw_locks w). sle_id e = i \<longrightarrow> sle_blocked e \<noteq> STATE_NON_BLOCKING" using assms(2) by auto
  have upd: "settled (update_lock i ?f w) = settled w"
    by (rule settled_set_blocked [OF _ nb, of STATE_GRANTING]) (simp_all add: view_def)
  have upd_nb: "\<forall>x\<in>set (lw_locks (update_lock i ?f w)). sle_id x = i \<longrightarrow> sle_blocked x \<noteq> STATE_NON_BLOCKING"
  proof (intro ballI impI)
    fix x assume x: "x \<in> set (lw_locks (update_lock i ?f w))" "sle_id x = i"
    from x(1) show "sle_blocked x \<noteq> STATE_NON_BLOCKING"
      by (rule update_lock_elem) (use x(2) in simp_all)
  qed
  obtain e where e: "find_lock i w = Some e" using assms(1) by (auto simp: try_to_grant_lock_def bind_eq_Some_conv)
  have eb: "sle_blocked e \<noteq> STATE_NON_BLOCKING" using nb find_lock_SomeD [OF e] by blast
  have call: "settled w1 = settled w \<and> (\<forall>x\<in>set (lw_locks w1). sle_id x = i \<longrightarrow> sle_blocked x \<noteq> STATE_NON_BLOCKING)"
    if "nlm_granted_callback env i (update_lock i ?f w) = Some (st, w1)" for st w1
  proof -
    have v: "views w1 = views (update_lock i ?f w)" using ensuresD [OF nlm_granted_callback_views that] by simp
    show ?thesis
      using settled_views [OF v] upd views_id_blocked [OF v, of i "\<lambda>b. b \<noteq> STATE_NON_BLOCKING"] upd_nb by simp
  qed
  have restore: "settled (set_blocked i (sle_blocked e) w1) = settled w1"
    if "\<forall>x\<in>set (lw_locks w1). sle_id x = i \<longrightarrow> sle_blocked x \<noteq> STATE_NON_BLOCKING" for w1 :: "'a lock_world"
    unfolding set_blocked_def by (rule settled_set_blocked [OF eb that]) simp
  have removed: "settled (remove_from_locklist x w1) = settled w1"
    if "\<forall>x\<in>set (lw_locks w1). sle_id x = i \<longrightarrow> sle_blocked x \<noteq> STATE_NON_BLOCKING" "find_lock i w1 = Some x"
    for x and w1 :: "'a lock_world"
    by (rule settled_remove) (use that find_lock_SomeD(2) [OF that(2)] in blast)
  show ?thesis
  proof (cases "sle_blocked e \<noteq> STATE_CANCELED \<and> sle_block_data e \<noteq> None")
    case True
    then obtain st w1 where c: "nlm_granted_callback env i (update_lock i ?f w) = Some (st, w1)"
      and fin: "w' = set_blocked i (sle_blocked e) w1 \<or> w' = w1
        \<or> (\<exists>x. find_lock i w1 = Some x \<and> w' = remove_from_locklist x w1)"
      using assms(1) e unfolding try_to_grant_lock_def by (auto simp: bind_eq_Some_conv split: if_splits)
    show ?thesis using call [OF c] fin restore removed by metis
  next
    case False
    then obtain x where "find_lock i w = Some x" "w' = remove_from_locklist x w"
      using assms(1) e unfolding try_to_grant_lock_def by (auto simp: bind_eq_Some_conv)
    then show ?thesis using removed [OF nb] by simp
  qed
qed

lemma lock_inv_blocked:
  assumes "lock_inv so w" and "find_lock i w = Some e" and "P (sle_blocked e)"
  shows "\<forall>x\<in>set (lw_locks w). sle_id x = i \<longrightarrow> P (sle_blocked x)"
  using lock_inv_find [OF assms(1,2)] assms(3) by blast

lemma grant_loop_settled:
  "grant_loop env is w = Some w' \<Longrightarrow> lock_inv (le_owners env) w \<Longrightarrow> settled w' = settled w"
proof (induction "is" arbitrary: w)
  case (Cons i "is")
  obtain e where e: "find_lock i w = Some e" using Cons.prems(1) by (auto simp: bind_eq_Some_conv)
  then consider "grant_loop env is w = Some w'"
    | w1 where "try_to_grant_lock env i w = Some w1" "grant_loop env is w1 = Some w'"
      "get_overlapping_entry (le_owners env) (sle_owner e) (sle_lock e) (lw_locks w) = None" "sle_blocked e \<in> waiting"
    using Cons.prems(1) by (auto simp: bind_eq_Some_conv split: if_splits)
  then show ?case
  proof cases
    case 2
    have "settled w1 = settled w"
      by (rule try_to_grant_lock_settled [OF 2(1) lock_inv_blocked [OF Cons.prems(2) e, of "\<lambda>b. b \<in> waiting", OF 2(4)]])
    moreover have "lock_inv (le_owners env) w1"
      by (rule try_to_grant_lock_inv [OF 2(1) Cons.prems(2) e 2(3)]) (use 2(4) in auto)
    ultimately show ?thesis using Cons.IH [OF 2(2)] by simp
  qed (use Cons in blast)
qed simp

lemma grant_blocked_locks_settled:
  "grant_blocked_locks env w = Some w' \<Longrightarrow> lock_inv (le_owners env) w \<Longrightarrow> settled w' = settled w"
  by (auto simp: grant_blocked_locks_def split: if_splits dest: grant_loop_settled)

lemma cancel_blocked_lock_settled:
  assumes "cancel_blocked_lock env i w = Some w'" and "lock_inv so w"
    and "find_lock i w = Some e" "sle_blocked e \<noteq> STATE_NON_BLOCKING"
  shows "settled w' = settled w"
proof -
  define w1 where "w1 = set_blocked i STATE_CANCELED w"
  note nb = lock_inv_blocked [OF assms(2,3), of "\<lambda>b. b \<noteq> STATE_NON_BLOCKING", OF assms(4)]
  have s1: "settled w1 = settled w"
    unfolding w1_def set_blocked_def by (rule settled_set_blocked [OF _ nb]) simp_all
  have nb1: "\<forall>x\<in>set (lw_locks w1). sle_id x = i \<longrightarrow> sle_blocked x \<noteq> STATE_NON_BLOCKING"
  proof (intro ballI impI)
    fix x assume x: "x \<in> set (lw_locks w1)" "sle_id x = i"
    from x(1) show "sle_blocked x \<noteq> STATE_NON_BLOCKING"
      unfolding w1_def set_blocked_def by (rule update_lock_elem) (use x(2) in simp_all)
  qed
  have free: "views z = views y" if "free_cookie k True y = Some z" for k and y z :: "'a lock_world"
    using ensuresD [OF free_cookie_views that] .
  have op: "views z = views y" if "entry_lock_op env FSAL_OP_CANCEL i y = Some (st, z)" for st and y z :: "'a lock_world"
    using ensuresD [OF entry_lock_op_views that] by simp
  obtain w2 where v: "views w2 = views w1"
    and fin: "w' = w2 \<or> (\<exists>x. find_lock i w2 = Some x \<and> w' = remove_from_locklist x w2)"
  proof (cases "Option.bind (sle_block_data e) sbd_blocked_cookie")
    case None
    then show thesis
      using that assms(1,3) op unfolding cancel_blocked_lock_def w1_def [symmetric] Let_def
      by (fastforce simp: bind_eq_Some_conv split: if_splits simp del: map_eq_conv)
  next
    case (Some k)
    then show thesis
      using that assms(1,3) free unfolding cancel_blocked_lock_def w1_def [symmetric] Let_def state_find_grant_def
      by (fastforce simp: bind_eq_Some_conv split: if_splits simp del: map_eq_conv)
  qed
  have s2: "settled w2 = settled w" using settled_views [OF v] s1 by simp
  have nb2: "\<forall>x\<in>set (lw_locks w2). sle_id x = i \<longrightarrow> sle_blocked x \<noteq> STATE_NON_BLOCKING"
    using views_id_blocked [OF v, of i "\<lambda>b. b \<noteq> STATE_NON_BLOCKING"] nb1 by simp
  have "settled (remove_from_locklist x w2) = settled w2" if "find_lock i w2 = Some x" for x
    by (rule settled_remove) (use nb2 find_lock_SomeD(2) [OF that] in blast)
  then show ?thesis using s2 fin by metis
qed


lemma cancel_loop_settled:
  "cancel_loop env owner state lk is w = Some w' \<Longrightarrow> lock_inv so w \<Longrightarrow> settled w' = settled w"
proof (induction "is" arbitrary: w)
  case (Cons i "is")
  obtain e where e: "find_lock i w = Some e" using Cons.prems(1) by (auto simp: bind_eq_Some_conv)
  then consider "cancel_loop env owner state lk is w = Some w'"
    | w1 where "cancel_blocked_lock env i w = Some w1" "cancel_loop env owner state lk is w1 = Some w'"
      "sle_blocked e \<noteq> STATE_NON_BLOCKING"
    using Cons.prems(1) by (auto simp: bind_eq_Some_conv split: if_splits)
  then show ?case
  proof cases
    case 2
    have "settled w1 = settled w" by (rule cancel_blocked_lock_settled [OF 2(1) Cons.prems(2) e 2(3)])
    moreover have "lock_inv so w1" by (rule lock_inv_shrinks [OF cancel_blocked_lock_shrinks [OF 2(1)] Cons.prems(2)])
    ultimately show ?thesis using Cons.IH [OF 2(2)] by simp
  qed (use Cons in blast)
qed simp

section \<open>Unlocking\<close>

text \<open>What the owner of an unlock request gives up: its bytes in the range.\<close>

definition release :: "owner_heap \<Rightarrow> nat \<Rightarrow> fsal_lock_param_t \<Rightarrow> (nat \<times> fsal_lock_t \<times> u64) set \<Rightarrow> (nat \<times> fsal_lock_t \<times> u64) set" where
  "release so owner lk H = {(ow, t, x) \<in> H. different_owners so ow owner \<or> \<not> covers lk x}"

lemma subtract_releases:
  assumes "subtract_lock_from_list so (Some owner) state lk ls al = (STATE_SUCCESS, ls', removed, al')"
    and "state = None \<or> so_type (so owner) \<noteq> STATE_LOCK_OWNER_NLM"
  shows "held {STATE_NON_BLOCKING} so ls' = release so owner lk (held {STATE_NON_BLOCKING} so ls)"
proof -
  let ?B = "{STATE_NON_BLOCKING}"
  let ?skip = "subtract_skips so (Some owner) state"
  have eq: "held ?B so ls' = held ?B so (filter ?skip ls) \<union> (held ?B so (filter (\<lambda>e. \<not> ?skip e) ls) - covered lk)"
    using subtract_loop_held [OF assms(1) [unfolded subtract_lock_from_list_def] refl, of ?B] by simp
  have skip: "?skip e \<longleftrightarrow> different_owners so ow owner" if "(ow, t, x) \<in> held_by ?B so e" for e ow t x
  proof -
    have "sle_blocked e = STATE_NON_BLOCKING" "\<not> different_owners so (sle_owner e) ow"
      using that by (auto simp: held_by_def)
    then have "different_owners so (sle_owner e) owner \<longleftrightarrow> different_owners so ow owner"
      using same_owner_trans [of so "sle_owner e" ow owner] same_owner_trans [of so ow "sle_owner e" owner]
        different_owners_sym [of so "sle_owner e" ow] by blast
    moreover have "so_type (so (sle_owner e)) = so_type (so owner)" if "\<not> different_owners so (sle_owner e) owner"
      using that by (auto simp: different_owners_def split: if_splits)
    ultimately show ?thesis
      using \<open>sle_blocked e = _\<close> assms(2) by (auto simp: subtract_skips_def lock_owner_is_nlm_def)
  qed
  have "(ow, t, x) \<in> held ?B so (filter ?skip ls) \<longleftrightarrow> (ow, t, x) \<in> held ?B so ls \<and> different_owners so ow owner" for ow t x
    using skip by (simp add: held_def) blast
  moreover have "(ow, t, x) \<in> held ?B so (filter (\<lambda>e. \<not> ?skip e) ls)
      \<longleftrightarrow> (ow, t, x) \<in> held ?B so ls \<and> \<not> different_owners so ow owner" for ow t x
    using skip by (simp add: held_def) blast
  ultimately show ?thesis
    unfolding eq release_def covered_def by auto
qed


lemma no_fsal_locks: "\<not> le_supports env fso_lock_support \<Longrightarrow> do_lock_op env op owner lk overlap ty w = Some (STATE_SUCCESS, None, w)"
  by (simp add: do_lock_op_def)

lemma settled_fields [simp]:
  "settled (cache_inode_dec_pin_ref w) = settled w" "settled (dec_pin_if_empty w) = settled w"
  "settled (pin_if_empty w) = settled w" "settled (w\<lparr>lw_fsal := f\<rparr>) = settled w" "settled (w\<lparr>lw_pins := p\<rparr>) = settled w"
  "settled (set_alloc al w) = settled w"
  by (simp_all add: settled_def)

lemma inc_pin_settled: "cache_inode_inc_pin_ref w = (st, w') \<Longrightarrow> settled w' = settled w"
  by (auto simp: cache_inode_inc_pin_ref_def split: if_splits)

lemma state_unlock_list_refines:
  assumes "state_unlock_list env owner state lk ty w = Some (status, w')" and "lock_inv (le_owners env) w"
    and "\<not> le_supports env fso_lock_support" and "state = None \<or> so_type (le_owners env owner) \<noteq> STATE_LOCK_OWNER_NLM"
  shows "held {STATE_NON_BLOCKING} (le_owners env) (lw_locks w') =
    (let H = held {STATE_NON_BLOCKING} (le_owners env) (lw_locks w) in
     if status = STATE_SUCCESS then release (le_owners env) owner lk H else H)"
proof -
  let ?so = "le_owners env" and ?B = "{STATE_NON_BLOCKING}"
  obtain w1 st ls removed al where w1: "cancel_blocked_locks_range env (Some owner) state lk w = Some w1"
    and s: "subtract_lock_from_list ?so (Some owner) state lk (lw_locks w1) (lw_alloc w1) = (st, ls, removed, al)"
    using assms(1) unfolding state_unlock_list_def bind_eq_Some_conv by (metis prod_cases4)
  note c = w1 [unfolded cancel_blocked_locks_range_def]
  have h1: "held ?B ?so (lw_locks w1) = held ?B ?so (lw_locks w)"
    using cancel_loop_settled [OF c assms(2)] by (simp add: settled_held)
  have inv1: "lock_inv ?so w1" by (rule lock_inv_shrinks [OF cancel_loop_shrinks [OF c] assms(2)])
  define w2 where "w2 = dec_pin_if_empty (relink ls (set_alloc al w1))"
  have w2: "lw_locks w2 = ls" by (simp add: w2_def)
  have inv2: "lock_inv ?so w2" using lock_inv_shrinks [OF subtract_relink_shrinks [OF s] inv1] by (simp add: w2_def)
  show ?thesis
  proof (cases "st = STATE_SUCCESS")
    case True
    then obtain w3 where g: "grant_blocked_locks env w2 = Some w3" and w': "w' = cache_inode_dec_pin_ref w3" "status = STATE_SUCCESS"
      using assms(1) w1 s unfolding state_unlock_list_def w2_def
      by (auto simp: no_fsal_locks [OF assms(3)] bind_eq_Some_conv)
    have "held ?B ?so (lw_locks w') = held ?B ?so ls"
      using grant_blocked_locks_settled [OF g inv2] settled_held [of ?so w3] settled_held [of ?so w2] w' w2 by simp
    then show ?thesis using subtract_releases [OF s [unfolded True] assms(4)] h1 w'(2) by simp
  next
    case False
    then have w': "lw_locks w' = ls" "status \<noteq> STATE_SUCCESS"
      using assms(1) w1 s w2 unfolding state_unlock_list_def w2_def by auto
    have "mset ls = mset (lw_locks w1)"
      using subtract_loop_failure [OF s [unfolded subtract_lock_from_list_def] False] by simp
    then have "set ls = set (lw_locks w1)" using mset_eq_setD by blast
    then show ?thesis using w' h1 by (simp add: held_def)
  qed
qed


text \<open>
  C7 Unlocking implements its specification on a file system that leaves locks to the server: after
  a successful unlock the owner has given up exactly its bytes in the range, in every mode, and
  everything else is held as before; after a failed one, for want of memory included, every
  lock is held as before.  Splits, cancelled waiters and the grants that follow make no difference.
\<close>

theorem unlock_refines:
  assumes "state_unlock env owner state deleg lk ty w = Some (status, w')" and "lock_inv (le_owners env) w"
    and "\<not> le_supports env fso_lock_support" and "\<not> deleg"
    and "state = None \<or> so_type (le_owners env owner) \<noteq> STATE_LOCK_OWNER_NLM"
  shows "held {STATE_NON_BLOCKING} (le_owners env) (lw_locks w') =
    (let H = held {STATE_NON_BLOCKING} (le_owners env) (lw_locks w) in
     if status = STATE_SUCCESS then release (le_owners env) owner lk H else H)"
proof -
  obtain st w1 where pin: "cache_inode_inc_pin_ref w = (st, w1)" by (rule prod.exhaust)
  have locks: "lw_locks w1 = lw_locks w" using arg_cong [OF pin, of "lw_locks \<circ> snd"] by simp
  have inv: "lock_inv (le_owners env) w1" using inc_pin_inv [OF pin] assms(2) by simp
  consider "lw_locks w' = lw_locks w" "lw_locks w = []" | "lw_locks w' = lw_locks w" "status \<noteq> STATE_SUCCESS"
    | "state_unlock_list env owner state lk ty w1 = Some (status, w')"
    using assms(1,4) pin locks
    by (auto simp: state_unlock_def cache_inode_inc_pin_ref_def split: if_splits)
  then show ?thesis
  proof cases
    case 3
    from state_unlock_list_refines [OF this inv assms(3,5)] show ?thesis by (simp add: locks)
  qed (simp_all add: release_def)
qed

definition demo_locked :: "unit lock_world" where
  "demo_locked = after_lock 1 STATE_NON_BLOCKING (demo_lock FSAL_LOCK_W 0 10) demo_file"

lemma demo_file_inv: "lock_inv so demo_file"
  by (simp add: demo_file_def lock_inv_def fresh_ids_def exclusive_def)

lemma demo_invs: "lock_inv (le_owners demo_env) demo_locked" "lock_inv (le_owners demo_env) demo_waiting"
  "lock_inv (le_owners demo_env) demo_granting"
  unfolding demo_locked_def
  by (rule lock_run_inv; (rule demo_runs after_lock_step demo_file_inv)?; simp add: demo_env_def demo_file_inv)+

lemma demo_locked_list:
  "\<exists>e. lw_locks demo_locked = [e] \<and> sle_owner e = 1 \<and> sle_blocked e = STATE_NON_BLOCKING
     \<and> sle_lock e = demo_lock FSAL_LOCK_W 0 10"
proof -
  have "map (\<lambda>e. (sle_owner e, sle_blocked e, sle_lock e)) (lw_locks demo_locked)
      = [(1, STATE_NON_BLOCKING, demo_lock FSAL_LOCK_W 0 10)]" by code_simp
  then show ?thesis by auto
qed

theorem unlock_refines_witness:
  "\<exists>w'. state_unlock demo_env 1 None False (demo_lock FSAL_LOCK_W 3 2) POSIX_LOCK demo_locked = Some (STATE_SUCCESS, w')
     \<and> (1, FSAL_LOCK_W, 2) \<in> held {STATE_NON_BLOCKING} (le_owners demo_env) (lw_locks w')
     \<and> (1, FSAL_LOCK_W, 3) \<notin> held {STATE_NON_BLOCKING} (le_owners demo_env) (lw_locks w')
     \<and> (1, FSAL_LOCK_W, 5) \<in> held {STATE_NON_BLOCKING} (le_owners demo_env) (lw_locks w')"
proof -
  let ?r = "state_unlock demo_env 1 None False (demo_lock FSAL_LOCK_W 3 2) POSIX_LOCK demo_locked"
  have "map_option fst ?r = Some STATE_SUCCESS" by code_simp
  then obtain w' where r: "?r = Some (STATE_SUCCESS, w')" by auto
  obtain e where e: "lw_locks demo_locked = [e]" "sle_owner e = 1" "sle_blocked e = STATE_NON_BLOCKING"
    "sle_lock e = demo_lock FSAL_LOCK_W 0 10" using demo_locked_list by blast
  have h: "held {STATE_NON_BLOCKING} (le_owners demo_env) (lw_locks w') =
      release (le_owners demo_env) 1 (demo_lock FSAL_LOCK_W 3 2) (held_by {STATE_NON_BLOCKING} (le_owners demo_env) e)"
    using unlock_refines [OF r demo_invs(1)] e by (simp add: demo_env_def)
  show ?thesis
    using r by (auto simp: h release_def held_by_def e demo_lock_def covers_def lock_end_def)
qed

section \<open>Locking\<close>

text \<open>What a granted request asks for: in its range the owner holds its mode and nothing else.\<close>

definition acquire :: "owner_heap \<Rightarrow> nat \<Rightarrow> fsal_lock_param_t \<Rightarrow> (nat \<times> fsal_lock_t \<times> u64) set \<Rightarrow> (nat \<times> fsal_lock_t \<times> u64) set" where
  "acquire so owner lk H = release so owner lk H
     \<union> {(ow, t, x). \<not> different_owners so ow owner \<and> t = lock_type lk \<and> covers lk x}"

lemma assign_acquire:
  assumes "sle_blocked l = STATE_NON_BLOCKING"
  shows "assign so H l = acquire so (sle_owner l) (sle_lock l) H"
  using assms different_owners_sym
  by (auto simp: assign_def acquire_def release_def inside_def held_by_def)

lemma acquire_held:
  assumes "f \<in> set ls" "sle_blocked f = STATE_NON_BLOCKING" "\<not> different_owners so (sle_owner f) owner"
    and "lock_type (sle_lock f) = lock_type lk" "lock_start (sle_lock f) \<le> lock_start lk" "lock_end lk \<le> lock_end (sle_lock f)"
    and "one_mode owner (held {STATE_NON_BLOCKING} so ls)"
  shows "acquire so owner lk (held {STATE_NON_BLOCKING} so ls) = held {STATE_NON_BLOCKING} so ls"
proof -
  let ?H = "held {STATE_NON_BLOCKING} so ls"
  have own: "(owner, lock_type lk, x) \<in> ?H" if "covers lk x" for x
    using that assms(1-6) by (force simp: held_def held_by_def covers_def)
  have same: "(ow, t, x) \<in> ?H \<longleftrightarrow> (owner, t, x) \<in> ?H" if "\<not> different_owners so ow owner" for ow t x
    using held_same_owner(1) [OF that] .
  have "(ow, t, x) \<in> acquire so owner lk ?H \<longleftrightarrow> (ow, t, x) \<in> ?H" for ow t x
  proof (cases "\<not> different_owners so ow owner \<and> covers lk x")
    case True
    then show ?thesis
      using own [of x] same [of ow] assms(7) by (auto simp: acquire_def release_def one_mode_def)
  next
    case False
    then show ?thesis by (auto simp: acquire_def release_def)
  qed
  then show ?thesis by (auto simp: set_eq_iff)
qed

text \<open>
  What merging relies on: none of the owner's locks is being granted, none reaches the last
  offset and each byte is held in one mode.
\<close>

definition mergeable :: "owner_heap \<Rightarrow> nat \<Rightarrow> fsal_lock_param_t \<Rightarrow> state_lock_entry_t list \<Rightarrow> bool" where
  "mergeable so owner lk ls \<longleftrightarrow>
     lock_wf lk \<and> lock_end lk \<noteq> - 1 \<and> one_mode owner (held {STATE_NON_BLOCKING} so ls)
     \<and> (\<forall>e\<in>set ls. \<not> different_owners so (sle_owner e) owner \<longrightarrow>
          sle_blocked e \<noteq> STATE_GRANTING \<and> lock_end (sle_lock e) \<noteq> - 1)"

lemma state_lock_finish_refines:
  assumes "state_lock_finish env blocking block_data POSIX_LOCK e STATE_SUCCESS w = Some w'"
    and "lock_inv (le_owners env) w" and "memory_ok (lw_orc w)"
    and "sle_id e \<notin> set (ids (lw_locks w))" and "sle_id e < lw_next w" and "sle_type e = POSIX_LOCK"
    and "sle_blocked e = STATE_NON_BLOCKING" and "mergeable (le_owners env) (sle_owner e) (sle_lock e) (lw_locks w)"
    and "\<And>f. f \<in> set (lw_locks w) \<Longrightarrow> \<not> conflicts (le_owners env) (sle_owner e) (sle_lock e) f"
  shows "held {STATE_NON_BLOCKING} (le_owners env) (lw_locks w') =
    acquire (le_owners env) (sle_owner e) (sle_lock e) (held {STATE_NON_BLOCKING} (le_owners env) (lw_locks w))"
proof -
  let ?so = "le_owners env" and ?B = "{STATE_NON_BLOCKING}"
  obtain e' ls al w1 where m: "merge_lock_entry ?so e (lw_locks w) (lw_alloc w) = Some (e', ls, al)"
    and g: "grant_blocked_locks env ((pin_if_empty (relink ls (set_alloc al w)))\<lparr>lw_locks := ls @ [e']\<rparr>) = Some w1"
    and w': "w' = cache_inode_dec_pin_ref w1"
    using assms(1) by (auto simp: state_lock_finish_def bind_eq_Some_conv)
  define w2 where "w2 = (pin_if_empty (relink ls (set_alloc al w)))\<lparr>lw_locks := ls @ [e']\<rparr>"
  have "lock_inv ?so (w\<lparr>lw_locks := ls @ [e'], lw_next := fst al\<rparr>)"
    using assms by (intro merge_new_inv [OF assms(2,4-7) _ m]) auto
  then have inv: "lock_inv ?so w2" by (simp add: lock_inv_def w2_def)
  have "\<forall>x\<in>set (e # lw_locks w). eof_free ?so (sle_owner e) x"
    using assms(8) by (auto simp: mergeable_def eof_free_def)
  moreover have "\<forall>x\<in>set (lw_locks w). sle_id x \<noteq> sle_id e" using assms(4) by (metis imageI list.set_map)
  ultimately have "held ?B ?so (ls @ [e']) = assign ?so (held ?B ?so (lw_locks w)) e"
    using merge_exact [of e "lw_alloc w" "lw_locks w" ?so] m assms(3,5,7,8)
    by (simp add: mergeable_def lw_alloc_def)
  moreover have "held ?B ?so (lw_locks w1) = held ?B ?so (ls @ [e'])"
    using grant_blocked_locks_settled [OF g [folded w2_def] inv] settled_held [of ?so w1] settled_held [of ?so w2]
    by (simp add: w2_def)
  ultimately show ?thesis using w' assign_acquire [OF assms(7)] by simp
qed


lemma find_blocked_request_status:
  "find_blocked_request env owner blocking lk ls = Some status \<Longrightarrow> status \<noteq> STATE_SUCCESS \<and> status \<noteq> STATE_LOCK_CONFLICT"
  by (induction env owner blocking lk ls rule: find_blocked_request.induct) (auto split: if_splits)

lemma state_lock_new_refines:
  assumes "state_lock_new env owner state blocking block_data lk POSIX_LOCK None overlap w = Some (STATE_SUCCESS, conflict, w')"
    and "lock_inv (le_owners env) w" and "\<not> le_supports env fso_lock_support"
    and "\<not> le_supports env fso_lock_support_async_block" and "memory_ok (lw_orc w)"
    and "mergeable (le_owners env) owner lk (lw_locks w)"
    and "\<And>f. f \<in> set (lw_locks w) \<Longrightarrow> \<not> conflicts (le_owners env) owner lk f"
  shows "held {STATE_NON_BLOCKING} (le_owners env) (lw_locks w') =
    acquire (le_owners env) owner lk (held {STATE_NON_BLOCKING} (le_owners env) (lw_locks w))"
proof -
  obtain r al where c: "create_state_lock_entry (le_export env) STATE_NON_BLOCKING owner state lk POSIX_LOCK (lw_alloc w) = (r, al)"
    by (rule prod.exhaust)
  have al: "lw_next w \<le> fst al" "memory_ok (snd al)"
    using c assms(5) by (auto simp: create_state_lock_entry_def draw_malloc_def lw_alloc_def memory_ok_def tick_def split: if_splits)
  from c assms(1,3,4) obtain e where r: "r = Some e"
    and fin: "state_lock_finish env blocking block_data POSIX_LOCK e STATE_SUCCESS (set_alloc al w) = Some w'"
    by (cases r) (auto simp: state_lock_new_def no_fsal_locks bind_eq_Some_conv)
  note e = create_entry_fields [OF c [unfolded r]]
  have inv: "lock_inv (le_owners env) (set_alloc al w)"
    by (rule lock_inv_shrinks [OF shrinks_same assms(2)]) (simp_all add: al)
  have id: "sle_id e \<notin> set (ids (lw_locks (set_alloc al w)))" "sle_id e < lw_next (set_alloc al w)"
    using e(1,2) assms(2) by (auto simp: lock_inv_def fresh_ids_def lw_alloc_def)
  show ?thesis
    using state_lock_finish_refines [OF fin inv _ id e(3,4)] al(2) assms(6,7) e(5,6) by simp
qed

lemma state_lock_new_conflict:
  "state_lock_new env owner state blocking block_data lk ty (Some f) overlap w = Some (status, conflict, w') \<Longrightarrow>
     \<not> le_supports env fso_lock_support_async_block \<Longrightarrow>
     status \<in> {STATE_LOCK_CONFLICT, STATE_MALLOC_ERROR, STATE_LOCK_BLOCKED} \<and> conflict = Some (sle_owner f, sle_lock f)"
  by (auto simp: state_lock_new_def Let_def bind_eq_Some_conv split: if_splits option.splits prod.splits)

lemma cache_inode_status_failure:
  "st \<noteq> CACHE_INODE_SUCCESS \<Longrightarrow> cache_inode_status_to_state_status st \<noteq> STATE_SUCCESS"
  "cache_inode_status_to_state_status st \<noteq> STATE_LOCK_CONFLICT"
  by (cases st; simp)+

lemma state_lock_cases [consumes 1, case_names early search]:
  assumes "state_lock env owner state blocking block_data lk ty w = Some (status, conflict, w')"
  obtains "status \<noteq> STATE_SUCCESS" "status \<noteq> STATE_LOCK_CONFLICT" "conflict = None" "lw_locks w' = lw_locks w"
  | w1 where "state_lock_search env owner state blocking block_data lk ty w1 = Some (status, conflict, w')"
    "lw_locks w1 = lw_locks w" "lw_orc w1 = lw_orc w" "lw_next w1 = lw_next w"
proof (cases "lw_dead w")
  case True
  then show thesis
    using that(1) assms cache_inode_status_failure(1) [of CACHE_INODE_DEAD_ENTRY]
      cache_inode_status_failure(2) [of CACHE_INODE_DEAD_ENTRY]
    by (simp add: state_lock_def cache_inode_inc_pin_ref_def)
next
  case False
  obtain st f where op: "le_open env (\<not> (lock_type lk = FSAL_LOCK_R \<and> le_supports env fso_reopen_method))
      (lock_reclaim lk) (lw_fsal w) = (st, f)" by (rule prod.exhaust)
  let ?w2 = "w\<lparr>lw_pins := lw_pins w + 1, lw_fsal := f\<rparr>"
  have run: "(if st \<noteq> CACHE_INODE_SUCCESS
       then Some (cache_inode_status_to_state_status st, None, cache_inode_dec_pin_ref ?w2)
       else case (if blocking \<noteq> STATE_NON_BLOCKING then find_blocked_request env owner blocking lk (lw_locks ?w2) else None) of
          Some status \<Rightarrow> Some (status, None, cache_inode_dec_pin_ref ?w2)
        | None \<Rightarrow> state_lock_search env owner state blocking block_data lk ty ?w2) = Some (status, conflict, w')"
    using assms False op by (auto simp: state_lock_def cache_inode_inc_pin_ref_def Let_def split: if_splits)
  show thesis
    using run that(1) that(2) [of ?w2]
    by (auto simp: cache_inode_status_failure split: if_splits option.splits dest: find_blocked_request_status)
qed



section \<open>Answers\<close>

text \<open>
  C17 A lock test tells the truth on a file system that leaves locks to the server: when the file
  can be opened it reports a conflict exactly when some other owner holds or is being granted a lock whose
  range overlaps the request and one of the two is exclusive, it names such a lock and its owner,
  and it changes no lock.
\<close>

theorem state_test_exact:
  assumes "\<not> le_supports env fso_lock_support" and "\<not> lw_dead w"
    and "le_open env False False (lw_fsal w) = (CACHE_INODE_SUCCESS, f)"
  shows "\<exists>status conflict. state_test env owner lk w = Some (status, conflict, w\<lparr>lw_fsal := f\<rparr>)
     \<and> (status = STATE_LOCK_CONFLICT \<and>
          (\<exists>e. conflict = Some (sle_owner e, sle_lock e) \<and> e \<in> set (lw_locks w) \<and> sle_blocked e \<in> active
             \<and> conflicts (le_owners env) owner lk e)
        \<or> status = STATE_SUCCESS \<and> conflict = None \<and>
          (\<forall>e\<in>set (lw_locks w). sle_blocked e \<in> active \<longrightarrow> \<not> conflicts (le_owners env) owner lk e))"
proof (cases "get_overlapping_entry (le_owners env) owner lk (lw_locks w)")
  case None
  then show ?thesis
    using assms get_overlapping_entry_None [OF None]
    by (auto simp: state_test_def cache_inode_inc_pin_ref_def cache_inode_dec_pin_ref_def no_fsal_locks)
next
  case (Some e)
  then show ?thesis
    using assms get_overlapping_entry_Some [OF Some]
    by (auto simp: state_test_def cache_inode_inc_pin_ref_def cache_inode_dec_pin_ref_def)
qed


theorem state_test_exact_witness:
  "\<exists>e. state_test demo_env 2 (demo_lock FSAL_LOCK_R 9 1) demo_locked
       = Some (STATE_LOCK_CONFLICT, Some (1, demo_lock FSAL_LOCK_W 0 10), demo_locked\<lparr>lw_fsal := ()\<rparr>)
     \<and> e \<in> set (lw_locks demo_locked) \<and> conflicts (le_owners demo_env) 2 (demo_lock FSAL_LOCK_R 9 1) e"
proof -
  have d: "\<not> lw_dead demo_locked" by code_simp
  obtain e where e: "lw_locks demo_locked = [e]" "sle_owner e = 1" "sle_blocked e = STATE_NON_BLOCKING"
    "sle_lock e = demo_lock FSAL_LOCK_W 0 10" using demo_locked_list by blast
  have c: "conflicts (le_owners demo_env) 2 (demo_lock FSAL_LOCK_R 9 1) e"
    by (simp add: conflicts_def overlaps_def e demo_lock_def lock_end_def demo_env_def different_owners_def compare_nlm_owner_def)
  show ?thesis
    using state_test_exact [of demo_env demo_locked "()" 2 "demo_lock FSAL_LOCK_R 9 1"] d e c
    by (auto simp: demo_env_def)
qed

text \<open>
  A refused request changes no lock and names its obstacle: on a file system that does not block in
  the background, a lock request that is answered with a conflict leaves every lock of the file as it was,
  and the holder and range it reports are those of a lock of the file whose owner differs, whose
  range overlaps the request, and one of the two is exclusive.
\<close>

theorem lock_conflict_named:
  assumes "state_lock env owner state blocking block_data lk ty w = Some (STATE_LOCK_CONFLICT, conflict, w')"
    and "\<not> le_supports env fso_lock_support" and "\<not> le_supports env fso_lock_support_async_block"
  shows "lw_locks w' = lw_locks w
    \<and> (\<exists>e\<in>set (lw_locks w). conflict = Some (sle_owner e, sle_lock e) \<and> conflicts (le_owners env) owner lk e)"
  using assms(1)
proof (cases rule: state_lock_cases)
  case (search w1)
  show ?thesis
  proof (cases "scan_locks env owner lk False (lw_locks w1)")
    case (Scan_Conflict f)
    then have new: "state_lock_new env owner state blocking block_data lk ty (Some f) True w1
        = Some (STATE_LOCK_CONFLICT, conflict, w')"
      using search(1) by (simp add: state_lock_search_def)
    then have "w' = cache_inode_dec_pin_ref w1"
      using assms(3) by (auto simp: state_lock_new_def Let_def bind_eq_Some_conv split: if_splits option.splits prod.splits)
    then show ?thesis
      using scan_locks_conflict [OF Scan_Conflict] state_lock_new_conflict [OF new assms(3)] search(2) by auto
  next
    case (Scan_Clear overlap)
    then show ?thesis
      using search(1) assms(3)
      by (auto simp: no_fsal_locks [OF assms(2)] state_lock_search_def state_lock_new_def Let_def bind_eq_Some_conv split: if_splits option.splits prod.splits)
  qed (use search(1) in \<open>auto simp: state_lock_search_def bind_eq_Some_conv\<close>)
qed simp

theorem lock_conflict_named_witness:
  "\<exists>conflict w'. state_lock demo_env 2 None STATE_NON_BLOCKING None (demo_lock FSAL_LOCK_R 9 5) POSIX_LOCK demo_locked
       = Some (STATE_LOCK_CONFLICT, conflict, w')
     \<and> lw_locks w' = lw_locks demo_locked \<and> conflict = Some (1, demo_lock FSAL_LOCK_W 0 10)"
proof -
  let ?r = "state_lock demo_env 2 None STATE_NON_BLOCKING None (demo_lock FSAL_LOCK_R 9 5) POSIX_LOCK demo_locked"
  have "map_option fst ?r = Some STATE_LOCK_CONFLICT" by code_simp
  then obtain conflict w' where r: "?r = Some (STATE_LOCK_CONFLICT, conflict, w')" by auto
  from lock_conflict_named [OF r] demo_locked_list show ?thesis
    using r by (auto simp: demo_env_def)
qed

section \<open>Waking the locks that wait\<close>

lemma malloc_ok:
  assumes "memory_ok (lw_orc w)"
  shows "lw_malloc w = (True, w\<lparr>lw_orc := tick (lw_orc w)\<rparr>)" and "memory_ok (tick (lw_orc w))"
  using assms by (simp_all add: lw_malloc_def memory_ok_def draw_malloc_def tick_def)

lemma find_lock_update:
  assumes "\<And>e. sle_id (f e) = sle_id e"
  shows "find_lock j (update_lock i f w) = (if j = i then map_option f (find_lock i w) else find_lock j w)"
proof -
  have "find (\<lambda>e. sle_id e = j) (map (\<lambda>e. if sle_id e = i then f e else e) ls)
      = (if j = i then map_option f (find (\<lambda>e. sle_id e = i) ls) else find (\<lambda>e. sle_id e = j) ls)" for ls
    using assms by (induction ls) auto
  then show ?thesis by (simp add: find_lock_def update_lock_def)
qed

lemma find_lock_fields [simp]:
  "find_lock j (w\<lparr>lw_orc := orc\<rparr>) = find_lock j w" "find_lock j (w\<lparr>lw_cookies := cs\<rparr>) = find_lock j w"
  "find_lock j (w\<lparr>lw_cookie_table := t\<rparr>) = find_lock j w" "find_lock j (w\<lparr>lw_gc_cookie := k\<rparr>) = find_lock j w"
  "find_lock j (w\<lparr>lw_async := as\<rparr>) = find_lock j w"
  by (simp_all add: find_lock_def)

lemma update_lock_frame [simp]:
  "lw_orc (update_lock i f w) = lw_orc w" "lw_cookie_table (update_lock i f w) = lw_cookie_table w"
  "lw_gc_cookie (update_lock i f w) = lw_gc_cookie w" "lw_async (update_lock i f w) = lw_async w"
  by (simp_all add: update_lock_def)

lemma attach_cookie_frame:
  "lw_orc (attach_cookie k i b w) = lw_orc w" "lw_cookie_table (attach_cookie k i b w) = k # lw_cookie_table w"
  "lw_gc_cookie (attach_cookie k i b w) = lw_gc_cookie w" "lw_async (attach_cookie k i b w) = lw_async w"
  "j \<noteq> i \<Longrightarrow> find_lock j (attach_cookie k i b w) = find_lock j w"
  "find_lock i (attach_cookie k i b w) = map_option (\<lambda>e. e\<lparr>sle_ref_count := sle_ref_count e + 1,
      sle_block_data := Some (b\<lparr>sbd_blocked_cookie := Some k\<rparr>)\<rparr>) (find_lock i w)"
  by (simp_all add: attach_cookie_def Let_def lock_entry_inc_ref_def find_lock_update option.map_comp comp_def)

text \<open>Without locks in the file-system layer and with memory, the cookie is attached and the lock acquired.\<close>

lemma state_add_grant_cookie_ok:
  assumes "\<not> le_supports env fso_lock_support" and "memory_ok (lw_orc w)" and "find_lock i w = Some e"
    and "sle_block_data e = Some b" and "sbd_grant_type b \<noteq> STATE_GRANT_NONE" and "k \<notin> set (lw_cookie_table w)"
  shows "\<exists>w'. state_add_grant_cookie env k i w = Some (STATE_SUCCESS, w') \<and> memory_ok (lw_orc w')
     \<and> lw_cookie_table w' = k # lw_cookie_table w \<and> lw_gc_cookie w' = lw_gc_cookie w \<and> lw_async w' = lw_async w
     \<and> (\<forall>j. j \<noteq> i \<longrightarrow> find_lock j w' = find_lock j w)
     \<and> (\<exists>e'. find_lock i w' = Some e' \<and> view e' = view e)"
proof -
  define w1 where "w1 = w\<lparr>lw_orc := tick (tick (tick (lw_orc w)))\<rparr>"
  define w2 where "w2 = attach_cookie k i b w1"
  let ?posix = "\<lambda>e. e\<lparr>sle_lock := (sle_lock e)\<lparr>lock_sle_type := FSAL_POSIX_LOCK\<rparr>\<rparr>"
  note t1 = malloc_ok [OF assms(2)]
  have t2: "memory_ok (tick (tick (lw_orc w)))" "memory_ok (tick (tick (tick (lw_orc w))))"
    using assms(2) by (simp_all add: memory_ok_def tick_def)
  have f2: "find_lock i w2 = Some (e\<lparr>sle_ref_count := sle_ref_count e + 1,
      sle_block_data := Some (b\<lparr>sbd_blocked_cookie := Some k\<rparr>)\<rparr>)"
    by (simp add: w2_def attach_cookie_frame w1_def assms(3))
  have op: "entry_lock_op env op i w2 = Some (STATE_SUCCESS, update_lock i ?posix w2)" for op
    using f2 by (simp add: entry_lock_op_def no_fsal_locks [OF assms(1)])
  have acq: "\<exists>w3. acquire_grant env (sbd_grant_type b) i w2 = Some (STATE_SUCCESS, w3) \<and> w3 \<in> {w2, update_lock i ?posix w2}"
    using assms(5) op by (cases "sbd_grant_type b") (auto simp: acquire_grant_def)
  have run: "state_add_grant_cookie env k i w =
      do { (status, w) \<leftarrow> acquire_grant env (sbd_grant_type b) i w2;
           if status \<noteq> STATE_SUCCESS then do { w \<leftarrow> free_cookie k False w; Some (status, w) } else Some (status, w) }"
    using assms(3,4,6) t1 t2 malloc_ok [of "w\<lparr>lw_orc := tick (lw_orc w)\<rparr>"] malloc_ok [of "w\<lparr>lw_orc := tick (tick (lw_orc w))\<rparr>"]
    by (simp add: state_add_grant_cookie_def w2_def w1_def)
  from acq obtain w3 where w3: "state_add_grant_cookie env k i w = Some (STATE_SUCCESS, w3)" "w3 \<in> {w2, update_lock i ?posix w2}"
    using run by auto
  have frame: "lw_orc w3 = lw_orc w2" "lw_cookie_table w3 = lw_cookie_table w2" "lw_gc_cookie w3 = lw_gc_cookie w2"
    "lw_async w3 = lw_async w2" "j \<noteq> i \<Longrightarrow> find_lock j w3 = find_lock j w2" for j
    using w3(2) by (auto simp: find_lock_update)
  have "\<exists>e'. find_lock i w3 = Some e' \<and> view e' = view e"
    using w3(2) f2 by (auto simp: find_lock_update view_def)
  then show ?thesis
    using w3(1) t2(2) frame by (simp add: w2_def attach_cookie_frame w1_def)
qed

text \<open>The message that tells a client of its lock.\<close>

definition announces :: "owner_heap \<Rightarrow> nlm_grant_msg \<Rightarrow> state_lock_entry_t \<Rightarrow> bool" where
  "announces so m e \<longleftrightarrow> gm_offset m = lock_start (sle_lock e) \<and> gm_len m = lock_length (sle_lock e)
     \<and> gm_exclusive m = (lock_type (sle_lock e) = FSAL_LOCK_W)
     \<and> gm_oh m = so_owner_val (so (sle_owner e)) \<and> gm_svid m = so_nlm_svid (so (sle_owner e))"

lemma announces_view [simp]: "announces so m (view e) = announces so m e"
  by (simp add: announces_def)

lemma announces_cong: "view e' = view e \<Longrightarrow> announces so m e' = announces so m e"
  by (metis announces_view)

lemma fill_netobj_ok:
  assumes "memory_ok (lw_orc w)"
  shows "\<exists>orc. fill_netobj data w = (True, w\<lparr>lw_orc := orc\<rparr>) \<and> memory_ok orc"
proof (cases "data = []")
  case True
  have "w = w\<lparr>lw_orc := lw_orc w\<rparr>" by simp
  then show ?thesis using True assms by (metis (full_types) fill_netobj_def)
next
  case False
  then show ?thesis using malloc_ok [OF assms] by (auto simp: fill_netobj_def)
qed

lemma schedule_grant_ok:
  assumes "memory_ok (lw_orc w)"
  shows "\<exists>orc m. schedule_grant env k e w = (STATE_SUCCESS, w\<lparr>lw_orc := orc, lw_async := lw_async w @ [m]\<rparr>)
     \<and> memory_ok orc \<and> announces (le_owners env) m e \<and> gm_cookie m = k"
proof -
  let ?fh = "case sle_block_data e of Some b \<Rightarrow> sbd_nlm_fh b | None \<Rightarrow> []"
  let ?oh = "so_owner_val (le_owners env (sle_owner e))"
  obtain o1 where o1: "fill_netobj ?fh w = (True, w\<lparr>lw_orc := o1\<rparr>)" "memory_ok o1"
    using fill_netobj_ok [OF assms] by blast
  obtain o2 where o2: "fill_netobj ?oh (w\<lparr>lw_orc := o1\<rparr>) = (True, w\<lparr>lw_orc := o2\<rparr>)" "memory_ok o2"
    using fill_netobj_ok [of "w\<lparr>lw_orc := o1\<rparr>" ?oh] o1(2) by auto
  have t: "memory_ok (tick o2)" "memory_ok (tick (tick o2))" "memory_ok (tick (tick (tick o2)))"
    using o2(2) by (simp_all add: memory_ok_def tick_def)
  let ?m = "\<lparr>gm_cookie = k, gm_exclusive = (lock_type (sle_lock e) = FSAL_LOCK_W),
      gm_svid = so_nlm_svid (le_owners env (sle_owner e)), gm_offset = lock_start (sle_lock e),
      gm_len = lock_length (sle_lock e), gm_oh = ?oh, gm_fh = ?fh\<rparr>"
  show ?thesis
    using o1 o2 t malloc_ok [of "w\<lparr>lw_orc := o2\<rparr>"] malloc_ok [of "w\<lparr>lw_orc := tick o2\<rparr>"]
      malloc_ok [of "w\<lparr>lw_orc := tick (tick o2)\<rparr>"]
    by (intro exI [of _ "tick (tick (tick o2))"] exI [of _ ?m])
      (simp add: schedule_grant_def state_async_schedule_def announces_def Let_def)
qed

lemma nlm_granted_callback_ok:
  assumes "\<not> le_supports env fso_lock_support" and "memory_ok (lw_orc w)" and "find_lock i w = Some e"
    and "sle_block_data e = Some b" and "sbd_grant_type b \<noteq> STATE_GRANT_NONE"
    and "lw_gc_cookie w + 1 \<notin> set (lw_cookie_table w)"
  shows "\<exists>w' m. nlm_granted_callback env i w = Some (STATE_SUCCESS, w') \<and> memory_ok (lw_orc w')
     \<and> lw_gc_cookie w' = lw_gc_cookie w + 1 \<and> lw_cookie_table w' = (lw_gc_cookie w + 1) # lw_cookie_table w
     \<and> (\<forall>j. j \<noteq> i \<longrightarrow> find_lock j w' = find_lock j w)
     \<and> lw_async w' = lw_async w @ [m] \<and> announces (le_owners env) m e"
proof -
  let ?k = "lw_gc_cookie w + 1"
  let ?w = "w\<lparr>lw_orc := tick (lw_orc w), lw_gc_cookie := ?k\<rparr>"
  obtain w1 e1 where w1: "state_add_grant_cookie env ?k i ?w = Some (STATE_SUCCESS, w1)" "memory_ok (lw_orc w1)"
      "lw_cookie_table w1 = ?k # lw_cookie_table w" "lw_gc_cookie w1 = ?k" "lw_async w1 = lw_async w"
      "\<forall>j. j \<noteq> i \<longrightarrow> find_lock j w1 = find_lock j w" "find_lock i w1 = Some e1" "view e1 = view e"
    using state_add_grant_cookie_ok [of env ?w i e b ?k] assms malloc_ok(2) [OF assms(2)] by auto
  obtain orc m where s: "schedule_grant env ?k e1 w1 = (STATE_SUCCESS, w1\<lparr>lw_orc := orc, lw_async := lw_async w1 @ [m]\<rparr>)"
      "memory_ok orc" "announces (le_owners env) m e1"
    using schedule_grant_ok [OF w1(2)] by blast
  have m: "announces (le_owners env) m e" using s(3) announces_cong [OF w1(8)] by blast
  have "nlm_granted_callback env i w = Some (STATE_SUCCESS, w1\<lparr>lw_orc := orc, lw_async := lw_async w1 @ [m]\<rparr>)"
    using w1(1,7) s(1) malloc_ok(1) [OF assms(2)] by (simp add: nlm_granted_callback_def next_granted_cookie_def Let_def)
  then show ?thesis using w1 s(2) m by auto
qed

text \<open>
  What granting does to an entry: nothing, or, when it waits, it is being granted and a message
  announces it.
\<close>

definition granted :: "owner_heap \<Rightarrow> nlm_grant_msg list \<Rightarrow> state_lock_entry_t \<Rightarrow> state_lock_entry_t \<Rightarrow> bool" where
  "granted so msgs e e' \<longleftrightarrow> view e' = view e
     \<or> (sle_blocked e \<in> waiting \<and> view e' = view (e\<lparr>sle_blocked := STATE_GRANTING\<rparr>) \<and> (\<exists>m\<in>set msgs. announces so m e))"

definition grants :: "owner_heap \<Rightarrow> 'f lock_world \<Rightarrow> 'f lock_world \<Rightarrow> bool" where
  "grants so w w' \<longleftrightarrow> set (lw_async w) \<subseteq> set (lw_async w') \<and> list_all2 (granted so (lw_async w')) (lw_locks w) (lw_locks w')"

lemma view_eqD:
  assumes "view e' = view e"
  shows "sle_id e' = sle_id e" "sle_owner e' = sle_owner e" "sle_blocked e' = sle_blocked e"
    "conflicts so ow (sle_lock e') f = conflicts so ow (sle_lock e) f" "conflicts so ow lk e' = conflicts so ow lk e"
  using assms by (metis view_fields view_same)+

lemma grants_refl [simp]: "grants so w w"
  by (simp add: grants_def list_all2_refl granted_def)

lemma granted_trans:
  assumes "granted so as e e1" "granted so bs e1 e2" "set as \<subseteq> set bs"
  shows "granted so bs e e2"
proof (cases "view e1 = view e")
  case True
  have "view (e1\<lparr>sle_blocked := STATE_GRANTING\<rparr>) = (view e1)\<lparr>sle_blocked := STATE_GRANTING\<rparr>" for e1 by (simp add: view_def)
  then show ?thesis
    using assms(2) True announces_cong [OF True] view_eqD(3) [OF True] unfolding granted_def by metis
next
  case False
  then have e1: "sle_blocked e \<in> waiting" "view e1 = view (e\<lparr>sle_blocked := STATE_GRANTING\<rparr>)" "\<exists>m\<in>set bs. announces so m e"
    using assms(1,3) by (auto simp: granted_def)
  then have "sle_blocked e1 = STATE_GRANTING" using view_eqD(3) [OF e1(2)] by simp
  then show ?thesis using assms(2) e1 by (simp add: granted_def)
qed

lemma grants_trans: "grants so w w1 \<Longrightarrow> grants so w1 w2 \<Longrightarrow> grants so w w2"
  unfolding grants_def
  by (auto intro!: list_all2_trans [of "granted so (lw_async w1)" "granted so (lw_async w2)" _ "lw_locks w" "lw_locks w1"]
      intro: granted_trans)

lemma grants_find:
  assumes "grants so w w'" and "find_lock j w' = Some e'"
  shows "\<exists>e. find_lock j w = Some e \<and> granted so (lw_async w') e e'"
proof -
  have id: "granted so as e e' \<Longrightarrow> sle_id e' = sle_id e" for as e e'
    by (auto simp: granted_def dest: view_eqD(1))
  have "list_all2 (granted so as) ls ls' \<Longrightarrow> find (\<lambda>e. sle_id e = j) ls' = Some e'
      \<Longrightarrow> \<exists>e. find (\<lambda>e. sle_id e = j) ls = Some e \<and> granted so as e e'" for as ls ls'
    by (induction rule: list_all2_induct) (auto dest: id split: if_splits)
  then show ?thesis using assms by (auto simp: grants_def find_lock_def)
qed

lemma grants_active:
  assumes "grants so w w'" and "f \<in> set (lw_locks w)" and "sle_blocked f \<in> active"
  shows "\<exists>f'\<in>set (lw_locks w'). view f' = view f"
proof -
  obtain f' where "f' \<in> set (lw_locks w')" "granted so (lw_async w') f f'"
    using assms(1,2) unfolding grants_def by (metis list_all2_conv_all_nth in_set_conv_nth)
  then show ?thesis using assms(3) by (auto simp: granted_def)
qed


lemma find_views:
  assumes "views w' = views w"
  shows "map_option view (find_lock j w') = map_option view (find_lock j w)"
proof -
  have "map_option view (find (\<lambda>e. sle_id e = j) ls) = find (\<lambda>v. sle_id v = j) (map view ls)" for ls
    by (induction ls) auto
  then show ?thesis using assms by (metis find_lock_def)
qed

lemma grants_update:
  assumes "views w' = views (update_lock i f w)" and "set (lw_async w) \<subseteq> set (lw_async w')"
    and "\<And>e. view (f e) = view (e\<lparr>sle_blocked := STATE_GRANTING\<rparr>)"
    and "\<And>e. e \<in> set (lw_locks w) \<Longrightarrow> sle_id e = i \<Longrightarrow> sle_blocked e \<in> waiting \<and> (\<exists>m\<in>set (lw_async w'). announces so m e)"
  shows "grants so w w'"
proof -
  have len: "length (lw_locks w') = length (lw_locks w)"
    using arg_cong [OF assms(1), of length] by (simp add: update_lock_def)
  have "granted so (lw_async w') (lw_locks w ! n) (lw_locks w' ! n)" if n: "n < length (lw_locks w)" for n
  proof -
    have "view (lw_locks w' ! n) = views w' ! n" using n len by simp
    also have "\<dots> = view (if sle_id (lw_locks w ! n) = i then f (lw_locks w ! n) else lw_locks w ! n)"
      using n by (simp add: assms(1) update_lock_def del: map_map)
    finally show ?thesis
      using assms(3,4) n by (auto simp: granted_def split: if_splits)
  qed
  then show ?thesis using assms(2) len by (simp add: grants_def list_all2_conv_all_nth)
qed

definition armed :: "'f lock_world \<Rightarrow> nat \<Rightarrow> bool" where
  "armed w n \<longleftrightarrow> memory_ok (lw_orc w) \<and> (\<forall>j e. find_lock j w = Some e \<longrightarrow> sle_blocked e \<in> waiting \<longrightarrow> sle_block_data e \<noteq> None)
     \<and> (\<forall>k\<in>set (lw_cookie_table w). k \<le> lw_gc_cookie w) \<and> unat (lw_gc_cookie w) + n < 2 ^ 64"

lemma fresh_cookie:
  assumes "armed w (Suc n)"
  shows "lw_gc_cookie w + 1 \<notin> set (lw_cookie_table w)" "unat (lw_gc_cookie w + 1) = unat (lw_gc_cookie w) + 1"
proof -
  have "unat (lw_gc_cookie w) + 1 < 2 ^ 64" using assms by (simp add: armed_def)
  then show u: "unat (lw_gc_cookie w + 1) = unat (lw_gc_cookie w) + 1"
    using unat_add_ok [of "lw_gc_cookie w" 1] by simp
  show "lw_gc_cookie w + 1 \<notin> set (lw_cookie_table w)"
    using assms u by (fastforce simp: armed_def word_le_nat_alt)
qed

lemma try_to_grant_lock_ok:
  assumes "\<not> le_supports env fso_lock_support" and "armed w (Suc n)" and "lock_inv (le_owners env) w"
    and "find_lock i w = Some e" and "sle_blocked e \<in> waiting"
  shows "\<exists>w'. try_to_grant_lock env i w = Some w' \<and> armed w' n \<and> grants (le_owners env) w w'
     \<and> (\<exists>e'. find_lock i w' = Some e' \<and> sle_blocked e' = STATE_GRANTING)"
proof -
  let ?so = "le_owners env"
  let ?f = "\<lambda>e. e\<lparr>sle_blocked := STATE_GRANTING,
      sle_block_data := map_option (\<lambda>b. if sbd_grant_type b = STATE_GRANT_NONE
        then b\<lparr>sbd_grant_type := STATE_GRANT_INTERNAL\<rparr> else b) (sle_block_data e)\<rparr>"
  let ?w = "update_lock i ?f w"
  obtain b where b: "sle_block_data e = Some b" using assms(2,4,5) unfolding armed_def by blast
  have fi: "find_lock i ?w = Some (?f e)" using assms(4) by (simp add: find_lock_update)
  obtain b' where b': "sle_block_data (?f e) = Some b'" "sbd_grant_type b' \<noteq> STATE_GRANT_NONE" using b by simp
  obtain w' m where w': "nlm_granted_callback env i ?w = Some (STATE_SUCCESS, w')" "memory_ok (lw_orc w')"
      "lw_gc_cookie w' = lw_gc_cookie w + 1" "lw_cookie_table w' = (lw_gc_cookie w + 1) # lw_cookie_table w"
      "\<forall>j. j \<noteq> i \<longrightarrow> find_lock j w' = find_lock j w" "lw_async w' = lw_async w @ [m]" "announces ?so m e"
    using nlm_granted_callback_ok [OF assms(1) _ fi b'] assms(2) fresh_cookie(1) [OF assms(2)]
    by (auto simp: armed_def find_lock_update announces_def)
  have v: "views w' = views ?w" using ensuresD [OF nlm_granted_callback_views w'(1)] by simp
  have g: "grants ?so w w'"
    by (rule grants_update [OF v]) (use w'(6,7) lock_inv_find [OF assms(3,4)] assms(5) in \<open>auto simp: view_def\<close>)
  have i': "\<exists>e'. find_lock i w' = Some e' \<and> sle_blocked e' = STATE_GRANTING"
    using find_views [OF v, of i] fi by (auto dest: view_eqD(3))
  have "armed w' n"
    unfolding armed_def
  proof (intro conjI allI impI)
    fix j e1 assume e1: "find_lock j w' = Some e1" "sle_blocked e1 \<in> waiting"
    then have "j \<noteq> i" using i' by auto
    then show "sle_block_data e1 \<noteq> None" using e1 w'(5) assms(2) unfolding armed_def by metis
  next
    show "\<forall>k\<in>set (lw_cookie_table w'). k \<le> lw_gc_cookie w'"
      using assms(2) fresh_cookie(2) [OF assms(2)] by (auto simp: w'(3,4) armed_def word_le_nat_alt)
  qed (use assms(2) w'(2,3) fresh_cookie(2) [OF assms(2)] in \<open>auto simp: armed_def\<close>)
  moreover have "try_to_grant_lock env i w = Some w'"
    using assms(4,5) b w'(1) by (auto simp: try_to_grant_lock_def)
  ultimately show ?thesis using g i' by blast
qed

definition held_up :: "owner_heap \<Rightarrow> 'f lock_world \<Rightarrow> state_lock_entry_t \<Rightarrow> bool" where
  "held_up so w e \<longleftrightarrow> (\<exists>f\<in>set (lw_locks w). sle_blocked f \<in> active \<and> conflicts so (sle_owner e) (sle_lock e) f)"

lemma held_up_grants:
  assumes "grants so w w'" and "held_up so w e" and "view e' = view e"
  shows "held_up so w' e'"
proof -
  obtain f where f: "f \<in> set (lw_locks w)" "sle_blocked f \<in> active" "conflicts so (sle_owner e) (sle_lock e) f"
    using assms(2) by (auto simp: held_up_def)
  obtain f' where f': "f' \<in> set (lw_locks w')" "view f' = view f" using grants_active [OF assms(1) f(1,2)] by blast
  show ?thesis
    unfolding held_up_def using f' f(2,3) view_eqD [OF f'(2)] view_eqD [OF assms(3)] by (metis (no_types, lifting))
qed

lemma grants_ids: "grants so w w' \<Longrightarrow> ids (lw_locks w') = ids (lw_locks w)"
proof -
  have id: "granted so as e e' \<Longrightarrow> sle_id e' = sle_id e" for as e e'
    by (auto simp: granted_def dest: view_eqD(1))
  have "list_all2 (granted so as) ls ls' \<Longrightarrow> ids ls' = ids ls" for as ls ls'
    by (induction rule: list_all2_induct) (auto dest: id)
  then show "grants so w w' \<Longrightarrow> ids (lw_locks w') = ids (lw_locks w)" by (auto simp: grants_def)
qed

lemma grant_loop_ok:
  assumes "\<not> le_supports env fso_lock_support" and "armed w (length is)" and "lock_inv (le_owners env) w"
    and "set is \<subseteq> set (ids (lw_locks w))"
  shows "\<exists>w'. grant_loop env is w = Some w' \<and> grants (le_owners env) w w'
     \<and> (\<forall>i e. i \<in> set is \<longrightarrow> find_lock i w' = Some e \<longrightarrow> sle_blocked e \<in> waiting \<longrightarrow> held_up (le_owners env) w' e)"
  using assms(2-4)
proof (induction "is" arbitrary: w)
  case (Cons i "is")
  let ?so = "le_owners env"
  have "find_lock i w \<noteq> None" using Cons.prems(3) by (auto simp: find_lock_def find_None_iff)
  then obtain e where e: "find_lock i w = Some e" by blast
  have a: "armed w (Suc (length is))" using Cons.prems(1) by simp
  have "\<exists>w1. grant_loop env (i # is) w = grant_loop env is w1 \<and> grants ?so w w1 \<and> armed w1 (length is) \<and> lock_inv ?so w1
      \<and> (\<forall>e1. find_lock i w1 = Some e1 \<longrightarrow> sle_blocked e1 \<in> waiting \<longrightarrow> held_up ?so w1 e1)"
  proof (cases "sle_blocked e \<in> waiting \<and> get_overlapping_entry ?so (sle_owner e) (sle_lock e) (lw_locks w) = None")
    case True
    then obtain w1 e' where w1: "try_to_grant_lock env i w = Some w1" "armed w1 (length is)" "grants ?so w w1"
        "find_lock i w1 = Some e'" "sle_blocked e' = STATE_GRANTING"
      using try_to_grant_lock_ok [OF assms(1) a Cons.prems(2) e] by blast
    have "lock_inv ?so w1" by (rule try_to_grant_lock_inv [OF w1(1) Cons.prems(2) e]) (use True in auto)
    then show ?thesis using w1 e True by auto
  next
    case False
    have "held_up ?so w e" if "sle_blocked e \<in> waiting"
      using that False get_overlapping_entry_Some unfolding held_up_def by (metis option.exhaust)
    moreover have "armed w (length is)" using Cons.prems(1) by (simp add: armed_def)
    ultimately show ?thesis using e False Cons.prems(2) by (intro exI [of _ w]) auto
  qed
  then obtain w1 where w1: "grant_loop env (i # is) w = grant_loop env is w1" "grants ?so w w1" "armed w1 (length is)"
      "lock_inv ?so w1" "\<And>e1. find_lock i w1 = Some e1 \<Longrightarrow> sle_blocked e1 \<in> waiting \<Longrightarrow> held_up ?so w1 e1" by blast
  have "set is \<subseteq> set (ids (lw_locks w1))" using Cons.prems(3) grants_ids [OF w1(2)] by auto
  then obtain w' where w': "grant_loop env is w1 = Some w'" "grants ?so w1 w'"
      "\<And>j e. j \<in> set is \<Longrightarrow> find_lock j w' = Some e \<Longrightarrow> sle_blocked e \<in> waiting \<Longrightarrow> held_up ?so w' e"
    using Cons.IH [OF w1(3,4)] by blast
  have "held_up ?so w' e'" if e': "find_lock i w' = Some e'" "sle_blocked e' \<in> waiting" for e'
  proof -
    obtain e1 where "find_lock i w1 = Some e1" "granted ?so (lw_async w') e1 e'" using grants_find [OF w'(2) e'(1)] by blast
    moreover from this(2) have "view e' = view e1" using e'(2) by (auto simp: granted_def dest: view_eqD(3))
    ultimately show ?thesis
      using w1(5) [of e1] held_up_grants [OF w'(2)] e'(2) view_eqD(3) [of e' e1] by metis
  qed
  then show ?case using w1(1) w' grants_trans [OF w1(2) w'(2)] by auto
qed simp

text \<open>
  C8 No wakeup is lost.  On a file system that leaves locks to the server, when allocations succeed
  and the cookie counter has not wrapped around, granting the blocked locks of a file, which every unlock, cancel, downgrade
  and released grant ends with, returns, and then every lock that still waits overlaps a lock that another owner
  holds or is being granted.  No entry is lost: each is as before, or it waited and is now being
  granted with a queued message that names its range, mode and owner.
\<close>

theorem no_lost_wakeup:
  assumes "\<not> le_supports env fso_lock_support" and "\<not> le_supports env fso_lock_support_async_block"
    and "lock_inv (le_owners env) w" and "memory_ok (lw_orc w)"
    and "\<forall>e\<in>set (lw_locks w). sle_blocked e \<in> waiting \<longrightarrow> sle_block_data e \<noteq> None"
    and "\<forall>k\<in>set (lw_cookie_table w). k \<le> lw_gc_cookie w" and "unat (lw_gc_cookie w) + length (lw_locks w) < 2 ^ 64"
  shows "\<exists>w'. grant_blocked_locks env w = Some w'
     \<and> (\<forall>e\<in>set (lw_locks w'). sle_blocked e \<in> waiting \<longrightarrow>
          (\<exists>f\<in>set (lw_locks w'). sle_blocked f \<in> active \<and> conflicts (le_owners env) (sle_owner e) (sle_lock e) f))
     \<and> list_all2 (granted (le_owners env) (lw_async w')) (lw_locks w) (lw_locks w')"
proof -
  have "armed w (length (ids (lw_locks w)))"
    unfolding armed_def using assms(4-7) find_lock_SomeD(1) by (metis length_map)
  then obtain w' where w': "grant_loop env (ids (lw_locks w)) w = Some w'" "grants (le_owners env) w w'"
      "\<And>i e. i \<in> set (ids (lw_locks w)) \<Longrightarrow> find_lock i w' = Some e \<Longrightarrow> sle_blocked e \<in> waiting \<Longrightarrow> held_up (le_owners env) w' e"
    using grant_loop_ok [OF assms(1) _ assms(3) order_refl] by blast
  have inv: "lock_inv (le_owners env) w'" by (rule grant_loop_inv [OF w'(1) assms(3)])
  have "held_up (le_owners env) w' e" if e: "e \<in> set (lw_locks w')" "sle_blocked e \<in> waiting" for e
  proof (rule w'(3) [OF _ _ e(2)])
    show "sle_id e \<in> set (ids (lw_locks w))" using e(1) grants_ids [OF w'(2)] by (metis image_eqI list.set_map)
    have "find_lock (sle_id e) w' \<noteq> None" using e(1) by (auto simp: find_lock_def find_None_iff)
    then show "find_lock (sle_id e) w' = Some e" using lock_inv_find [OF inv] e(1) by (metis option.exhaust)
  qed
  then show ?thesis
    using w'(1,2) assms(2) by (auto simp: grant_blocked_locks_def grants_def held_up_def)
qed


theorem no_lost_wakeup_witness:
  "\<exists>w'. grant_blocked_locks demo_env (demo_waiting\<lparr>lw_locks := tl (lw_locks demo_waiting)\<rparr>) = Some w'
     \<and> map sle_blocked (tl (lw_locks demo_waiting)) = [STATE_NLM_BLOCKING] \<and> map sle_blocked (lw_locks w') = [STATE_GRANTING]"
proof -
  let ?w = "demo_waiting\<lparr>lw_locks := tl (lw_locks demo_waiting)\<rparr>"
  have l: "map (\<lambda>e. (sle_blocked e, sle_block_data e = None)) (lw_locks demo_waiting)
      = [(STATE_NON_BLOCKING, True), (STATE_NLM_BLOCKING, False)]"
    and k: "lw_cookie_table demo_waiting = []" "lw_gc_cookie demo_waiting = 0" by code_simp+
  have m: "memory_ok (lw_orc demo_waiting)"
  proof -
    have "e_malloc (o_env (lw_orc demo_waiting)) n" for n by code_simp
    then show ?thesis by (simp add: memory_ok_def)
  qed
  from l obtain a b where ab: "lw_locks demo_waiting = [a, b]" "sle_blocked b = STATE_NLM_BLOCKING" "sle_block_data b \<noteq> None"
    by auto
  have inv: "lock_inv (le_owners demo_env) ?w"
    using demo_invs(2) ab by (auto simp: lock_inv_def fresh_ids_def intro: exclusive_subset)
  obtain w' where w': "grant_blocked_locks demo_env ?w = Some w'"
      "\<forall>e\<in>set (lw_locks w'). sle_blocked e \<in> waiting \<longrightarrow>
          (\<exists>f\<in>set (lw_locks w'). sle_blocked f \<in> active \<and> conflicts (le_owners demo_env) (sle_owner e) (sle_lock e) f)"
      "list_all2 (granted (le_owners demo_env) (lw_async w')) [b] (lw_locks w')"
    using no_lost_wakeup [of demo_env ?w] inv m k ab by (auto simp: demo_env_def)
  then obtain b' where b': "lw_locks w' = [b']" "granted (le_owners demo_env) (lw_async w') b b'"
    by (auto simp: list_all2_Cons1)
  then have "sle_blocked b' = STATE_GRANTING"
    using w'(2) ab(2) by (auto simp: granted_def dest: view_eqD(3))
  then show ?thesis using w'(1) b'(1) ab by simp
qed

section \<open>Merging ends, and when it does not\<close>

definition demo_entry :: "nat \<Rightarrow> fsal_lock_t \<Rightarrow> u64 \<Rightarrow> u64 \<Rightarrow> state_lock_entry_t" where
  "demo_entry i t start len = \<lparr>sle_id = i, sle_export = 1, sle_owner = 1, sle_state = None,
     sle_blocked = STATE_NON_BLOCKING, sle_ref_count = 1, sle_lock = demo_lock t start len, sle_type = POSIX_LOCK,
     sle_block_data = None\<rparr>"

lemma merge_loop_covers:
  assumes "merge_loop so l seen todo al = Some r"
  shows "covers (sle_lock l) x \<Longrightarrow> covers (sle_lock (fst r)) x"
  using assms
proof (induction rule: merge_loop_induct)
  case (absorb l seen c rest al lock al' r)
  from absorb(1) have "covers lock x"
    by (cases rule: merge_turn_cases) (use absorb(3) covers_hull in \<open>auto simp: meets_def\<close>)
  then show ?case using absorb(2) by simp
qed simp_all

text \<open>
  C27 Merging ends although a split puts its right part at the end of the list that is being
  walked: for every lock whose range does not wrap around, whatever the list holds and
  whichever allocations fail, the loop of \<^verbatim>\<open>merge_lock_entry\<close> returns, it keeps the address and owner of
  the lock, and the lock still covers the bytes it was asked for.
\<close>

theorem merge_returns:
  assumes "lock_wf (sle_lock l)"
  shows "\<exists>l' ls' al'. merge_lock_entry so l ls al = Some (l', ls', al') \<and> sle_id l' = sle_id l \<and> sle_owner l' = sle_owner l
     \<and> (\<forall>x. covers (sle_lock l) x \<longrightarrow> covers (sle_lock l') x)"
proof -
  obtain l' ls' al' where r: "merge_loop so l [] ls al = Some (l', ls', al')"
    using merge_loop_returns [OF assms, of so "[]" ls al] by auto
  then show ?thesis
    using merge_loop_fields [OF r] merge_loop_covers [OF r] by (auto simp: merge_lock_entry_def)
qed

theorem merge_returns_witness:
  "\<exists>l' ls' al'. merge_lock_entry (le_owners demo_env) (demo_entry 2 FSAL_LOCK_R 15 10)
        [demo_entry 0 FSAL_LOCK_R 0 20, demo_entry 1 FSAL_LOCK_W 22 0] (3, sample_oracle) = Some (l', ls', al')
     \<and> covers (sle_lock l') 20 \<and> sle_id l' = 2"
proof -
  have "lock_wf (sle_lock (demo_entry 2 FSAL_LOCK_R 15 10))" and "covers (sle_lock (demo_entry 2 FSAL_LOCK_R 15 10)) 20"
    by (simp_all add: demo_entry_def demo_lock_def lock_wf_def lock_end_def covers_def)
  then show ?thesis using merge_returns [of "demo_entry 2 FSAL_LOCK_R 15 10"] by (fastforce simp: demo_entry_def)
qed

text \<open>
  A wrapped lock never settles with two locks of its owner that it splits: the right part of
  each split is split again.
\<close>

definition splits_again :: "owner_heap \<Rightarrow> state_lock_entry_t \<Rightarrow> state_lock_entry_t \<Rightarrow> bool" where
  "splits_again so l c \<longleftrightarrow> meets so l c \<and> lock_type (sle_lock c) \<noteq> lock_type (sle_lock l)
     \<and> lock_start (sle_lock c) < lock_start (sle_lock l) \<and> lock_end (sle_lock l) < lock_end (sle_lock c)"

lemma split_turn:
  assumes "splits_again so l c" and "memory_ok (snd al)" and "sle_id l < fst al"
    and "lock_end (sle_lock l) + 1 < lock_start (sle_lock l)" and "merge_turn so l c al = (act, al')"
  shows "\<exists>e right. act = Merge_Split e right \<and> splits_again so l right \<and> memory_ok (snd al') \<and> sle_id l < fst al'"
  using assms(5)
proof (cases rule: merge_turn_cases)
  case keep
  then show ?thesis using assms(1,2) dup_memory_ok(1) [OF assms(2), of c] by (auto simp: splits_again_def)
next
  case (split r)
  have r: "r = c\<lparr>sle_id := fst al, sle_ref_count := 1, sle_block_data := None\<rparr>" "al' = (Suc (fst al), tick (snd al))"
    using split(5) assms(2) by (auto simp: dup_eq memory_ok_def)
  have "meets so l (shrink_right (lock_end (sle_lock l)) (lock_end (sle_lock c)) r)"
    using split(1) assms(3) lock_end_shrink_right [OF split(3), of r] by (simp add: r meets_def shrink_right_def)
  then have "splits_again so l (shrink_right (lock_end (sle_lock l)) (lock_end (sle_lock c)) r)"
    using split(2,3) assms(4) lock_end_shrink_right [OF split(3), of r]
    by (simp add: r splits_again_def) (simp add: shrink_right_def)
  then show ?thesis using split(6) r(2) dup_memory_ok(2) [OF assms(2)] assms(3) by simp
qed (use assms(1) in \<open>auto simp: splits_again_def\<close>)

lemma merge_loop_diverges:
  assumes "merge_loop so l seen todo al = Some r"
  shows "lock_end (sle_lock l) + 1 < lock_start (sle_lock l) \<Longrightarrow> memory_ok (snd al) \<Longrightarrow> sle_id l < fst al \<Longrightarrow>
    \<forall>c\<in>set todo. splits_again so l c \<Longrightarrow> length todo < 2"
  using assms
proof (induction rule: merge_loop_induct)
  case (split l seen c rest al e right al' r)
  show ?case
    using split_turn [OF _ split(5,6,4,1)] split(3) split(4-7) split(2) by (auto simp: neq_Nil_conv)
qed (use split_turn in fastforce)+



text \<open>
  Such a pair of locks comes from requests that are all in range: a lock to the end of the file, one
  before it that merging does not join because the end wraps to 0, and an unlock of the end.
\<close>

definition demo_pair :: "unit lock_world" where
  "demo_pair = after_unlock 1 (demo_lock FSAL_LOCK_R 1000 0)
     (after_lock 1 STATE_NON_BLOCKING (demo_lock FSAL_LOCK_R 10 191)
       (after_lock 1 STATE_NON_BLOCKING (demo_lock FSAL_LOCK_R 50 0) demo_file))"

lemma demo_pair_locks:
  "\<exists>c d. lw_locks demo_pair = [c, d] \<and> {sle_owner c, sle_owner d} = {1} \<and> {sle_export c, sle_export d} = {1}
     \<and> {sle_blocked c, sle_blocked d} = {STATE_NON_BLOCKING} \<and> sle_lock c = demo_lock FSAL_LOCK_R 10 191
     \<and> sle_lock d = demo_lock FSAL_LOCK_R 50 950 \<and> sle_id c < lw_next demo_pair \<and> sle_id d < lw_next demo_pair"
proof -
  have "map (\<lambda>e. (sle_id e < lw_next demo_pair, sle_owner e, sle_export e, sle_blocked e, sle_lock e)) (lw_locks demo_pair)
      = [(True, 1, 1, STATE_NON_BLOCKING, demo_lock FSAL_LOCK_R 10 191), (True, 1, 1, STATE_NON_BLOCKING, demo_lock FSAL_LOCK_R 50 950)]"
    by code_simp
  then show ?thesis by auto
qed


section \<open>Flaws of the code\<close>


text \<open>\<^verbatim>\<open>state_unlock\<close> of something that is not a regular file keeps the pin it took.\<close>

lemma unlock_irregular_leaks_pin:
  assumes "\<not> le_regular env" and "\<not> lw_dead w"
  shows "state_unlock env owner state deleg lk ty w = Some (STATE_BAD_TYPE, w\<lparr>lw_pins := lw_pins w + 1\<rparr>)"
  using assms by (simp add: state_unlock_def cache_inode_inc_pin_ref_def)

definition demo_dangling :: "unit lock_world" where
  "demo_dangling = after_unlock 1 (demo_lock FSAL_LOCK_W 0 10)
     (demo_waiting\<lparr>lw_orc := (lw_orc demo_waiting)\<lparr>o_env := (o_env sample_oracle)\<lparr>e_malloc := (\<lambda>t. t < 6)\<rparr>\<rparr>\<rparr>)"


end
