(* ===== verification/Fsal_Access.thy ===== *)
theory Fsal_Access
  imports Kurma_Attrs
begin

text \<open>
  The access check of \<^verbatim>\<open>FSAL/access_check.c\<close>, which FSAL_KURMA installs as its \<^verbatim>\<open>test_access\<close> method: the
  check against an NFSv4 access-control list and the one against the mode bits.
\<close>

unbundle bit_operations_syntax

section \<open>Access-control entries\<close>

record fsal_ace_t =
  ace_type :: u32
  ace_perm :: u32
  ace_flag :: u32
  ace_iflag :: u32
  ace_who :: u32

abbreviation (input) FSAL_ACE_TYPE_ALLOW :: u32 where "FSAL_ACE_TYPE_ALLOW \<equiv> 0"
abbreviation (input) FSAL_ACE_TYPE_DENY :: u32 where "FSAL_ACE_TYPE_DENY \<equiv> 1"
abbreviation (input) FSAL_ACE_FLAG_INHERIT_ONLY :: u32 where "FSAL_ACE_FLAG_INHERIT_ONLY \<equiv> 0x8"
abbreviation (input) FSAL_ACE_FLAG_GROUP_ID :: u32 where "FSAL_ACE_FLAG_GROUP_ID \<equiv> 0x40"
abbreviation (input) FSAL_ACE_IFLAG_EXCLUDE_FILES :: u32 where "FSAL_ACE_IFLAG_EXCLUDE_FILES \<equiv> 0x40000000"
abbreviation (input) FSAL_ACE_IFLAG_EXCLUDE_DIRS :: u32 where "FSAL_ACE_IFLAG_EXCLUDE_DIRS \<equiv> 0x20000000"
abbreviation (input) FSAL_ACE_IFLAG_SPECIAL_ID :: u32 where "FSAL_ACE_IFLAG_SPECIAL_ID \<equiv> 0x80000000"

abbreviation (input) FSAL_ACE_PERM_EXECUTE :: u32 where "FSAL_ACE_PERM_EXECUTE \<equiv> 0x20"
abbreviation (input) FSAL_ACE_PERM_READ_ATTR :: u32 where "FSAL_ACE_PERM_READ_ATTR \<equiv> 0x80"
abbreviation (input) FSAL_ACE_PERM_WRITE_ATTR :: u32 where "FSAL_ACE_PERM_WRITE_ATTR \<equiv> 0x100"
abbreviation (input) FSAL_ACE_PERM_READ_ACL :: u32 where "FSAL_ACE_PERM_READ_ACL \<equiv> 0x20000"
abbreviation (input) FSAL_ACE_PERM_WRITE_ACL :: u32 where "FSAL_ACE_PERM_WRITE_ACL \<equiv> 0x40000"
abbreviation (input) FSAL_ACE_PERM_WRITE_OWNER :: u32 where "FSAL_ACE_PERM_WRITE_OWNER \<equiv> 0x80000"
abbreviation (input) FSAL_ACE4_PERM_CONTINUE :: u32 where "FSAL_ACE4_PERM_CONTINUE \<equiv> 0x40000000"

abbreviation (input) FSAL_R_OK :: u32 where "FSAL_R_OK \<equiv> 0x04000000"
abbreviation (input) FSAL_W_OK :: u32 where "FSAL_W_OK \<equiv> 0x02000000"
abbreviation (input) FSAL_X_OK :: u32 where "FSAL_X_OK \<equiv> 0x01000000"

abbreviation (input) ERR_FSAL_ACCESS :: fsal_errors_t where "ERR_FSAL_ACCESS \<equiv> 13"

definition IS_FSAL_ACE_BIT :: "u32 \<Rightarrow> u32 \<Rightarrow> bool" where
  "IS_FSAL_ACE_BIT word bits \<longleftrightarrow> word AND bits \<noteq> 0"

definition fsal_check_ace_owner :: "u32 \<Rightarrow> user_cred \<Rightarrow> bool" where
  "fsal_check_ace_owner uid creds \<longleftrightarrow> caller_uid creds = uid"

definition fsal_check_ace_group :: "u32 \<Rightarrow> user_cred \<Rightarrow> bool" where
  "fsal_check_ace_group gid creds \<longleftrightarrow>
     (if caller_gid creds = gid then True else list_ex (\<lambda>g. g = gid) (caller_garray creds))"

definition fsal_check_ace_matches :: "fsal_ace_t \<Rightarrow> user_cred \<Rightarrow> bool \<Rightarrow> bool \<Rightarrow> bool" where
  "fsal_check_ace_matches pace creds is_owner is_group \<longleftrightarrow>
     (if IS_FSAL_ACE_BIT (ace_iflag pace) FSAL_ACE_IFLAG_SPECIAL_ID then
        (if ace_who pace = 1 then is_owner
         else if ace_who pace = 2 then is_group
         else ace_who pace = 3)
      else if IS_FSAL_ACE_BIT (ace_flag pace) FSAL_ACE_FLAG_GROUP_ID
      then fsal_check_ace_group (ace_who pace) creds
      else fsal_check_ace_owner (ace_who pace) creds)"

definition fsal_check_ace_applicable ::
    "fsal_ace_t \<Rightarrow> user_cred \<Rightarrow> bool \<Rightarrow> bool \<Rightarrow> bool \<Rightarrow> bool \<Rightarrow> bool" where
  "fsal_check_ace_applicable pace creds is_dir is_owner is_group is_root \<longleftrightarrow>
     (if IS_FSAL_ACE_BIT (ace_flag pace) FSAL_ACE_FLAG_INHERIT_ONLY then False
      else if \<not> is_dir \<and> IS_FSAL_ACE_BIT (ace_iflag pace) FSAL_ACE_IFLAG_EXCLUDE_FILES then False
      else if is_dir \<and> IS_FSAL_ACE_BIT (ace_iflag pace) FSAL_ACE_IFLAG_EXCLUDE_DIRS then False
      else is_root \<or> fsal_check_ace_matches pace creds is_owner is_group)"

section \<open>The check against a list\<close>

text \<open>
  The masks a caller wants back are \<open>None\<close> when it passes a null pointer.  The loop gives the error it
  returns with, if it does, and the missing access and the masks it leaves behind.
\<close>

abbreviation (input) perm_class :: u32 where
  "perm_class \<equiv> FSAL_ACE_PERM_WRITE_ATTR OR FSAL_ACE_PERM_WRITE_ACL OR FSAL_ACE_PERM_WRITE_OWNER"

definition denial :: "u32 \<Rightarrow> fsal_errors_t" where
  "denial access = (if access AND perm_class \<noteq> 0 then ERR_FSAL_PERM else ERR_FSAL_ACCESS)"

definition without :: "u32 \<Rightarrow> u32 \<Rightarrow> u32" where
  "without missing_access perm = missing_access AND NOT (perm AND missing_access)"

fun acl_loop ::
    "user_cred \<Rightarrow> u32 \<Rightarrow> bool \<Rightarrow> bool \<Rightarrow> bool \<Rightarrow> bool \<Rightarrow> fsal_ace_t list \<Rightarrow> u32 \<Rightarrow> u32 option \<Rightarrow> u32 option
      \<Rightarrow> fsal_errors_t option \<times> u32 \<times> u32 option \<times> u32 option" where
  "acl_loop creds v4mask is_dir is_owner is_group is_root [] missing_access allowed denied =
     (None, missing_access, allowed, denied)"
| "acl_loop creds v4mask is_dir is_owner is_group is_root (pace # rest) missing_access allowed denied =
     (let continue = acl_loop creds v4mask is_dir is_owner is_group is_root rest in
      if ace_type pace \<noteq> FSAL_ACE_TYPE_ALLOW \<and> ace_type pace \<noteq> FSAL_ACE_TYPE_DENY
      then continue missing_access allowed denied
      else if \<not> fsal_check_ace_applicable pace creds is_dir is_owner is_group is_root
      then continue missing_access allowed denied
      else if ace_type pace = FSAL_ACE_TYPE_ALLOW then
        let tperm = (case denied of None \<Rightarrow> ace_perm pace | Some d \<Rightarrow> ace_perm pace AND NOT d);
            allowed = map_option (\<lambda>a. a OR (v4mask AND tperm)) allowed;
            missing_access = without missing_access tperm in
        if missing_access = 0 then (None, missing_access, allowed, denied)
        else continue missing_access allowed denied
      else if ace_perm pace AND missing_access \<noteq> 0 \<and> \<not> is_root then
        let denied = map_option (\<lambda>d. d OR (v4mask AND ace_perm pace)) denied in
        if denied = None \<or> v4mask AND FSAL_ACE4_PERM_CONTINUE = 0
        then (Some (denial (ace_perm pace AND missing_access)), missing_access, allowed, denied)
        else
          let missing_access = without missing_access (ace_perm pace) in
          if missing_access = 0 then (None, missing_access, allowed, denied)
          else continue missing_access allowed denied
      else continue missing_access allowed denied)"

definition acl_finish ::
    "fsal_errors_t option \<times> u32 \<times> u32 option \<times> u32 option \<Rightarrow> fsal_status \<times> u32 option \<times> u32 option" where
  "acl_finish r =
     (case r of
        (Some err, _, allowed, denied) \<Rightarrow> (fsalstat err 0, allowed, denied)
      | (None, missing_access, allowed, denied) \<Rightarrow>
          if missing_access \<noteq> 0 \<or> (denied \<noteq> None \<and> denied \<noteq> Some 0)
          then (fsalstat (denial missing_access) 0, allowed, denied)
          else (fsalstat ERR_FSAL_NO_ERROR 0, allowed, denied))"

definition fsal_check_access_acl ::
    "user_cred \<Rightarrow> u32 \<Rightarrow> bool \<Rightarrow> bool \<Rightarrow> fsal_ace_t list \<Rightarrow> attrlist \<Rightarrow> fsal_status \<times> u32 option \<times> u32 option" where
  "fsal_check_access_acl creds v4mask want_allowed want_denied aces attrs =
     (let allowed = (if want_allowed then Some 0 else None);
          denied = (if want_denied then Some 0 else None);
          missing_access = v4mask AND NOT FSAL_ACE4_PERM_CONTINUE;
          uid = ucast (a_owner attrs);
          gid = ucast (a_group attrs);
          is_dir = (a_type attrs = DIRECTORY);
          is_root = (caller_uid creds = 0);
          (missing_access, allowed) =
            (if is_root
             then (missing_access AND FSAL_ACE_PERM_EXECUTE,
                   map_option (\<lambda>_. v4mask AND NOT FSAL_ACE_PERM_EXECUTE) allowed)
             else (missing_access, allowed));
          is_owner = fsal_check_ace_owner uid creds;
          is_group = fsal_check_ace_group gid creds;
          own = FSAL_ACE_PERM_WRITE_ACL OR FSAL_ACE_PERM_READ_ACL OR FSAL_ACE_PERM_WRITE_ATTR OR FSAL_ACE_PERM_READ_ATTR;
          (missing_access, allowed) =
            (if is_owner
             then (missing_access AND NOT own, map_option (\<lambda>a. a OR (v4mask AND own)) allowed)
             else (missing_access, allowed)) in
      acl_finish (acl_loop creds v4mask is_dir is_owner is_group is_root aces missing_access allowed denied))"

section \<open>The check against the mode bits\<close>

definition fsal_check_access_no_acl ::
    "user_cred \<Rightarrow> u32 \<Rightarrow> bool \<Rightarrow> bool \<Rightarrow> attrlist \<Rightarrow> fsal_status \<times> u32 option \<times> u32 option" where
  "fsal_check_access_no_acl creds access_type want_allowed want_denied attrs =
     (let give = (\<lambda>want x. if want then Some x else None);
          uid = ucast (a_owner attrs);
          gid = ucast (a_group attrs);
          mode = a_mode attrs in
      if caller_uid creds = 0 then
        (if \<not> (access_type AND FSAL_X_OK = 0 \<or> mode AND 0x49 \<noteq> 0)
         then (fsalstat ERR_FSAL_ACCESS 0, give want_allowed (access_type AND NOT FSAL_X_OK),
               give want_denied (access_type AND FSAL_X_OK))
         else (fsalstat ERR_FSAL_NO_ERROR 0, give want_allowed access_type, give want_denied 0))
      else
        let mode = (if caller_uid creds = uid then drop_bit 6 mode
                    else if caller_gid creds = gid then drop_bit 3 mode
                    else if list_ex (\<lambda>g. g = gid) (caller_garray creds) then drop_bit 3 mode
                    else mode);
            mask = (if mode AND 4 \<noteq> 0 then FSAL_R_OK else 0) OR (if mode AND 2 \<noteq> 0 then FSAL_W_OK else 0)
                   OR (if mode AND 1 \<noteq> 0 then FSAL_X_OK else 0) in
        (if mask AND access_type = access_type then fsalstat ERR_FSAL_NO_ERROR 0 else fsalstat ERR_FSAL_ACCESS 0,
         give want_allowed (mask AND access_type), give want_denied (NOT mask AND access_type)))"

text \<open>Lists are shared and counted; \<open>acls\<close> gives the entries of the list at an address.\<close>

definition FSAL_MODE_MASK :: "u32 \<Rightarrow> u32" where
  "FSAL_MODE_MASK access = access AND 0x07000000"

definition FSAL_ACE4_MASK :: "u32 \<Rightarrow> u32" where
  "FSAL_ACE4_MASK access = access AND 0x40FFFFFF"

definition fsal_test_access ::
    "(nat \<Rightarrow> fsal_ace_t list) \<Rightarrow> user_cred \<Rightarrow> attrlist \<Rightarrow> u32 \<Rightarrow> bool \<Rightarrow> bool \<Rightarrow> fsal_status \<times> u32 option \<times> u32 option" where
  "fsal_test_access acls creds attribs access_type want_allowed want_denied =
     (case a_acl attribs of
        Some acl \<Rightarrow>
          if access_type AND 0x80000000 = 0x80000000
          then fsal_check_access_acl creds (FSAL_ACE4_MASK access_type) want_allowed want_denied (acls acl) attribs
          else fsal_check_access_no_acl creds (FSAL_MODE_MASK access_type) want_allowed want_denied attribs
      | None \<Rightarrow> fsal_check_access_no_acl creds (FSAL_MODE_MASK access_type) want_allowed want_denied attribs)"


section \<open>The first entry that mentions a permission decides\<close>

text \<open>
  The meaning of a list, as RFC 7530 gives it: for one permission, the first entry that applies to the
  caller and mentions the permission decides.  The owner always has four permissions.
\<close>

definition applies :: "user_cred \<Rightarrow> attrlist \<Rightarrow> fsal_ace_t \<Rightarrow> bool" where
  "applies creds attrs pace \<longleftrightarrow>
     fsal_check_ace_applicable pace creds (a_type attrs = DIRECTORY)
       (fsal_check_ace_owner (ucast (a_owner attrs)) creds)
       (fsal_check_ace_group (ucast (a_group attrs)) creds) (caller_uid creds = 0)"

definition decides :: "(fsal_ace_t \<Rightarrow> bool) \<Rightarrow> nat \<Rightarrow> fsal_ace_t \<Rightarrow> bool" where
  "decides app n pace \<longleftrightarrow> ace_type pace \<in> {FSAL_ACE_TYPE_ALLOW, FSAL_ACE_TYPE_DENY} \<and> app pace \<and> bit (ace_perm pace) n"

definition verdict :: "(fsal_ace_t \<Rightarrow> bool) \<Rightarrow> fsal_ace_t list \<Rightarrow> nat \<Rightarrow> bool" where
  "verdict app aces n \<longleftrightarrow>
     (case find (decides app n) aces of Some pace \<Rightarrow> ace_type pace = FSAL_ACE_TYPE_ALLOW | None \<Rightarrow> False)"

definition acl_grants :: "user_cred \<Rightarrow> attrlist \<Rightarrow> fsal_ace_t list \<Rightarrow> nat \<Rightarrow> bool" where
  "acl_grants creds attrs aces n \<longleftrightarrow>
     (caller_uid creds = ucast (a_owner attrs) \<and> n \<in> {7, 8, 17, 18}) \<or> verdict (applies creds attrs) aces n"

definition requested :: "u32 \<Rightarrow> nat \<Rightarrow> bool" where
  "requested v4mask n \<longleftrightarrow> bit v4mask n \<and> n \<noteq> 30"

lemma verdict_simps [simp]:
  "\<not> verdict app [] n"
  "verdict app (pace # aces) n \<longleftrightarrow>
     (if decides app n pace then ace_type pace = FSAL_ACE_TYPE_ALLOW else verdict app aces n)"
  by (simp_all add: verdict_def)

lemma word_zero_bits: "(w :: u32) = 0 \<longleftrightarrow> (\<forall>n. \<not> bit w n)"
  using bit_imp_le_length [of w] by (auto simp: bit_eq_iff)

lemma bit_lt_32: "bit (w :: u32) n \<Longrightarrow> n < 32"
  using bit_imp_le_length [of w n] by simp

lemma bit_without [simp]: "bit (without m p) n \<longleftrightarrow> bit m n \<and> \<not> bit p n"
  using bit_lt_32 [of m n] by (auto simp: without_def bit_simps)

lemma bit_clear_mask: "bit ((m :: u32) AND NOT p) n \<longleftrightarrow> bit m n \<and> \<not> bit p n"
  using bit_lt_32 [of m n] by (auto simp: bit_simps)

lemma denial_nonzero [simp]: "denial access \<noteq> 0"
  by (simp add: denial_def)

definition loop_ok :: "fsal_errors_t option \<times> u32 \<times> u32 option \<times> u32 option \<Rightarrow> bool" where
  "loop_ok r \<longleftrightarrow> (case r of (err, missing, _, denied) \<Rightarrow> err = None \<and> missing = 0 \<and> denied \<in> {None, Some 0})"

lemma loop_ok_simps [simp]:
  "loop_ok (err, missing, al, denied) \<longleftrightarrow> err = None \<and> missing = 0 \<and> denied \<in> {None, Some 0}"
  by (simp add: loop_ok_def)

lemma or_nonzero: "(d :: u32) \<noteq> 0 \<Longrightarrow> d OR e \<noteq> 0"
  by (auto simp: word_zero_bits bit_simps)

text \<open>Once a permission was denied the check fails.\<close>

lemma acl_loop_after_denial:
  "d \<noteq> 0 \<Longrightarrow> \<not> loop_ok (acl_loop creds v4mask is_dir is_owner is_group is_root aces m al (Some d))"
proof (induction aces arbitrary: m al d)
  case (Cons pace rest)
  then show ?case by (cases is_root) (auto simp: Let_def or_nonzero)
qed simp

lemma acl_loop_ok:
  assumes "denied \<in> {None, Some 0}" and "\<And>n. bit m n \<Longrightarrow> bit v4mask n"
  shows "loop_ok (acl_loop creds v4mask is_dir is_owner is_group False aces m al denied)
         \<longleftrightarrow> (\<forall>n. bit m n \<longrightarrow> verdict (\<lambda>pace. fsal_check_ace_applicable pace creds is_dir is_owner is_group False) aces n)"
  using assms
proof (induction aces arbitrary: m al)
  case Nil
  then show ?case by (auto simp: word_zero_bits)
next
  case (Cons pace rest)
  let ?app = "\<lambda>pace. fsal_check_ace_applicable pace creds is_dir is_owner is_group False"
  have den: "(case denied of None \<Rightarrow> ace_perm pace | Some d \<Rightarrow> ace_perm pace AND NOT d) = ace_perm pace"
    using Cons.prems(1) by auto
  consider (skip) "ace_type pace \<notin> {0, 1} \<or> \<not> ?app pace"
    | (allow) "ace_type pace = 0" "?app pace" | (deny) "ace_type pace = 1" "?app pace" by auto
  then show ?case
  proof cases
    case skip
    then have "\<not> decides ?app n pace" for n by (auto simp: decides_def)
    with skip Cons show ?thesis by (auto simp: Let_def)
  next
    case allow
    let ?m = "without m (ace_perm pace)"
    have "decides ?app n pace \<longleftrightarrow> bit (ace_perm pace) n" for n using allow by (simp add: decides_def)
    moreover have "?m = 0 \<longleftrightarrow> (\<forall>n. bit m n \<longrightarrow> bit (ace_perm pace) n)"
      by (auto simp: word_zero_bits)
    moreover note Cons.IH [OF Cons.prems(1), of ?m]
    ultimately show ?thesis
      using allow Cons.prems den by (auto simp: Let_def)
  next
    case deny
    have dec: "decides ?app n pace \<longleftrightarrow> bit (ace_perm pace) n" for n using deny by (simp add: decides_def)
    show ?thesis
    proof (cases "ace_perm pace AND m = 0")
      case True
      then have "bit m n \<Longrightarrow> \<not> bit (ace_perm pace) n" for n by (auto simp: word_zero_bits bit_simps)
      then show ?thesis using True deny dec Cons by (auto simp: Let_def)
    next
      case False
      then obtain n where n: "bit (ace_perm pace) n" "bit m n" by (auto simp: word_zero_bits bit_simps)
      then have "v4mask AND ace_perm pace \<noteq> 0" using Cons.prems(2) by (auto simp: word_zero_bits bit_simps)
      then show ?thesis using n False deny dec Cons.prems(1)
        by (auto simp: Let_def acl_loop_after_denial)
    qed
  qed
qed


lemma bit_continue: "bit (FSAL_ACE4_PERM_CONTINUE) n \<longleftrightarrow> n = 30"
  using bit_exp_iff [where 'a = "32 word", of 30 n] by auto

lemma bit_own:
  "bit (FSAL_ACE_PERM_WRITE_ACL OR FSAL_ACE_PERM_READ_ACL OR FSAL_ACE_PERM_WRITE_ATTR OR FSAL_ACE_PERM_READ_ATTR) n
   \<longleftrightarrow> n \<in> {7, 8, 17, 18}"
proof -
  have "FSAL_ACE_PERM_WRITE_ACL OR FSAL_ACE_PERM_READ_ACL OR FSAL_ACE_PERM_WRITE_ATTR OR FSAL_ACE_PERM_READ_ATTR
        = (2 ^ 18 OR 2 ^ 17 OR 2 ^ 8 OR 2 ^ 7 :: u32)" by simp
  then show ?thesis by (simp only: bit_or_iff bit_exp_iff) auto
qed

lemma continue_set: "v4mask AND FSAL_ACE4_PERM_CONTINUE = 0 \<longleftrightarrow> \<not> bit v4mask 30"
  using and_exp_cases [of v4mask 30] by simp

text \<open>
  With \<^verbatim>\<open>FSAL_ACE4_PERM_CONTINUE\<close> the loop visits every entry it needs: what it adds to the allowed mask is
  what the list grants of the missing permissions.
\<close>

definition split_masks :: "u32 \<Rightarrow> u32 \<Rightarrow> u32 \<Rightarrow> u32 \<Rightarrow> bool" where
  "split_masks v4mask m a d \<longleftrightarrow>
     (\<forall>n. (bit m n \<longrightarrow> bit v4mask n \<and> \<not> bit a n \<and> \<not> bit d n) \<and> (requested v4mask n \<longrightarrow> bit m n \<or> bit a n \<or> bit d n))"

lemma split_allow:
  "split_masks v4mask m a d \<Longrightarrow> split_masks v4mask (without m (p AND NOT d)) (a OR (v4mask AND (p AND NOT d))) d"
  unfolding split_masks_def requested_def bit_without bit_or_iff bit_and_iff [of v4mask] bit_clear_mask by blast

lemma split_deny:
  "split_masks v4mask m a d \<Longrightarrow> split_masks v4mask (without m p) a (d OR (v4mask AND p))"
  unfolding split_masks_def requested_def bit_without bit_or_iff bit_and_iff by blast

lemma allow_bits:
  "split_masks v4mask m a d \<Longrightarrow> requested v4mask n \<Longrightarrow>
     (bit (a OR (v4mask AND (p AND NOT d))) n \<or> (bit (without m (p AND NOT d)) n \<and> V))
     \<longleftrightarrow> bit a n \<or> (bit m n \<and> (bit p n \<or> V))"
  unfolding split_masks_def requested_def bit_without bit_or_iff bit_and_iff [of v4mask] bit_clear_mask by blast

lemma without_zero: "without m p = 0 \<Longrightarrow> bit m n \<Longrightarrow> bit p n"
  by (metis bit_without word_zero_bits)

definition adds ::
    "u32 \<Rightarrow> (fsal_ace_t \<Rightarrow> bool) \<Rightarrow> u32 \<Rightarrow> u32 \<Rightarrow> fsal_ace_t list
      \<Rightarrow> fsal_errors_t option \<times> u32 \<times> u32 option \<times> u32 option \<Rightarrow> bool" where
  "adds v4mask app a m aces r \<longleftrightarrow>
     (\<exists>m' a' d'. r = (None, m', Some a', d')
        \<and> (\<forall>n. requested v4mask n \<longrightarrow> (bit a' n \<longleftrightarrow> bit a n \<or> (bit m n \<and> verdict app aces n))))"

lemma adds_doneI:
  "(\<And>n. requested v4mask n \<Longrightarrow> bit a' n \<longleftrightarrow> bit a n \<or> (bit m n \<and> verdict app aces n))
     \<Longrightarrow> adds v4mask app a m aces (None, m', Some a', d')"
  by (simp add: adds_def)

lemma adds_stepI:
  assumes "adds v4mask app a1 m1 rest r"
    and "\<And>n. requested v4mask n \<Longrightarrow>
      bit a1 n \<or> (bit m1 n \<and> verdict app rest n) \<longleftrightarrow> bit a n \<or> (bit m n \<and> verdict app aces n)"
  shows "adds v4mask app a m aces r"
  using assms unfolding adds_def by metis

lemma acl_loop_allowed:
  fixes creds is_dir is_owner is_group
  defines "app \<equiv> \<lambda>pace. fsal_check_ace_applicable pace creds is_dir is_owner is_group False"
  assumes cont: "bit v4mask 30" and "split_masks v4mask m a d"
  shows "adds v4mask app a m aces (acl_loop creds v4mask is_dir is_owner is_group False aces m (Some a) (Some d))"
  using assms(3)
proof (induction aces arbitrary: m a d)
  case Nil
  then show ?case by (simp add: adds_def)
next
  case (Cons pace rest)
  let ?p = "ace_perm pace" and ?t = "ace_perm pace AND NOT d"
  consider (skip) "ace_type pace \<notin> {0, 1} \<or> \<not> app pace \<or> (ace_type pace = 1 \<and> ?p AND m = 0)"
    | (allow) "ace_type pace = 0" "app pace" | (deny) "ace_type pace = 1" "app pace" "?p AND m \<noteq> 0" by auto
  then show ?case
  proof cases
    case skip
    then have "bit m n \<Longrightarrow> \<not> decides app n pace" for n
      by (auto simp: decides_def word_zero_bits bit_and_iff)
    then have "adds v4mask app a m (pace # rest)
        (acl_loop creds v4mask is_dir is_owner is_group False rest m (Some a) (Some d))"
      by (intro adds_stepI [OF Cons.IH [OF Cons.prems]]) auto
    then show ?thesis using skip by (auto simp: Let_def app_def)
  next
    case allow
    have ver: "verdict app (pace # rest) n \<longleftrightarrow> bit ?p n \<or> verdict app rest n" for n
      using allow by (simp add: decides_def)
    have bits: "bit (a OR (v4mask AND ?t)) n \<or> (bit (without m ?t) n \<and> verdict app rest n)
        \<longleftrightarrow> bit a n \<or> (bit m n \<and> verdict app (pace # rest) n)" if "requested v4mask n" for n
      unfolding ver by (rule allow_bits [OF Cons.prems that])
    have "adds v4mask app a m (pace # rest) (None, 0, Some (a OR (v4mask AND ?t)), Some d)" if "without m ?t = 0"
      using bits that by (intro adds_doneI) (simp del: verdict_simps)
    moreover have "adds v4mask app a m (pace # rest)
        (acl_loop creds v4mask is_dir is_owner is_group False rest (without m ?t) (Some (a OR (v4mask AND ?t))) (Some d))"
      by (rule adds_stepI [OF Cons.IH [OF split_allow [OF Cons.prems]]]) (rule bits)
    ultimately show ?thesis using allow by (simp add: Let_def app_def)
  next
    case deny
    have ver: "verdict app (pace # rest) n \<longleftrightarrow> \<not> bit ?p n \<and> verdict app rest n" for n
      using deny by (simp add: decides_def)
    have "adds v4mask app a m (pace # rest) (None, 0, Some a, Some (d OR (v4mask AND ?p)))" if "without m ?p = 0"
      using without_zero [OF that] by (intro adds_doneI) (auto simp: ver simp del: verdict_simps)
    moreover have "adds v4mask app a m (pace # rest)
        (acl_loop creds v4mask is_dir is_owner is_group False rest (without m ?p) (Some a) (Some (d OR (v4mask AND ?p))))"
      by (rule adds_stepI [OF Cons.IH [OF split_deny [OF Cons.prems]]]) (auto simp: ver simp del: verdict_simps)
    ultimately show ?thesis using deny cont by (simp add: Let_def app_def continue_set)
  qed
qed


section \<open>Properties\<close>

text \<open>The masks the check starts the loop with, for a caller other than root.\<close>

definition first_missing :: "user_cred \<Rightarrow> attrlist \<Rightarrow> u32 \<Rightarrow> u32" where
  "first_missing creds attrs v4mask =
     (let missing = v4mask AND NOT FSAL_ACE4_PERM_CONTINUE;
          own = FSAL_ACE_PERM_WRITE_ACL OR FSAL_ACE_PERM_READ_ACL OR FSAL_ACE_PERM_WRITE_ATTR OR FSAL_ACE_PERM_READ_ATTR in
      if fsal_check_ace_owner (ucast (a_owner attrs)) creds then missing AND NOT own else missing)"

definition first_allowed :: "user_cred \<Rightarrow> attrlist \<Rightarrow> u32 \<Rightarrow> u32" where
  "first_allowed creds attrs v4mask =
     (let own = FSAL_ACE_PERM_WRITE_ACL OR FSAL_ACE_PERM_READ_ACL OR FSAL_ACE_PERM_WRITE_ATTR OR FSAL_ACE_PERM_READ_ATTR in
      if fsal_check_ace_owner (ucast (a_owner attrs)) creds then v4mask AND own else 0)"

lemma bit_first_missing:
  "bit (first_missing creds attrs v4mask) n \<longleftrightarrow>
     requested v4mask n \<and> \<not> (caller_uid creds = ucast (a_owner attrs) \<and> n \<in> {7, 8, 17, 18})"
  unfolding first_missing_def Let_def fsal_check_ace_owner_def requested_def
  by (simp only: bit_clear_mask bit_own bit_continue split: if_split) blast

lemma bit_first_allowed:
  "bit (first_allowed creds attrs v4mask) n \<longleftrightarrow>
     bit v4mask n \<and> caller_uid creds = ucast (a_owner attrs) \<and> n \<in> {7, 8, 17, 18}"
  unfolding first_allowed_def Let_def fsal_check_ace_owner_def
  by (simp only: bit_and_iff [of v4mask] bit_own bit_0_eq split: if_split) auto

lemma check_access_acl_user:
  assumes "caller_uid creds \<noteq> 0"
  shows "fsal_check_access_acl creds v4mask want_allowed want_denied aces attrs =
     acl_finish (acl_loop creds v4mask (a_type attrs = DIRECTORY)
       (fsal_check_ace_owner (ucast (a_owner attrs)) creds) (fsal_check_ace_group (ucast (a_group attrs)) creds)
       False aces (first_missing creds attrs v4mask)
       (if want_allowed then Some (first_allowed creds attrs v4mask) else None)
       (if want_denied then Some 0 else None))"
  using assms by (simp add: fsal_check_access_acl_def Let_def first_missing_def first_allowed_def)

lemma acl_loop_errors: "fst (acl_loop creds v4mask is_dir is_owner is_group is_root aces m al d) \<noteq> Some 0"
  by (induction aces arbitrary: m al d) (auto simp: Let_def)


lemma check_access_acl_status:
  assumes "caller_uid creds \<noteq> 0"
  shows "fst (fsal_check_access_acl creds v4mask want_allowed want_denied aces attrs) = fsalstat ERR_FSAL_NO_ERROR 0
     \<longleftrightarrow> loop_ok (acl_loop creds v4mask (a_type attrs = DIRECTORY)
             (fsal_check_ace_owner (ucast (a_owner attrs)) creds) (fsal_check_ace_group (ucast (a_group attrs)) creds)
             False aces (first_missing creds attrs v4mask)
             (if want_allowed then Some (first_allowed creds attrs v4mask) else None)
             (if want_denied then Some 0 else None))"
    (is "_ \<longleftrightarrow> loop_ok ?r")
proof -
  have "fst ?r \<noteq> Some 0" by (rule acl_loop_errors)
  then show ?thesis unfolding check_access_acl_user [OF assms]
    by (cases ?r) (auto simp: acl_finish_def fsalstat_def split: option.splits)
qed

lemma applies_user:
  "caller_uid creds \<noteq> 0 \<Longrightarrow> applies creds attrs = (\<lambda>pace. fsal_check_ace_applicable pace creds
     (a_type attrs = DIRECTORY) (fsal_check_ace_owner (ucast (a_owner attrs)) creds)
     (fsal_check_ace_group (ucast (a_group attrs)) creds) False)"
  by (simp add: applies_def fun_eq_iff)

lemma check_access_acl_exact:
  assumes "caller_uid creds \<noteq> 0"
  shows "fst (fsal_check_access_acl creds v4mask want_allowed want_denied aces attrs) = fsalstat ERR_FSAL_NO_ERROR 0
     \<longleftrightarrow> (\<forall>n. requested v4mask n \<longrightarrow> acl_grants creds attrs aces n)"
proof -
  have den: "(if want_denied then Some 0 else None) \<in> {None, Some (0 :: u32)}" by simp
  have "\<forall>n. bit (first_missing creds attrs v4mask) n \<longrightarrow> bit v4mask n"
    by (simp add: bit_first_missing requested_def)
  then show ?thesis
    unfolding check_access_acl_status [OF assms] acl_grants_def applies_user [OF assms]
    by (subst acl_loop_ok [OF den]) (auto simp: bit_first_missing simp del: insert_iff)
qed

lemma ace4_valid: "access_type AND 0x80000000 \<noteq> (0 :: u32) \<Longrightarrow> access_type AND 0x80000000 = 0x80000000"
  using and_exp_cases [of access_type 31] by (simp split: if_splits)

text \<open>A file with a list: user 7 may not write, everyone may read and write.\<close>

definition demo_aces :: "fsal_ace_t list" where
  "demo_aces =
     [\<lparr>ace_type = FSAL_ACE_TYPE_DENY, ace_perm = 2, ace_flag = 0, ace_iflag = 0, ace_who = 7\<rparr>,
      \<lparr>ace_type = FSAL_ACE_TYPE_ALLOW, ace_perm = 3, ace_flag = 0, ace_iflag = FSAL_ACE_IFLAG_SPECIAL_ID, ace_who = 3\<rparr>]"

definition demo_user :: user_cred where
  "demo_user = \<lparr>caller_uid = 7, caller_gid = 7, caller_garray = [9]\<rparr>"

definition demo_attrs :: attrlist where
  "demo_attrs = zero_attrs\<lparr>a_type := 5, a_acl := Some 0, a_owner := 3, a_group := 9, a_mode := 416\<rparr>"

text \<open>
  C9 The check against a list grants a request of a caller other than root exactly when the list grants every
  requested permission: the owner has the four permissions every owner has, and for any other permission the
  first entry that applies to the caller and mentions it is an allow entry.
\<close>

theorem acl_access_exact:
  assumes "a_acl attribs = Some acl" and "access_type AND 0x80000000 \<noteq> 0" and "caller_uid creds \<noteq> 0"
  shows "fst (fsal_test_access acls creds attribs access_type want_allowed want_denied) = fsalstat ERR_FSAL_NO_ERROR 0
     \<longleftrightarrow> (\<forall>n. requested (FSAL_ACE4_MASK access_type) n \<longrightarrow> acl_grants creds attribs (acls acl) n)"
  using assms by (simp add: fsal_test_access_def ace4_valid check_access_acl_exact)

theorem acl_access_exact_witness:
  "fst (fsal_test_access (\<lambda>_. demo_aces) demo_user demo_attrs 0x80000001 True True) = fsalstat ERR_FSAL_NO_ERROR 0
   \<and> fst (fsal_test_access (\<lambda>_. demo_aces) demo_user demo_attrs 0x80000003 True True) \<noteq> fsalstat ERR_FSAL_NO_ERROR 0"
proof
  note ex = acl_access_exact [of demo_attrs 0 _ demo_user "\<lambda>_. demo_aces" True True]
  have "requested (FSAL_ACE4_MASK 0x80000001) n \<Longrightarrow> n = 0" for n
    by (auto simp: requested_def FSAL_ACE4_MASK_def bit_1_iff)
  moreover have "acl_grants demo_user demo_attrs demo_aces 0" by code_simp
  ultimately show "fst (fsal_test_access (\<lambda>_. demo_aces) demo_user demo_attrs 0x80000001 True True)
      = fsalstat ERR_FSAL_NO_ERROR 0"
    using ex [of "0x80000001"] by (auto simp: demo_attrs_def demo_user_def)
  have "requested (FSAL_ACE4_MASK 0x80000003) 1" "\<not> acl_grants demo_user demo_attrs demo_aces 1" by code_simp+
  then show "fst (fsal_test_access (\<lambda>_. demo_aces) demo_user demo_attrs 0x80000003 True True)
      \<noteq> fsalstat ERR_FSAL_NO_ERROR 0"
    using ex [of "0x80000003"] by (auto simp: demo_attrs_def demo_user_def)
qed

text \<open>
  With \<^verbatim>\<open>FSAL_ACE4_PERM_CONTINUE\<close> and both masks asked for, as the \<^verbatim>\<open>ACCESS\<close> operations do, the allowed mask
  has exactly the requested permissions the list grants.
\<close>

theorem acl_allowed_exact:
  assumes "a_acl attribs = Some acl" and "access_type AND 0x80000000 \<noteq> 0" and "caller_uid creds \<noteq> 0"
    and "access_type AND FSAL_ACE4_PERM_CONTINUE \<noteq> 0"
  shows "\<exists>status allowed denied.
     fsal_test_access acls creds attribs access_type True True = (status, Some allowed, denied)
     \<and> (\<forall>n. requested (FSAL_ACE4_MASK access_type) n \<longrightarrow>
          (bit allowed n \<longleftrightarrow> acl_grants creds attribs (acls acl) n))"
proof -
  let ?v = "FSAL_ACE4_MASK access_type"
  let ?app = "applies creds attribs"
  let ?a = "first_allowed creds attribs ?v" and ?m = "first_missing creds attribs ?v"
  have cont: "bit ?v 30" using assms(4) by (simp add: FSAL_ACE4_MASK_def bit_and_iff continue_set)
  have "split_masks ?v ?m ?a 0"
    by (auto simp: split_masks_def bit_first_missing bit_first_allowed requested_def)
  from acl_loop_allowed [OF cont this, where aces = "acls acl"]
  obtain m' a' d' where loop: "acl_loop creds ?v (a_type attribs = DIRECTORY)
      (fsal_check_ace_owner (ucast (a_owner attribs)) creds) (fsal_check_ace_group (ucast (a_group attribs)) creds)
      False (acls acl) ?m (Some ?a) (Some 0) = (None, m', Some a', d')"
    and bits: "\<And>n. requested ?v n \<Longrightarrow> bit a' n \<longleftrightarrow> bit ?a n \<or> (bit ?m n \<and> verdict ?app (acls acl) n)"
    unfolding adds_def applies_user [OF assms(3)] by blast
  have "bit a' n \<longleftrightarrow> acl_grants creds attribs (acls acl) n" if "requested ?v n" for n
    using bits [OF that] that by (auto simp: acl_grants_def bit_first_missing bit_first_allowed requested_def)
  then show ?thesis using assms(1,2) loop
    by (simp add: fsal_test_access_def ace4_valid check_access_acl_user [OF assms(3)] acl_finish_def)
qed

theorem acl_allowed_exact_witness:
  "\<exists>status allowed denied.
     fsal_test_access (\<lambda>_. demo_aces) demo_user demo_attrs 0xC0000003 True True = (status, Some allowed, denied)
     \<and> bit allowed 0 \<and> \<not> bit allowed 1"
proof -
  have "requested (FSAL_ACE4_MASK 0xC0000003) 0" "requested (FSAL_ACE4_MASK 0xC0000003) 1"
    "acl_grants demo_user demo_attrs demo_aces 0" "\<not> acl_grants demo_user demo_attrs demo_aces 1" by code_simp+
  then show ?thesis
    using acl_allowed_exact [of demo_attrs 0 "0xC0000003" demo_user "\<lambda>_. demo_aces"]
    by (auto simp: demo_attrs_def demo_user_def)
qed

lemma bit_mode_mask: "bit (FSAL_MODE_MASK access) n \<longleftrightarrow> bit access n \<and> n \<in> {24, 25, 26}"
proof -
  have "FSAL_MODE_MASK access = access AND (2 ^ 24 OR 2 ^ 25 OR 2 ^ 26)" by (simp add: FSAL_MODE_MASK_def)
  then show ?thesis by (simp only: bit_and_iff bit_or_iff bit_exp_iff) auto
qed

text \<open>The bits of the mode that a caller other than root is checked against: those of the first class it is in.\<close>

definition class_shift :: "user_cred \<Rightarrow> attrlist \<Rightarrow> nat" where
  "class_shift creds attrs =
     (if caller_uid creds = ucast (a_owner attrs) then 6
      else if ucast (a_group attrs) \<in> insert (caller_gid creds) (set (caller_garray creds)) then 3 else 0)"

definition mode_grants :: "user_cred \<Rightarrow> attrlist \<Rightarrow> nat \<Rightarrow> bool" where
  "mode_grants creds attrs k \<longleftrightarrow>
     (if caller_uid creds = 0 then k \<noteq> 0 \<or> bit (a_mode attrs) 0 \<or> bit (a_mode attrs) 3 \<or> bit (a_mode attrs) 6
      else bit (a_mode attrs) (class_shift creds attrs + k))"

lemma bit_class_mask:
  fixes mode :: u32
  shows "bit ((if mode AND 4 \<noteq> 0 then FSAL_R_OK else 0) OR (if mode AND 2 \<noteq> 0 then FSAL_W_OK else 0)
     OR (if mode AND 1 \<noteq> 0 then FSAL_X_OK else 0)) n
   \<longleftrightarrow> (n = 26 \<and> bit mode 2) \<or> (n = 25 \<and> bit mode 1) \<or> (n = 24 \<and> bit mode 0)"
proof -
  have "mode AND 4 \<noteq> 0 \<longleftrightarrow> bit mode 2" "mode AND 2 \<noteq> 0 \<longleftrightarrow> bit mode 1" "mode AND 1 \<noteq> 0 \<longleftrightarrow> bit mode 0"
    using and_exp_cases [of mode 2] and_exp_cases [of mode 1] and_exp_cases [of mode 0] by auto
  moreover have "bit (FSAL_R_OK) n \<longleftrightarrow> n = 26" "bit (FSAL_W_OK) n \<longleftrightarrow> n = 25" "bit (FSAL_X_OK) n \<longleftrightarrow> n = 24"
    using bit_exp_iff [where 'a = "32 word", of 26 n] bit_exp_iff [where 'a = "32 word", of 25 n]
      bit_exp_iff [where 'a = "32 word", of 24 n] by auto
  ultimately show ?thesis by (simp only: bit_or_iff) auto
qed

lemma mask_covers: "(m :: u32) AND a = a \<longleftrightarrow> (\<forall>n. bit a n \<longrightarrow> bit m n)"
  using bit_lt_32 [of a] by (auto simp: bit_eq_iff bit_and_iff)

lemma any_execute: "(mode :: u32) AND 0x49 \<noteq> 0 \<longleftrightarrow> bit mode 0 \<or> bit mode 3 \<or> bit mode 6"
proof -
  have "mode AND 0x49 = mode AND (2 ^ 0 OR 2 ^ 3 OR 2 ^ 6)" by simp
  then show ?thesis by (simp only: word_zero_bits bit_and_iff bit_or_iff bit_exp_iff) auto
qed

lemma less_three: "(\<forall>k < 3. P (24 + k) \<longrightarrow> Q k) \<longleftrightarrow> (P (24 :: nat) \<longrightarrow> Q 0) \<and> (P 25 \<longrightarrow> Q 1) \<and> (P 26 \<longrightarrow> Q (2 :: nat))"
  by (auto simp: less_Suc_eq numeral_3_eq_3 numeral_2_eq_2)

lemma execute_wanted: "FSAL_MODE_MASK access AND FSAL_X_OK = 0 \<longleftrightarrow> \<not> bit access 24"
  using and_exp_cases [of "FSAL_MODE_MASK access" 24] by (simp add: bit_mode_mask split: if_splits)

lemma check_mode_root:
  assumes "caller_uid creds = 0"
  shows "fst (fsal_check_access_no_acl creds (FSAL_MODE_MASK access_type) want_allowed want_denied attribs)
     = fsalstat ERR_FSAL_NO_ERROR 0 \<longleftrightarrow> (\<forall>k < 3. bit access_type (24 + k) \<longrightarrow> mode_grants creds attribs k)"
  using assms any_execute [of "a_mode attribs"]
  by (auto simp: fsal_check_access_no_acl_def Let_def execute_wanted less_three mode_grants_def fsalstat_def)

lemma check_mode_user:
  assumes "caller_uid creds \<noteq> 0"
  shows "fst (fsal_check_access_no_acl creds (FSAL_MODE_MASK access_type) want_allowed want_denied attribs)
     = fsalstat ERR_FSAL_NO_ERROR 0 \<longleftrightarrow> (\<forall>k < 3. bit access_type (24 + k) \<longrightarrow> mode_grants creds attribs k)"
proof -
  let ?mode = "drop_bit (class_shift creds attribs) (a_mode attribs)"
  let ?mask = "(if ?mode AND 4 \<noteq> 0 then FSAL_R_OK else 0) OR (if ?mode AND 2 \<noteq> 0 then FSAL_W_OK else 0)
     OR (if ?mode AND 1 \<noteq> 0 then FSAL_X_OK else 0)"
  have "(if caller_uid creds = ucast (a_owner attribs) then drop_bit 6 (a_mode attribs)
      else if caller_gid creds = ucast (a_group attribs) then drop_bit 3 (a_mode attribs)
      else if list_ex (\<lambda>g. g = ucast (a_group attribs)) (caller_garray creds) then drop_bit 3 (a_mode attribs)
      else a_mode attribs) = ?mode"
    by (auto simp: class_shift_def list_ex_iff)
  then have "fst (fsal_check_access_no_acl creds (FSAL_MODE_MASK access_type) want_allowed want_denied attribs)
      = fsalstat ERR_FSAL_NO_ERROR 0 \<longleftrightarrow> ?mask AND FSAL_MODE_MASK access_type = FSAL_MODE_MASK access_type"
    using assms unfolding fsal_check_access_no_acl_def Let_def by (simp only:) (simp add: fsalstat_def)
  also have "\<dots> \<longleftrightarrow> (\<forall>k < 3. bit access_type (24 + k) \<longrightarrow> mode_grants creds attribs k)"
    unfolding mask_covers bit_class_mask bit_mode_mask less_three using assms
    by (auto simp: mode_grants_def bit_drop_bit_eq)
  finally show ?thesis .
qed

text \<open>
  C14 Without a list, or for a request that is not one against a list, the check grants a request exactly when the
  mode bits do: those of the owner for the owner, else those of the group for a member of the group (with the
  supplementary groups), else those of others; root may do everything but execute what nobody may execute.
\<close>

theorem mode_access_exact:
  assumes "a_acl attribs = None \<or> access_type AND 0x80000000 = 0"
  shows "fst (fsal_test_access acls creds attribs access_type want_allowed want_denied) = fsalstat ERR_FSAL_NO_ERROR 0
     \<longleftrightarrow> (\<forall>k < 3. bit access_type (24 + k) \<longrightarrow> mode_grants creds attribs k)"
proof -
  have "fsal_test_access acls creds attribs access_type want_allowed want_denied
      = fsal_check_access_no_acl creds (FSAL_MODE_MASK access_type) want_allowed want_denied attribs"
    using assms by (auto simp: fsal_test_access_def split: option.split)
  then show ?thesis by (cases "caller_uid creds = 0") (simp_all only: check_mode_root check_mode_user simp_thms)
qed

theorem mode_access_exact_witness:
  "fst (fsal_test_access (\<lambda>_. []) demo_user (demo_attrs\<lparr>a_acl := None\<rparr>) FSAL_R_OK True True) = fsalstat ERR_FSAL_NO_ERROR 0
   \<and> fst (fsal_test_access (\<lambda>_. []) demo_user (demo_attrs\<lparr>a_acl := None\<rparr>) FSAL_W_OK True True) \<noteq> fsalstat ERR_FSAL_NO_ERROR 0"
proof -
  let ?a = "demo_attrs\<lparr>a_acl := None\<rparr>"
  note ex = mode_access_exact [of ?a _ "\<lambda>_. []" demo_user True True, unfolded less_three]
  have "mode_grants demo_user ?a 2" "\<not> mode_grants demo_user ?a 1" by code_simp+
  moreover have "\<not> bit (FSAL_R_OK) 24" "\<not> bit (FSAL_R_OK) 25" "bit (FSAL_W_OK) 25" by code_simp+
  ultimately show ?thesis using ex [of FSAL_R_OK] ex [of FSAL_W_OK] by simp
qed

lemma acl_loop_root_execute:
  assumes "\<And>pace. pace \<in> set aces \<Longrightarrow> ace_type pace = FSAL_ACE_TYPE_ALLOW \<Longrightarrow> ace_perm pace AND FSAL_ACE_PERM_EXECUTE = 0"
  shows "fst (acl_finish (acl_loop creds v4mask is_dir is_owner is_group True aces FSAL_ACE_PERM_EXECUTE al d))
    = fsalstat ERR_FSAL_ACCESS 0"
  using assms
proof (induction aces arbitrary: al)
  case Nil
  then show ?case by (simp add: acl_finish_def denial_def)
next
  case (Cons pace rest)
  have "without FSAL_ACE_PERM_EXECUTE (ace_perm pace AND e) = FSAL_ACE_PERM_EXECUTE"
    if "ace_type pace = FSAL_ACE_TYPE_ALLOW" for e
  proof -
    have "bit FSAL_ACE_PERM_EXECUTE n \<Longrightarrow> \<not> bit (ace_perm pace) n" for n
      using Cons.prems [of pace] that by (auto simp: word_zero_bits bit_and_iff)
    then show ?thesis by (auto simp: bit_eq_iff bit_and_iff simp del: bit_numeral_simps)
  qed
  from this [of "- 1"] this Cons show ?case by (auto simp: Let_def split: option.split)
qed

text \<open>
  C40 The check against a list refuses root the search of a directory unless an entry of the list allows
  execution: the \<^verbatim>\<open>return\<close> is missing before the \<^verbatim>\<open>fsalstat\<close> of the case the comment says is allowed anything.
\<close>

theorem root_search_denied:
  assumes "caller_uid creds = 0" and "a_type attribs = DIRECTORY" and "a_acl attribs = Some acl"
    and "access_type AND 0x80000000 \<noteq> 0" and "access_type AND FSAL_ACE_PERM_EXECUTE \<noteq> 0"
    and "\<And>pace. pace \<in> set (acls acl) \<Longrightarrow> ace_type pace = FSAL_ACE_TYPE_ALLOW
           \<Longrightarrow> ace_perm pace AND FSAL_ACE_PERM_EXECUTE = 0"
  shows "fst (fsal_test_access acls creds attribs access_type want_allowed want_denied) = fsalstat ERR_FSAL_ACCESS 0"
proof -
  let ?v = "FSAL_ACE4_MASK access_type"
  have "bit access_type 5" using assms(5) and_exp_cases [of access_type 5] by (simp split: if_splits)
  then have "bit ?v 5" by (simp add: FSAL_ACE4_MASK_def bit_and_iff)
  then have m: "(?v AND NOT FSAL_ACE4_PERM_CONTINUE) AND FSAL_ACE_PERM_EXECUTE = FSAL_ACE_PERM_EXECUTE"
    using and_exp_cases [of "?v AND NOT FSAL_ACE4_PERM_CONTINUE" 5] by (simp add: bit_simps)
  have "fst (fsal_check_access_acl creds ?v want_allowed want_denied (acls acl) attribs) = fsalstat ERR_FSAL_ACCESS 0"
    using assms(1,2) m by (simp add: fsal_check_access_acl_def Let_def acl_loop_root_execute [OF assms(6)])
  then show ?thesis using assms(3,4) by (simp add: fsal_test_access_def ace4_valid)
qed

theorem root_search_denied_witness:
  "fst (fsal_test_access (\<lambda>_. demo_aces) (demo_user\<lparr>caller_uid := 0\<rparr>) (demo_attrs\<lparr>a_type := DIRECTORY\<rparr>) 0x80000020 True True)
   = fsalstat ERR_FSAL_ACCESS 0"
  by (rule root_search_denied [where acl = 0]) (auto simp: demo_attrs_def demo_aces_def)

end
