(* ===== verification/Cache_Open.thy ===== *)
theory Cache_Open
  imports State_Lock
begin

text \<open>
  The open file of a cache entry: \<^verbatim>\<open>cache_inode/cache_inode_open_close.c\<close> with the pins of
  \<^verbatim>\<open>cache_inode/cache_inode_lru.c\<close> and the count of open descriptors of \<^verbatim>\<open>include/cache_inode_lru.h\<close>, over the
  \<^verbatim>\<open>open\<close>, \<^verbatim>\<open>reopen\<close>, \<^verbatim>\<open>close\<close> and \<^verbatim>\<open>status\<close> methods of a file-system layer, and these methods of FSAL_KURMA.
\<close>

unbundle bit_operations_syntax

section \<open>State\<close>

text \<open>
  The methods of the file-system layer with its state \<open>'f\<close>; \<open>None\<close> is a crash.  The limits are those of
  \<^verbatim>\<open>lru_state\<close>.
\<close>

record 'f file_ops =
  fo_status :: "'f \<Rightarrow> u16"
  fo_open :: "u16 \<Rightarrow> 'f \<Rightarrow> (fsal_status \<times> 'f) option"
  fo_reopen :: "u16 \<Rightarrow> 'f \<Rightarrow> (fsal_status \<times> 'f) option"
  fo_close :: "'f \<Rightarrow> (fsal_status \<times> 'f) option"
  fo_numlinks :: "'f \<Rightarrow> u32"
  fo_supports :: "fsal_fsinfo_options_t \<Rightarrow> bool"
  fo_regular :: bool
  fo_fds_hard_limit :: u64

record 'f cache_file =
  cf_fsal :: 'f
  cf_pins :: int
  cf_dead :: bool
  cf_open_fd_count :: u64
  cf_caching_fds :: bool

abbreviation (input) FSAL_O_READ :: u16 where "FSAL_O_READ \<equiv> 1"
abbreviation (input) FSAL_O_WRITE :: u16 where "FSAL_O_WRITE \<equiv> 2"
abbreviation (input) FSAL_O_RECLAIM :: u16 where "FSAL_O_RECLAIM \<equiv> 8"
abbreviation (input) FSAL_O_DIRECT :: u16 where "FSAL_O_DIRECT \<equiv> 16"
abbreviation (input) ERR_FSAL_NOT_OPENED :: fsal_errors_t where "ERR_FSAL_NOT_OPENED \<equiv> 20010"

definition cache_inode_error_convert :: "fsal_status \<Rightarrow> cache_inode_status_t" where
  "cache_inode_error_convert fsal_status =
     (let major = st_major fsal_status in
      if major = ERR_FSAL_NO_ERROR then CACHE_INODE_SUCCESS
      else if major = ERR_FSAL_NOENT then CACHE_INODE_NOT_FOUND
      else if major = ERR_FSAL_EXIST then CACHE_INODE_ENTRY_EXISTS
      else if major = 13 then CACHE_INODE_FSAL_EACCESS
      else if major = ERR_FSAL_PERM then CACHE_INODE_FSAL_EPERM
      else if major = 28 then CACHE_INODE_NO_SPACE_LEFT
      else if major = ERR_FSAL_NOTEMPTY then CACHE_INODE_DIR_NOT_EMPTY
      else if major = 30 then CACHE_INODE_READ_ONLY_FS
      else if major = ERR_FSAL_NOTDIR then CACHE_INODE_NOT_A_DIRECTORY
      else if major \<in> {ERR_FSAL_IO, 6} then CACHE_INODE_IO_ERROR
      else if major \<in> {ERR_FSAL_STALE, 10014} then CACHE_INODE_FSAL_ESTALE
      else if major \<in> {ERR_FSAL_INVAL, 20012} then CACHE_INODE_INVALID_ARGUMENT
      else if major \<in> {49, 20005} then CACHE_INODE_QUOTA_EXCEEDED
      else if major = 20004 then CACHE_INODE_FSAL_ERR_SEC
      else if major \<in> {ERR_FSAL_NOTSUPP, 10032} then CACHE_INODE_NOT_SUPPORTED
      else if major = 10094 then CACHE_INODE_UNION_NOTSUPP
      else if major = 10008 then CACHE_INODE_DELAY
      else if major = 78 then CACHE_INODE_NAME_TOO_LONG
      else if major = ERR_FSAL_NOMEM then CACHE_INODE_MALLOC_ERROR
      else if major = 10003 then CACHE_INODE_BAD_COOKIE
      else if major = 10046 then CACHE_INODE_FILE_OPEN
      else if major = 21 then CACHE_INODE_IS_A_DIRECTORY
      else if major \<in> {10029, 10007} then CACHE_INODE_BAD_TYPE
      else if major = 27 then CACHE_INODE_FILE_BIG
      else if major = 18 then CACHE_INODE_FSAL_XDEV
      else if major = 31 then CACHE_INODE_FSAL_MLINK
      else if major \<in> {ERR_FSAL_FAULT, ERR_FSAL_SERVERFAULT, 20011} then CACHE_INODE_SERVERFAULT
      else if major = ERR_FSAL_TOOSMALL then CACHE_INODE_TOOSMALL
      else if major = 10015 then CACHE_INODE_FSAL_SHARE_DENIED
      else if major = 10095 then CACHE_INODE_IN_GRACE
      else if major = ERR_FSAL_BADHANDLE then CACHE_INODE_BADHANDLE
      else CACHE_INODE_FSAL_ERROR)"

definition FSAL_IS_ERROR :: "fsal_status \<Rightarrow> bool" where
  "FSAL_IS_ERROR st \<longleftrightarrow> st_major st \<noteq> ERR_FSAL_NO_ERROR"

definition cf_kill_if_stale :: "fsal_status \<Rightarrow> ('f, 'a) cache_file_scheme \<Rightarrow> ('f, 'a) cache_file_scheme" where
  "cf_kill_if_stale st w = (if st_major st = ERR_FSAL_STALE then w\<lparr>cf_dead := True\<rparr> else w)"

section \<open>Open and close\<close>

definition cf_is_open :: "'f file_ops \<Rightarrow> ('f, 'a) cache_file_scheme \<Rightarrow> bool" where
  "cf_is_open ops w \<longleftrightarrow> (if \<not> fo_regular ops then False else fo_status ops (cf_fsal w) \<noteq> FSAL_O_CLOSED)"

definition is_open_for_write :: "'f file_ops \<Rightarrow> ('f, 'a) cache_file_scheme \<Rightarrow> bool" where
  "is_open_for_write ops w \<longleftrightarrow>
     (if \<not> fo_regular ops then False else fo_status ops (cf_fsal w) AND FSAL_O_WRITE \<noteq> 0)"

definition is_open_for_read :: "'f file_ops \<Rightarrow> ('f, 'a) cache_file_scheme \<Rightarrow> bool" where
  "is_open_for_read ops w \<longleftrightarrow>
     (if \<not> fo_regular ops then False else fo_status ops (cf_fsal w) AND FSAL_O_READ \<noteq> 0)"

definition cache_inode_lru_fds_available ::
    "'f file_ops \<Rightarrow> ('f, 'a) cache_file_scheme \<Rightarrow> bool \<times> ('f, 'a) cache_file_scheme" where
  "cache_inode_lru_fds_available ops w =
     (if cf_open_fd_count w \<ge> fo_fds_hard_limit ops \<and> cf_caching_fds w
      then (False, w\<lparr>cf_caching_fds := False\<rparr>) else (True, w))"

text \<open>
  The two halves of \<^verbatim>\<open>cache_inode_open\<close>: a file open in another mode is reopened or closed, and a closed file is
  opened.
\<close>

definition open_adapt ::
    "'f file_ops \<Rightarrow> u16 \<Rightarrow> ('f, 'a) cache_file_scheme \<Rightarrow> (cache_inode_status_t \<times> ('f, 'a) cache_file_scheme) option" where
  "open_adapt ops openflags w =
     do {
       let reopen = fo_supports ops fso_reopen_method;
       (st, f) \<leftarrow> (if reopen then fo_reopen ops openflags (cf_fsal w) else fo_close ops (cf_fsal w));
       let w = w\<lparr>cf_fsal := f\<rparr>;
       if FSAL_IS_ERROR st \<and> st_major st \<noteq> ERR_FSAL_NOT_OPENED
       then Some (cache_inode_error_convert st, cf_kill_if_stale st w)
       else Some (CACHE_INODE_SUCCESS,
              if \<not> FSAL_IS_ERROR st \<and> \<not> reopen then w\<lparr>cf_open_fd_count := cf_open_fd_count w - 1\<rparr> else w)
     }"

definition open_closed ::
    "'f file_ops \<Rightarrow> u16 \<Rightarrow> ('f, 'a) cache_file_scheme \<Rightarrow> (cache_inode_status_t \<times> ('f, 'a) cache_file_scheme) option" where
  "open_closed ops openflags w =
     (if fo_status ops (cf_fsal w) = FSAL_O_CLOSED then
        do {
          (st, f) \<leftarrow> fo_open ops openflags (cf_fsal w);
          let w = w\<lparr>cf_fsal := f\<rparr>;
          if FSAL_IS_ERROR st then Some (cache_inode_error_convert st, cf_kill_if_stale st w)
          else Some (CACHE_INODE_SUCCESS, w\<lparr>cf_open_fd_count := cf_open_fd_count w + 1\<rparr>)
        }
      else Some (CACHE_INODE_SUCCESS, w))"

definition must_adapt :: "u16 \<Rightarrow> u16 \<Rightarrow> bool" where
  "must_adapt current_flags openflags \<longleftrightarrow>
     (current_flags AND openflags \<noteq> openflags
        \<or> (current_flags AND FSAL_O_DIRECT \<noteq> 0 \<and> openflags AND FSAL_O_DIRECT = 0))
     \<and> current_flags \<noteq> FSAL_O_CLOSED"

definition cache_inode_open ::
    "'f file_ops \<Rightarrow> u16 \<Rightarrow> ('f, 'a) cache_file_scheme \<Rightarrow> (cache_inode_status_t \<times> ('f, 'a) cache_file_scheme) option" where
  "cache_inode_open ops openflags w =
     (if \<not> fo_regular ops then Some (CACHE_INODE_BAD_TYPE, w)
      else
        let (available, w) = cache_inode_lru_fds_available ops w in
        if \<not> available then Some (CACHE_INODE_DELAY, w)
        else do {
          (status, w) \<leftarrow>
            (if must_adapt (fo_status ops (cf_fsal w)) openflags then open_adapt ops openflags w
             else Some (CACHE_INODE_SUCCESS, w));
          if status \<noteq> CACHE_INODE_SUCCESS then Some (status, w) else open_closed ops openflags w
        })"

definition cache_inode_close ::
    "'f file_ops \<Rightarrow> bool \<Rightarrow> bool \<Rightarrow> ('f, 'a) cache_file_scheme
      \<Rightarrow> (cache_inode_status_t \<times> ('f, 'a) cache_file_scheme) option" where
  "cache_inode_close ops reallyclose not_pinned w =
     (if \<not> fo_regular ops then Some (CACHE_INODE_BAD_TYPE, w)
      else if \<not> cf_is_open ops w then Some (CACHE_INODE_SUCCESS, w)
      else if \<not> not_pinned \<and> cf_pins w > 0 then Some (CACHE_INODE_SUCCESS, w)
      else if \<not> cf_caching_fds w \<or> reallyclose \<or> fo_numlinks ops (cf_fsal w) = 0 then
        do {
          (st, f) \<leftarrow> fo_close ops (cf_fsal w);
          let w = w\<lparr>cf_fsal := f\<rparr>;
          if FSAL_IS_ERROR st \<and> st_major st \<noteq> ERR_FSAL_NOT_OPENED
          then Some (cache_inode_error_convert st, cf_kill_if_stale st w)
          else Some (CACHE_INODE_SUCCESS,
                 if \<not> FSAL_IS_ERROR st then w\<lparr>cf_open_fd_count := cf_open_fd_count w - 1\<rparr> else w)
        }
      else Some (CACHE_INODE_SUCCESS, w))"

section \<open>Pins\<close>

definition cf_inc_pin_ref :: "('f, 'a) cache_file_scheme \<Rightarrow> cache_inode_status_t \<times> ('f, 'a) cache_file_scheme" where
  "cf_inc_pin_ref w =
     (if cf_dead w then (CACHE_INODE_DEAD_ENTRY, w) else (CACHE_INODE_SUCCESS, w\<lparr>cf_pins := cf_pins w + 1\<rparr>))"

definition cf_dec_pin_ref ::
    "'f file_ops \<Rightarrow> bool \<Rightarrow> ('f, 'a) cache_file_scheme \<Rightarrow> ('f, 'a) cache_file_scheme option" where
  "cf_dec_pin_ref ops closefile w =
     (let w = w\<lparr>cf_pins := cf_pins w - 1\<rparr> in
      if cf_pins w = 0 \<and> closefile then map_option snd (cache_inode_close ops True True w) else Some w)"


text \<open>The operations on the cache entry of a file.\<close>

inductive cache_step :: "'f file_ops \<Rightarrow> 'f cache_file \<Rightarrow> 'f cache_file \<Rightarrow> bool" for ops where
  step_open: "cache_inode_open ops fl w = Some (s, w') \<Longrightarrow> fl \<noteq> 0 \<Longrightarrow> cache_step ops w w'"
| step_close: "cache_inode_close ops really not_pinned w = Some (s, w') \<Longrightarrow> cache_step ops w w'"
| step_pin: "cf_inc_pin_ref w = (s, w') \<Longrightarrow> cache_step ops w w'"
| step_unpin: "cf_dec_pin_ref ops closefile w = Some w' \<Longrightarrow> cache_step ops w w'"

section \<open>The contract of the file-system layer\<close>

text \<open>
  What the cache relies on: a successful open or reopen leaves the file in the mode asked for, a successful close
  leaves it closed, a failure leaves the mode alone, and only a closed file is reported as not open.
\<close>

text \<open>The descriptors that are open for other files: all but the one of this file.\<close>

definition fd_others :: "'f file_ops \<Rightarrow> ('f, 'a) cache_file_scheme \<Rightarrow> u64" where
  "fd_others ops w = cf_open_fd_count w - of_bool (fo_status ops (cf_fsal w) \<noteq> FSAL_O_CLOSED)"

lemma cache_inode_error_convert_ok [simp]:
  "cache_inode_error_convert st = CACHE_INODE_SUCCESS \<longleftrightarrow> \<not> FSAL_IS_ERROR st"
  by (simp add: cache_inode_error_convert_def Let_def FSAL_IS_ERROR_def)

lemma cf_kill_if_stale_simps [simp]:
  "cf_fsal (cf_kill_if_stale st w) = cf_fsal w" "cf_open_fd_count (cf_kill_if_stale st w) = cf_open_fd_count w"
  "cf_pins (cf_kill_if_stale st w) = cf_pins w"
  by (simp_all add: cf_kill_if_stale_def)

locale fsal_file =
  fixes ops :: "'f file_ops"
  assumes open_mode: "fo_open ops fl f = Some (st, f') \<Longrightarrow>
      fo_status ops f' = (if FSAL_IS_ERROR st then fo_status ops f else fl)"
    and reopen_mode: "fo_reopen ops fl f = Some (st, f') \<Longrightarrow>
      fo_status ops f' = (if FSAL_IS_ERROR st then fo_status ops f else fl)"
    and close_mode: "fo_close ops f = Some (st, f') \<Longrightarrow>
      fo_status ops f' = (if FSAL_IS_ERROR st then fo_status ops f else FSAL_O_CLOSED)"
    and reopen_not_opened: "fo_reopen ops fl f = Some (st, f') \<Longrightarrow> st_major st = ERR_FSAL_NOT_OPENED
      \<Longrightarrow> fo_status ops f = FSAL_O_CLOSED"
    and close_not_opened: "fo_close ops f = Some (st, f') \<Longrightarrow> st_major st = ERR_FSAL_NOT_OPENED
      \<Longrightarrow> fo_status ops f = FSAL_O_CLOSED"
begin

lemma reopen_effect:
  "fo_reopen ops fl f = Some (st, f') \<Longrightarrow> fo_status ops f \<noteq> FSAL_O_CLOSED \<Longrightarrow>
     st_major st \<noteq> ERR_FSAL_NOT_OPENED \<and> fo_status ops f' = (if FSAL_IS_ERROR st then fo_status ops f else fl)"
  using reopen_mode reopen_not_opened by blast

lemma close_effect:
  "fo_close ops f = Some (st, f') \<Longrightarrow> fo_status ops f \<noteq> FSAL_O_CLOSED \<Longrightarrow>
     st_major st \<noteq> ERR_FSAL_NOT_OPENED \<and> fo_status ops f' = (if FSAL_IS_ERROR st then fo_status ops f else FSAL_O_CLOSED)"
  using close_mode close_not_opened by blast

lemma open_adapt_mode:
  assumes "open_adapt ops fl w = Some (s, w')" and "fo_status ops (cf_fsal w) \<noteq> FSAL_O_CLOSED" and "fl \<noteq> 0"
  shows "fd_others ops w' = fd_others ops w
    \<and> (s = CACHE_INODE_SUCCESS \<longrightarrow> fo_status ops (cf_fsal w') \<in> {FSAL_O_CLOSED, fl})"
  using assms
  by (auto simp: open_adapt_def Let_def fd_others_def bind_eq_Some_conv dest!: reopen_effect close_effect
      split: if_splits)

lemma open_closed_mode:
  assumes "open_closed ops fl w = Some (s, w')" and "fl \<noteq> 0"
  shows "fd_others ops w' = fd_others ops w
    \<and> (s = CACHE_INODE_SUCCESS \<longrightarrow> fo_status ops (cf_fsal w')
         = (if fo_status ops (cf_fsal w) = FSAL_O_CLOSED then fl else fo_status ops (cf_fsal w)))"
  using assms
  by (auto simp: open_closed_def Let_def fd_others_def bind_eq_Some_conv dest!: open_mode split: if_splits)

lemma fds_available_keeps:
  "cache_inode_lru_fds_available ops w = (b, w') \<Longrightarrow> cf_fsal w' = cf_fsal w \<and> fd_others ops w' = fd_others ops w"
  by (auto simp: cache_inode_lru_fds_available_def fd_others_def split: if_splits)

lemma cache_inode_open_mode:
  assumes run: "cache_inode_open ops fl w = Some (s, w')" and fl: "fl \<noteq> 0"
  shows "fd_others ops w' = fd_others ops w \<and> (s = CACHE_INODE_SUCCESS \<longrightarrow> fo_status ops (cf_fsal w') AND fl = fl)"
proof -
  obtain b w1 where avail: "cache_inode_lru_fds_available ops w = (b, w1)" by fastforce
  note same = fds_available_keeps [OF avail]
  show ?thesis
  proof (cases "fo_regular ops \<and> b")
    case False
    then show ?thesis using run avail same by (auto simp: cache_inode_open_def split: if_splits)
  next
    case True
    show ?thesis
    proof (cases "must_adapt (fo_status ops (cf_fsal w)) fl")
      case adapt: True
      then have "fo_status ops (cf_fsal w1) \<noteq> FSAL_O_CLOSED" using same by (simp add: must_adapt_def)
      then show ?thesis using run avail same True adapt
        by (auto simp: cache_inode_open_def bind_eq_Some_conv dest!: open_adapt_mode [OF _ _ fl] open_closed_mode [OF _ fl]
            split: if_splits)
    next
      case adapt: False
      then show ?thesis using run avail same True
        by (auto simp: cache_inode_open_def must_adapt_def dest!: open_closed_mode [OF _ fl] split: if_splits)
    qed
  qed
qed

lemma cache_inode_close_mode:
  assumes "cache_inode_close ops really not_pinned w = Some (s, w')"
  shows "fd_others ops w' = fd_others ops w
    \<and> (s = CACHE_INODE_SUCCESS \<and> really \<and> not_pinned \<longrightarrow> fo_status ops (cf_fsal w') = FSAL_O_CLOSED)"
  using assms
  by (auto simp: cache_inode_close_def cf_is_open_def Let_def fd_others_def bind_eq_Some_conv dest!: close_effect
      split: if_splits)

lemma cf_dec_pin_ref_mode:
  "cf_dec_pin_ref ops closefile w = Some w' \<Longrightarrow> fd_others ops w' = fd_others ops w"
  by (auto simp: cf_dec_pin_ref_def Let_def fd_others_def dest!: cache_inode_close_mode split: if_splits)

lemma cache_step_fds: "cache_step ops w w' \<Longrightarrow> fd_others ops w' = fd_others ops w"
  by (induction rule: cache_step.induct)
    (auto simp: cf_inc_pin_ref_def fd_others_def dest: cache_inode_open_mode cache_inode_close_mode cf_dec_pin_ref_mode
      split: if_splits)

lemma cache_run_fds: "(cache_step ops)\<^sup>*\<^sup>* w w' \<Longrightarrow> fd_others ops w' = fd_others ops w"
  by (induction rule: rtranclp_induct) (auto dest: cache_step_fds)

end

section \<open>FSAL_KURMA as the file-system layer\<close>

text \<open>
  The state is the object handle with the world of the remote calls.  FSAL_KURMA keeps the \<^verbatim>\<open>reopen\<close> of
  \<^verbatim>\<open>FSAL/default_methods.c\<close>.
\<close>

definition file_reopen :: "u16 \<Rightarrow> 'f \<Rightarrow> (fsal_status \<times> 'f) option" where
  "file_reopen openflags f = Some (fsalstat ERR_FSAL_NOTSUPP 0, f)"

definition kurma_file_ops ::
    "'s kurma_service \<Rightarrow> fsal_staticfsinfo_t \<Rightarrow> bool \<Rightarrow> u64 \<Rightarrow> (kurma_fsal_obj_handle \<times> 's rpc_world) file_ops" where
  "kurma_file_ops svc info regular limit =
     \<lparr>fo_status = \<lambda>(khdl, w). kurma_status khdl,
      fo_open = \<lambda>fl (khdl, w). kurma_open svc khdl fl w,
      fo_reopen = file_reopen,
      fo_close = \<lambda>(khdl, w). kurma_close svc khdl w,
      fo_numlinks = \<lambda>(khdl, w). a_numlinks (kh_attrs khdl),
      fo_supports = fsal_supports info,
      fo_regular = regular, fo_fds_hard_limit = limit\<rparr>"

lemma kurma_try_update_openflags:
  "kurma_try_update_attributes khdl attrs w = (khdl', w') \<Longrightarrow> kh_openflags khdl' = kh_openflags khdl"
  by (auto simp: kurma_try_update_attributes_def set_attrs_override_def Let_def split: prod.splits if_splits)

lemma kurma_open_mode:
  "ensures (kurma_open svc khdl fl w)
     (\<lambda>(st, khdl', w'). kh_openflags khdl' = (if FSAL_IS_ERROR st then kh_openflags khdl else fl))"
  unfolding kurma_open_def
  by (intro ensures_rules; auto simp: FSAL_IS_ERROR_def dest!: kurma_try_update_openflags split: if_splits)

lemma kurma_close_mode:
  "ensures (kurma_close svc khdl w)
     (\<lambda>(st, khdl', w'). kh_openflags khdl' = (if FSAL_IS_ERROR st then kh_openflags khdl else FSAL_O_CLOSED)
        \<and> st_major st \<noteq> ERR_FSAL_NOT_OPENED)"
  unfolding kurma_close_def
  by (intro ensures_rules; auto simp: FSAL_IS_ERROR_def kurma_to_fsal_status_def dest!: kurma_try_update_openflags
      split: if_splits)

interpretation kf: fsal_file "kurma_file_ops svc info regular limit" for svc info regular limit
  by unfold_locales
    (auto simp: kurma_file_ops_def kurma_status_def file_reopen_def FSAL_IS_ERROR_def
      dest!: ensuresD [OF kurma_open_mode] ensuresD [OF kurma_close_mode] split: if_splits)

section \<open>Properties\<close>

text \<open>
  C18 Over every sequence of opens, closes and pins of a Kurma file by the cache the count of open descriptors
  follows the file: it differs from the count at the start by the descriptor of the file alone.
\<close>

theorem kurma_cache_fds:
  assumes "(cache_step (kurma_file_ops svc info regular limit))\<^sup>*\<^sup>* w w'"
  shows "cf_open_fd_count w' - of_bool (kurma_status (fst (cf_fsal w')) \<noteq> FSAL_O_CLOSED)
       = cf_open_fd_count w - of_bool (kurma_status (fst (cf_fsal w)) \<noteq> FSAL_O_CLOSED)"
  using kf.cache_run_fds [OF assms] by (simp add: fd_others_def kurma_file_ops_def case_prod_beta)

text \<open>A file that is closed, on a server that answers every open and close.\<close>

definition open_service :: "unit kurma_service" where
  "open_service = null_service\<lparr>svc_open := (\<lambda>_ _ _ s. (Some new_kurma_result, s)),
     svc_close := (\<lambda>_ _ s. (Some new_kurma_result, s))\<rparr>"

definition demo_ops :: "(kurma_fsal_obj_handle \<times> unit rpc_world) file_ops" where
  "demo_ops = kurma_file_ops open_service default_posix_info True 10"

definition demo_cache :: "(kurma_fsal_obj_handle \<times> unit rpc_world) cache_file" where
  "demo_cache = \<lparr>cf_fsal = (sample_handle,
       \<lparr>w_srv = (), w_kurma_server = [], w_kurma_port = 0, w_client = True, w_sessionid = Some [1], w_orc = sample_oracle\<rparr>),
     cf_pins = 0, cf_dead = False, cf_open_fd_count = 4, cf_caching_fds = True\<rparr>"

definition opened :: "u16 \<Rightarrow> (kurma_fsal_obj_handle \<times> unit rpc_world) cache_file \<Rightarrow> cache_inode_status_t \<times> (kurma_fsal_obj_handle \<times> unit rpc_world) cache_file" where
  "opened fl w = the (cache_inode_open demo_ops fl w)"

lemma opened_run:
  "cache_inode_open demo_ops 1 demo_cache = Some (CACHE_INODE_SUCCESS, snd (opened 1 demo_cache))"
  "cache_inode_open demo_ops 3 (snd (opened 1 demo_cache)) = Some (CACHE_INODE_SUCCESS, snd (opened 3 (snd (opened 1 demo_cache))))"
proof -
  have "cache_inode_open demo_ops 1 demo_cache \<noteq> None" "fst (opened 1 demo_cache) = CACHE_INODE_SUCCESS" by code_simp+
  then show "cache_inode_open demo_ops 1 demo_cache = Some (CACHE_INODE_SUCCESS, snd (opened 1 demo_cache))"
    by (auto simp: opened_def)
  have "cache_inode_open demo_ops 3 (snd (opened 1 demo_cache)) \<noteq> None"
    "fst (opened 3 (snd (opened 1 demo_cache))) = CACHE_INODE_SUCCESS" by code_simp+
  then show "cache_inode_open demo_ops 3 (snd (opened 1 demo_cache))
      = Some (CACHE_INODE_SUCCESS, snd (opened 3 (snd (opened 1 demo_cache))))"
    by (auto simp: opened_def)
qed

theorem kurma_cache_fds_witness:
  "\<exists>w'. (cache_step demo_ops)\<^sup>*\<^sup>* demo_cache w' \<and> kurma_status (fst (cf_fsal w')) = FSAL_O_RDWR \<and> cf_open_fd_count w' = 5"
proof -
  let ?w1 = "snd (opened 1 demo_cache)" and ?w2 = "snd (opened 3 (snd (opened 1 demo_cache)))"
  have "cache_step demo_ops demo_cache ?w1" by (rule step_open [OF opened_run(1)]) simp
  moreover have "cache_step demo_ops ?w1 ?w2" by (rule step_open [OF opened_run(2)]) simp
  ultimately have run: "(cache_step demo_ops)\<^sup>*\<^sup>* demo_cache ?w2"
    by (rule rtranclp.rtrancl_into_rtrancl [OF r_into_rtranclp])
  have st: "kurma_status (fst (cf_fsal ?w2)) = FSAL_O_RDWR" "kurma_status (fst (cf_fsal demo_cache)) = FSAL_O_CLOSED"
    "cf_open_fd_count demo_cache = 4" by code_simp+
  have "cf_open_fd_count ?w2 = 5"
    using kurma_cache_fds [OF run [unfolded demo_ops_def]] by (simp add: st diff_eq_eq)
  with run st(1) show ?thesis by blast
qed

text \<open>
  C28 When the cache reports that it opened a Kurma file, the file is open in every mode that was asked for, also
  when it had to be closed first.
\<close>

theorem kurma_cache_open_mode:
  assumes "cache_inode_open (kurma_file_ops svc info regular limit) openflags w = Some (CACHE_INODE_SUCCESS, w')"
    and "openflags \<noteq> FSAL_O_CLOSED"
  shows "kurma_status (fst (cf_fsal w')) AND openflags = openflags"
  using kf.cache_inode_open_mode [OF assms] by (simp add: kurma_file_ops_def case_prod_beta)

theorem kurma_cache_open_mode_witness:
  "\<exists>w w' :: (kurma_fsal_obj_handle \<times> unit rpc_world) cache_file. cache_inode_open demo_ops FSAL_O_RDWR w = Some (CACHE_INODE_SUCCESS, w')
     \<and> kurma_status (fst (cf_fsal w)) = FSAL_O_READ \<and> kurma_status (fst (cf_fsal w')) AND FSAL_O_RDWR = FSAL_O_RDWR"
proof -
  have "kurma_status (fst (cf_fsal (snd (opened 1 demo_cache)))) = FSAL_O_READ" by code_simp
  moreover have "kurma_status (fst (cf_fsal (snd (opened 3 (snd (opened 1 demo_cache)))))) AND FSAL_O_RDWR = FSAL_O_RDWR"
    by (rule kurma_cache_open_mode [OF opened_run(2) [unfolded demo_ops_def]]) simp
  ultimately show ?thesis using opened_run(2) by blast
qed

end
