(* ===== verification/State_Share.thy ===== *)
theory State_Share
  imports Cache_Open
begin

text \<open>
  Share reservations of one file: \<^verbatim>\<open>SAL/state_share.c\<close>, with the counters of shares in the cache entry.
\<close>

unbundle bit_operations_syntax

section \<open>State\<close>

record cache_inode_share_t =
  share_access_read :: u32
  share_access_write :: u32
  share_deny_read :: u32
  share_deny_write :: u32
  share_deny_write_v4 :: u32

text \<open>The share of an NFSv4 open; the lock states of the open refer to it from their side.\<close>

record state_share_t =
  share_access :: u32
  share_deny :: u32
  share_access_prev :: u32
  share_deny_prev :: u32

text \<open>An NLM share carries its address as an identity; the lists it is on follow its fields.\<close>

record state_nlm_share_t =
  sns_id :: nat
  sns_owner :: nat
  sns_export :: nat
  sns_access :: u32
  sns_deny :: u32

datatype open_delegation_type4 = OPEN_DELEGATE_NONE | OPEN_DELEGATE_READ | OPEN_DELEGATE_WRITE | OPEN_DELEGATE_NONE_EXT

text \<open>
  The NFSv4 states of a file.  A lock state names the open state it belongs to and tells whether it has locks.
\<close>

datatype state_data_t =
    Data_None
  | Data_Share state_share_t
  | Data_Deleg open_delegation_type4
  | Data_Lock nat bool
  | Data_Layout

record state_t =
  st_id :: nat
  st_owner :: nat
  st_export :: nat
  st_data :: state_data_t

abbreviation (input) OPEN4_SHARE_ACCESS_READ :: u32 where "OPEN4_SHARE_ACCESS_READ \<equiv> 1"
abbreviation (input) OPEN4_SHARE_ACCESS_WRITE :: u32 where "OPEN4_SHARE_ACCESS_WRITE \<equiv> 2"
abbreviation (input) OPEN4_SHARE_ACCESS_BOTH :: u32 where "OPEN4_SHARE_ACCESS_BOTH \<equiv> 3"
abbreviation (input) OPEN4_SHARE_ACCESS_NONE :: u32 where "OPEN4_SHARE_ACCESS_NONE \<equiv> 0"
abbreviation (input) OPEN4_SHARE_DENY_READ :: u32 where "OPEN4_SHARE_DENY_READ \<equiv> 1"
abbreviation (input) OPEN4_SHARE_DENY_WRITE :: u32 where "OPEN4_SHARE_DENY_WRITE \<equiv> 2"
abbreviation (input) OPEN4_SHARE_DENY_BOTH :: u32 where "OPEN4_SHARE_DENY_BOTH \<equiv> 3"
abbreviation (input) OPEN4_SHARE_DENY_NONE :: u32 where "OPEN4_SHARE_DENY_NONE \<equiv> 0"

text \<open>
  The file: its cache entry with the counters, the NFSv4 states, the delegations (the client and the type of each),
  the NLM shares, the next address, the source of nondeterminism, the references to owners and to NSM clients that
  the operations took and did not drop, and the number of recalls of delegations that were started.
\<close>

record 'f share_file = "'f cache_file" +
  sf_share_state :: cache_inode_share_t
  sf_state_list :: "state_t list"
  sf_deleg_list :: "(u64 \<times> open_delegation_type4) list"
  sf_nlm_share_list :: "state_nlm_share_t list"
  sf_next :: nat
  sf_orc :: c_oracle
  sf_owner_refs :: "nat \<Rightarrow> int"
  sf_nsm_refs :: "nat \<Rightarrow> int"
  sf_recalls :: nat

text \<open>
  What an operation runs in: the methods of the file-system layer with its \<^verbatim>\<open>share_op\<close>, the owners with the NSM client of
  each, the export of the request, and \<^verbatim>\<open>cache_inode_access\<close>.
\<close>

record 'f share_env =
  se_ops :: "'f file_ops"
  se_share_op :: "u32 \<Rightarrow> u32 \<Rightarrow> bool \<Rightarrow> 'f \<Rightarrow> (fsal_status \<times> 'f) option"
  se_owners :: owner_heap
  se_nsm :: "nat \<Rightarrow> nat"
  se_export :: "nat option"
  se_access :: "u32 \<Rightarrow> 'f \<Rightarrow> cache_inode_status_t"

section \<open>Counters\<close>

definition do_share_op ::
    "'f share_env \<Rightarrow> u32 \<Rightarrow> u32 \<Rightarrow> bool \<Rightarrow> 'f share_file \<Rightarrow> (state_status_t \<times> 'f share_file) option" where
  "do_share_op env acc deny reclaim w =
     (if \<not> fo_supports (se_ops env) fso_share_support then Some (STATE_SUCCESS, w)
      else do {
        (fsal_status, f) \<leftarrow> se_share_op env acc deny reclaim (cf_fsal w);
        Some (state_error_convert fsal_status, cf_kill_if_stale fsal_status (w\<lparr>cf_fsal := f\<rparr>))
      })"

definition state_share_check_conflict :: "cache_inode_share_t \<Rightarrow> u32 \<Rightarrow> u32 \<Rightarrow> state_status_t" where
  "state_share_check_conflict c acc deny =
     (if acc AND OPEN4_SHARE_ACCESS_READ \<noteq> 0 \<and> share_deny_read c > 0 then STATE_STATE_CONFLICT
      else if acc AND OPEN4_SHARE_ACCESS_WRITE \<noteq> 0 \<and> share_deny_write c > 0 then STATE_STATE_CONFLICT
      else if deny AND OPEN4_SHARE_DENY_READ \<noteq> 0 \<and> share_access_read c > 0 then STATE_STATE_CONFLICT
      else if deny AND OPEN4_SHARE_DENY_WRITE \<noteq> 0 \<and> share_access_write c > 0 then STATE_STATE_CONFLICT
      else STATE_SUCCESS)"

text \<open>The increments are \<^verbatim>\<open>int\<close>s that are added to unsigned counters.\<close>

definition share_inc :: "u32 \<Rightarrow> u32 \<Rightarrow> u32 \<Rightarrow> u32" where
  "share_inc flag new old = of_bool (new AND flag \<noteq> 0) - of_bool (old AND flag \<noteq> 0)"

definition state_share_update_counter ::
    "u32 \<Rightarrow> u32 \<Rightarrow> u32 \<Rightarrow> u32 \<Rightarrow> bool \<Rightarrow> cache_inode_share_t \<Rightarrow> cache_inode_share_t" where
  "state_share_update_counter old_access old_deny new_access new_deny v4 c =
     (let access_read_inc = share_inc OPEN4_SHARE_ACCESS_READ new_access old_access;
          access_write_inc = share_inc OPEN4_SHARE_ACCESS_WRITE new_access old_access;
          deny_read_inc = share_inc OPEN4_SHARE_DENY_READ new_deny old_deny;
          deny_write_inc = share_inc OPEN4_SHARE_DENY_WRITE new_deny old_deny;
          c = c\<lparr>share_access_read := share_access_read c + access_read_inc,
                share_access_write := share_access_write c + access_write_inc,
                share_deny_read := share_deny_read c + deny_read_inc,
                share_deny_write := share_deny_write c + deny_write_inc\<rparr> in
      if v4 then c\<lparr>share_deny_write_v4 := share_deny_write_v4 c + deny_write_inc\<rparr> else c)"

definition state_share_get_share_access :: "cache_inode_share_t \<Rightarrow> u32" where
  "state_share_get_share_access c =
     (let acc = (if share_access_read c > 0 then 0 OR OPEN4_SHARE_ACCESS_READ else 0) in
      if share_access_write c > 0 then acc OR OPEN4_SHARE_ACCESS_WRITE else acc)"

definition state_share_get_share_deny :: "cache_inode_share_t \<Rightarrow> u32" where
  "state_share_get_share_deny c =
     (let deny = (if share_deny_read c > 0 then 0 OR OPEN4_SHARE_DENY_READ else 0) in
      if share_deny_write c > 0 then deny OR OPEN4_SHARE_DENY_WRITE else deny)"

text \<open>
  What every operation does with the counters: count the change, push the union down when it changed, and count back
  when that failed.
\<close>

definition share_change ::
    "'f share_env \<Rightarrow> u32 \<Rightarrow> u32 \<Rightarrow> u32 \<Rightarrow> u32 \<Rightarrow> bool \<Rightarrow> 'f share_file
      \<Rightarrow> (state_status_t \<times> 'f share_file) option" where
  "share_change env old_access old_deny new_access new_deny reclaim w =
     (let old = sf_share_state w;
          new = state_share_update_counter old_access old_deny new_access new_deny True old;
          w = w\<lparr>sf_share_state := new\<rparr> in
      if state_share_get_share_access new \<noteq> state_share_get_share_access old
         \<or> state_share_get_share_deny new \<noteq> state_share_get_share_deny old
      then do {
        (status, w) \<leftarrow>
          do_share_op env (state_share_get_share_access new) (state_share_get_share_deny new) reclaim w;
        Some (status,
          if status \<noteq> STATE_SUCCESS
          then w\<lparr>sf_share_state :=
                 state_share_update_counter new_access new_deny old_access old_deny True (sf_share_state w)\<rparr>
          else w)
      }
      else Some (STATE_SUCCESS, w))"

definition cache_inode_adjust_openflags :: "'f share_env \<Rightarrow> 'f share_file \<Rightarrow> 'f share_file option" where
  "cache_inode_adjust_openflags env w =
     (if \<not> fo_regular (se_ops env) then Some w
      else if share_access_write (sf_share_state w) > 0 \<or> \<not> fo_supports (se_ops env) fso_reopen_method then Some w
      else
        let openflags = fo_status (se_ops env) (cf_fsal w) in
        if openflags AND FSAL_O_WRITE = 0 then Some w
        else if openflags AND FSAL_O_READ = 0 then Some w
        else do {
          (_, f) \<leftarrow> fo_reopen (se_ops env) (openflags AND NOT FSAL_O_WRITE) (cf_fsal w);
          Some (w\<lparr>cf_fsal := f\<rparr>)
        })"

section \<open>NFSv4 opens\<close>

text \<open>The modes an open has had, as a bitmap; \<^verbatim>\<open>1 << n\<close> is undefined from 31 on.\<close>

definition share_bit :: "u32 \<Rightarrow> u32 option" where
  "share_bit k = (if unat k < 31 then Some (push_bit (unat k) 1) else None)"

definition state_share_set_prev :: "state_share_t \<Rightarrow> state_share_t \<Rightarrow> state_share_t option" where
  "state_share_set_prev state state_data =
     do {
       a \<leftarrow> share_bit (share_access state_data);
       d \<leftarrow> share_bit (share_deny state_data);
       Some (state\<lparr>share_access_prev := share_access_prev state OR a,
                   share_deny_prev := share_deny_prev state OR d\<rparr>)
     }"

definition state_share_check_prev :: "state_share_t \<Rightarrow> state_share_t \<Rightarrow> state_status_t option" where
  "state_share_check_prev state state_data =
     do {
       a \<leftarrow> share_bit (share_access state_data);
       if share_access_prev state AND a = 0 then Some STATE_STATE_ERROR
       else do {
         d \<leftarrow> share_bit (share_deny state_data);
         if share_deny_prev state AND d = 0 then Some STATE_STATE_ERROR else Some STATE_SUCCESS
       }
     }"

definition state_share_add ::
    "'f share_env \<Rightarrow> state_share_t \<Rightarrow> bool \<Rightarrow> 'f share_file
      \<Rightarrow> (state_status_t \<times> state_share_t \<times> 'f share_file) option" where
  "state_share_add env state reclaim w =
     (if state_share_check_conflict (sf_share_state w) (share_access state) (share_deny state) \<noteq> STATE_SUCCESS
      then Some (STATE_STATE_CONFLICT, state, w)
      else do {
        (status, w) \<leftarrow> share_change env OPEN4_SHARE_ACCESS_NONE OPEN4_SHARE_DENY_NONE
          (share_access state) (share_deny state) reclaim w;
        if status \<noteq> STATE_SUCCESS then Some (status, state, w)
        else do {
          state \<leftarrow> state_share_set_prev state state;
          Some (status, state, w)
        }
      })"

definition state_share_remove ::
    "'f share_env \<Rightarrow> state_share_t \<Rightarrow> 'f share_file \<Rightarrow> (state_status_t \<times> 'f share_file) option" where
  "state_share_remove env state w =
     do {
       (status, w) \<leftarrow> share_change env (share_access state) (share_deny state)
         OPEN4_SHARE_ACCESS_NONE OPEN4_SHARE_DENY_NONE False w;
       if status \<noteq> STATE_SUCCESS then Some (status, w)
       else do { w \<leftarrow> cache_inode_adjust_openflags env w; Some (status, w) }
     }"

definition state_share_upgrade ::
    "'f share_env \<Rightarrow> state_share_t \<Rightarrow> state_share_t \<Rightarrow> bool \<Rightarrow> 'f share_file
      \<Rightarrow> (state_status_t \<times> state_share_t \<times> 'f share_file) option" where
  "state_share_upgrade env state_data state reclaim w =
     (if state_share_check_conflict (sf_share_state w) (share_access state_data) (share_deny state_data)
           \<noteq> STATE_SUCCESS
      then Some (STATE_STATE_CONFLICT, state, w)
      else
        let new_access = share_access state_data OR share_access state;
            new_deny = share_deny state_data OR share_deny state in
        do {
          (status, w) \<leftarrow> share_change env (share_access state) (share_deny state) new_access new_deny reclaim w;
          if status \<noteq> STATE_SUCCESS then Some (status, state, w)
          else do {
            state \<leftarrow> state_share_set_prev (state\<lparr>share_access := new_access, share_deny := new_deny\<rparr>) state_data;
            Some (status, state, w)
          }
        })"

definition state_share_downgrade ::
    "'f share_env \<Rightarrow> state_share_t \<Rightarrow> state_share_t \<Rightarrow> 'f share_file
      \<Rightarrow> (state_status_t \<times> state_share_t \<times> 'f share_file) option" where
  "state_share_downgrade env state_data state w =
     do {
       (status, w) \<leftarrow> share_change env (share_access state) (share_deny state)
         (share_access state_data) (share_deny state_data) False w;
       if status \<noteq> STATE_SUCCESS then Some (status, state, w)
       else do {
         w \<leftarrow> cache_inode_adjust_openflags env w;
         Some (status, state\<lparr>share_access := share_access state_data, share_deny := share_deny state_data\<rparr>, w)
       }
     }"

section \<open>Anonymous I/O\<close>

definition state_share_anonymous_io_start :: "u32 \<Rightarrow> 'f share_file \<Rightarrow> state_status_t \<times> 'f share_file" where
  "state_share_anonymous_io_start acc w =
     (let status = state_share_check_conflict (sf_share_state w) acc 0 in
      if status = STATE_SUCCESS
      then (status, w\<lparr>sf_share_state := state_share_update_counter OPEN4_SHARE_ACCESS_NONE OPEN4_SHARE_DENY_NONE
              acc OPEN4_SHARE_DENY_NONE False (sf_share_state w)\<rparr>)
      else (status, w))"

definition state_share_anonymous_io_done :: "u32 \<Rightarrow> 'f share_file \<Rightarrow> 'f share_file" where
  "state_share_anonymous_io_done acc w =
     w\<lparr>sf_share_state := state_share_update_counter acc OPEN4_SHARE_DENY_NONE
         OPEN4_SHARE_ACCESS_NONE OPEN4_SHARE_DENY_NONE False (sf_share_state w)\<rparr>"

section \<open>NLM shares\<close>

definition add_ref :: "nat \<Rightarrow> int \<Rightarrow> (nat \<Rightarrow> int) \<Rightarrow> nat \<Rightarrow> int" where
  "add_ref i n refs = refs(i := refs i + n)"

text \<open>
  The share \<open>i\<close> leaves its lists and is freed; the pin of the list goes with the last share, and the NSM client and the
  owner lose a reference.
\<close>

definition drop_nlm_share ::
    "'f share_env \<Rightarrow> bool \<Rightarrow> nat \<Rightarrow> nat \<Rightarrow> 'f share_file \<Rightarrow> 'f share_file option" where
  "drop_nlm_share env closefile i owner w =
     (let w = w\<lparr>sf_nlm_share_list := filter (\<lambda>s. sns_id s \<noteq> i) (sf_nlm_share_list w)\<rparr> in
      do {
        w \<leftarrow> (if sf_nlm_share_list w = [] then cf_dec_pin_ref (se_ops env) closefile w else Some w);
        Some (w\<lparr>sf_nsm_refs := add_ref (se_nsm env owner) (- 1) (sf_nsm_refs w),
                sf_owner_refs := add_ref owner (- 1) (sf_owner_refs w)\<rparr>)
      })"

definition nlm_share_openflags :: "'f share_env \<Rightarrow> u32 \<Rightarrow> bool \<Rightarrow> u16" where
  "nlm_share_openflags env acc reclaim =
     (let openflags = (if acc = 1 \<and> fo_supports (se_ops env) fso_reopen_method then FSAL_O_READ else FSAL_O_RDWR) in
      if reclaim then openflags OR FSAL_O_RECLAIM else openflags)"

text \<open>The part of \<^verbatim>\<open>state_nlm_share\<close> that enters the share, after the conflict check and the allocation.\<close>

definition enter_nlm_share ::
    "'f share_env \<Rightarrow> u32 \<Rightarrow> u32 \<Rightarrow> nat \<Rightarrow> nat \<Rightarrow> bool \<Rightarrow> 'f share_file
      \<Rightarrow> (state_status_t \<times> 'f share_file) option" where
  "enter_nlm_share env acc deny owner export reclaim w =
     (let i = sf_next w;
          nlm_share = \<lparr>sns_id = i, sns_owner = owner, sns_export = export, sns_access = acc, sns_deny = deny\<rparr>;
          w = w\<lparr>sf_next := Suc i,
                sf_owner_refs := add_ref owner (- 1) (add_ref owner 1 (sf_owner_refs w)),
                sf_nsm_refs := add_ref (se_nsm env owner) 1 (sf_nsm_refs w)\<rparr>;
          w = (if sf_nlm_share_list w = [] then snd (cf_inc_pin_ref w) else w);
          w = w\<lparr>sf_nlm_share_list := sf_nlm_share_list w @ [nlm_share]\<rparr> in
      do {
        (status, w) \<leftarrow> share_change env OPEN4_SHARE_ACCESS_NONE OPEN4_SHARE_DENY_NONE acc deny reclaim w;
        w \<leftarrow> (if status \<noteq> STATE_SUCCESS then drop_nlm_share env True i owner w else Some w);
        Some (status, w)
      })"

text \<open>The part under the state lock.\<close>

definition nlm_share_locked ::
    "'f share_env \<Rightarrow> u32 \<Rightarrow> u32 \<Rightarrow> nat \<Rightarrow> bool \<Rightarrow> 'f share_file \<Rightarrow> (state_status_t \<times> 'f share_file) option" where
  "nlm_share_locked env acc deny owner reclaim w =
     (let status = state_share_check_conflict (sf_share_state w) acc deny in
      if status \<noteq> STATE_SUCCESS then Some (status, w)
      else
        let (ok, orc) = draw_malloc (sf_orc w); w = w\<lparr>sf_orc := orc\<rparr> in
        if \<not> ok then Some (STATE_MALLOC_ERROR, w)
        else do {
          export \<leftarrow> se_export env;
          enter_nlm_share env acc deny owner export reclaim w
        })"

definition state_nlm_share ::
    "'f share_env \<Rightarrow> u32 \<Rightarrow> u32 \<Rightarrow> nat \<Rightarrow> bool \<Rightarrow> 'f share_file \<Rightarrow> (state_status_t \<times> 'f share_file) option" where
  "state_nlm_share env acc deny owner reclaim w =
     (let (cache_status, w) = cf_inc_pin_ref w in
      if cache_status \<noteq> CACHE_INODE_SUCCESS then Some (cache_inode_status_to_state_status cache_status, w)
      else do {
        (cache_status, w) \<leftarrow> cache_inode_open (se_ops env) (nlm_share_openflags env acc reclaim) w;
        (status, w) \<leftarrow>
          (if cache_status \<noteq> CACHE_INODE_SUCCESS then Some (cache_inode_status_to_state_status cache_status, w)
           else nlm_share_locked env acc deny owner reclaim w);
        w \<leftarrow> cf_dec_pin_ref (se_ops env) True w;
        Some (status, w)
      })"

definition unshare_matches :: "'f share_env \<Rightarrow> u32 \<Rightarrow> u32 \<Rightarrow> nat \<Rightarrow> state_nlm_share_t \<Rightarrow> bool" where
  "unshare_matches env acc deny owner nlm_share \<longleftrightarrow>
     (if different_owners (se_owners env) owner (sns_owner nlm_share) then False
      else if se_export env \<noteq> None \<and> se_export env \<noteq> Some (sns_export nlm_share) then False
      else if acc \<noteq> OPEN4_SHARE_ACCESS_NONE \<and> (sns_access nlm_share \<noteq> acc \<or> sns_deny nlm_share \<noteq> deny) then False
      else True)"

fun unshare_loop ::
    "'f share_env \<Rightarrow> u32 \<Rightarrow> u32 \<Rightarrow> nat \<Rightarrow> state_nlm_share_t list \<Rightarrow> state_status_t \<Rightarrow> 'f share_file
      \<Rightarrow> (state_status_t \<times> 'f share_file) option" where
  "unshare_loop env acc deny owner [] status w = Some (status, w)"
| "unshare_loop env acc deny owner (nlm_share # rest) status w =
     (if \<not> unshare_matches env acc deny owner nlm_share then unshare_loop env acc deny owner rest status w
      else do {
        (status, w) \<leftarrow> share_change env (sns_access nlm_share) (sns_deny nlm_share)
          OPEN4_SHARE_ACCESS_NONE OPEN4_SHARE_DENY_NONE False w;
        if status \<noteq> STATE_SUCCESS then Some (status, w)
        else do {
          w \<leftarrow> drop_nlm_share env True (sns_id nlm_share) owner w;
          unshare_loop env acc deny owner rest status w
        }
      })"

definition state_nlm_unshare ::
    "'f share_env \<Rightarrow> u32 \<Rightarrow> u32 \<Rightarrow> nat \<Rightarrow> 'f share_file \<Rightarrow> (state_status_t \<times> 'f share_file) option" where
  "state_nlm_unshare env acc deny owner w =
     (let (cache_status, w) = cf_inc_pin_ref w in
      if cache_status \<noteq> CACHE_INODE_SUCCESS then Some (cache_inode_status_to_state_status cache_status, w)
      else do {
        (status, w) \<leftarrow> unshare_loop env acc deny owner (sf_nlm_share_list w) STATE_SUCCESS w;
        w \<leftarrow> cf_dec_pin_ref (se_ops env) True w;
        Some (status, w)
      })"

fun wipe_shares :: "'f share_env \<Rightarrow> state_nlm_share_t list \<Rightarrow> 'f share_file \<Rightarrow> 'f share_file option" where
  "wipe_shares env [] w = Some w"
| "wipe_shares env (nlm_share # rest) w =
     do {
       w \<leftarrow> drop_nlm_share env False (sns_id nlm_share) (sns_owner nlm_share) w;
       wipe_shares env rest w
     }"

definition state_share_wipe :: "'f share_env \<Rightarrow> 'f share_file \<Rightarrow> 'f share_file option" where
  "state_share_wipe env w = wipe_shares env (sf_nlm_share_list w) w"

end
