(* ===== verification/State_Open.thy ===== *)
theory State_Open
  imports State_Share
begin

text \<open>
  The NFSv4 states of a file and the operations that open, downgrade and close it: \<^verbatim>\<open>SAL/nfs4_state.c\<close>,
  \<^verbatim>\<open>Protocols/NFS/nfs4_op_open.c\<close>, \<^verbatim>\<open>nfs4_op_open_downgrade.c\<close> and \<^verbatim>\<open>nfs4_op_close.c\<close>, after the stateid and the
  sequence number were checked.
\<close>

unbundle bit_operations_syntax

section \<open>States of a file\<close>

text \<open>
  \<^verbatim>\<open>check_deleg_conflict\<close> of an existing delegation of a client with a candidate of another.  A lock candidate
  has no locks yet, so the loop over them is empty.
\<close>

definition check_deleg_conflict :: "u64 \<times> open_delegation_type4 \<Rightarrow> state_data_t \<Rightarrow> u64 \<Rightarrow> bool" where
  "check_deleg_conflict deleg candidate_data candidate_clientid =
     (let (deleg_clientid, sd_type) = deleg in
      case candidate_data of
        Data_Deleg candidate_type \<Rightarrow>
          if deleg_clientid = candidate_clientid then False
          else if sd_type = OPEN_DELEGATE_WRITE then True
          else candidate_type = OPEN_DELEGATE_WRITE
      | Data_Share share \<Rightarrow>
          if deleg_clientid = candidate_clientid then False
          else if sd_type = OPEN_DELEGATE_READ \<and> share_access share AND OPEN4_SHARE_ACCESS_WRITE \<noteq> 0 then True
          else sd_type = OPEN_DELEGATE_WRITE
      | _ \<Rightarrow> False)"

definition state_conflict :: "state_t \<Rightarrow> state_data_t \<Rightarrow> bool" where
  "state_conflict state candidate_data =
     (case candidate_data of
        Data_Share candidate \<Rightarrow>
          (case st_data state of
             Data_Share share \<Rightarrow>
               share_access share AND share_deny candidate \<noteq> 0 \<or> share_deny share AND share_access candidate \<noteq> 0
           | _ \<Rightarrow> False)
      | Data_Deleg candidate_type \<Rightarrow>
          (case st_data state of
             Data_Share share \<Rightarrow>
               (candidate_type = OPEN_DELEGATE_READ \<and> share_access share AND OPEN4_SHARE_ACCESS_WRITE \<noteq> 0)
               \<or> (candidate_type = OPEN_DELEGATE_WRITE \<and> share_access share AND OPEN4_SHARE_ACCESS_READ \<noteq> 0)
               \<or> (candidate_type = OPEN_DELEGATE_WRITE \<and> share_access share AND OPEN4_SHARE_ACCESS_WRITE \<noteq> 0)
           | _ \<Rightarrow> False)
      | _ \<Rightarrow> False)"

definition unpin_if :: "'f share_env \<Rightarrow> bool \<Rightarrow> 'f share_file \<Rightarrow> 'f share_file option" where
  "unpin_if env got_pinned w = (if got_pinned then cf_dec_pin_ref (se_ops env) False w else Some w)"

text \<open>The allocations of \<^verbatim>\<open>state_add_impl\<close>: the state from its pool and the entry of the table of stateids.\<close>

definition sf_malloc :: "'f share_file \<Rightarrow> bool \<times> 'f share_file" where
  "sf_malloc w = (let (ok, orc) = draw_malloc (sf_orc w) in (ok, w\<lparr>sf_orc := orc\<rparr>))"

definition recall_conflicting :: "'f share_env \<Rightarrow> state_data_t \<Rightarrow> nat \<Rightarrow> 'f share_file \<Rightarrow> 'f share_file" where
  "recall_conflicting env state_data owner w =
     w\<lparr>sf_recalls := sf_recalls w + length (filter
         (\<lambda>deleg. check_deleg_conflict deleg state_data (so_clientid (se_owners env owner))) (sf_deleg_list w))\<rparr>"

text \<open>
  \<^verbatim>\<open>state_add_impl\<close> gives the address of the new state.  The export of the state is attached by the caller, at
  once.
\<close>

definition state_add_impl ::
    "'f share_env \<Rightarrow> state_data_t \<Rightarrow> nat \<Rightarrow> nat \<Rightarrow> 'f share_file
      \<Rightarrow> (state_status_t \<times> nat option \<times> 'f share_file) option" where
  "state_add_impl env state_data owner export w =
     (let got_pinned = (sf_state_list w = []);
          (cache_status, w) = (if got_pinned then cf_inc_pin_ref w else (CACHE_INODE_SUCCESS, w)) in
      if cache_status \<noteq> CACHE_INODE_SUCCESS then Some (cache_inode_status_to_state_status cache_status, None, w)
      else
        let (ok, w) = sf_malloc w in
        if \<not> ok then do { w \<leftarrow> unpin_if env got_pinned w; Some (STATE_MALLOC_ERROR, None, w) }
        else
          let w = recall_conflicting env state_data owner w in
          if list_ex (\<lambda>state. state_conflict state state_data) (sf_state_list w)
          then do { w \<leftarrow> unpin_if env got_pinned w; Some (STATE_STATE_CONFLICT, None, w) }
          else
            let (ok, w) = sf_malloc w in
            if \<not> ok then do { w \<leftarrow> unpin_if env got_pinned w; Some (STATE_MALLOC_ERROR, None, w) }
            else
              let i = sf_next w in
              Some (STATE_SUCCESS, Some i,
                w\<lparr>sf_next := Suc i,
                  sf_state_list := sf_state_list w @ [\<lparr>st_id = i, st_owner = owner, st_export = export, st_data = state_data\<rparr>],
                  sf_owner_refs := add_ref owner 1 (sf_owner_refs w)\<rparr>))"

definition state_add ::
    "'f share_env \<Rightarrow> state_data_t \<Rightarrow> nat \<Rightarrow> nat \<Rightarrow> 'f share_file
      \<Rightarrow> (state_status_t \<times> nat option \<times> 'f share_file) option" where
  "state_add env state_data owner export w =
     (let ty = so_type (se_owners env owner) in
      if (case state_data of
            Data_Share _ \<Rightarrow> ty \<noteq> STATE_OPEN_OWNER_NFSV4
          | Data_Lock _ _ \<Rightarrow> ty \<noteq> STATE_LOCK_OWNER_NFSV4
          | Data_Deleg _ \<Rightarrow> ty \<noteq> STATE_CLIENTID_OWNER_NFSV4
          | Data_Layout \<Rightarrow> ty \<noteq> STATE_CLIENTID_OWNER_NFSV4
          | Data_None \<Rightarrow> False)
      then Some (STATE_BAD_TYPE, None, w)
      else state_add_impl env state_data owner export w)"

definition find_state :: "nat \<Rightarrow> 'f share_file \<Rightarrow> state_t option" where
  "find_state i w = find (\<lambda>state. st_id state = i) (sf_state_list w)"

definition put_state_data :: "nat \<Rightarrow> state_data_t \<Rightarrow> 'f share_file \<Rightarrow> 'f share_file" where
  "put_state_data i d w =
     w\<lparr>sf_state_list := map (\<lambda>state. if st_id state = i then state\<lparr>st_data := d\<rparr> else state) (sf_state_list w)\<rparr>"

definition state_del_locked :: "'f share_env \<Rightarrow> nat \<Rightarrow> 'f share_file \<Rightarrow> 'f share_file option" where
  "state_del_locked env i w =
     do {
       state \<leftarrow> find_state i w;
       let w = w\<lparr>sf_owner_refs := add_ref (st_owner state) (- 1) (sf_owner_refs w),
                 sf_state_list := filter (\<lambda>state. st_id state \<noteq> i) (sf_state_list w)\<rparr>;
       if sf_state_list w = [] then cf_dec_pin_ref (se_ops env) False w else Some w
     }"

fun del_states :: "'f share_env \<Rightarrow> nat list \<Rightarrow> 'f share_file \<Rightarrow> 'f share_file option" where
  "del_states env [] w = Some w"
| "del_states env (i # rest) w = do { w \<leftarrow> state_del_locked env i w; del_states env rest w }"

definition state_nfs4_state_wipe :: "'f share_env \<Rightarrow> 'f share_file \<Rightarrow> 'f share_file option" where
  "state_nfs4_state_wipe env w = del_states env (map st_id (sf_state_list w)) w"

section \<open>OPEN\<close>

text \<open>
  The result of an open: the cache and state statuses go through \<^verbatim>\<open>nfs4_Errno\<close> and \<^verbatim>\<open>nfs4_Errno_state\<close>; one branch
  returns a state status as it is.
\<close>

datatype open_result =
    Open_OK
  | Open_Invalid
  | Open_Errno cache_inode_status_t
  | Open_Errno_state state_status_t
  | Open_Raw state_status_t

abbreviation (input) FSAL_READ_ACCESS :: u32 where "FSAL_READ_ACCESS \<equiv> 0x84000001"
abbreviation (input) FSAL_WRITE_ACCESS :: u32 where "FSAL_WRITE_ACCESS \<equiv> 0x82000006"
abbreviation (input) FSAL_EXECUTE_ACCESS :: u32 where "FSAL_EXECUTE_ACCESS \<equiv> 0x81000020"

definition open4_access :: "'f share_env \<Rightarrow> u32 \<Rightarrow> 'f share_file \<Rightarrow> cache_inode_status_t" where
  "open4_access env share_acc w =
     (let access_mask = (if share_acc AND OPEN4_SHARE_ACCESS_WRITE \<noteq> 0 then FSAL_WRITE_ACCESS else 0)
            OR (if share_acc AND OPEN4_SHARE_ACCESS_READ \<noteq> 0 then FSAL_READ_ACCESS else 0);
          cache_status = se_access env access_mask (cf_fsal w) in
      if cache_status \<noteq> CACHE_INODE_SUCCESS then
        (if cache_status \<noteq> CACHE_INODE_FSAL_EACCESS then cache_status
         else if share_acc AND OPEN4_SHARE_ACCESS_WRITE \<noteq> 0 then cache_status
         else se_access env FSAL_EXECUTE_ACCESS (cf_fsal w))
      else CACHE_INODE_SUCCESS)"

definition is_share_of :: "nat \<Rightarrow> state_t \<Rightarrow> bool" where
  "is_share_of owner state \<longleftrightarrow> (case st_data state of Data_Share _ \<Rightarrow> st_owner state = owner | _ \<Rightarrow> False)"

text \<open>
  The end of \<^verbatim>\<open>open4_do_open\<close>, from the open of the file on.  The result is the status, the address of the state (null
  unless the open succeeded) and whether the state is new.
\<close>

definition open4_push ::
    "'f share_env \<Rightarrow> state_share_t \<Rightarrow> nat \<Rightarrow> bool \<Rightarrow> u16 \<Rightarrow> 'f share_file
      \<Rightarrow> (open_result \<times> nat option \<times> 'f share_file) option" where
  "open4_push env candidate i new_state openflags w =
     do {
       (cache_status, w) \<leftarrow> cache_inode_open (se_ops env) openflags w;
       if cache_status \<noteq> CACHE_INODE_SUCCESS then Some (Open_Errno cache_status, None, w)
       else do {
         state \<leftarrow> find_state i w;
         share \<leftarrow> (case st_data state of Data_Share share \<Rightarrow> Some share | _ \<Rightarrow> None);
         let reclaim = (openflags AND FSAL_O_RECLAIM \<noteq> 0);
         (state_status, share, w) \<leftarrow>
           (if new_state then state_share_add env share reclaim w
            else state_share_upgrade env candidate share reclaim w);
         let w = put_state_data i (Data_Share share) w;
         if state_status \<noteq> STATE_SUCCESS then do {
           (_, w) \<leftarrow> cache_inode_close (se_ops env) False False w;
           Some (Open_Errno_state state_status, None, w)
         }
         else Some (Open_OK, Some i, w)
       }
     }"

definition open4_do_open ::
    "'f share_env \<Rightarrow> u32 \<Rightarrow> u32 \<Rightarrow> nat \<Rightarrow> u16 \<Rightarrow> 'f share_file
      \<Rightarrow> (open_result \<times> nat option \<times> bool \<times> 'f share_file) option" where
  "open4_do_open env arg_access arg_deny owner openflags w =
     (let cache_status = open4_access env arg_access w in
      if cache_status \<noteq> CACHE_INODE_SUCCESS then Some (Open_Errno cache_status, None, True, w)
      else
        let candidate = \<lparr>share_access = arg_access AND OPEN4_SHARE_ACCESS_BOTH, share_deny = arg_deny,
                         share_access_prev = 0, share_deny_prev = 0\<rparr>;
            state_status = state_share_check_conflict (sf_share_state w) (share_access candidate) (share_deny candidate) in
        if state_status \<noteq> STATE_SUCCESS then Some (Open_Errno_state state_status, None, True, w)
        else do {
          export \<leftarrow> se_export env;
          (case find (is_share_of owner) (sf_state_list w) of
             None \<Rightarrow> do {
               (state_status, file_state, w) \<leftarrow> state_add_impl env (Data_Share candidate) owner export w;
               if state_status \<noteq> STATE_SUCCESS then Some (Open_Errno_state state_status, None, True, w)
               else do {
                 i \<leftarrow> file_state;
                 (result, state, w) \<leftarrow> open4_push env candidate i True openflags w;
                 Some (result, state, True, w)
               }
             }
           | Some file_state \<Rightarrow>
               if st_export file_state \<noteq> export then Some (Open_Raw STATE_INVALID_ARGUMENT, None, False, w)
               else do {
                 (result, state, w) \<leftarrow> open4_push env candidate (st_id file_state) False openflags w;
                 Some (result, state, False, w)
               })
        })"

text \<open>
  \<^verbatim>\<open>nfs4_op_open\<close> on a regular file, from the check of the share bits on: \<open>minor\<close> is the minor version and \<open>claim\<close> the
  number of the claim.
\<close>

abbreviation (input) OPEN4_SHARE_ACCESS_WANT_DELEG_MASK :: u32 where "OPEN4_SHARE_ACCESS_WANT_DELEG_MASK \<equiv> 0xFF00"

definition open4_bad_share :: "u32 \<Rightarrow> u32 \<Rightarrow> u32 \<Rightarrow> bool" where
  "open4_bad_share minor arg_access arg_deny \<longleftrightarrow>
     arg_access AND OPEN4_SHARE_ACCESS_BOTH = 0
     \<or> (minor = 0 \<and> arg_access AND NOT OPEN4_SHARE_ACCESS_BOTH \<noteq> 0)
     \<or> arg_access AND (NOT OPEN4_SHARE_ACCESS_WANT_DELEG_MASK AND NOT OPEN4_SHARE_ACCESS_BOTH) \<noteq> 0
     \<or> arg_deny AND NOT OPEN4_SHARE_DENY_BOTH \<noteq> 0"

definition open4_openflags :: "u32 \<Rightarrow> u32 \<Rightarrow> u16" where
  "open4_openflags arg_access claim =
     (let openflags = (if arg_access AND OPEN4_SHARE_ACCESS_BOTH = OPEN4_SHARE_ACCESS_READ then FSAL_O_READ
                       else FSAL_O_RDWR) in
      if claim \<noteq> 0 then FSAL_O_RECLAIM else openflags)"

definition nfs4_op_open ::
    "'f share_env \<Rightarrow> u32 \<Rightarrow> u32 \<Rightarrow> u32 \<Rightarrow> u32 \<Rightarrow> nat \<Rightarrow> 'f share_file \<Rightarrow> (open_result \<times> nat option \<times> 'f share_file) option" where
  "nfs4_op_open env minor claim arg_access arg_deny owner w =
     (if open4_bad_share minor arg_access arg_deny then Some (Open_Invalid, None, w)
      else do {
        (result, file_state, new_state, w) \<leftarrow>
          open4_do_open env arg_access arg_deny owner (open4_openflags arg_access claim) w;
        (case file_state of
           Some i \<Rightarrow>
             if new_state \<and> result \<noteq> Open_OK then do { w \<leftarrow> state_del_locked env i w; Some (result, file_state, w) }
             else Some (result, file_state, w)
         | None \<Rightarrow> Some (result, None, w))
      })"

section \<open>OPEN_DOWNGRADE\<close>

datatype downgrade_result = Downgrade_OK | Downgrade_Invalid | Downgrade_Serverfault

definition nfs4_do_open_downgrade ::
    "'f share_env \<Rightarrow> u32 \<Rightarrow> u32 \<Rightarrow> state_share_t \<Rightarrow> 'f share_file
      \<Rightarrow> (downgrade_result \<times> state_share_t \<times> 'f share_file) option" where
  "nfs4_do_open_downgrade env arg_access arg_deny share w =
     (let candidate = \<lparr>share_access = arg_access, share_deny = arg_deny, share_access_prev = 0, share_deny_prev = 0\<rparr> in
      if share_access share AND arg_access \<noteq> arg_access then Some (Downgrade_Invalid, share, w)
      else if share_deny share AND arg_deny \<noteq> arg_deny then Some (Downgrade_Invalid, share, w)
      else do {
        seen \<leftarrow> state_share_check_prev share candidate;
        if seen \<noteq> STATE_SUCCESS then Some (Downgrade_Invalid, share, w)
        else do {
          (state_status, share, w) \<leftarrow> state_share_downgrade env candidate share w;
          Some (if state_status \<noteq> STATE_SUCCESS then Downgrade_Serverfault else Downgrade_OK, share, w)
        }
      })"

text \<open>\<^verbatim>\<open>nfs4_op_open_downgrade\<close> of an open state that was found.\<close>

definition nfs4_op_open_downgrade ::
    "'f share_env \<Rightarrow> u32 \<Rightarrow> u32 \<Rightarrow> u32 \<Rightarrow> nat \<Rightarrow> 'f share_file \<Rightarrow> (downgrade_result \<times> 'f share_file) option" where
  "nfs4_op_open_downgrade env minor arg_access arg_deny i w =
     do {
       state \<leftarrow> find_state i w;
       share \<leftarrow> (case st_data state of Data_Share share \<Rightarrow> Some share | _ \<Rightarrow> None);
       if minor > 0 then
         (if share_access share AND arg_access \<noteq> arg_access then Some (Downgrade_Invalid, w)
          else if share_deny share AND arg_deny \<noteq> arg_deny then Some (Downgrade_Invalid, w)
          else Some (Downgrade_OK,
                 put_state_data i (Data_Share (share\<lparr>share_access := arg_access, share_deny := arg_deny\<rparr>)) w))
       else do {
         (result, share, w) \<leftarrow> nfs4_do_open_downgrade env arg_access arg_deny share w;
         Some (result, put_state_data i (Data_Share share) w)
       }
     }"

section \<open>CLOSE\<close>

datatype close_result = Close_OK | Close_Locks_held | Close_Errno cache_inode_status_t

definition lock_states_of :: "nat \<Rightarrow> 'f share_file \<Rightarrow> state_t list" where
  "lock_states_of i w =
     filter (\<lambda>state. case st_data state of Data_Lock open_state _ \<Rightarrow> open_state = i | _ \<Rightarrow> False) (sf_state_list w)"

definition has_locks :: "state_t \<Rightarrow> bool" where
  "has_locks state \<longleftrightarrow> (case st_data state of Data_Lock _ locks \<Rightarrow> locks | _ \<Rightarrow> False)"

text \<open>
  \<^verbatim>\<open>nfs4_op_close\<close> of an open state that was found; a failure to release the share is only logged.
\<close>

definition nfs4_op_close :: "'f share_env \<Rightarrow> nat \<Rightarrow> 'f share_file \<Rightarrow> (close_result \<times> 'f share_file) option" where
  "nfs4_op_close env i w =
     do {
       state \<leftarrow> find_state i w;
       share \<leftarrow> (case st_data state of Data_Share share \<Rightarrow> Some share | _ \<Rightarrow> None);
       if list_ex has_locks (lock_states_of i w) then Some (Close_Locks_held, w)
       else do {
         w \<leftarrow> del_states env (map st_id (lock_states_of i w)) w;
         (_, w) \<leftarrow> state_share_remove env share w;
         w \<leftarrow> state_del_locked env i w;
         (cache_status, w) \<leftarrow> cache_inode_close (se_ops env) True False w;
         Some (if cache_status \<noteq> CACHE_INODE_SUCCESS then Close_Errno cache_status else Close_OK, w)
       }
     }"

end
