(* ===== verification/State_Open_Props.thy ===== *)
theory State_Open_Props
  imports State_Open "HOL-Library.Multiset"
begin

text \<open>
  The shares of a file exclude each other: the counters of the cache entry are the numbers of holders, and no
  holder has an access another one denies, over every sequence of opens, downgrades, closes, NLM shares and
  anonymous I/O.  The holders are a multiset, the abstract state of the component.
\<close>

unbundle bit_operations_syntax

section \<open>Holders\<close>

type_synonym holder = "u32 \<times> u32"

definition wants :: "u32 \<Rightarrow> u32 \<Rightarrow> bool" where
  "wants x flag \<longleftrightarrow> x AND flag \<noteq> 0"

text \<open>Two holders are compatible when neither has an access the other denies.\<close>

definition share_ok :: "holder \<Rightarrow> holder \<Rightarrow> bool" where
  "share_ok x y \<longleftrightarrow> (\<forall>flag \<in> {1, 2}. \<not> (wants (fst x) flag \<and> wants (snd y) flag) \<and> \<not> (wants (snd x) flag \<and> wants (fst y) flag))"

definition shares_compat :: "holder multiset \<Rightarrow> bool" where
  "shares_compat H \<longleftrightarrow> (\<forall>x \<in># H. \<forall>y \<in># H - {#x#}. share_ok x y)"

fun data_holder :: "state_data_t \<Rightarrow> holder list" where
  "data_holder (Data_Share s) = [(share_access s, share_deny s)]"
| "data_holder _ = []"

definition state_holders :: "state_t list \<Rightarrow> holder multiset" where
  "state_holders ss = mset (concat (map (data_holder \<circ> st_data) ss))"

definition nlm_holders :: "state_nlm_share_t list \<Rightarrow> holder multiset" where
  "nlm_holders ns = mset (map (\<lambda>s. (sns_access s, sns_deny s)) ns)"

text \<open>The holders of a file while the anonymous I/O \<open>anon\<close> is under way.\<close>

definition holders :: "'f share_file \<Rightarrow> u32 list \<Rightarrow> holder multiset" where
  "holders w anon = state_holders (sf_state_list w) + nlm_holders (sf_nlm_share_list w) + mset (map (\<lambda>a. (a, 0)) anon)"

definition number :: "(holder \<Rightarrow> u32) \<Rightarrow> u32 \<Rightarrow> holder multiset \<Rightarrow> nat" where
  "number f flag H = size (filter_mset (\<lambda>x. wants (f x) flag) H)"

definition counts :: "cache_inode_share_t \<Rightarrow> holder multiset \<Rightarrow> bool" where
  "counts c H \<longleftrightarrow>
     share_access_read c = of_nat (number fst 1 H) \<and> share_access_write c = of_nat (number fst 2 H)
     \<and> share_deny_read c = of_nat (number snd 1 H) \<and> share_deny_write c = of_nat (number snd 2 H)
     \<and> share_deny_write_v4 c = of_nat (number snd 2 H)"

lemma wants_or [simp]: "wants (x OR y) flag \<longleftrightarrow> wants x flag \<or> wants y flag"
  by (simp add: wants_def bit.conj_disj_distrib2 or_eq_0_iff)

lemma wants_zero [simp]: "\<not> wants 0 flag"
  by (simp add: wants_def)

lemma wants_subset:
  assumes "x AND y = y" and "wants y flag"
  shows "wants x flag"
proof -
  have "y AND flag = y AND (x AND flag)" by (subst assms(1) [symmetric]) (simp add: ac_simps)
  then show ?thesis using assms(2) by (auto simp: wants_def)
qed

lemma share_ok_sym: "share_ok x y \<Longrightarrow> share_ok y x"
  by (auto simp: share_ok_def)

lemma share_ok_none [simp]: "share_ok (0, 0) y" "share_ok x (0, 0)"
  by (simp_all add: share_ok_def)

lemma shares_compat_empty [simp]: "shares_compat {#}"
  by (simp add: shares_compat_def)

lemma shares_compat_add [simp]:
  "shares_compat (add_mset z H) \<longleftrightarrow> shares_compat H \<and> (\<forall>y \<in># H. share_ok z y)"
proof
  assume compat: "shares_compat (add_mset z H)"
  then have "\<forall>y \<in># H. share_ok z y" by (simp add: shares_compat_def)
  moreover have "share_ok x y" if "x \<in># H" "y \<in># H - {#x#}" for x y
  proof -
    have "y \<in># add_mset z H - {#x#}" "x \<in># add_mset z H" using that by auto
    then show ?thesis using compat unfolding shares_compat_def by blast
  qed
  ultimately show "shares_compat H \<and> (\<forall>y \<in># H. share_ok z y)" by (simp add: shares_compat_def)
next
  assume compat: "shares_compat H \<and> (\<forall>y \<in># H. share_ok z y)"
  have "share_ok x y" if "x \<in># add_mset z H" "y \<in># add_mset z H - {#x#}" for x y
  proof (cases "x = z")
    case True
    then show ?thesis using that compat by simp
  next
    case False
    then have "x \<in># H" "y = z \<or> y \<in># H - {#x#}" using that by auto
    then show ?thesis using compat share_ok_sym [of z x] unfolding shares_compat_def by blast
  qed
  then show "shares_compat (add_mset z H)" by (simp add: shares_compat_def)
qed

lemma number_add [simp]: "number f flag (add_mset z H) = number f flag H + of_bool (wants (f z) flag)"
  by (simp add: number_def)

lemma number_empty [simp]: "number f flag {#} = 0"
  by (simp add: number_def)

lemma counts_none [simp]: "counts c (add_mset (0, 0) H) \<longleftrightarrow> counts c H"
  by (simp add: counts_def)

lemma counts_change:
  assumes "counts c (add_mset (oa, od) H)" and "v4 \<or> (od = 0 \<and> nd = 0)"
  shows "counts (state_share_update_counter oa od na nd v4 c) (add_mset (na, nd) H)"
  using assms by (auto simp: counts_def state_share_update_counter_def share_inc_def Let_def simp flip: wants_def)

text \<open>While there are fewer than \<open>2 ^ 32\<close> holders, a counter is positive when there is a holder it counts.\<close>

lemma number_pos: "number f flag H > 0 \<longleftrightarrow> (\<exists>x \<in># H. wants (f x) flag)"
proof -
  have "number f flag H > 0 \<longleftrightarrow> filter_mset (\<lambda>x. wants (f x) flag) H \<noteq> {#}"
    by (simp only: number_def nonempty_has_size)
  then show ?thesis by (metis (mono_tags, lifting) filter_mset_eq_mempty_iff set_mset_filter mem_Collect_eq multiset_nonemptyE)
qed

lemma counter_pos:
  assumes "size H < 2 ^ 32"
  shows "(of_nat (number f flag H) :: u32) > 0 \<longleftrightarrow> (\<exists>x \<in># H. wants (f x) flag)"
proof -
  have "number f flag H < 2 ^ 32"
    using assms size_filter_mset_lesseq [of _ H] unfolding number_def by (rule le_less_trans [rotated])
  then have "(of_nat (number f flag H) :: u32) = 0 \<longleftrightarrow> number f flag H = 0"
    using nat_dvd_not_less [of "number f flag H" "2 ^ 32"] by (auto simp: word_of_nat_eq_0_iff)
  then show ?thesis using number_pos [of f flag H] word_gt_0 [of "of_nat (number f flag H) :: u32"] by auto
qed

lemma share_ok_flags:
  "share_ok (a, d) x \<longleftrightarrow>
     \<not> (wants a 1 \<and> wants (snd x) 1) \<and> \<not> (wants a 2 \<and> wants (snd x) 2)
     \<and> \<not> (wants d 1 \<and> wants (fst x) 1) \<and> \<not> (wants d 2 \<and> wants (fst x) 2)"
  by (auto simp: share_ok_def)

lemma check_conflict_flags:
  "state_share_check_conflict c a d = STATE_SUCCESS \<longleftrightarrow>
     \<not> (wants a 1 \<and> share_deny_read c > 0) \<and> \<not> (wants a 2 \<and> share_deny_write c > 0)
     \<and> \<not> (wants d 1 \<and> share_access_read c > 0) \<and> \<not> (wants d 2 \<and> share_access_write c > 0)"
  by (simp add: state_share_check_conflict_def wants_def)

lemma check_conflict_exact:
  assumes "counts c H" and "size H < 2 ^ 32"
  shows "state_share_check_conflict c a d = STATE_SUCCESS \<longleftrightarrow> (\<forall>x \<in># H. share_ok (a, d) x)"
proof -
  have "share_deny_read c > 0 \<longleftrightarrow> (\<exists>x \<in># H. wants (snd x) 1)" "share_deny_write c > 0 \<longleftrightarrow> (\<exists>x \<in># H. wants (snd x) 2)"
    "share_access_read c > 0 \<longleftrightarrow> (\<exists>x \<in># H. wants (fst x) 1)" "share_access_write c > 0 \<longleftrightarrow> (\<exists>x \<in># H. wants (fst x) 2)"
    using assms(1) unfolding counts_def by (simp_all only: counter_pos [OF assms(2)])
  then show ?thesis unfolding check_conflict_flags share_ok_flags by blast
qed

section \<open>What the operations keep\<close>

text \<open>The parts of the file the shares depend on.\<close>

definition share_view :: "'f share_file \<Rightarrow> cache_inode_share_t \<times> state_t list \<times> state_nlm_share_t list \<times> nat" where
  "share_view w = (sf_share_state w, sf_state_list w, sf_nlm_share_list w, sf_next w)"

definition shares_wf :: "'f share_file \<Rightarrow> bool" where
  "shares_wf w \<longleftrightarrow> distinct (map st_id (sf_state_list w)) \<and> distinct (map sns_id (sf_nlm_share_list w))
     \<and> (\<forall>i \<in> set (map st_id (sf_state_list w)). i < sf_next w)
     \<and> (\<forall>i \<in> set (map sns_id (sf_nlm_share_list w)). i < sf_next w)"

definition share_inv :: "'f share_file \<Rightarrow> u32 list \<Rightarrow> bool" where
  "share_inv w anon \<longleftrightarrow> shares_wf w \<and> counts (sf_share_state w) (holders w anon) \<and> shares_compat (holders w anon)"

lemma share_view_eq:
  "share_view w' = share_view w \<longleftrightarrow> sf_share_state w' = sf_share_state w \<and> sf_state_list w' = sf_state_list w
     \<and> sf_nlm_share_list w' = sf_nlm_share_list w \<and> sf_next w' = sf_next w"
  by (simp add: share_view_def)

lemma share_inv_cong: "share_view w' = share_view w \<Longrightarrow> share_inv w' anon \<longleftrightarrow> share_inv w anon"
  by (simp add: share_view_eq share_inv_def shares_wf_def holders_def)

lemma cf_kill_view [simp]: "share_view (cf_kill_if_stale st w) = share_view w"
  by (simp add: cf_kill_if_stale_def share_view_def)

lemma cf_update_view [simp]:
  "share_view (w\<lparr>cf_fsal := f\<rparr>) = share_view w" "share_view (w\<lparr>cf_pins := p\<rparr>) = share_view w"
  "share_view (w\<lparr>cf_open_fd_count := n\<rparr>) = share_view w" "share_view (w\<lparr>cf_caching_fds := b\<rparr>) = share_view w"
  "share_view (w\<lparr>cf_dead := b\<rparr>) = share_view w" "share_view (w\<lparr>sf_orc := orc\<rparr>) = share_view w"
  "share_view (w\<lparr>sf_owner_refs := r\<rparr>) = share_view w" "share_view (w\<lparr>sf_nsm_refs := r\<rparr>) = share_view w"
  "share_view (w\<lparr>sf_recalls := k\<rparr>) = share_view w"
  by (simp_all add: share_view_def)

lemma open_adapt_view: "ensures (open_adapt ops fl w) (\<lambda>(s, w'). share_view w' = share_view w)"
  unfolding open_adapt_def by (intro ensures_rules; auto)

lemma open_closed_view: "ensures (open_closed ops fl w) (\<lambda>(s, w'). share_view w' = share_view w)"
  unfolding open_closed_def by (intro ensures_rules; auto)

lemma cache_inode_open_view: "ensures (cache_inode_open ops fl w) (\<lambda>(s, w'). share_view w' = share_view w)"
  unfolding cache_inode_open_def cache_inode_lru_fds_available_def
  by (intro ensures_rules; auto dest!: ensuresD [OF open_adapt_view] split: if_splits
      intro: ensures_weaken [OF open_closed_view])

lemma cache_inode_close_view: "ensures (cache_inode_close ops really np w) (\<lambda>(s, w'). share_view w' = share_view w)"
  unfolding cache_inode_close_def by (intro ensures_rules; auto)

lemma cf_dec_pin_ref_view: "ensures (cf_dec_pin_ref ops closefile w) (\<lambda>w'. share_view w' = share_view w)"
  unfolding cf_dec_pin_ref_def
  by (intro ensures_rules ensuresI; auto dest!: ensuresD [OF cache_inode_close_view] split: if_splits)

lemma cf_inc_pin_ref_view: "cf_inc_pin_ref w = (s, w') \<Longrightarrow> share_view w' = share_view w"
  by (auto simp: cf_inc_pin_ref_def split: if_splits)

lemma adjust_openflags_view: "ensures (cache_inode_adjust_openflags env w) (\<lambda>w'. share_view w' = share_view w)"
  unfolding cache_inode_adjust_openflags_def by (intro ensures_rules; auto)

lemma unpin_if_view: "ensures (unpin_if env b w) (\<lambda>w'. share_view w' = share_view w)"
  unfolding unpin_if_def by (intro ensures_rules cf_dec_pin_ref_view; auto)

lemmas view_lemmas =
  ensuresD [OF cache_inode_open_view] ensuresD [OF cache_inode_close_view] ensuresD [OF cf_dec_pin_ref_view]
  cf_inc_pin_ref_view ensuresD [OF adjust_openflags_view] ensuresD [OF unpin_if_view]

text \<open>Without support for shares in the file-system layer nothing is pushed down.\<close>

lemma share_change_plain:
  "\<not> fo_supports (se_ops env) fso_share_support \<Longrightarrow>
     share_change env oa od na nd reclaim w
     = Some (STATE_SUCCESS, w\<lparr>sf_share_state := state_share_update_counter oa od na nd True (sf_share_state w)\<rparr>)"
  by (simp add: share_change_def do_share_op_def Let_def)

section \<open>Holders of lists\<close>

lemma state_holders_simps [simp]:
  "state_holders [] = {#}"
  "state_holders (s # ss) = mset (data_holder (st_data s)) + state_holders ss"
  "state_holders (ss @ ts) = state_holders ss + state_holders ts"
  by (simp_all add: state_holders_def)

lemma nlm_holders_simps [simp]:
  "nlm_holders [] = {#}"
  "nlm_holders (s # ss) = add_mset (sns_access s, sns_deny s) (nlm_holders ss)"
  "nlm_holders (ss @ ts) = nlm_holders ss + nlm_holders ts"
  by (simp_all add: nlm_holders_def)

lemma distinct_ids_tail: "distinct (map f (t # ss)) \<Longrightarrow> x \<in> set ss \<Longrightarrow> f x \<noteq> f t"
  by (auto simp: image_iff)

lemma state_holders_remove:
  "distinct (map st_id ss) \<Longrightarrow> find (\<lambda>s. st_id s = i) ss = Some s \<Longrightarrow>
     state_holders ss = mset (data_holder (st_data s)) + state_holders (filter (\<lambda>s. st_id s \<noteq> i) ss)"
proof (induction ss)
  case (Cons t ss)
  have "filter (\<lambda>s. st_id s \<noteq> st_id t) ss = ss" using distinct_ids_tail [OF Cons.prems(1)] by (auto simp: filter_id_conv)
  then show ?case using Cons by (auto split: if_splits)
qed simp

lemma state_holders_update:
  "distinct (map st_id ss) \<Longrightarrow> find (\<lambda>s. st_id s = i) ss = Some s \<Longrightarrow>
     state_holders (map (\<lambda>s. if st_id s = i then s\<lparr>st_data := d\<rparr> else s) ss)
     = mset (data_holder d) + state_holders (filter (\<lambda>s. st_id s \<noteq> i) ss)"
proof (induction ss)
  case (Cons t ss)
  have "filter (\<lambda>s. st_id s \<noteq> st_id t) ss = ss" "map (\<lambda>s. if st_id s = st_id t then s\<lparr>st_data := d\<rparr> else s) ss = ss"
    using distinct_ids_tail [OF Cons.prems(1)] by (auto simp: filter_id_conv intro!: map_idI)
  then show ?case using Cons by (auto split: if_splits)
qed simp

lemma nlm_holders_remove:
  "distinct (map sns_id ns) \<Longrightarrow> s \<in> set ns \<Longrightarrow>
     nlm_holders ns = add_mset (sns_access s, sns_deny s) (nlm_holders (filter (\<lambda>t. sns_id t \<noteq> sns_id s) ns))"
proof (induction ns)
  case (Cons t ns)
  have "filter (\<lambda>s. sns_id s \<noteq> sns_id t) ns = ns" using distinct_ids_tail [OF Cons.prems(1)] by (auto simp: filter_id_conv)
  then show ?case using Cons by (auto simp: image_iff)
qed simp

section \<open>Operations on states\<close>

lemma cache_status_success [simp]:
  "cache_inode_status_to_state_status s = STATE_SUCCESS \<longleftrightarrow> s = CACHE_INODE_SUCCESS"
  by (cases s) simp_all

definition others :: "nat \<Rightarrow> 'f share_file \<Rightarrow> u32 list \<Rightarrow> holder multiset" where
  "others i w anon = state_holders (filter (\<lambda>s. st_id s \<noteq> i) (sf_state_list w))
     + nlm_holders (sf_nlm_share_list w) + mset (map (\<lambda>a. (a, 0)) anon)"

lemma holders_split:
  assumes "shares_wf w" and "find_state i w = Some s"
  shows "holders w anon = mset (data_holder (st_data s)) + others i w anon"
  using state_holders_remove [of "sf_state_list w" i s] assms
  by (simp add: holders_def others_def shares_wf_def find_state_def)

lemma holders_put:
  assumes "shares_wf w" and "find_state i w = Some s"
  shows "holders (put_state_data i d w) anon = mset (data_holder d) + others i w anon"
  using state_holders_update [of "sf_state_list w" i s d] assms
  by (simp add: holders_def others_def shares_wf_def find_state_def put_state_data_def)

lemma put_state_data_simps [simp]:
  "sf_share_state (put_state_data i d w) = sf_share_state w" "sf_next (put_state_data i d w) = sf_next w"
  "sf_nlm_share_list (put_state_data i d w) = sf_nlm_share_list w"
  "map st_id (sf_state_list (put_state_data i d w)) = map st_id (sf_state_list w)"
  by (simp_all add: put_state_data_def)

lemma shares_wf_put [simp]: "shares_wf (put_state_data i d w) \<longleftrightarrow> shares_wf w"
  unfolding shares_wf_def put_state_data_simps ..

lemma put_state_data_same:
  assumes "shares_wf w" and "find_state i w = Some s"
  shows "share_view (put_state_data i (st_data s) w) = share_view w"
proof -
  have "st_data t = st_data s" if "t \<in> set (sf_state_list w)" "st_id t = i" for t
    using assms that by (auto simp: shares_wf_def find_state_def find_Some_iff distinct_map inj_on_def)
  then have "map (\<lambda>t. if st_id t = i then t\<lparr>st_data := st_data s\<rparr> else t) (sf_state_list w) = sf_state_list w"
    by (intro map_idI) auto
  then show ?thesis by (simp add: share_view_def put_state_data_def)
qed

lemma view_others: "share_view w' = share_view w \<Longrightarrow> others i w' anon = others i w anon \<and> find_state i w' = find_state i w \<and> (shares_wf w' \<longleftrightarrow> shares_wf w)"
  by (simp add: share_view_eq others_def find_state_def shares_wf_def)

text \<open>One holder changes its share.\<close>

lemma share_replace:
  assumes "counts c (add_mset (oa, od) R)" and "shares_compat (add_mset (oa, od) R)" and "\<And>y. y \<in># R \<Longrightarrow> share_ok (na, nd) y"
  shows "counts (state_share_update_counter oa od na nd True c) (add_mset (na, nd) R)" and "shares_compat (add_mset (na, nd) R)"
  using counts_change [OF assms(1), of True] assms(2,3) by auto

lemma share_ok_union: "share_ok (a, d) y \<Longrightarrow> share_ok (a', d') y \<Longrightarrow> share_ok (a OR a', d OR d') y"
  by (auto simp: share_ok_def)

lemma share_ok_less: "share_ok (a, d) y \<Longrightarrow> a AND a' = a' \<Longrightarrow> d AND d' = d' \<Longrightarrow> share_ok (a', d') y"
  unfolding share_ok_def using wants_subset by (metis fst_conv snd_conv)

lemma state_share_set_prev_same:
  "state_share_set_prev s t = Some s' \<Longrightarrow> share_access s' = share_access s \<and> share_deny s' = share_deny s"
  by (auto simp: state_share_set_prev_def bind_eq_Some_conv)

lemma state_add_impl_effect:
  "ensures (state_add_impl env d owner export w) (\<lambda>(status, r, w').
     if status = STATE_SUCCESS
     then r = Some (sf_next w) \<and> sf_share_state w' = sf_share_state w \<and> sf_nlm_share_list w' = sf_nlm_share_list w
       \<and> sf_next w' = Suc (sf_next w)
       \<and> sf_state_list w' = sf_state_list w @ [\<lparr>st_id = sf_next w, st_owner = owner, st_export = export, st_data = d\<rparr>]
     else r = None \<and> share_view w' = share_view w)"
  unfolding state_add_impl_def sf_malloc_def recall_conflicting_def
  by (intro ensures_rules; auto simp: share_view_eq dest!: view_lemmas split: if_splits prod.splits)

section \<open>OPEN\<close>

definition counted :: "'f share_file \<Rightarrow> holder \<Rightarrow> holder multiset \<Rightarrow> bool" where
  "counted w x R \<longleftrightarrow> counts (sf_share_state w) (add_mset x R) \<and> shares_compat (add_mset x R)"

lemma counted_none: "counted w (0, 0) R \<longleftrightarrow> counts (sf_share_state w) R \<and> shares_compat R"
  by (simp add: counted_def)

lemma counted_check:
  assumes "counted w x R" and "size (add_mset x R) < 2 ^ 32"
    and "state_share_check_conflict (sf_share_state w) a d = STATE_SUCCESS" and "y \<in># R"
  shows "share_ok (a, d) y"
  using check_conflict_exact [of "sf_share_state w" "add_mset x R" a d] assms by (auto simp: counted_def)

lemma counted_replace:
  assumes "counted w (oa, od) R" and "\<And>y. y \<in># R \<Longrightarrow> share_ok (na, nd) y"
  shows "counted (w\<lparr>sf_share_state := state_share_update_counter oa od na nd True (sf_share_state w)\<rparr>) (na, nd) R"
  using share_replace [of _ oa od R na nd] assms unfolding counted_def by simp

definition share_effect :: "'f share_file \<Rightarrow> state_share_t \<Rightarrow> holder multiset \<Rightarrow> state_status_t \<times> state_share_t \<times> 'f share_file \<Rightarrow> bool" where
  "share_effect w sh R = (\<lambda>(status, sh', w').
     if status = STATE_SUCCESS
     then (\<exists>c. w' = w\<lparr>sf_share_state := c\<rparr>) \<and> counted w' (share_access sh', share_deny sh') R
     else sh' = sh \<and> w' = w)"

lemma state_share_add_effect:
  assumes plain: "\<not> fo_supports (se_ops env) fso_share_support"
    and cnt: "counted w (0, 0) R" and size: "size (add_mset (0, 0) R) < 2 ^ 32"
  shows "ensures (state_share_add env sh reclaim w) (share_effect w sh R)"
  unfolding state_share_add_def share_change_plain [OF plain] share_effect_def
  using counted_replace [OF cnt counted_check [OF cnt size]]
  by (intro ensures_rules; auto dest!: state_share_set_prev_same split: if_splits)

lemma state_share_upgrade_effect:
  assumes plain: "\<not> fo_supports (se_ops env) fso_share_support"
    and cnt: "counted w (share_access sh, share_deny sh) R"
    and size: "size (add_mset (share_access sh, share_deny sh) R) < 2 ^ 32"
  shows "ensures (state_share_upgrade env cand sh reclaim w) (share_effect w sh R)"
proof -
  have old: "share_ok (share_access sh, share_deny sh) y" if "y \<in># R" for y
    using cnt that by (auto simp: counted_def)
  note new = counted_replace [OF cnt share_ok_union [OF counted_check [OF cnt size] old]]
  show ?thesis
    unfolding state_share_upgrade_def share_change_plain [OF plain] share_effect_def
    using new [of "share_access cand" "share_deny cand"]
    by (intro ensures_rules; auto dest!: state_share_set_prev_same split: if_splits)
qed

lemma view_update_counter:
  "share_view w' = share_view w \<Longrightarrow> counted w' x R \<longleftrightarrow> counted w x R"
  by (simp add: share_view_eq counted_def)

lemma share_inv_put:
  assumes "shares_wf w" and "find_state i w = Some s" and "counted w (share_access sh, share_deny sh) (others i w anon)"
  shows "share_inv (put_state_data i (Data_Share sh) w) anon"
  using assms holders_put [OF assms(1,2), of "Data_Share sh"] by (simp add: share_inv_def counted_def)

lemma counter_update_keeps:
  "others i (w\<lparr>sf_share_state := c\<rparr>) anon = others i w anon" "find_state i (w\<lparr>sf_share_state := c\<rparr>) = find_state i w"
  "shares_wf (w\<lparr>sf_share_state := c\<rparr>) \<longleftrightarrow> shares_wf w"
  by (simp_all add: others_def find_state_def shares_wf_def)

lemma push_share_effect:
  assumes plain: "\<not> fo_supports (se_ops env) fso_share_support" and view: "share_view w1 = share_view w"
    and "counted w (if new_state then (0, 0) else (share_access sh, share_deny sh)) R" and "size R + 1 < 2 ^ 32"
  shows "ensures (if new_state then state_share_add env sh rc w1 else state_share_upgrade env cand sh rc w1)
     (share_effect w1 sh R)"
  using state_share_add_effect [OF plain, of w1 R] state_share_upgrade_effect [OF plain, of w1 sh R] assms(3,4)
    view_update_counter [OF view] by (cases new_state) simp_all

lemma put_same:
  assumes "share_view w1 = share_view w" and "shares_wf w" and "find_state i w = Some s"
  shows "share_view (put_state_data i (st_data s) w1) = share_view w"
  using put_state_data_same [of w1 i s] view_others [OF assms(1)] assms by simp

lemma put_inv:
  assumes "share_view w1 = share_view w" and "shares_wf w" and "find_state i w = Some s"
    and "counted (w1\<lparr>sf_share_state := c\<rparr>) (share_access sh, share_deny sh) (others i w anon)"
  shows "share_inv (put_state_data i (Data_Share sh) (w1\<lparr>sf_share_state := c\<rparr>)) anon"
  using assms view_others [OF assms(1), of i anon]
  by (intro share_inv_put [where s = s]) (auto simp: counter_update_keeps)

lemma open4_push_effect:
  assumes plain: "\<not> fo_supports (se_ops env) fso_share_support"
    and wf: "shares_wf w" and found: "find_state i w = Some s" and data: "st_data s = Data_Share sh"
    and cnt: "counted w (if new_state then (0, 0) else (share_access sh, share_deny sh)) (others i w anon)"
    and size: "size (others i w anon) + 1 < 2 ^ 32"
  shows "ensures (open4_push env cand i new_state fl w) (\<lambda>(result, r, w').
     if result = Open_OK then r = Some i \<and> share_inv w' anon else r = None \<and> share_view w' = share_view w)"
proof (rule ensuresI, clarify)
  fix result r w'
  assume run: "open4_push env cand i new_state fl w = Some (result, r, w')"
  then obtain cs w1 where opn: "cache_inode_open (se_ops env) fl w = Some (cs, w1)"
    by (auto simp: open4_push_def bind_eq_Some_conv)
  note v1 = ensuresD [OF cache_inode_open_view opn, simplified]
  note look = view_others [OF v1, of i anon]
  show "if result = Open_OK then r = Some i \<and> share_inv w' anon else r = None \<and> share_view w' = share_view w"
  proof (cases "cs = CACHE_INODE_SUCCESS")
    case False
    then show ?thesis using run opn v1 by (auto simp: open4_push_def)
  next
    case True
    then obtain st sh' w2 where push: "(if new_state then state_share_add env sh (fl AND FSAL_O_RECLAIM \<noteq> 0) w1
        else state_share_upgrade env cand sh (fl AND FSAL_O_RECLAIM \<noteq> 0) w1) = Some (st, sh', w2)"
      using run opn look found data by (auto simp: open4_push_def Let_def bind_eq_Some_conv)
    note eff = ensuresD [OF push_share_effect [OF plain v1 cnt size] push, unfolded share_effect_def prod.case]
    show ?thesis
    proof (cases "st = STATE_SUCCESS")
      case ok: True
      then show ?thesis using run opn look found data push True eff put_inv [OF v1 wf found]
        by (auto simp: open4_push_def Let_def)
    next
      case bad: False
      then show ?thesis using run opn look found data push True eff put_same [OF v1 wf found]
        by (auto simp: open4_push_def Let_def bind_eq_Some_conv dest!: ensuresD [OF cache_inode_close_view])
    qed
  qed
qed

lemma find_state_member:
  assumes "shares_wf w" and "s \<in> set (sf_state_list w)"
  shows "find_state (st_id s) w = Some s"
proof -
  have "find (\<lambda>t. st_id t = st_id s) ss = Some s" if "distinct (map st_id ss)" "s \<in> set ss" for ss
    using that by (induction ss) (auto simp: image_iff)
  then show ?thesis using assms by (simp add: find_state_def shares_wf_def)
qed

lemma holders_share:
  assumes "share_inv w anon" and "find_state i w = Some s" and "st_data s = Data_Share sh"
  shows "counted w (share_access sh, share_deny sh) (others i w anon)"
    and "holders w anon = add_mset (share_access sh, share_deny sh) (others i w anon)"
  using holders_split [of w i s anon] assms by (auto simp: share_inv_def counted_def)

lemma state_added:
  assumes "share_inv w anon" and "sf_state_list w' = sf_state_list w @ [s]" and "st_id s = sf_next w"
    and "sf_share_state w' = sf_share_state w" and "sf_nlm_share_list w' = sf_nlm_share_list w" and "sf_next w' = Suc (sf_next w)"
  shows "shares_wf w'" and "find_state (sf_next w) w' = Some s" and "others (sf_next w) w' anon = holders w anon"
    and "counted w' (0, 0) (holders w anon)"
proof -
  have ids: "st_id t < sf_next w" if "t \<in> set (sf_state_list w)" for t
    using assms(1) that by (auto simp: share_inv_def shares_wf_def)
  have "sf_next w \<notin> st_id ` set (sf_state_list w)" using ids by force
  then show wf: "shares_wf w'"
    using assms by (auto simp: share_inv_def shares_wf_def less_Suc_eq)
  show "find_state (sf_next w) w' = Some s"
    using find_state_member [OF wf, of s] assms(2,3) by simp
  have "filter (\<lambda>t. st_id t \<noteq> sf_next w) (sf_state_list w) = sf_state_list w"
    by (rule filter_True) (use ids in force)
  then show "others (sf_next w) w' anon = holders w anon"
    using assms(2,3,5) by (simp add: others_def holders_def)
  show "counted w' (0, 0) (holders w anon)"
    using assms(1,4) by (simp add: counted_none share_inv_def)
qed

text \<open>
  What an open leaves behind: a success keeps the invariant, and a failure that leaves no state changes nothing.
\<close>

definition open_effect :: "'f share_file \<Rightarrow> u32 list \<Rightarrow> open_result \<times> nat option \<times> 'f share_file \<Rightarrow> bool" where
  "open_effect w anon = (\<lambda>(result, r, w'). if result = Open_OK then share_inv w' anon
     else r = None \<and> (sf_state_list w' = sf_state_list w \<longrightarrow> share_view w' = share_view w))"

lemma open4_reuse_effect:
  assumes plain: "\<not> fo_supports (se_ops env) fso_share_support" and inv: "share_inv w anon"
    and size: "size (holders w anon) + 1 < 2 ^ 32" and found: "find (is_share_of owner) (sf_state_list w) = Some s"
  shows "ensures (open4_push env cand (st_id s) False fl w) (open_effect w anon)"
proof -
  have wf: "shares_wf w" using inv by (simp add: share_inv_def)
  have mem: "s \<in> set (sf_state_list w)" and "is_share_of owner s" using found by (auto simp: find_Some_iff)
  then obtain sh where sh: "st_data s = Data_Share sh" by (auto simp: is_share_of_def split: state_data_t.splits)
  note here = find_state_member [OF wf mem]
  note split = holders_share [OF inv here sh]
  show ?thesis
    using open4_push_effect [OF plain wf here sh, of False anon cand fl] split size
    by (auto simp: open_effect_def intro: ensures_weaken)
qed

lemma open4_new_effect:
  assumes plain: "\<not> fo_supports (se_ops env) fso_share_support" and inv: "share_inv w anon"
    and size: "size (holders w anon) + 1 < 2 ^ 32"
    and add: "state_add_impl env (Data_Share cand) owner export w = Some (STATE_SUCCESS, r, w1)"
  shows "r = Some (sf_next w) \<and> ensures (open4_push env cand (sf_next w) True fl w1) (open_effect w anon)"
proof -
  note eff = ensuresD [OF state_add_impl_effect add, simplified]
  note new = state_added [OF inv, of w1 "\<lparr>st_id = sf_next w, st_owner = owner, st_export = export, st_data = Data_Share cand\<rparr>", simplified]
  have "ensures (open4_push env cand (sf_next w) True fl w1) (\<lambda>(result, r, w').
      if result = Open_OK then r = Some (sf_next w) \<and> share_inv w' anon else r = None \<and> share_view w' = share_view w1)"
    using open4_push_effect [OF plain, of w1 "sf_next w" _ cand True anon] new eff size by simp
  then show ?thesis using eff by (auto simp: open_effect_def share_view_eq intro: ensures_weaken)
qed

lemma open_effect_same: "result \<noteq> Open_OK \<Longrightarrow> open_effect w anon (result, None, w)"
  by (simp add: open_effect_def)

lemma open4_do_open_effect:
  assumes plain: "\<not> fo_supports (se_ops env) fso_share_support" and inv: "share_inv w anon"
    and size: "size (holders w anon) + 1 < 2 ^ 32"
    and run: "open4_do_open env acc deny owner fl w = Some (result, r, new_state, w')"
  shows "open_effect w anon (result, r, w')"
proof (cases "find (is_share_of owner) (sf_state_list w)")
  case (Some s)
  then show ?thesis using run
    by (auto simp: open4_do_open_def Let_def bind_eq_Some_conv open_effect_same
        dest!: ensuresD [OF open4_reuse_effect [OF plain inv size Some]] split: if_splits)
next
  case None
  let ?cand = "\<lparr>share_access = acc AND OPEN4_SHARE_ACCESS_BOTH, share_deny = deny, share_access_prev = 0, share_deny_prev = 0\<rparr>"
  show ?thesis
  proof (cases "open4_access env acc w = CACHE_INODE_SUCCESS
      \<and> state_share_check_conflict (sf_share_state w) (acc AND OPEN4_SHARE_ACCESS_BOTH) deny = STATE_SUCCESS")
    case False
    then show ?thesis using run by (auto simp: open4_do_open_def Let_def open_effect_def split: if_splits)
  next
    case True
    then obtain export status r1 w1 where add: "state_add_impl env (Data_Share ?cand) owner export w = Some (status, r1, w1)"
      and rest: "(if status \<noteq> STATE_SUCCESS then Some (Open_Errno_state status, None, True, w1)
        else do { i \<leftarrow> r1; (result, state, w) \<leftarrow> open4_push env ?cand i True fl w1; Some (result, state, True, w) })
        = Some (result, r, new_state, w')"
      using run None by (auto simp: open4_do_open_def Let_def bind_eq_Some_conv)
    show ?thesis
    proof (cases "status = STATE_SUCCESS")
      case True
      then have "r1 = Some (sf_next w)" "ensures (open4_push env ?cand (sf_next w) True fl w1) (open_effect w anon)"
        using open4_new_effect [OF plain inv size, of ?cand owner export r1 w1 fl] add by auto
      then show ?thesis using rest True by (auto simp: bind_eq_Some_conv dest: ensuresD)
    next
      case False
      then show ?thesis using rest ensuresD [OF state_add_impl_effect add] by (auto simp: open_effect_def)
    qed
  qed
qed

lemma nfs4_op_open_inv:
  assumes plain: "\<not> fo_supports (se_ops env) fso_share_support" and inv: "share_inv w anon"
    and size: "size (holders w anon) + 1 < 2 ^ 32"
    and run: "nfs4_op_open env minor claim acc deny owner w = Some (result, r, w')"
    and clean: "result = Open_OK \<or> sf_state_list w' = sf_state_list w"
  shows "share_inv w' anon"
proof (cases "open4_bad_share minor acc deny")
  case True
  then show ?thesis using run inv by (simp add: nfs4_op_open_def)
next
  case False
  then obtain result1 r1 new_state w1 where do_open:
      "open4_do_open env acc deny owner (open4_openflags acc claim) w = Some (result1, r1, new_state, w1)"
    using run by (auto simp: nfs4_op_open_def bind_eq_Some_conv)
  note eff = open4_do_open_effect [OF plain inv size do_open]
  then have "result1 = result \<and> w1 = w'" using run False do_open
    by (auto simp: nfs4_op_open_def open_effect_def split: option.splits if_splits)
  then show ?thesis using eff clean inv share_inv_cong [of w' w anon]
    by (auto simp: open_effect_def split: if_splits)
qed

section \<open>OPEN_DOWNGRADE and CLOSE\<close>

lemma state_share_downgrade_effect:
  assumes plain: "\<not> fo_supports (se_ops env) fso_share_support"
    and cnt: "counted w (share_access sh, share_deny sh) R"
    and less: "share_access sh AND share_access cand = share_access cand" "share_deny sh AND share_deny cand = share_deny cand"
  shows "ensures (state_share_downgrade env cand sh w) (\<lambda>(status, sh', w'). status = STATE_SUCCESS
     \<and> (\<exists>c w1. share_view w' = share_view w1 \<and> w1 = w\<lparr>sf_share_state := c\<rparr> \<and> counted w1 (share_access sh', share_deny sh') R))"
proof -
  have "share_ok (share_access cand, share_deny cand) y" if "y \<in># R" for y
    using cnt that share_ok_less [OF _ less, of y] by (auto simp: counted_def)
  note new = counted_replace [OF cnt this]
  show ?thesis unfolding state_share_downgrade_def share_change_plain [OF plain]
    by (intro ensures_rules; auto dest!: view_lemmas intro!: exI new)
qed

lemma nfs4_op_open_downgrade_inv:
  assumes plain: "\<not> fo_supports (se_ops env) fso_share_support" and inv: "share_inv w anon"
    and run: "nfs4_op_open_downgrade env 0 acc deny i w = Some (result, w')"
  shows "share_inv w' anon"
proof -
  obtain s where found: "find_state i w = Some s"
    using run by (auto simp: nfs4_op_open_downgrade_def bind_eq_Some_conv)
  then obtain sh where sh: "st_data s = Data_Share sh"
    using run by (cases "st_data s") (auto simp: nfs4_op_open_downgrade_def)
  obtain sh' w1 where down: "nfs4_do_open_downgrade env acc deny sh w = Some (result, sh', w1)"
    and w': "w' = put_state_data i (Data_Share sh') w1"
    using run found sh by (auto simp: nfs4_op_open_downgrade_def bind_eq_Some_conv)
  have wf: "shares_wf w" using inv by (simp add: share_inv_def)
  note split = holders_share [OF inv found sh]
  let ?cand = "\<lparr>share_access = acc, share_deny = deny, share_access_prev = 0, share_deny_prev = 0\<rparr>"
  have "(sh' = sh \<and> w1 = w) \<or> (share_access sh AND acc = acc \<and> share_deny sh AND deny = deny
      \<and> (\<exists>status. state_share_downgrade env ?cand sh w = Some (status, sh', w1)))"
    using down by (auto simp: nfs4_do_open_downgrade_def Let_def bind_eq_Some_conv split: if_splits)
  then consider (same) "sh' = sh" "w1 = w"
    | (down) status where "share_access sh AND acc = acc" "share_deny sh AND deny = deny"
        "state_share_downgrade env ?cand sh w = Some (status, sh', w1)" by blast
  then show ?thesis
  proof cases
    case same
    then show ?thesis using w' put_state_data_same [OF wf found] sh inv share_inv_cong by metis
  next
    case down
    from ensuresD [OF state_share_downgrade_effect [OF plain split(1), of ?cand] down(3)] down(1,2)
    obtain c where v: "share_view w1 = share_view (w\<lparr>sf_share_state := c\<rparr>)"
      and cnt: "counted (w\<lparr>sf_share_state := c\<rparr>) (share_access sh', share_deny sh') (others i w anon)" by auto
    have "share_view w' = share_view (put_state_data i (Data_Share sh') (w\<lparr>sf_share_state := c\<rparr>))"
      using v w' by (simp add: share_view_eq put_state_data_def)
    then show ?thesis using put_inv [OF refl wf found cnt] share_inv_cong by blast
  qed
qed

lemma state_del_locked_effect:
  "ensures (state_del_locked env i w) (\<lambda>w'. sf_share_state w' = sf_share_state w \<and> sf_nlm_share_list w' = sf_nlm_share_list w
     \<and> sf_next w' = sf_next w \<and> sf_state_list w' = filter (\<lambda>s. st_id s \<noteq> i) (sf_state_list w))"
  unfolding state_del_locked_def
  by (intro ensures_rules; auto simp: share_view_eq dest!: view_lemmas intro!: ensuresI)

lemma filter_keeps_wf:
  assumes "shares_wf w" and "sf_state_list w' = filter P (sf_state_list w)" and "sf_nlm_share_list w' = sf_nlm_share_list w"
    and "sf_next w' = sf_next w"
  shows "shares_wf w'"
  using assms by (auto simp: shares_wf_def distinct_map_filter)

lemma del_states_effect:
  "ensures (del_states env is w) (\<lambda>w'. sf_share_state w' = sf_share_state w \<and> sf_nlm_share_list w' = sf_nlm_share_list w
     \<and> sf_next w' = sf_next w \<and> sf_state_list w' = filter (\<lambda>s. st_id s \<notin> set is) (sf_state_list w))"
proof (induction "is" arbitrary: w)
  case (Cons i "is")
  show ?case unfolding del_states.simps
    by (intro ensures_rules ensures_weaken [OF Cons.IH]) (auto dest!: ensuresD [OF state_del_locked_effect] intro: filter_cong)
qed (simp add: ensures_def)

lemma state_holders_filter:
  "(\<And>s. s \<in> set ss \<Longrightarrow> \<not> P s \<Longrightarrow> data_holder (st_data s) = []) \<Longrightarrow> state_holders (filter P ss) = state_holders ss"
  by (induction ss) auto

lemma drop_lock_states:
  assumes inv: "share_inv w anon" and found: "find_state i w = Some s" and sh: "st_data s = Data_Share sh"
    and run: "del_states env (map st_id (lock_states_of i w)) w = Some w'"
  shows "share_inv w' anon" and "find_state i w' = Some s"
proof -
  let ?P = "\<lambda>s. st_id s \<notin> set (map st_id (lock_states_of i w))"
  note eff = ensuresD [OF del_states_effect run]
  have wf: "shares_wf w" using inv by (simp add: share_inv_def)
  have uniq: "t = u" if "t \<in> set (sf_state_list w)" "u \<in> set (sf_state_list w)" "st_id t = st_id u" for t u
    using find_state_member [OF wf that(1), unfolded that(3)] find_state_member [OF wf that(2)] by simp
  have lock: "data_holder (st_data t) = []" if "t \<in> set (sf_state_list w)" "\<not> ?P t" for t
  proof -
    from that(2) obtain u where u: "u \<in> set (lock_states_of i w)" "st_id t = st_id u" by auto
    then have "t = u" using uniq [OF that(1)] by (simp add: lock_states_of_def)
    then show ?thesis using u(1) by (cases "st_data u") (simp_all add: lock_states_of_def)
  qed
  have mem: "s \<in> set (sf_state_list w)" "st_id s = i" using found by (auto simp: find_state_def find_Some_iff)
  have wf': "shares_wf w'" using filter_keeps_wf [OF wf, of w' ?P] eff by simp
  show "share_inv w' anon"
    using inv eff wf' state_holders_filter [of "sf_state_list w" ?P, OF lock] by (simp add: share_inv_def holders_def)
  have "?P s" by (rule ccontr) (use lock [OF mem(1)] sh in simp)
  then have "s \<in> set (sf_state_list w')" using eff mem(1) by simp
  then show "find_state i w' = Some s" using find_state_member [OF wf', of s] mem(2) by simp
qed

lemma close_share:
  assumes plain: "\<not> fo_supports (se_ops env) fso_share_support" and inv: "share_inv w anon"
    and found: "find_state i w = Some s" and sh: "st_data s = Data_Share sh"
    and remove: "state_share_remove env sh w = Some (status, w1)" and del: "state_del_locked env i w1 = Some w2"
  shows "share_inv w2 anon"
proof -
  have wf: "shares_wf w" using inv by (simp add: share_inv_def)
  let ?w = "w\<lparr>sf_share_state := state_share_update_counter (share_access sh) (share_deny sh) 0 0 True (sf_share_state w)\<rparr>"
  have "counted ?w (0, 0) (others i w anon)"
    by (rule counted_replace [OF holders_share(1) [OF inv found sh]]) simp
  moreover have "share_view w1 = share_view ?w"
    using remove by (auto simp: state_share_remove_def share_change_plain [OF plain] bind_eq_Some_conv dest!: view_lemmas)
  moreover note eff = ensuresD [OF state_del_locked_effect del]
  ultimately show ?thesis
    using filter_keeps_wf [of w w2] wf by (auto simp: share_inv_def counted_none share_view_eq holders_def others_def)
qed

lemma nfs4_op_close_inv:
  assumes plain: "\<not> fo_supports (se_ops env) fso_share_support" and inv: "share_inv w anon"
    and run: "nfs4_op_close env i w = Some (result, w')"
  shows "share_inv w' anon"
proof -
  obtain s where found: "find_state i w = Some s"
    using run by (auto simp: nfs4_op_close_def bind_eq_Some_conv)
  then obtain sh where sh: "st_data s = Data_Share sh"
    using run by (cases "st_data s") (auto simp: nfs4_op_close_def)
  show ?thesis
  proof (cases "list_ex has_locks (lock_states_of i w)")
    case True
    then show ?thesis using run found sh inv by (simp add: nfs4_op_close_def)
  next
    case False
    then obtain w1 st w2 w3 cs where "del_states env (map st_id (lock_states_of i w)) w = Some w1"
      "state_share_remove env sh w1 = Some (st, w2)" "state_del_locked env i w2 = Some w3"
      "cache_inode_close (se_ops env) True False w3 = Some (cs, w')"
      using run found sh by (auto simp: nfs4_op_close_def bind_eq_Some_conv)
    then show ?thesis
      using close_share [OF plain drop_lock_states(1) [OF inv found sh] drop_lock_states(2) [OF inv found sh] sh]
        share_inv_cong ensuresD [OF cache_inode_close_view] by (metis (mono_tags, lifting) case_prod_conv)
  qed
qed

section \<open>NLM shares and anonymous I/O\<close>

lemma drop_nlm_share_effect:
  "ensures (drop_nlm_share env closefile i owner w) (\<lambda>w'. sf_share_state w' = sf_share_state w \<and> sf_state_list w' = sf_state_list w
     \<and> sf_next w' = sf_next w \<and> sf_nlm_share_list w' = filter (\<lambda>s. sns_id s \<noteq> i) (sf_nlm_share_list w))"
  unfolding drop_nlm_share_def
  by (intro ensures_rules; auto simp: share_view_eq dest!: view_lemmas split: if_splits)

lemma enter_nlm_share_inv:
  assumes plain: "\<not> fo_supports (se_ops env) fso_share_support" and inv: "share_inv w anon"
    and size: "size (holders w anon) + 1 < 2 ^ 32"
    and free: "state_share_check_conflict (sf_share_state w) acc deny = STATE_SUCCESS"
  shows "ensures (enter_nlm_share env acc deny owner export reclaim w) (\<lambda>(status, w'). share_inv w' anon)"
proof -
  have cnt: "counted w (0, 0) (holders w anon)" using inv by (simp add: counted_none share_inv_def)
  have "share_ok (acc, deny) y" if "y \<in># holders w anon" for y
    using counted_check [OF cnt _ free that] size by simp
  note new = counted_replace [OF cnt this, unfolded counted_def]
  let ?n = "\<lparr>sns_id = sf_next w, sns_owner = owner, sns_export = export, sns_access = acc, sns_deny = deny\<rparr>"
  have fin: "share_inv w' anon" if "sf_state_list w' = sf_state_list w" "sf_next w' = Suc (sf_next w)"
      "sf_nlm_share_list w' = sf_nlm_share_list w @ [?n]"
      "sf_share_state w' = state_share_update_counter 0 0 acc deny True (sf_share_state w)" for w'
    using inv new that by (force simp: share_inv_def shares_wf_def holders_def less_Suc_eq)
  show ?thesis
    unfolding enter_nlm_share_def share_change_plain [OF plain]
    by (intro ensures_rules) (auto simp: cf_inc_pin_ref_def intro!: fin split: if_splits)
qed

lemma state_nlm_share_inv:
  assumes plain: "\<not> fo_supports (se_ops env) fso_share_support" and inv: "share_inv w anon"
    and size: "size (holders w anon) + 1 < 2 ^ 32"
  shows "ensures (state_nlm_share env acc deny owner reclaim w) (\<lambda>(status, w'). share_inv w' anon)"
proof -
  have keep: "share_view w1 = share_view w \<Longrightarrow> share_inv w1 anon \<and> size (holders w1 anon) + 1 < 2 ^ 32" for w1
    using inv size share_inv_cong by (simp add: share_view_eq holders_def share_inv_def shares_wf_def)
  have enter: "share_inv w2 anon" if "enter_nlm_share env acc deny owner export reclaim w1 = Some (st, w2)"
      "share_view w1 = share_view w" "state_share_check_conflict (sf_share_state w1) acc deny = STATE_SUCCESS" for w1 w2 st export
    using ensuresD [OF enter_nlm_share_inv [OF plain _ _ that(3)] that(1)] keep [OF that(2)] by simp
  have dec: "share_inv w2 anon" if "cf_dec_pin_ref (se_ops env) True w1 = Some w2" "share_inv w1 anon" for w1 w2
    using that share_inv_cong ensuresD [OF cf_dec_pin_ref_view] by blast
  have inner: "ensures (nlm_share_locked env acc deny owner reclaim w1) (\<lambda>(status, w2). share_inv w2 anon)"
    if "share_view w1 = share_view w" for w1
    unfolding nlm_share_locked_def using keep [OF that] keep [of "w1\<lparr>sf_orc := _\<rparr>"] that
    by (intro ensures_rules ensuresI) (auto intro: enter)
  show ?thesis
    unfolding state_nlm_share_def
    by (intro ensures_rules)
      (auto dest!: dec view_lemmas(1,4) dest: keep ensuresD [OF inner] split: if_splits)
qed

lemma unshare_one:
  assumes inv: "share_inv w anon"
    and mem: "s \<in> set (sf_nlm_share_list w)"
    and drop: "drop_nlm_share env True (sns_id s) owner
      (w\<lparr>sf_share_state := state_share_update_counter (sns_access s) (sns_deny s) 0 0 True (sf_share_state w)\<rparr>) = Some w'"
  shows "share_inv w' anon" and "sf_nlm_share_list w' = filter (\<lambda>t. sns_id t \<noteq> sns_id s) (sf_nlm_share_list w)"
proof -
  note eff = ensuresD [OF drop_nlm_share_effect drop, simplified]
  then show list: "sf_nlm_share_list w' = filter (\<lambda>t. sns_id t \<noteq> sns_id s) (sf_nlm_share_list w)" by simp
  have "distinct (map sns_id (sf_nlm_share_list w))" using inv by (simp add: share_inv_def shares_wf_def)
  from nlm_holders_remove [OF this mem]
  have split: "holders w anon = add_mset (sns_access s, sns_deny s) (holders w' anon)"
    using eff by (simp add: holders_def)
  then have "counted w (sns_access s, sns_deny s) (holders w' anon)" using inv by (simp add: share_inv_def counted_def)
  from counted_replace [OF this, of 0 0] have "counts (sf_share_state w') (holders w' anon) \<and> shares_compat (holders w' anon)"
    using eff by (simp add: counted_def)
  moreover have "shares_wf w'" using inv eff by (auto simp: share_inv_def shares_wf_def distinct_map_filter)
  ultimately show "share_inv w' anon" by (simp add: share_inv_def)
qed

lemma unshare_loop_inv:
  assumes plain: "\<not> fo_supports (se_ops env) fso_share_support"
  shows "share_inv w anon \<Longrightarrow> set ns \<subseteq> set (sf_nlm_share_list w) \<Longrightarrow> distinct (map sns_id ns)
     \<Longrightarrow> ensures (unshare_loop env acc deny owner ns status w) (\<lambda>(status, w'). share_inv w' anon)"
proof (induction ns arbitrary: status w)
  case (Cons s ns)
  have "ensures (unshare_loop env acc deny owner ns st w1) (\<lambda>(status, w'). share_inv w' anon)"
    if drop: "drop_nlm_share env True (sns_id s) owner
      (w\<lparr>sf_share_state := state_share_update_counter (sns_access s) (sns_deny s) 0 0 True (sf_share_state w)\<rparr>) = Some w1" for st w1
  proof (rule Cons.IH)
    have mem: "s \<in> set (sf_nlm_share_list w)" using Cons.prems by simp
    note one = unshare_one [OF Cons.prems(1) mem drop]
    show "share_inv w1 anon" by (rule one(1))
    show "set ns \<subseteq> set (sf_nlm_share_list w1)"
      using one(2) Cons.prems(2,3) distinct_ids_tail [of sns_id s ns] by auto
    show "distinct (map sns_id ns)" using Cons.prems(3) by simp
  qed
  then show ?case
    using Cons.IH [of w] Cons.prems unfolding unshare_loop.simps share_change_plain [OF plain]
    by (intro ensures_rules) auto
qed (simp add: ensures_def)

lemma state_nlm_unshare_inv:
  assumes plain: "\<not> fo_supports (se_ops env) fso_share_support" and inv: "share_inv w anon"
  shows "ensures (state_nlm_unshare env acc deny owner w) (\<lambda>(status, w'). share_inv w' anon)"
proof -
  have keep: "share_inv w1 anon" if "share_view w1 = share_view w2" "share_inv w2 anon" for w1 w2
    using that share_inv_cong by blast
  have loop: "ensures (unshare_loop env acc deny owner (sf_nlm_share_list w1) st w1) (\<lambda>(status, w'). share_inv w' anon)"
    if "share_view w1 = share_view w" for w1 st
    using unshare_loop_inv [OF plain keep [OF that inv]] keep [OF that inv] by (simp add: share_inv_def shares_wf_def)
  show ?thesis
    unfolding state_nlm_unshare_def
    by (intro ensures_rules) (auto dest!: view_lemmas(3,4) dest: ensuresD [OF loop] intro: keep inv split: if_splits)
qed

lemma anonymous_io_start_inv:
  assumes "share_inv w anon" and "size (holders w anon) + 1 < 2 ^ 32"
    and run: "state_share_anonymous_io_start acc w = (status, w')"
  shows "share_inv w' (if status = STATE_SUCCESS then acc # anon else anon)"
proof (cases "status = STATE_SUCCESS")
  case True
  have cnt: "counted w (0, 0) (holders w anon)" using assms(1) by (simp add: counted_none share_inv_def)
  have free: "state_share_check_conflict (sf_share_state w) acc 0 = STATE_SUCCESS"
    using run True by (auto simp: state_share_anonymous_io_start_def Let_def split: if_splits)
  have "share_ok (acc, 0) y" if "y \<in># holders w anon" for y
    using counted_check [OF cnt _ free that] assms(2) by simp
  moreover have "counts (state_share_update_counter 0 0 acc 0 False (sf_share_state w)) (add_mset (acc, 0) (holders w anon))"
    using cnt by (intro counts_change) (simp_all add: counted_def)
  ultimately show ?thesis using run True free assms(1)
    by (auto simp: state_share_anonymous_io_start_def share_inv_def shares_wf_def holders_def)
next
  case False
  then show ?thesis using run assms(1) by (auto simp: state_share_anonymous_io_start_def Let_def split: if_splits)
qed

lemma anonymous_io_done_inv:
  assumes "share_inv w anon" and "acc \<in> set anon"
  shows "share_inv (state_share_anonymous_io_done acc w) (remove1 acc anon)"
proof -
  have split: "holders w anon = add_mset (acc, 0) (holders w (remove1 acc anon))"
    using assms(2) by (simp add: holders_def flip: mset_map) (metis (no_types, lifting) image_mset_add_mset insert_DiffM mset_remove1 set_mset_mset mset_map union_mset_add_mset_right)
  then have "counts (state_share_update_counter acc 0 0 0 False (sf_share_state w)) (add_mset (0, 0) (holders w (remove1 acc anon)))"
    using assms(1) by (intro counts_change) (simp_all add: share_inv_def)
  then show ?thesis using assms(1) split
    by (simp add: share_inv_def shares_wf_def state_share_anonymous_io_done_def holders_def)
qed

lemma state_add_inv:
  assumes "share_inv w anon" and "data_holder d = []"
  shows "ensures (state_add env d owner export w) (\<lambda>(status, r, w'). share_inv w' anon)"
proof -
  have "share_inv w' anon" if "state_add_impl env d owner export w = Some (status, r, w')" for status r w'
  proof (cases "status = STATE_SUCCESS")
    case True
    note eff = ensuresD [OF state_add_impl_effect that]
    let ?s = "\<lparr>st_id = sf_next w, st_owner = owner, st_export = export, st_data = d\<rparr>"
    have "shares_wf w'" using state_added(1) [OF assms(1), of w' ?s] eff True by simp
    then show ?thesis using eff True assms by (simp add: share_inv_def holders_def)
  next
    case False
    then show ?thesis using ensuresD [OF state_add_impl_effect that] assms(1) share_inv_cong by auto
  qed
  then show ?thesis unfolding state_add_def by (intro ensures_rules ensuresI) (use assms(1) in auto)
qed

section \<open>Runs\<close>

text \<open>
  The requests on a file, each in an environment of its own out of \<open>Env\<close>; the second component is the anonymous
  I/O under way.  An open that fails is one that leaves no state behind, and a downgrade is one of NFSv4.0: an open that
  is delayed after its state was added, and a downgrade of NFSv4.1, break the counters, as the examples at the end show.
\<close>

inductive share_step :: "'f share_env set \<Rightarrow> 'f share_file \<times> u32 list \<Rightarrow> 'f share_file \<times> u32 list \<Rightarrow> bool" for Env where
  share_open: "env \<in> Env \<Longrightarrow> nfs4_op_open env minor claim acc deny owner w = Some (result, r, w')
    \<Longrightarrow> result = Open_OK \<or> sf_state_list w' = sf_state_list w \<Longrightarrow> share_step Env (w, anon) (w', anon)"
| share_lock_state: "env \<in> Env \<Longrightarrow> state_add env (Data_Lock i locks) owner export w = Some (status, r, w')
    \<Longrightarrow> share_step Env (w, anon) (w', anon)"
| share_downgrade: "env \<in> Env \<Longrightarrow> nfs4_op_open_downgrade env 0 acc deny i w = Some (down, w')
    \<Longrightarrow> share_step Env (w, anon) (w', anon)"
| share_close: "env \<in> Env \<Longrightarrow> nfs4_op_close env i w = Some (closed, w') \<Longrightarrow> share_step Env (w, anon) (w', anon)"
| share_nlm: "env \<in> Env \<Longrightarrow> state_nlm_share env acc deny owner reclaim w = Some (status, w')
    \<Longrightarrow> share_step Env (w, anon) (w', anon)"
| share_nlm_unshare: "env \<in> Env \<Longrightarrow> state_nlm_unshare env acc deny owner w = Some (status, w')
    \<Longrightarrow> share_step Env (w, anon) (w', anon)"
| share_io_start: "state_share_anonymous_io_start acc w = (status, w')
    \<Longrightarrow> share_step Env (w, anon) (w', if status = STATE_SUCCESS then acc # anon else anon)"
| share_io_done: "acc \<in> set anon \<Longrightarrow> share_step Env (w, anon) (state_share_anonymous_io_done acc w, remove1 acc anon)"

text \<open>The counters have 32 bits: a run has fewer than \<open>2 ^ 32\<close> holders at every moment.\<close>

inductive share_run :: "'f share_env set \<Rightarrow> 'f share_file \<times> u32 list \<Rightarrow> 'f share_file \<times> u32 list \<Rightarrow> bool" for Env s where
  share_start: "share_run Env s s"
| share_next: "share_run Env s (w, anon) \<Longrightarrow> size (holders w anon) + 1 < 2 ^ 32
    \<Longrightarrow> share_step Env (w, anon) s' \<Longrightarrow> share_run Env s s'"

lemma share_step_inv:
  assumes "share_step Env s s'" and "\<forall>env \<in> Env. \<not> fo_supports (se_ops env) fso_share_support"
    and "share_inv (fst s) (snd s)" and "size (holders (fst s) (snd s)) + 1 < 2 ^ 32"
  shows "share_inv (fst s') (snd s')"
  using assms
proof (induction rule: share_step.induct)
  case (share_open env minor claim acc deny owner w result r w' anon)
  then show ?case using nfs4_op_open_inv [of env w anon] by fastforce
next
  case (share_lock_state env i locks owner export w status r w' anon)
  then show ?case using ensuresD [OF state_add_inv share_lock_state(2)] by simp
next
  case (share_downgrade env acc deny i w down w' anon)
  then show ?case using nfs4_op_open_downgrade_inv by fastforce
next
  case (share_close env i w closed w' anon)
  then show ?case using nfs4_op_close_inv by fastforce
next
  case (share_nlm env acc deny owner reclaim w status w' anon)
  then show ?case using ensuresD [OF state_nlm_share_inv share_nlm(2)] by simp
next
  case (share_nlm_unshare env acc deny owner w status w' anon)
  then show ?case using ensuresD [OF state_nlm_unshare_inv share_nlm_unshare(2)] by simp
next
  case (share_io_start acc w status w' anon)
  then show ?case using anonymous_io_start_inv [of w anon acc status w'] by simp
next
  case (share_io_done acc anon w)
  then show ?case using anonymous_io_done_inv by simp
qed

definition no_shares :: "'f share_file \<Rightarrow> bool" where
  "no_shares w \<longleftrightarrow> sf_state_list w = [] \<and> sf_nlm_share_list w = []
     \<and> sf_share_state w = \<lparr>share_access_read = 0, share_access_write = 0, share_deny_read = 0, share_deny_write = 0,
          share_deny_write_v4 = 0\<rparr>"

lemma share_run_inv:
  assumes "share_run Env (w0, []) s" and "no_shares w0" and "\<forall>env \<in> Env. \<not> fo_supports (se_ops env) fso_share_support"
  shows "share_inv (fst s) (snd s)"
  using assms(1)
proof (induction rule: share_run.induct)
  case share_start
  then show ?case using assms(2) by (simp add: share_inv_def no_shares_def shares_wf_def holders_def counts_def)
next
  case (share_next w anon s')
  then show ?case using share_step_inv [OF share_next(3) assms(3)] by simp
qed

section \<open>A file on Kurma\<close>

text \<open>Owner 1 is an NLM owner, the others are NFSv4 open owners; the hard limit on descriptors is 10.\<close>

definition demo_share_env :: "(kurma_fsal_obj_handle \<times> unit rpc_world) share_env" where
  "demo_share_env = \<lparr>se_ops = demo_ops, se_share_op = (\<lambda>_ _ _ f. Some (fsalstat ERR_FSAL_NOTSUPP 0, f)),
     se_owners = (\<lambda>i. \<lparr>so_type = if i = 1 then STATE_LOCK_OWNER_NLM else STATE_OPEN_OWNER_NFSV4, so_owner_val = [],
        so_clientid = of_nat i, so_nlm_client = i, so_nlm_svid = 0, so_proc_id = 0\<rparr>),
     se_nsm = (\<lambda>i. i), se_export = Some 0, se_access = (\<lambda>_ _. CACHE_INODE_SUCCESS)\<rparr>"

definition demo_share_file :: "u64 \<Rightarrow> (kurma_fsal_obj_handle \<times> unit rpc_world) share_file" where
  "demo_share_file fds = \<lparr>cf_fsal = cf_fsal demo_cache, cf_pins = 0, cf_dead = False, cf_open_fd_count = fds,
     cf_caching_fds = True,
     sf_share_state = \<lparr>share_access_read = 0, share_access_write = 0, share_deny_read = 0, share_deny_write = 0,
       share_deny_write_v4 = 0\<rparr>,
     sf_state_list = [], sf_deleg_list = [], sf_nlm_share_list = [], sf_next = 0, sf_orc = sample_oracle,
     sf_owner_refs = (\<lambda>_. 0), sf_nsm_refs = (\<lambda>_. 0), sf_recalls = 0\<rparr>"

definition demo_open :: "u32 \<Rightarrow> u32 \<Rightarrow> u32 \<Rightarrow> nat \<Rightarrow> (kurma_fsal_obj_handle \<times> unit rpc_world) share_file
    \<Rightarrow> open_result \<times> nat option \<times> (kurma_fsal_obj_handle \<times> unit rpc_world) share_file" where
  "demo_open minor acc deny owner w = the (nfs4_op_open demo_share_env minor 0 acc deny owner w)"

definition demo_nlm :: "u32 \<Rightarrow> u32 \<Rightarrow> (kurma_fsal_obj_handle \<times> unit rpc_world) share_file
    \<Rightarrow> state_status_t \<times> (kurma_fsal_obj_handle \<times> unit rpc_world) share_file" where
  "demo_nlm acc deny w = the (state_nlm_share demo_share_env acc deny 1 False w)"

lemma demo_open_eq:
  assumes "nfs4_op_open demo_share_env minor 0 acc deny owner w \<noteq> None" and "fst (demo_open minor acc deny owner w) = s"
    and "fst (snd (demo_open minor acc deny owner w)) = r"
  shows "nfs4_op_open demo_share_env minor 0 acc deny owner w = Some (s, r, snd (snd (demo_open minor acc deny owner w)))"
  using assms by (auto simp: demo_open_def)

lemma demo_nlm_eq:
  assumes "state_nlm_share demo_share_env acc deny 1 False w \<noteq> None" and "fst (demo_nlm acc deny w) = s"
  shows "state_nlm_share demo_share_env acc deny 1 False w = Some (s, snd (demo_nlm acc deny w))"
  using assms by (auto simp: demo_nlm_def)

definition demo_reader :: "(kurma_fsal_obj_handle \<times> unit rpc_world) share_file" where
  "demo_reader = snd (snd (demo_open 0 1 2 0 (demo_share_file 4)))"

definition demo_shared :: "(kurma_fsal_obj_handle \<times> unit rpc_world) share_file" where
  "demo_shared = snd (demo_nlm 1 2 demo_reader)"

lemma demo_share_plain: "\<forall>env \<in> {demo_share_env}. \<not> fo_supports (se_ops env) fso_share_support"
  by simp code_simp

lemma demo_share_run:
  "share_run {demo_share_env} (demo_share_file 4, []) (demo_shared, [])"
proof -
  have runs: "nfs4_op_open demo_share_env 0 0 1 2 0 (demo_share_file 4) \<noteq> None"
    "fst (demo_open 0 1 2 0 (demo_share_file 4)) = Open_OK" "fst (snd (demo_open 0 1 2 0 (demo_share_file 4))) = Some 0"
    "state_nlm_share demo_share_env 1 2 1 False demo_reader \<noteq> None" "fst (demo_nlm 1 2 demo_reader) = STATE_SUCCESS"
    by code_simp+
  have sizes: "size (holders (demo_share_file 4) []) = 0" "size (holders demo_reader []) = 1" by code_simp+
  have "share_step {demo_share_env} (demo_share_file 4, []) (demo_reader, [])"
    by (rule share_open [OF singletonI demo_open_eq [OF runs(1-3), folded demo_reader_def]]) simp
  moreover have "share_step {demo_share_env} (demo_reader, []) (demo_shared, [])"
    by (rule share_nlm [OF singletonI demo_nlm_eq [OF runs(4-5), folded demo_shared_def]])
  ultimately show ?thesis
    by (intro share_next [OF share_next [OF share_start]]) (simp_all add: sizes)
qed

section \<open>Properties\<close>

text \<open>
  C4 On a file whose file-system layer has no share reservations of its own, whatever NFSv4 opens and
  closes, NFSv4.0 downgrades, NLM shares and unshares and anonymous reads and writes are served, no two holders of the
  file exclude each other: none has an access that another denies.  The counters of the file are exactly the numbers of
  the holders of each kind.  The run has fewer than \<open>2 ^ 32\<close> holders at every moment, and none of its failed opens left
  a state behind.
\<close>

theorem shares_exclude:
  assumes "share_run Env (w0, []) (w, anon)" and "no_shares w0"
    and "\<forall>env \<in> Env. \<not> fo_supports (se_ops env) fso_share_support"
  shows "shares_compat (holders w anon) \<and> counts (sf_share_state w) (holders w anon)"
  using share_run_inv [OF assms] by (simp add: share_inv_def)

theorem shares_exclude_witness:
  "shares_compat (holders demo_shared []) \<and> counts (sf_share_state demo_shared) (holders demo_shared [])
     \<and> size (holders demo_shared []) = 2"
proof -
  have "no_shares (demo_share_file 4)" by (simp add: no_shares_def demo_share_file_def)
  moreover have "size (holders demo_shared []) = 2" by code_simp
  ultimately show ?thesis using shares_exclude [OF demo_share_run _ demo_share_plain] by simp
qed

text \<open>
  C13 After such a run the conflict check on the counters is exact: it grants an access and a deny mode if and only if
  they are compatible with every holder of the file.
\<close>

theorem share_conflict_exact:
  assumes "share_run Env (w0, []) (w, anon)" and "no_shares w0"
    and "\<forall>env \<in> Env. \<not> fo_supports (se_ops env) fso_share_support" and "size (holders w anon) < 2 ^ 32"
  shows "state_share_check_conflict (sf_share_state w) acc deny = STATE_SUCCESS
    \<longleftrightarrow> (\<forall>holder \<in># holders w anon. share_ok (acc, deny) holder)"
  using share_run_inv [OF assms(1-3)] check_conflict_exact [OF _ assms(4)] by (simp add: share_inv_def)

theorem share_conflict_exact_witness:
  "state_share_check_conflict (sf_share_state demo_shared) 1 0 = STATE_SUCCESS
     \<and> state_share_check_conflict (sf_share_state demo_shared) 2 0 \<noteq> STATE_SUCCESS"
proof -
  have empty: "no_shares (demo_share_file 4)" by (simp add: no_shares_def demo_share_file_def)
  have holders: "holders demo_shared [] = {#(1, 2), (1, 2)#}" by code_simp
  have "share_ok (1, 0) (1, 2)" "\<not> share_ok (2, 0) (1, 2)" by code_simp+
  then show ?thesis
    using share_conflict_exact [OF demo_share_run empty demo_share_plain] by (simp add: holders)
qed

definition demo_delayed :: "(kurma_fsal_obj_handle \<times> unit rpc_world) share_file" where
  "demo_delayed = snd (snd (demo_open 0 2 0 0 (demo_share_file 10)))"

definition demo_retried :: "(kurma_fsal_obj_handle \<times> unit rpc_world) share_file" where
  "demo_retried = snd (snd (demo_open 0 2 0 0 demo_delayed))"

definition demo_close :: "nat \<Rightarrow> (kurma_fsal_obj_handle \<times> unit rpc_world) share_file
    \<Rightarrow> close_result \<times> (kurma_fsal_obj_handle \<times> unit rpc_world) share_file" where
  "demo_close i w = the (nfs4_op_close demo_share_env i w)"

lemma demo_close_eq:
  assumes "nfs4_op_close demo_share_env i w \<noteq> None" and "fst (demo_close i w) = s"
  shows "nfs4_op_close demo_share_env i w = Some (s, snd (demo_close i w))"
  using assms by (auto simp: demo_close_def)


definition demo_writer :: "(kurma_fsal_obj_handle \<times> unit rpc_world) share_file" where
  "demo_writer = snd (snd (demo_open 1 3 0 0 (demo_share_file 4)))"

definition demo_downgraded_open :: "(kurma_fsal_obj_handle \<times> unit rpc_world) share_file" where
  "demo_downgraded_open = snd (the (nfs4_op_open_downgrade demo_share_env 1 1 0 0 demo_writer))"


end
