(* ===== verification/Xdr_Codec.thy ===== *)
theory Xdr_Codec
  imports Kurma_Codec
begin

text \<open>
  External data representation.  A routine \<^verbatim>\<open>bool xdr_T(XDR *xdrs, T *objp)\<close> serves both directions: it writes
  \<^verbatim>\<open>*objp\<close> to the stream when \<^verbatim>\<open>x_op\<close> is \<^verbatim>\<open>XDR_ENCODE\<close> and fills it when \<^verbatim>\<open>x_op\<close> is \<^verbatim>\<open>XDR_DECODE\<close>.  It is modelled by a
  codec, the pair of the two functions, and its statements by the combinators below, in their order:
  \<^verbatim>\<open>if (!xdr_f(xdrs, &objp->f)) return false;\<close> is a field, \<^verbatim>\<open>switch\<close> on the discriminant of a union is a union of
  members.  A union and its discriminant are one datatype.  \<open>None\<close> is the result \<^verbatim>\<open>false\<close>.  Freeing (\<^verbatim>\<open>XDR_FREE\<close>) is
  not modelled.  The routines for integers, booleans, strings and opaque data belong to \<^verbatim>\<open>libntirpc\<close> and are
  parameters; what the server relies on is that each reads back what it wrote.
\<close>

section \<open>Streams and codecs\<close>

record nfs_request_lookahead =
  lk_flags :: u32
  lk_read :: u16
  lk_write :: u16

text \<open>\<^verbatim>\<open>x_public\<close> is the lookahead of the request, or the dummy that stands in for it.\<close>

record XDR =
  x_buf :: bytes
  x_public :: nfs_request_lookahead

record 'a codec =
  enc :: "'a \<Rightarrow> XDR \<Rightarrow> XDR option"
  dec :: "XDR \<Rightarrow> ('a \<times> XDR) option"

text \<open>
  A codec is sound where what it writes is read back as it was, whatever follows in the stream; reading has the
  same effect on the lookahead as writing.
\<close>

definition codec_on :: "('a \<Rightarrow> bool) \<Rightarrow> 'a codec \<Rightarrow> bool" where
  "codec_on P c \<longleftrightarrow> (\<forall>x s s'. P x \<longrightarrow> enc c x s = Some s' \<longrightarrow>
     (\<exists>bs f. s' = s\<lparr>x_buf := x_buf s @ bs, x_public := f (x_public s)\<rparr> \<and>
        (\<forall>t rest. x_buf t = bs @ rest \<longrightarrow> dec c t = Some (x, t\<lparr>x_buf := rest, x_public := f (x_public t)\<rparr>))))"

abbreviation codec_ok :: "'a codec \<Rightarrow> bool" where
  "codec_ok \<equiv> codec_on (\<lambda>_. True)"

lemma codec_onI:
  assumes "\<And>x s s'. P x \<Longrightarrow> enc c x s = Some s' \<Longrightarrow>
     \<exists>bs f. s' = s\<lparr>x_buf := x_buf s @ bs, x_public := f (x_public s)\<rparr> \<and>
        (\<forall>t rest. x_buf t = bs @ rest \<longrightarrow> dec c t = Some (x, t\<lparr>x_buf := rest, x_public := f (x_public t)\<rparr>))"
  shows "codec_on P c"
  using assms unfolding codec_on_def by blast

lemma codec_onE:
  assumes "codec_on P c" and "P x" and "enc c x s = Some s'"
  obtains bs f where "s' = s\<lparr>x_buf := x_buf s @ bs, x_public := f (x_public s)\<rparr>"
    and "\<And>t rest. x_buf t = bs @ rest \<Longrightarrow> dec c t = Some (x, t\<lparr>x_buf := rest, x_public := f (x_public t)\<rparr>)"
  using assms unfolding codec_on_def by blast

text \<open>A codec that writes bytes alone is sound when it reads them back.\<close>

lemma codec_on_bytes:
  assumes "\<And>x s s'. P x \<Longrightarrow> enc c x s = Some s' \<Longrightarrow>
    \<exists>bs. s' = s\<lparr>x_buf := x_buf s @ bs\<rparr> \<and> (\<forall>t rest. x_buf t = bs @ rest \<longrightarrow> dec c t = Some (x, t\<lparr>x_buf := rest\<rparr>))"
  shows "codec_on P c"
proof (rule codec_onI)
  fix x s s'
  assume "P x" "enc c x s = Some s'"
  from assms [OF this] obtain bs where "s' = s\<lparr>x_buf := x_buf s @ bs\<rparr>"
      "\<And>t rest. x_buf t = bs @ rest \<Longrightarrow> dec c t = Some (x, t\<lparr>x_buf := rest\<rparr>)" by blast
  then show "\<exists>bs f. s' = s\<lparr>x_buf := x_buf s @ bs, x_public := f (x_public s)\<rparr> \<and>
      (\<forall>t rest. x_buf t = bs @ rest \<longrightarrow> dec c t = Some (x, t\<lparr>x_buf := rest, x_public := f (x_public t)\<rparr>))"
    by (intro exI [of _ bs] exI [of _ id]) simp
qed

section \<open>Structures\<close>

text \<open>
  The fields of a structure in the order of the routine.  Reading applies the constructor to one field after the
  other.
\<close>

record ('r, 'k) fields =
  f_enc :: "'r \<Rightarrow> XDR \<Rightarrow> XDR option"
  f_dec :: "'k \<Rightarrow> XDR \<Rightarrow> ('r \<times> XDR) option"

definition xdr_done :: "('r, 'r) fields" where
  "xdr_done = \<lparr>f_enc = (\<lambda>_ s. Some s), f_dec = (\<lambda>r s. Some (r, s))\<rparr>"

definition xdr_field :: "('r \<Rightarrow> 'a) \<Rightarrow> 'a codec \<Rightarrow> ('r, 'k) fields \<Rightarrow> ('r, 'a \<Rightarrow> 'k) fields" where
  "xdr_field get c rest =
     \<lparr>f_enc = (\<lambda>r s. do { s \<leftarrow> enc c (get r) s; f_enc rest r s }),
      f_dec = (\<lambda>k s. do { (a, s) \<leftarrow> dec c s; f_dec rest (k a) s })\<rparr>"

definition xdr_struct :: "'k \<Rightarrow> ('r, 'k) fields \<Rightarrow> 'r codec" where
  "xdr_struct mk fs = \<lparr>enc = f_enc fs, dec = f_dec fs mk\<rparr>"

text \<open>The soundness of the remaining fields, given what the fields read so far make of the structure.\<close>

definition fields_ok :: "('r \<Rightarrow> 'k) \<Rightarrow> ('r, 'k) fields \<Rightarrow> bool" where
  "fields_ok made fs \<longleftrightarrow> (\<forall>r s s'. f_enc fs r s = Some s' \<longrightarrow>
     (\<exists>bs f. s' = s\<lparr>x_buf := x_buf s @ bs, x_public := f (x_public s)\<rparr> \<and>
        (\<forall>t rest. x_buf t = bs @ rest \<longrightarrow>
           f_dec fs (made r) t = Some (r, t\<lparr>x_buf := rest, x_public := f (x_public t)\<rparr>))))"

named_theorems codec_rules

lemma fields_ok_done: "(\<And>r. made r = r) \<Longrightarrow> fields_ok made xdr_done"
  unfolding fields_ok_def xdr_done_def by (fastforce intro: exI [of _ "[]"] exI [of _ id])

lemma fields_ok_field [codec_rules]:
  assumes c: "codec_ok c" and rest: "fields_ok (\<lambda>r. made r (get r)) fs"
  shows "fields_ok made (xdr_field get c fs)"
  unfolding fields_ok_def
proof (intro allI impI)
  fix r s s'
  assume "f_enc (xdr_field get c fs) r s = Some s'"
  then obtain s1 where s1: "enc c (get r) s = Some s1" "f_enc fs r s1 = Some s'"
    by (auto simp: xdr_field_def bind_eq_Some_conv)
  obtain b1 f1 where one: "s1 = s\<lparr>x_buf := x_buf s @ b1, x_public := f1 (x_public s)\<rparr>"
      "\<And>t u. x_buf t = b1 @ u \<Longrightarrow> dec c t = Some (get r, t\<lparr>x_buf := u, x_public := f1 (x_public t)\<rparr>)"
    using codec_onE [OF c TrueI s1(1)] by metis
  obtain b2 f2 where two: "s' = s1\<lparr>x_buf := x_buf s1 @ b2, x_public := f2 (x_public s1)\<rparr>"
      "\<And>t u. x_buf t = b2 @ u \<Longrightarrow>
         f_dec fs (made r (get r)) t = Some (r, t\<lparr>x_buf := u, x_public := f2 (x_public t)\<rparr>)"
    using rest s1(2) unfolding fields_ok_def by blast
  have "s' = s\<lparr>x_buf := x_buf s @ (b1 @ b2), x_public := (f2 \<circ> f1) (x_public s)\<rparr>" using one(1) two(1) by simp
  moreover have "f_dec (xdr_field get c fs) (made r) t = Some (r, t\<lparr>x_buf := u, x_public := (f2 \<circ> f1) (x_public t)\<rparr>)"
    if "x_buf t = (b1 @ b2) @ u" for t u
    using one(2) [of t "b2 @ u"] two(2) [of "t\<lparr>x_buf := b2 @ u, x_public := f1 (x_public t)\<rparr>" u] that
    by (simp add: xdr_field_def)
  ultimately show "\<exists>bs f. s' = s\<lparr>x_buf := x_buf s @ bs, x_public := f (x_public s)\<rparr> \<and>
      (\<forall>t rest. x_buf t = bs @ rest \<longrightarrow>
         f_dec (xdr_field get c fs) (made r) t = Some (r, t\<lparr>x_buf := rest, x_public := f (x_public t)\<rparr>))"
    by blast
qed

lemma codec_ok_struct [codec_rules]: "fields_ok (\<lambda>_. mk) fs \<Longrightarrow> codec_ok (xdr_struct mk fs)"
  unfolding fields_ok_def codec_on_def xdr_struct_def by simp

section \<open>Unions\<close>

definition xdr_union :: "'t codec \<Rightarrow> ('u \<Rightarrow> 't) \<Rightarrow> ('t \<Rightarrow> 'u codec) \<Rightarrow> 'u codec" where
  "xdr_union tagc tag arm =
     \<lparr>enc = (\<lambda>u s. do { s \<leftarrow> enc tagc (tag u) s; enc (arm (tag u)) u s }),
      dec = (\<lambda>s. do { (t, s) \<leftarrow> dec tagc s; dec (arm t) s })\<rparr>"

text \<open>A member of a union.  A member that the discriminant does not select is not written.\<close>

definition xdr_member :: "('v \<Rightarrow> 'u) \<Rightarrow> ('u \<Rightarrow> 'v option) \<Rightarrow> 'v codec \<Rightarrow> 'u codec" where
  "xdr_member mk get c =
     \<lparr>enc = (\<lambda>u s. do { v \<leftarrow> get u; enc c v s }),
      dec = (\<lambda>s. do { (v, s) \<leftarrow> dec c s; Some (mk v, s) })\<rparr>"

text \<open>The case of a discriminant without a member.\<close>

definition xdr_void :: "'u \<Rightarrow> 'u codec" where
  "xdr_void k = \<lparr>enc = (\<lambda>u s. if u = k then Some s else None), dec = (\<lambda>s. Some (k, s))\<rparr>"

definition xdr_reject :: "'u codec" where
  "xdr_reject = \<lparr>enc = (\<lambda>_ _. None), dec = (\<lambda>_. None)\<rparr>"

lemma codec_ok_union [codec_rules]:
  assumes c: "codec_ok tagc" and arms: "\<And>t. codec_on (\<lambda>u. tag u = t) (arm t)"
  shows "codec_ok (xdr_union tagc tag arm)"
proof (rule codec_onI)
  fix u s s'
  assume "enc (xdr_union tagc tag arm) u s = Some s'"
  then obtain s1 where s1: "enc tagc (tag u) s = Some s1" "enc (arm (tag u)) u s1 = Some s'"
    by (auto simp: xdr_union_def bind_eq_Some_conv)
  obtain b1 f1 where one: "s1 = s\<lparr>x_buf := x_buf s @ b1, x_public := f1 (x_public s)\<rparr>"
      "\<And>t r. x_buf t = b1 @ r \<Longrightarrow> dec tagc t = Some (tag u, t\<lparr>x_buf := r, x_public := f1 (x_public t)\<rparr>)"
    using codec_onE [OF c TrueI s1(1)] by metis
  obtain b2 f2 where two: "s' = s1\<lparr>x_buf := x_buf s1 @ b2, x_public := f2 (x_public s1)\<rparr>"
      "\<And>t r. x_buf t = b2 @ r \<Longrightarrow> dec (arm (tag u)) t = Some (u, t\<lparr>x_buf := r, x_public := f2 (x_public t)\<rparr>)"
    using codec_onE [OF arms refl s1(2)] by metis
  have "s' = s\<lparr>x_buf := x_buf s @ (b1 @ b2), x_public := (f2 \<circ> f1) (x_public s)\<rparr>" using one(1) two(1) by simp
  moreover have "dec (xdr_union tagc tag arm) t = Some (u, t\<lparr>x_buf := r, x_public := (f2 \<circ> f1) (x_public t)\<rparr>)"
    if "x_buf t = (b1 @ b2) @ r" for t r
    using one(2) [of t "b2 @ r"] two(2) [of "t\<lparr>x_buf := b2 @ r, x_public := f1 (x_public t)\<rparr>" r] that
    by (simp add: xdr_union_def)
  ultimately show "\<exists>bs f. s' = s\<lparr>x_buf := x_buf s @ bs, x_public := f (x_public s)\<rparr> \<and>
      (\<forall>t rest. x_buf t = bs @ rest \<longrightarrow>
         dec (xdr_union tagc tag arm) t = Some (u, t\<lparr>x_buf := rest, x_public := f (x_public t)\<rparr>))"
    by blast
qed

lemma codec_on_member [codec_rules]:
  assumes c: "codec_ok c" and mk: "\<And>u v. P u \<Longrightarrow> get u = Some v \<Longrightarrow> mk v = u"
  shows "codec_on P (xdr_member mk get c)"
proof (rule codec_onI)
  fix u s s'
  assume "P u" and run: "enc (xdr_member mk get c) u s = Some s'"
  then obtain v where v: "get u = Some v" "enc c v s = Some s'"
    by (auto simp: xdr_member_def bind_eq_Some_conv)
  obtain bs f where "s' = s\<lparr>x_buf := x_buf s @ bs, x_public := f (x_public s)\<rparr>"
      "\<And>t r. x_buf t = bs @ r \<Longrightarrow> dec c t = Some (v, t\<lparr>x_buf := r, x_public := f (x_public t)\<rparr>)"
    using codec_onE [OF c TrueI v(2)] by metis
  then show "\<exists>bs f. s' = s\<lparr>x_buf := x_buf s @ bs, x_public := f (x_public s)\<rparr> \<and>
      (\<forall>t rest. x_buf t = bs @ rest \<longrightarrow>
         dec (xdr_member mk get c) t = Some (u, t\<lparr>x_buf := rest, x_public := f (x_public t)\<rparr>))"
    using mk [OF \<open>P u\<close> v(1)] by (fastforce simp: xdr_member_def)
qed

lemma codec_on_void [codec_rules]: "codec_on P (xdr_void k)"
  by (rule codec_on_bytes, rule exI [of _ "[]"]) (auto simp: xdr_void_def split: if_splits)

lemma codec_on_reject [codec_rules]: "codec_on P xdr_reject"
  unfolding codec_on_def xdr_reject_def by simp

lemma codec_on_if [codec_rules]:
  "(b \<Longrightarrow> codec_on P c) \<Longrightarrow> (\<not> b \<Longrightarrow> codec_on P d) \<Longrightarrow> codec_on P (if b then c else d)"
  by simp

section \<open>Lookahead and linked lists\<close>

text \<open>A routine that records in the lookahead what kind of request it saw.\<close>

definition xdr_mark :: "(nfs_request_lookahead \<Rightarrow> nfs_request_lookahead) \<Rightarrow> 'a codec \<Rightarrow> 'a codec" where
  "xdr_mark lkhd c =
     \<lparr>enc = (\<lambda>x s. do { s \<leftarrow> enc c x s; Some (s\<lparr>x_public := lkhd (x_public s)\<rparr>) }),
      dec = (\<lambda>s. do { (x, s) \<leftarrow> dec c s; Some (x, s\<lparr>x_public := lkhd (x_public s)\<rparr>) })\<rparr>"

lemma codec_ok_mark [codec_rules]:
  assumes "codec_ok c"
  shows "codec_ok (xdr_mark lkhd c)"
proof (rule codec_onI)
  fix x s s'
  assume "enc (xdr_mark lkhd c) x s = Some s'"
  then obtain s1 where s1: "enc c x s = Some s1" "s' = s1\<lparr>x_public := lkhd (x_public s1)\<rparr>"
    by (auto simp: xdr_mark_def bind_eq_Some_conv)
  obtain bs f where *: "s1 = s\<lparr>x_buf := x_buf s @ bs, x_public := f (x_public s)\<rparr>"
      "\<And>t r. x_buf t = bs @ r \<Longrightarrow> dec c t = Some (x, t\<lparr>x_buf := r, x_public := f (x_public t)\<rparr>)"
    using codec_onE [OF assms TrueI s1(1)] by metis
  show "\<exists>bs f. s' = s\<lparr>x_buf := x_buf s @ bs, x_public := f (x_public s)\<rparr> \<and>
      (\<forall>t rest. x_buf t = bs @ rest \<longrightarrow>
         dec (xdr_mark lkhd c) t = Some (x, t\<lparr>x_buf := rest, x_public := f (x_public t)\<rparr>))"
    by (rule exI [of _ bs], rule exI [of _ "lkhd \<circ> f"]) (simp add: *(1) s1(2) *(2) xdr_mark_def)
qed

text \<open>
  A list linked through a pointer in its last field.  \<^verbatim>\<open>xdr_pointer\<close> transfers whether the pointer is set and, if so,
  calls the routine of the object, which ends with the pointer to the next one.
\<close>

fun enc_chain :: "bool codec \<Rightarrow> 'a codec \<Rightarrow> 'a list \<Rightarrow> XDR \<Rightarrow> XDR option" where
  "enc_chain b c [] s = enc b False s"
| "enc_chain b c (x # xs) s = do { s \<leftarrow> enc b True s; s \<leftarrow> enc c x s; enc_chain b c xs s }"

partial_function (option) dec_chain :: "bool codec \<Rightarrow> 'a codec \<Rightarrow> XDR \<Rightarrow> ('a list \<times> XDR) option" where
  "dec_chain b c s =
     do {
       (more, s) \<leftarrow> dec b s;
       if more then do { (x, s) \<leftarrow> dec c s; (xs, s) \<leftarrow> dec_chain b c s; Some (x # xs, s) }
       else Some ([], s)
     }"

definition xdr_chain :: "bool codec \<Rightarrow> 'a codec \<Rightarrow> 'a list codec" where
  "xdr_chain b c = \<lparr>enc = enc_chain b c, dec = dec_chain b c\<rparr>"

lemma enc_chain_sound:
  assumes b: "codec_ok b" and c: "codec_ok c"
  shows "enc_chain b c xs s = Some s' \<Longrightarrow>
    \<exists>bs f. s' = s\<lparr>x_buf := x_buf s @ bs, x_public := f (x_public s)\<rparr> \<and>
      (\<forall>t rest. x_buf t = bs @ rest \<longrightarrow> dec_chain b c t = Some (xs, t\<lparr>x_buf := rest, x_public := f (x_public t)\<rparr>))"
proof (induction xs arbitrary: s)
  case Nil
  then have "enc b False s = Some s'" by simp
  then obtain bs f where *: "s' = s\<lparr>x_buf := x_buf s @ bs, x_public := f (x_public s)\<rparr>"
      "\<And>t r. x_buf t = bs @ r \<Longrightarrow> dec b t = Some (False, t\<lparr>x_buf := r, x_public := f (x_public t)\<rparr>)"
    using codec_onE [OF b TrueI] by metis
  then show ?case by (intro exI [of _ bs] exI [of _ f]) (simp add: dec_chain.simps)
next
  case (Cons x xs)
  then obtain s1 s2 where s: "enc b True s = Some s1" "enc c x s1 = Some s2" "enc_chain b c xs s2 = Some s'"
    by (auto simp: bind_eq_Some_conv)
  obtain b1 f1 where one: "s1 = s\<lparr>x_buf := x_buf s @ b1, x_public := f1 (x_public s)\<rparr>"
      "\<And>t r. x_buf t = b1 @ r \<Longrightarrow> dec b t = Some (True, t\<lparr>x_buf := r, x_public := f1 (x_public t)\<rparr>)"
    using codec_onE [OF b TrueI s(1)] by metis
  obtain b2 f2 where two: "s2 = s1\<lparr>x_buf := x_buf s1 @ b2, x_public := f2 (x_public s1)\<rparr>"
      "\<And>t r. x_buf t = b2 @ r \<Longrightarrow> dec c t = Some (x, t\<lparr>x_buf := r, x_public := f2 (x_public t)\<rparr>)"
    using codec_onE [OF c TrueI s(2)] by metis
  obtain b3 f3 where three: "s' = s2\<lparr>x_buf := x_buf s2 @ b3, x_public := f3 (x_public s2)\<rparr>"
      "\<And>t r. x_buf t = b3 @ r \<Longrightarrow> dec_chain b c t = Some (xs, t\<lparr>x_buf := r, x_public := f3 (x_public t)\<rparr>)"
    using Cons.IH [OF s(3)] by metis
  have "dec_chain b c t = Some (x # xs, t\<lparr>x_buf := r, x_public := (f3 \<circ> f2 \<circ> f1) (x_public t)\<rparr>)"
    if "x_buf t = (b1 @ b2 @ b3) @ r" for t r
    using that one(2) [of t "b2 @ b3 @ r"] two(2) [of "t\<lparr>x_buf := b2 @ b3 @ r, x_public := f1 (x_public t)\<rparr>" "b3 @ r"]
      three(2) [of "t\<lparr>x_buf := b3 @ r, x_public := f2 (f1 (x_public t))\<rparr>" r]
    by (simp add: dec_chain.simps [of b c t])
  moreover have "s' = s\<lparr>x_buf := x_buf s @ (b1 @ b2 @ b3), x_public := (f3 \<circ> f2 \<circ> f1) (x_public s)\<rparr>"
    using one(1) two(1) three(1) by simp
  ultimately show ?case by blast
qed

lemma codec_ok_chain [codec_rules]: "codec_ok b \<Longrightarrow> codec_ok c \<Longrightarrow> codec_ok (xdr_chain b c)"
  by (rule codec_onI) (use enc_chain_sound [of b c] in \<open>simp add: xdr_chain_def\<close>)

section \<open>The library\<close>

text \<open>
  The routines of \<^verbatim>\<open>libntirpc\<close> that the others call: integers of 32 and 64 bits, enumerations, booleans, strings and
  counted bytes with a limit, opaque data of a fixed size, \<^verbatim>\<open>netobj\<close> and counted arrays of integers.
\<close>

record xdr_lib =
  xl_u_int :: "u32 codec"
  xl_int :: "u32 codec"
  xl_enum :: "u32 codec"
  xl_bool :: "bool codec"
  xl_u_longlong_t :: "u64 codec"
  xl_longlong_t :: "u64 codec"
  xl_string :: "u32 \<Rightarrow> bytes codec"
  xl_bytes :: "u32 \<Rightarrow> bytes codec"
  xl_opaque :: "nat \<Rightarrow> bytes codec"
  xl_netobj :: "bytes codec"
  xl_int_array :: "u32 \<Rightarrow> u32 list codec"

locale xdr_library =
  fixes lib :: xdr_lib
  assumes u_int_ok: "codec_ok (xl_u_int lib)"
    and int_ok: "codec_ok (xl_int lib)"
    and enum_ok: "codec_ok (xl_enum lib)"
    and bool_ok: "codec_ok (xl_bool lib)"
    and u_longlong_t_ok: "codec_ok (xl_u_longlong_t lib)"
    and longlong_t_ok: "codec_ok (xl_longlong_t lib)"
    and string_ok: "codec_ok (xl_string lib n)"
    and bytes_ok: "codec_ok (xl_bytes lib n)"
    and opaque_ok: "codec_ok (xl_opaque lib m)"
    and netobj_ok: "codec_ok (xl_netobj lib)"
    and int_array_ok: "codec_ok (xl_int_array lib n)"
begin

lemmas lib_ok = u_int_ok int_ok enum_ok bool_ok u_longlong_t_ok longlong_t_ok string_ok bytes_ok opaque_ok netobj_ok
  int_array_ok

end

section \<open>RFC 4506\<close>

text \<open>The representation the standard prescribes: big-endian words, and bytes padded to a multiple of four.\<close>

definition word_codec :: "nat \<Rightarrow> 'a::len word codec" where
  "word_codec n =
     \<lparr>enc = (\<lambda>w s. Some (s\<lparr>x_buf := x_buf s @ rev (le_bytes n w)\<rparr>)),
      dec = (\<lambda>s. if length (x_buf s) < n then None
        else Some (le_word (rev (take n (x_buf s))), s\<lparr>x_buf := drop n (x_buf s)\<rparr>))\<rparr>"

definition bool_codec :: "bool codec" where
  "bool_codec =
     \<lparr>enc = (\<lambda>b. enc (word_codec 4) (if b then 1 else 0 :: u32)),
      dec = (\<lambda>s. do { (w, s) \<leftarrow> dec (word_codec 4) s; Some ((w :: u32) \<noteq> 0, s) })\<rparr>"

definition pad :: "nat \<Rightarrow> nat" where
  "pad n = (if n mod 4 = 0 then 0 else 4 - n mod 4)"

definition opaque_codec :: "nat \<Rightarrow> bytes codec" where
  "opaque_codec n =
     \<lparr>enc = (\<lambda>bs s. if length bs \<noteq> n then None else Some (s\<lparr>x_buf := x_buf s @ bs @ replicate (pad n) 0\<rparr>)),
      dec = (\<lambda>s. if length (x_buf s) < n + pad n then None
        else Some (take n (x_buf s), s\<lparr>x_buf := drop (n + pad n) (x_buf s)\<rparr>))\<rparr>"

definition bytes_codec :: "u32 \<Rightarrow> bytes codec" where
  "bytes_codec limit =
     \<lparr>enc = (\<lambda>bs s. if length bs > unat limit then None
        else do { s \<leftarrow> enc (word_codec 4) (of_nat (length bs) :: u32) s; enc (opaque_codec (length bs)) bs s }),
      dec = (\<lambda>s. do { (n, s) \<leftarrow> dec (word_codec 4) s;
        if (n :: u32) > limit then None else dec (opaque_codec (unat n)) s })\<rparr>"

fun enc_ints :: "u32 list \<Rightarrow> XDR \<Rightarrow> XDR option" where
  "enc_ints [] s = Some s"
| "enc_ints (x # xs) s = do { s \<leftarrow> enc (word_codec 4) x s; enc_ints xs s }"

fun dec_ints :: "nat \<Rightarrow> XDR \<Rightarrow> (u32 list \<times> XDR) option" where
  "dec_ints 0 s = Some ([], s)"
| "dec_ints (Suc n) s = do { (x, s) \<leftarrow> dec (word_codec 4) s; (xs, s) \<leftarrow> dec_ints n s; Some (x # xs, s) }"

definition int_array_codec :: "u32 \<Rightarrow> u32 list codec" where
  "int_array_codec limit =
     \<lparr>enc = (\<lambda>xs s. if length xs > unat limit then None
        else do { s \<leftarrow> enc (word_codec 4) (of_nat (length xs) :: u32) s; enc_ints xs s }),
      dec = (\<lambda>s. do { (n, s) \<leftarrow> dec (word_codec 4) s; if (n :: u32) > limit then None else dec_ints (unat n) s })\<rparr>"

definition rfc4506 :: xdr_lib where
  "rfc4506 = \<lparr>xl_u_int = word_codec 4, xl_int = word_codec 4, xl_enum = word_codec 4, xl_bool = bool_codec,
     xl_u_longlong_t = word_codec 8, xl_longlong_t = word_codec 8, xl_string = bytes_codec, xl_bytes = bytes_codec,
     xl_opaque = opaque_codec, xl_netobj = bytes_codec 1024, xl_int_array = int_array_codec\<rparr>"

lemma word_codec_ok: "codec_ok (word_codec 4 :: u32 codec)" "codec_ok (word_codec 8 :: u64 codec)"
  by (rule codec_on_bytes; auto simp: word_codec_def le_word_full)+

lemma bool_codec_ok: "codec_ok bool_codec"
  by (rule codec_on_bytes) (auto simp: bool_codec_def word_codec_def le_word_full)

lemma opaque_codec_ok: "codec_ok (opaque_codec n)"
  by (rule codec_on_bytes) (auto simp: opaque_codec_def split: if_splits)

lemma count_word:
  assumes "\<not> unat (limit :: u32) < n"
  shows "unat (of_nat n :: u32) = n" "\<not> limit < of_nat n"
proof -
  have "n < 2 ^ LENGTH(32)" using assms unsigned_less [of limit, where ?'a = nat] by simp
  then show *: "unat (of_nat n :: u32) = n" by (simp add: unat_of_nat take_bit_nat_eq_self)
  show "\<not> limit < of_nat n" using assms * by (simp add: word_less_nat_alt)
qed

lemma bytes_codec_ok: "codec_ok (bytes_codec limit)"
  by (rule codec_on_bytes)
    (auto simp: bytes_codec_def word_codec_def opaque_codec_def le_word_full count_word split: if_splits)

lemma enc_ints_eq:
  "enc_ints xs s = Some (s\<lparr>x_buf := x_buf s @ concat (map (\<lambda>x. rev (le_bytes 4 x)) xs)\<rparr>)"
  by (induction xs arbitrary: s) (simp_all add: word_codec_def)

lemma dec_ints_eq:
  "x_buf t = concat (map (\<lambda>x. rev (le_bytes 4 x)) xs) @ rest \<Longrightarrow> dec_ints (length xs) t = Some (xs, t\<lparr>x_buf := rest\<rparr>)"
  by (induction xs arbitrary: t) (simp_all add: word_codec_def le_word_full)

lemma int_array_codec_ok: "codec_ok (int_array_codec limit)"
  by (rule codec_on_bytes)
    (auto simp: int_array_codec_def word_codec_def le_word_full count_word enc_ints_eq dec_ints_eq split: if_splits)

interpretation rfc: xdr_library rfc4506
  by unfold_locales
    (simp_all add: rfc4506_def word_codec_ok bool_codec_ok bytes_codec_ok opaque_codec_ok int_array_codec_ok)

section \<open>What reading does to the lookahead\<close>

definition quiet :: "'a codec \<Rightarrow> bool" where
  "quiet c \<longleftrightarrow> (\<forall>s x s'. dec c s = Some (x, s') \<longrightarrow> x_public s' = x_public s)"

definition fields_quiet :: "('r, 'k) fields \<Rightarrow> bool" where
  "fields_quiet fs \<longleftrightarrow> (\<forall>k s r s'. f_dec fs k s = Some (r, s') \<longrightarrow> x_public s' = x_public s)"

named_theorems quiet_rules

lemma quiet_done [quiet_rules]: "fields_quiet xdr_done"
  by (simp add: fields_quiet_def xdr_done_def)

lemma quiet_field [quiet_rules]: "quiet c \<Longrightarrow> fields_quiet fs \<Longrightarrow> fields_quiet (xdr_field get c fs)"
  unfolding fields_quiet_def quiet_def xdr_field_def by (fastforce simp: bind_eq_Some_conv)

lemma quiet_struct [quiet_rules]: "fields_quiet fs \<Longrightarrow> quiet (xdr_struct mk fs)"
  by (simp add: fields_quiet_def quiet_def xdr_struct_def)

lemma quiet_union [quiet_rules]: "quiet c \<Longrightarrow> (\<And>t. quiet (arm t)) \<Longrightarrow> quiet (xdr_union c tag arm)"
  unfolding quiet_def xdr_union_def by (fastforce simp: bind_eq_Some_conv)

lemma quiet_member [quiet_rules]: "quiet c \<Longrightarrow> quiet (xdr_member mk get c)"
  unfolding quiet_def xdr_member_def by (fastforce simp: bind_eq_Some_conv)

lemma quiet_void [quiet_rules]: "quiet (xdr_void k)"
  by (simp add: quiet_def xdr_void_def)

lemma quiet_reject [quiet_rules]: "quiet xdr_reject"
  by (simp add: quiet_def xdr_reject_def)

lemma quiet_if [quiet_rules]: "quiet c \<Longrightarrow> quiet d \<Longrightarrow> quiet (if b then c else d)"
  by simp

lemma quietD: "quiet c \<Longrightarrow> dec c s = Some (x, s') \<Longrightarrow> x_public s' = x_public s"
  by (simp add: quiet_def)

lemma dec_chain_quiet:
  assumes run: "dec_chain b c s = Some y" and "quiet b" "quiet c"
  shows "x_public (snd y) = x_public s"
proof -
  have "quiet b \<longrightarrow> quiet c \<longrightarrow> x_public (snd y) = x_public s"
  proof (rule dec_chain.raw_induct [OF _ run, where P = "\<lambda>b c s y. quiet b \<longrightarrow> quiet c \<longrightarrow> x_public (snd y) = x_public s"],
      intro impI)
    fix chain and b :: "bool codec" and c :: "'a codec" and s y
    assume IH: "\<And>b c s y. chain b c s = Some y \<Longrightarrow> quiet b \<longrightarrow> quiet c \<longrightarrow> x_public (snd y) = x_public s"
      and q: "quiet b" "quiet c"
      and step: "dec b s \<bind> (\<lambda>(more, s). if more then dec c s \<bind> (\<lambda>(x, s). chain b c s \<bind> (\<lambda>(xs, s). Some (x # xs, s)))
        else Some ([], s)) = Some y"
    show "x_public (snd y) = x_public s"
      using step by (auto simp: bind_eq_Some_conv split: if_splits dest!: quietD [OF q(1)] quietD [OF q(2)] dest: IH [rule_format, OF _ q])
  qed
  with assms show ?thesis by blast
qed

lemma quiet_chain [quiet_rules]: "quiet b \<Longrightarrow> quiet c \<Longrightarrow> quiet (xdr_chain b c)"
  unfolding quiet_def [of "xdr_chain b c"] by (auto simp: xdr_chain_def dest: dec_chain_quiet)

text \<open>A routine that leaves its mark on the lookahead.\<close>

definition marks :: "(nfs_request_lookahead \<Rightarrow> nfs_request_lookahead) \<Rightarrow> 'a codec \<Rightarrow> bool" where
  "marks f c \<longleftrightarrow> (\<forall>s x s'. dec c s = Some (x, s') \<longrightarrow> x_public s' = f (x_public s))"

lemma marks_mark: "quiet c \<Longrightarrow> marks f (xdr_mark f c)"
  by (auto simp: marks_def xdr_mark_def bind_eq_Some_conv dest!: quietD)

lemma marks_member: "marks f c \<Longrightarrow> marks f (xdr_member mk get c)"
  by (auto simp: marks_def xdr_member_def bind_eq_Some_conv)

lemma marks_quiet: "quiet c \<Longrightarrow> marks id c"
  by (simp add: marks_def quiet_def)

text \<open>The routines of the library leave the lookahead of a request alone.\<close>

locale quiet_library = xdr_library +
  assumes u_int_quiet: "quiet (xl_u_int lib)"
    and int_quiet: "quiet (xl_int lib)"
    and enum_quiet: "quiet (xl_enum lib)"
    and bool_quiet: "quiet (xl_bool lib)"
    and u_longlong_t_quiet: "quiet (xl_u_longlong_t lib)"
    and longlong_t_quiet: "quiet (xl_longlong_t lib)"
    and string_quiet: "quiet (xl_string lib n)"
    and bytes_quiet: "quiet (xl_bytes lib n)"
    and opaque_quiet: "quiet (xl_opaque lib m)"
    and netobj_quiet: "quiet (xl_netobj lib)"
    and int_array_quiet: "quiet (xl_int_array lib n)"
begin

lemmas lib_quiet = u_int_quiet int_quiet enum_quiet bool_quiet u_longlong_t_quiet longlong_t_quiet string_quiet
  bytes_quiet opaque_quiet netobj_quiet int_array_quiet

end

lemma quiet_word [quiet_rules]: "quiet (word_codec n)"
  by (auto simp: quiet_def word_codec_def split: if_splits)

lemma dec_ints_public: "dec_ints n s = Some (xs, s') \<Longrightarrow> x_public s' = x_public s"
  by (induction n arbitrary: s xs) (auto simp: bind_eq_Some_conv dest!: quietD [OF quiet_word])

lemma quiet_opaque: "quiet (opaque_codec n)"
  by (auto simp: quiet_def opaque_codec_def split: if_splits)

lemma quiet_bool: "quiet bool_codec"
  by (auto simp: quiet_def bool_codec_def bind_eq_Some_conv dest!: quietD [OF quiet_word])

lemma quiet_bytes: "quiet (bytes_codec n)"
  by (auto simp: quiet_def bytes_codec_def bind_eq_Some_conv split: if_splits
      dest!: quietD [OF quiet_word] quietD [OF quiet_opaque])

lemma quiet_int_array: "quiet (int_array_codec n)"
  by (auto simp: quiet_def int_array_codec_def bind_eq_Some_conv split: if_splits
      dest!: quietD [OF quiet_word] dec_ints_public)

interpretation rfc: quiet_library rfc4506
  by unfold_locales (simp_all add: rfc4506_def quiet_word quiet_bool quiet_bytes quiet_opaque quiet_int_array)

end
