(* ===== verification/Xdr_Nfs3.thy ===== *)
theory Xdr_Nfs3
  imports Xdr_Codec
begin

unbundle bit_operations_syntax

text \<open>
  The messages of NFS version 3 (\<^verbatim>\<open>Protocols/XDR/xdr_nfs23.c\<close>, \<^verbatim>\<open>include/nfs23.h\<close>).  The fields carry the name of
  their structure, a structure with one field is that field; the enumerations are the integers that stand for them; \<^verbatim>\<open>bool_t\<close> holds \<^verbatim>\<open>TRUE\<close> or \<^verbatim>\<open>FALSE\<close>.
\<close>

section \<open>Messages\<close>

abbreviation (input) NFS3_OK :: u32 where "NFS3_OK \<equiv> 0"
abbreviation (input) SET_TO_CLIENT_TIME :: u32 where "SET_TO_CLIENT_TIME \<equiv> 2"
abbreviation (input) UNCHECKED :: u32 where "UNCHECKED \<equiv> 0"
abbreviation (input) GUARDED :: u32 where "GUARDED \<equiv> 1"
abbreviation (input) EXCLUSIVE :: u32 where "EXCLUSIVE \<equiv> 2"
abbreviation (input) NF3BLK :: u32 where "NF3BLK \<equiv> 3"
abbreviation (input) NF3CHR :: u32 where "NF3CHR \<equiv> 4"
abbreviation (input) NF3SOCK :: u32 where "NF3SOCK \<equiv> 6"
abbreviation (input) NF3FIFO :: u32 where "NF3FIFO \<equiv> 7"
abbreviation (input) NFS_LOOKAHEAD_READ :: u32 where "NFS_LOOKAHEAD_READ \<equiv> 0x0008"
abbreviation (input) NFS_LOOKAHEAD_WRITE :: u32 where "NFS_LOOKAHEAD_WRITE \<equiv> 0x0010"
abbreviation (input) NFS_LOOKAHEAD_COMMIT :: u32 where "NFS_LOOKAHEAD_COMMIT \<equiv> 0x0020"
abbreviation (input) NFS_LOOKAHEAD_CREATE :: u32 where "NFS_LOOKAHEAD_CREATE \<equiv> 0x0040"
abbreviation (input) NFS_LOOKAHEAD_REMOVE :: u32 where "NFS_LOOKAHEAD_REMOVE \<equiv> 0x0080"
abbreviation (input) NFS_LOOKAHEAD_RENAME :: u32 where "NFS_LOOKAHEAD_RENAME \<equiv> 0x0100"
abbreviation (input) NFS_LOOKAHEAD_READDIR :: u32 where "NFS_LOOKAHEAD_READDIR \<equiv> 0x0400"
abbreviation (input) NFS_LOOKAHEAD_LAYOUTCOMMIT :: u32 where "NFS_LOOKAHEAD_LAYOUTCOMMIT \<equiv> 0x0040"

definition NFS_LOOKAHEAD_HIGH_LATENCY :: "nfs_request_lookahead \<Rightarrow> bool" where
  "NFS_LOOKAHEAD_HIGH_LATENCY lkhd \<longleftrightarrow>
     lk_flags lkhd AND (NFS_LOOKAHEAD_READ OR NFS_LOOKAHEAD_WRITE OR NFS_LOOKAHEAD_COMMIT OR NFS_LOOKAHEAD_LAYOUTCOMMIT
       OR NFS_LOOKAHEAD_READDIR) \<noteq> 0"

definition xdr_nfs3_uint64 :: "xdr_lib \<Rightarrow> u64 codec" where
  "xdr_nfs3_uint64 lib = xl_u_longlong_t lib"

definition xdr_nfs3_uint32 :: "xdr_lib \<Rightarrow> u32 codec" where
  "xdr_nfs3_uint32 lib = xl_u_int lib"

definition xdr_filename3 :: "xdr_lib \<Rightarrow> bytes codec" where
  "xdr_filename3 lib = xl_string lib (- 1)"

definition xdr_nfspath3 :: "xdr_lib \<Rightarrow> bytes codec" where
  "xdr_nfspath3 lib = xl_string lib (- 1)"

definition xdr_fileid3 :: "xdr_lib \<Rightarrow> u64 codec" where
  "xdr_fileid3 lib = xdr_nfs3_uint64 lib"

definition xdr_cookie3 :: "xdr_lib \<Rightarrow> u64 codec" where
  "xdr_cookie3 lib = xdr_nfs3_uint64 lib"

definition xdr_cookieverf3 :: "xdr_lib \<Rightarrow> bytes codec" where
  "xdr_cookieverf3 lib = xl_opaque lib 8"

definition xdr_createverf3 :: "xdr_lib \<Rightarrow> bytes codec" where
  "xdr_createverf3 lib = xl_opaque lib 8"

definition xdr_writeverf3 :: "xdr_lib \<Rightarrow> bytes codec" where
  "xdr_writeverf3 lib = xl_opaque lib 8"

definition xdr_uid3 :: "xdr_lib \<Rightarrow> u32 codec" where
  "xdr_uid3 lib = xdr_nfs3_uint32 lib"

definition xdr_gid3 :: "xdr_lib \<Rightarrow> u32 codec" where
  "xdr_gid3 lib = xdr_nfs3_uint32 lib"

definition xdr_size3 :: "xdr_lib \<Rightarrow> u64 codec" where
  "xdr_size3 lib = xdr_nfs3_uint64 lib"

definition xdr_offset3 :: "xdr_lib \<Rightarrow> u64 codec" where
  "xdr_offset3 lib = xdr_nfs3_uint64 lib"

definition xdr_mode3 :: "xdr_lib \<Rightarrow> u32 codec" where
  "xdr_mode3 lib = xdr_nfs3_uint32 lib"

definition xdr_count3 :: "xdr_lib \<Rightarrow> u32 codec" where
  "xdr_count3 lib = xdr_nfs3_uint32 lib"

definition xdr_nfsstat3 :: "xdr_lib \<Rightarrow> u32 codec" where
  "xdr_nfsstat3 lib = xl_enum lib"

definition xdr_ftype3 :: "xdr_lib \<Rightarrow> u32 codec" where
  "xdr_ftype3 lib = xl_enum lib"

record specdata3 =
  specdata3_specdata1 :: u32
  specdata3_specdata2 :: u32

definition xdr_specdata3 :: "xdr_lib \<Rightarrow> specdata3 codec" where
  "xdr_specdata3 lib = xdr_struct specdata3.make
       (xdr_field specdata3_specdata1 (xdr_nfs3_uint32 lib)
       (xdr_field specdata3_specdata2 (xdr_nfs3_uint32 lib) xdr_done))"

definition xdr_nfs_fh3 :: "xdr_lib \<Rightarrow> bytes codec" where
  "xdr_nfs_fh3 lib = xl_bytes lib 64"

record nfstime3 =
  nfstime3_tv_sec :: u32
  nfstime3_tv_nsec :: u32

definition xdr_nfstime3 :: "xdr_lib \<Rightarrow> nfstime3 codec" where
  "xdr_nfstime3 lib = xdr_struct nfstime3.make
       (xdr_field nfstime3_tv_sec (xdr_nfs3_uint32 lib)
       (xdr_field nfstime3_tv_nsec (xdr_nfs3_uint32 lib) xdr_done))"

record fattr3 =
  fattr3_type :: u32
  fattr3_mode :: u32
  fattr3_nlink :: u32
  fattr3_uid :: u32
  fattr3_gid :: u32
  fattr3_size :: u64
  fattr3_used :: u64
  fattr3_rdev :: specdata3
  fattr3_fsid :: u64
  fattr3_fileid :: u64
  fattr3_atime :: nfstime3
  fattr3_mtime :: nfstime3
  fattr3_ctime :: nfstime3

definition xdr_fattr3 :: "xdr_lib \<Rightarrow> fattr3 codec" where
  "xdr_fattr3 lib = xdr_struct fattr3.make
       (xdr_field fattr3_type (xdr_ftype3 lib)
       (xdr_field fattr3_mode (xdr_mode3 lib)
       (xdr_field fattr3_nlink (xdr_nfs3_uint32 lib)
       (xdr_field fattr3_uid (xdr_uid3 lib)
       (xdr_field fattr3_gid (xdr_gid3 lib)
       (xdr_field fattr3_size (xdr_size3 lib)
       (xdr_field fattr3_used (xdr_size3 lib)
       (xdr_field fattr3_rdev (xdr_specdata3 lib)
       (xdr_field fattr3_fsid (xdr_nfs3_uint64 lib)
       (xdr_field fattr3_fileid (xdr_fileid3 lib)
       (xdr_field fattr3_atime (xdr_nfstime3 lib)
       (xdr_field fattr3_mtime (xdr_nfstime3 lib)
       (xdr_field fattr3_ctime (xdr_nfstime3 lib) xdr_done)))))))))))))"

datatype post_op_attr = post_op_attr_attributes fattr3 | post_op_attr_void

definition xdr_post_op_attr :: "xdr_lib \<Rightarrow> post_op_attr codec" where
  "xdr_post_op_attr lib = xdr_union (xl_bool lib)
      (\<lambda>u. case u of post_op_attr_attributes _ \<Rightarrow> True
       | post_op_attr_void \<Rightarrow> False)
      (\<lambda>attributes_follow. if attributes_follow
       then xdr_member post_op_attr_attributes (\<lambda>u. case u of post_op_attr_attributes v \<Rightarrow> Some v | _ \<Rightarrow> None)
         (xdr_fattr3 lib)
       else xdr_void post_op_attr_void)"

record wcc_attr =
  wcc_attr_size :: u64
  wcc_attr_mtime :: nfstime3
  wcc_attr_ctime :: nfstime3

definition xdr_wcc_attr :: "xdr_lib \<Rightarrow> wcc_attr codec" where
  "xdr_wcc_attr lib = xdr_struct wcc_attr.make
       (xdr_field wcc_attr_size (xdr_size3 lib)
       (xdr_field wcc_attr_mtime (xdr_nfstime3 lib)
       (xdr_field wcc_attr_ctime (xdr_nfstime3 lib) xdr_done)))"

datatype pre_op_attr = pre_op_attr_attributes wcc_attr | pre_op_attr_void

definition xdr_pre_op_attr :: "xdr_lib \<Rightarrow> pre_op_attr codec" where
  "xdr_pre_op_attr lib = xdr_union (xl_bool lib)
      (\<lambda>u. case u of pre_op_attr_attributes _ \<Rightarrow> True
       | pre_op_attr_void \<Rightarrow> False)
      (\<lambda>attributes_follow. if attributes_follow
       then xdr_member pre_op_attr_attributes (\<lambda>u. case u of pre_op_attr_attributes v \<Rightarrow> Some v | _ \<Rightarrow> None)
         (xdr_wcc_attr lib)
       else xdr_void pre_op_attr_void)"

record wcc_data =
  wcc_data_before :: pre_op_attr
  wcc_data_after :: post_op_attr

definition xdr_wcc_data :: "xdr_lib \<Rightarrow> wcc_data codec" where
  "xdr_wcc_data lib = xdr_struct wcc_data.make
       (xdr_field wcc_data_before (xdr_pre_op_attr lib)
       (xdr_field wcc_data_after (xdr_post_op_attr lib) xdr_done))"

datatype post_op_fh3 = post_op_fh3_handle bytes | post_op_fh3_void

definition xdr_post_op_fh3 :: "xdr_lib \<Rightarrow> post_op_fh3 codec" where
  "xdr_post_op_fh3 lib = xdr_union (xl_bool lib)
      (\<lambda>u. case u of post_op_fh3_handle _ \<Rightarrow> True
       | post_op_fh3_void \<Rightarrow> False)
      (\<lambda>handle_follows. if handle_follows
       then xdr_member post_op_fh3_handle (\<lambda>u. case u of post_op_fh3_handle v \<Rightarrow> Some v | _ \<Rightarrow> None)
         (xdr_nfs_fh3 lib)
       else xdr_void post_op_fh3_void)"

definition xdr_time_how :: "xdr_lib \<Rightarrow> u32 codec" where
  "xdr_time_how lib = xl_enum lib"

datatype set_mode3 = set_mode3_mode u32 | set_mode3_void

definition xdr_set_mode3 :: "xdr_lib \<Rightarrow> set_mode3 codec" where
  "xdr_set_mode3 lib = xdr_union (xl_bool lib)
      (\<lambda>u. case u of set_mode3_mode _ \<Rightarrow> True
       | set_mode3_void \<Rightarrow> False)
      (\<lambda>set_it. if set_it
       then xdr_member set_mode3_mode (\<lambda>u. case u of set_mode3_mode v \<Rightarrow> Some v | _ \<Rightarrow> None)
         (xdr_mode3 lib)
       else xdr_void set_mode3_void)"

datatype set_uid3 = set_uid3_uid u32 | set_uid3_void

definition xdr_set_uid3 :: "xdr_lib \<Rightarrow> set_uid3 codec" where
  "xdr_set_uid3 lib = xdr_union (xl_bool lib)
      (\<lambda>u. case u of set_uid3_uid _ \<Rightarrow> True
       | set_uid3_void \<Rightarrow> False)
      (\<lambda>set_it. if set_it
       then xdr_member set_uid3_uid (\<lambda>u. case u of set_uid3_uid v \<Rightarrow> Some v | _ \<Rightarrow> None)
         (xdr_uid3 lib)
       else xdr_void set_uid3_void)"

datatype set_gid3 = set_gid3_gid u32 | set_gid3_void

definition xdr_set_gid3 :: "xdr_lib \<Rightarrow> set_gid3 codec" where
  "xdr_set_gid3 lib = xdr_union (xl_bool lib)
      (\<lambda>u. case u of set_gid3_gid _ \<Rightarrow> True
       | set_gid3_void \<Rightarrow> False)
      (\<lambda>set_it. if set_it
       then xdr_member set_gid3_gid (\<lambda>u. case u of set_gid3_gid v \<Rightarrow> Some v | _ \<Rightarrow> None)
         (xdr_gid3 lib)
       else xdr_void set_gid3_void)"

datatype set_size3 = set_size3_size u64 | set_size3_void

definition xdr_set_size3 :: "xdr_lib \<Rightarrow> set_size3 codec" where
  "xdr_set_size3 lib = xdr_union (xl_bool lib)
      (\<lambda>u. case u of set_size3_size _ \<Rightarrow> True
       | set_size3_void \<Rightarrow> False)
      (\<lambda>set_it. if set_it
       then xdr_member set_size3_size (\<lambda>u. case u of set_size3_size v \<Rightarrow> Some v | _ \<Rightarrow> None)
         (xdr_size3 lib)
       else xdr_void set_size3_void)"

datatype set_atime = set_atime_atime nfstime3 | set_atime_default u32

definition xdr_set_atime :: "xdr_lib \<Rightarrow> set_atime codec" where
  "xdr_set_atime lib = xdr_union (xdr_time_how lib)
      (\<lambda>u. case u of set_atime_atime _ \<Rightarrow> SET_TO_CLIENT_TIME
       | set_atime_default set_it \<Rightarrow> set_it)
      (\<lambda>set_it. if set_it = SET_TO_CLIENT_TIME
       then xdr_member set_atime_atime (\<lambda>u. case u of set_atime_atime v \<Rightarrow> Some v | _ \<Rightarrow> None)
         (xdr_nfstime3 lib)
       else xdr_void (set_atime_default set_it))"

datatype set_mtime = set_mtime_mtime nfstime3 | set_mtime_default u32

definition xdr_set_mtime :: "xdr_lib \<Rightarrow> set_mtime codec" where
  "xdr_set_mtime lib = xdr_union (xdr_time_how lib)
      (\<lambda>u. case u of set_mtime_mtime _ \<Rightarrow> SET_TO_CLIENT_TIME
       | set_mtime_default set_it \<Rightarrow> set_it)
      (\<lambda>set_it. if set_it = SET_TO_CLIENT_TIME
       then xdr_member set_mtime_mtime (\<lambda>u. case u of set_mtime_mtime v \<Rightarrow> Some v | _ \<Rightarrow> None)
         (xdr_nfstime3 lib)
       else xdr_void (set_mtime_default set_it))"

record sattr3 =
  sattr3_mode :: set_mode3
  sattr3_uid :: set_uid3
  sattr3_gid :: set_gid3
  sattr3_size :: set_size3
  sattr3_atime :: set_atime
  sattr3_mtime :: set_mtime

definition xdr_sattr3 :: "xdr_lib \<Rightarrow> sattr3 codec" where
  "xdr_sattr3 lib = xdr_struct sattr3.make
       (xdr_field sattr3_mode (xdr_set_mode3 lib)
       (xdr_field sattr3_uid (xdr_set_uid3 lib)
       (xdr_field sattr3_gid (xdr_set_gid3 lib)
       (xdr_field sattr3_size (xdr_set_size3 lib)
       (xdr_field sattr3_atime (xdr_set_atime lib)
       (xdr_field sattr3_mtime (xdr_set_mtime lib) xdr_done))))))"

record diropargs3 =
  diropargs3_dir :: bytes
  diropargs3_name :: bytes

definition xdr_diropargs3 :: "xdr_lib \<Rightarrow> diropargs3 codec" where
  "xdr_diropargs3 lib = xdr_struct diropargs3.make
       (xdr_field diropargs3_dir (xdr_nfs_fh3 lib)
       (xdr_field diropargs3_name (xdr_filename3 lib) xdr_done))"

definition xdr_GETATTR3args :: "xdr_lib \<Rightarrow> bytes codec" where
  "xdr_GETATTR3args lib = xdr_nfs_fh3 lib"

definition xdr_GETATTR3resok :: "xdr_lib \<Rightarrow> fattr3 codec" where
  "xdr_GETATTR3resok lib = xdr_fattr3 lib"

datatype GETATTR3res = GETATTR3res_resok fattr3 | GETATTR3res_default u32

definition xdr_GETATTR3res :: "xdr_lib \<Rightarrow> GETATTR3res codec" where
  "xdr_GETATTR3res lib = xdr_union (xdr_nfsstat3 lib)
      (\<lambda>u. case u of GETATTR3res_resok _ \<Rightarrow> NFS3_OK
       | GETATTR3res_default status \<Rightarrow> status)
      (\<lambda>status. if status = NFS3_OK
       then xdr_member GETATTR3res_resok (\<lambda>u. case u of GETATTR3res_resok v \<Rightarrow> Some v | _ \<Rightarrow> None)
         (xdr_GETATTR3resok lib)
       else xdr_void (GETATTR3res_default status))"

datatype sattrguard3 = sattrguard3_obj_ctime nfstime3 | sattrguard3_void

definition xdr_sattrguard3 :: "xdr_lib \<Rightarrow> sattrguard3 codec" where
  "xdr_sattrguard3 lib = xdr_union (xl_bool lib)
      (\<lambda>u. case u of sattrguard3_obj_ctime _ \<Rightarrow> True
       | sattrguard3_void \<Rightarrow> False)
      (\<lambda>check. if check
       then xdr_member sattrguard3_obj_ctime (\<lambda>u. case u of sattrguard3_obj_ctime v \<Rightarrow> Some v | _ \<Rightarrow> None)
         (xdr_nfstime3 lib)
       else xdr_void sattrguard3_void)"

record SETATTR3args =
  SETATTR3args_object :: bytes
  SETATTR3args_new_attributes :: sattr3
  SETATTR3args_guard :: sattrguard3

definition xdr_SETATTR3args :: "xdr_lib \<Rightarrow> SETATTR3args codec" where
  "xdr_SETATTR3args lib = xdr_struct SETATTR3args.make
       (xdr_field SETATTR3args_object (xdr_nfs_fh3 lib)
       (xdr_field SETATTR3args_new_attributes (xdr_sattr3 lib)
       (xdr_field SETATTR3args_guard (xdr_sattrguard3 lib) xdr_done)))"

definition xdr_SETATTR3resok :: "xdr_lib \<Rightarrow> wcc_data codec" where
  "xdr_SETATTR3resok lib = xdr_wcc_data lib"

definition xdr_SETATTR3resfail :: "xdr_lib \<Rightarrow> wcc_data codec" where
  "xdr_SETATTR3resfail lib = xdr_wcc_data lib"

datatype SETATTR3res = SETATTR3res_resok wcc_data | SETATTR3res_resfail u32 wcc_data

definition xdr_SETATTR3res :: "xdr_lib \<Rightarrow> SETATTR3res codec" where
  "xdr_SETATTR3res lib = xdr_union (xdr_nfsstat3 lib)
      (\<lambda>u. case u of SETATTR3res_resok _ \<Rightarrow> NFS3_OK
       | SETATTR3res_resfail status _ \<Rightarrow> status)
      (\<lambda>status. if status = NFS3_OK
       then xdr_member SETATTR3res_resok (\<lambda>u. case u of SETATTR3res_resok v \<Rightarrow> Some v | _ \<Rightarrow> None)
         (xdr_SETATTR3resok lib)
       else xdr_member (SETATTR3res_resfail status) (\<lambda>u. case u of SETATTR3res_resfail _ v \<Rightarrow> Some v | _ \<Rightarrow> None)
         (xdr_SETATTR3resfail lib))"

definition xdr_LOOKUP3args :: "xdr_lib \<Rightarrow> diropargs3 codec" where
  "xdr_LOOKUP3args lib = xdr_diropargs3 lib"

record LOOKUP3resok =
  LOOKUP3resok_object :: bytes
  LOOKUP3resok_obj_attributes :: post_op_attr
  LOOKUP3resok_dir_attributes :: post_op_attr

definition xdr_LOOKUP3resok :: "xdr_lib \<Rightarrow> LOOKUP3resok codec" where
  "xdr_LOOKUP3resok lib = xdr_struct LOOKUP3resok.make
       (xdr_field LOOKUP3resok_object (xdr_nfs_fh3 lib)
       (xdr_field LOOKUP3resok_obj_attributes (xdr_post_op_attr lib)
       (xdr_field LOOKUP3resok_dir_attributes (xdr_post_op_attr lib) xdr_done)))"

definition xdr_LOOKUP3resfail :: "xdr_lib \<Rightarrow> post_op_attr codec" where
  "xdr_LOOKUP3resfail lib = xdr_post_op_attr lib"

datatype LOOKUP3res = LOOKUP3res_resok LOOKUP3resok | LOOKUP3res_resfail u32 post_op_attr

definition xdr_LOOKUP3res :: "xdr_lib \<Rightarrow> LOOKUP3res codec" where
  "xdr_LOOKUP3res lib = xdr_union (xdr_nfsstat3 lib)
      (\<lambda>u. case u of LOOKUP3res_resok _ \<Rightarrow> NFS3_OK
       | LOOKUP3res_resfail status _ \<Rightarrow> status)
      (\<lambda>status. if status = NFS3_OK
       then xdr_member LOOKUP3res_resok (\<lambda>u. case u of LOOKUP3res_resok v \<Rightarrow> Some v | _ \<Rightarrow> None)
         (xdr_LOOKUP3resok lib)
       else xdr_member (LOOKUP3res_resfail status) (\<lambda>u. case u of LOOKUP3res_resfail _ v \<Rightarrow> Some v | _ \<Rightarrow> None)
         (xdr_LOOKUP3resfail lib))"

record ACCESS3args =
  ACCESS3args_object :: bytes
  ACCESS3args_access :: u32

definition xdr_ACCESS3args :: "xdr_lib \<Rightarrow> ACCESS3args codec" where
  "xdr_ACCESS3args lib = xdr_struct ACCESS3args.make
       (xdr_field ACCESS3args_object (xdr_nfs_fh3 lib)
       (xdr_field ACCESS3args_access (xdr_nfs3_uint32 lib) xdr_done))"

record ACCESS3resok =
  ACCESS3resok_obj_attributes :: post_op_attr
  ACCESS3resok_access :: u32

definition xdr_ACCESS3resok :: "xdr_lib \<Rightarrow> ACCESS3resok codec" where
  "xdr_ACCESS3resok lib = xdr_struct ACCESS3resok.make
       (xdr_field ACCESS3resok_obj_attributes (xdr_post_op_attr lib)
       (xdr_field ACCESS3resok_access (xdr_nfs3_uint32 lib) xdr_done))"

definition xdr_ACCESS3resfail :: "xdr_lib \<Rightarrow> post_op_attr codec" where
  "xdr_ACCESS3resfail lib = xdr_post_op_attr lib"

datatype ACCESS3res = ACCESS3res_resok ACCESS3resok | ACCESS3res_resfail u32 post_op_attr

definition xdr_ACCESS3res :: "xdr_lib \<Rightarrow> ACCESS3res codec" where
  "xdr_ACCESS3res lib = xdr_union (xdr_nfsstat3 lib)
      (\<lambda>u. case u of ACCESS3res_resok _ \<Rightarrow> NFS3_OK
       | ACCESS3res_resfail status _ \<Rightarrow> status)
      (\<lambda>status. if status = NFS3_OK
       then xdr_member ACCESS3res_resok (\<lambda>u. case u of ACCESS3res_resok v \<Rightarrow> Some v | _ \<Rightarrow> None)
         (xdr_ACCESS3resok lib)
       else xdr_member (ACCESS3res_resfail status) (\<lambda>u. case u of ACCESS3res_resfail _ v \<Rightarrow> Some v | _ \<Rightarrow> None)
         (xdr_ACCESS3resfail lib))"

definition xdr_READLINK3args :: "xdr_lib \<Rightarrow> bytes codec" where
  "xdr_READLINK3args lib = xdr_nfs_fh3 lib"

record READLINK3resok =
  READLINK3resok_symlink_attributes :: post_op_attr
  READLINK3resok_data :: bytes

definition xdr_READLINK3resok :: "xdr_lib \<Rightarrow> READLINK3resok codec" where
  "xdr_READLINK3resok lib = xdr_struct READLINK3resok.make
       (xdr_field READLINK3resok_symlink_attributes (xdr_post_op_attr lib)
       (xdr_field READLINK3resok_data (xdr_nfspath3 lib) xdr_done))"

definition xdr_READLINK3resfail :: "xdr_lib \<Rightarrow> post_op_attr codec" where
  "xdr_READLINK3resfail lib = xdr_post_op_attr lib"

datatype READLINK3res = READLINK3res_resok READLINK3resok | READLINK3res_resfail u32 post_op_attr

definition xdr_READLINK3res :: "xdr_lib \<Rightarrow> READLINK3res codec" where
  "xdr_READLINK3res lib = xdr_union (xdr_nfsstat3 lib)
      (\<lambda>u. case u of READLINK3res_resok _ \<Rightarrow> NFS3_OK
       | READLINK3res_resfail status _ \<Rightarrow> status)
      (\<lambda>status. if status = NFS3_OK
       then xdr_member READLINK3res_resok (\<lambda>u. case u of READLINK3res_resok v \<Rightarrow> Some v | _ \<Rightarrow> None)
         (xdr_READLINK3resok lib)
       else xdr_member (READLINK3res_resfail status) (\<lambda>u. case u of READLINK3res_resfail _ v \<Rightarrow> Some v | _ \<Rightarrow> None)
         (xdr_READLINK3resfail lib))"

record READ3args =
  READ3args_file :: bytes
  READ3args_offset :: u64
  READ3args_count :: u32

definition xdr_READ3args :: "xdr_lib \<Rightarrow> READ3args codec" where
  "xdr_READ3args lib = xdr_mark (\<lambda>l. l\<lparr>lk_flags := NFS_LOOKAHEAD_READ, lk_read := lk_read l + 1\<rparr>)
     (xdr_struct READ3args.make
       (xdr_field READ3args_file (xdr_nfs_fh3 lib)
       (xdr_field READ3args_offset (xdr_offset3 lib)
       (xdr_field READ3args_count (xdr_count3 lib) xdr_done))))"

record READ3resok =
  READ3resok_file_attributes :: post_op_attr
  READ3resok_count :: u32
  READ3resok_eof :: bool
  READ3resok_data :: bytes

definition xdr_READ3resok :: "xdr_lib \<Rightarrow> READ3resok codec" where
  "xdr_READ3resok lib = xdr_struct READ3resok.make
       (xdr_field READ3resok_file_attributes (xdr_post_op_attr lib)
       (xdr_field READ3resok_count (xdr_count3 lib)
       (xdr_field READ3resok_eof (xl_bool lib)
       (xdr_field READ3resok_data (xl_bytes lib (- 1)) xdr_done))))"

definition xdr_READ3resfail :: "xdr_lib \<Rightarrow> post_op_attr codec" where
  "xdr_READ3resfail lib = xdr_post_op_attr lib"

datatype READ3res = READ3res_resok READ3resok | READ3res_resfail u32 post_op_attr

definition xdr_READ3res :: "xdr_lib \<Rightarrow> READ3res codec" where
  "xdr_READ3res lib = xdr_union (xdr_nfsstat3 lib)
      (\<lambda>u. case u of READ3res_resok _ \<Rightarrow> NFS3_OK
       | READ3res_resfail status _ \<Rightarrow> status)
      (\<lambda>status. if status = NFS3_OK
       then xdr_member READ3res_resok (\<lambda>u. case u of READ3res_resok v \<Rightarrow> Some v | _ \<Rightarrow> None)
         (xdr_READ3resok lib)
       else xdr_member (READ3res_resfail status) (\<lambda>u. case u of READ3res_resfail _ v \<Rightarrow> Some v | _ \<Rightarrow> None)
         (xdr_READ3resfail lib))"

definition xdr_stable_how :: "xdr_lib \<Rightarrow> u32 codec" where
  "xdr_stable_how lib = xl_enum lib"

record WRITE3args =
  WRITE3args_file :: bytes
  WRITE3args_offset :: u64
  WRITE3args_count :: u32
  WRITE3args_stable :: u32
  WRITE3args_data :: bytes

definition xdr_WRITE3args :: "xdr_lib \<Rightarrow> WRITE3args codec" where
  "xdr_WRITE3args lib = xdr_mark (\<lambda>l. l\<lparr>lk_flags := lk_flags l OR NFS_LOOKAHEAD_WRITE, lk_write := lk_write l + 1\<rparr>)
     (xdr_struct WRITE3args.make
       (xdr_field WRITE3args_file (xdr_nfs_fh3 lib)
       (xdr_field WRITE3args_offset (xdr_offset3 lib)
       (xdr_field WRITE3args_count (xdr_count3 lib)
       (xdr_field WRITE3args_stable (xdr_stable_how lib)
       (xdr_field WRITE3args_data (xl_bytes lib (- 1)) xdr_done))))))"

record WRITE3resok =
  WRITE3resok_file_wcc :: wcc_data
  WRITE3resok_count :: u32
  WRITE3resok_committed :: u32
  WRITE3resok_verf :: bytes

definition xdr_WRITE3resok :: "xdr_lib \<Rightarrow> WRITE3resok codec" where
  "xdr_WRITE3resok lib = xdr_struct WRITE3resok.make
       (xdr_field WRITE3resok_file_wcc (xdr_wcc_data lib)
       (xdr_field WRITE3resok_count (xdr_count3 lib)
       (xdr_field WRITE3resok_committed (xdr_stable_how lib)
       (xdr_field WRITE3resok_verf (xdr_writeverf3 lib) xdr_done))))"

definition xdr_WRITE3resfail :: "xdr_lib \<Rightarrow> wcc_data codec" where
  "xdr_WRITE3resfail lib = xdr_wcc_data lib"

datatype WRITE3res = WRITE3res_resok WRITE3resok | WRITE3res_resfail u32 wcc_data

definition xdr_WRITE3res :: "xdr_lib \<Rightarrow> WRITE3res codec" where
  "xdr_WRITE3res lib = xdr_union (xdr_nfsstat3 lib)
      (\<lambda>u. case u of WRITE3res_resok _ \<Rightarrow> NFS3_OK
       | WRITE3res_resfail status _ \<Rightarrow> status)
      (\<lambda>status. if status = NFS3_OK
       then xdr_member WRITE3res_resok (\<lambda>u. case u of WRITE3res_resok v \<Rightarrow> Some v | _ \<Rightarrow> None)
         (xdr_WRITE3resok lib)
       else xdr_member (WRITE3res_resfail status) (\<lambda>u. case u of WRITE3res_resfail _ v \<Rightarrow> Some v | _ \<Rightarrow> None)
         (xdr_WRITE3resfail lib))"

definition xdr_createmode3 :: "xdr_lib \<Rightarrow> u32 codec" where
  "xdr_createmode3 lib = xl_enum lib"

datatype createhow3 = createhow3_obj_attributes u32 sattr3 | createhow3_verf bytes

definition xdr_createhow3 :: "xdr_lib \<Rightarrow> createhow3 codec" where
  "xdr_createhow3 lib = xdr_union (xdr_createmode3 lib)
      (\<lambda>u. case u of createhow3_obj_attributes mode _ \<Rightarrow> mode
       | createhow3_verf _ \<Rightarrow> EXCLUSIVE)
      (\<lambda>mode. if mode = UNCHECKED \<or> mode = GUARDED
       then xdr_member (createhow3_obj_attributes mode) (\<lambda>u. case u of createhow3_obj_attributes _ v \<Rightarrow> Some v | _ \<Rightarrow> None)
         (xdr_sattr3 lib)
       else if mode = EXCLUSIVE
       then xdr_member createhow3_verf (\<lambda>u. case u of createhow3_verf v \<Rightarrow> Some v | _ \<Rightarrow> None)
         (xdr_createverf3 lib)
       else xdr_reject)"

record CREATE3args =
  CREATE3args_where :: diropargs3
  CREATE3args_how :: createhow3

definition xdr_CREATE3args :: "xdr_lib \<Rightarrow> CREATE3args codec" where
  "xdr_CREATE3args lib = xdr_mark (\<lambda>l. l\<lparr>lk_flags := lk_flags l OR NFS_LOOKAHEAD_CREATE\<rparr>)
     (xdr_struct CREATE3args.make
       (xdr_field CREATE3args_where (xdr_diropargs3 lib)
       (xdr_field CREATE3args_how (xdr_createhow3 lib) xdr_done)))"

record CREATE3resok =
  CREATE3resok_obj :: post_op_fh3
  CREATE3resok_obj_attributes :: post_op_attr
  CREATE3resok_dir_wcc :: wcc_data

definition xdr_CREATE3resok :: "xdr_lib \<Rightarrow> CREATE3resok codec" where
  "xdr_CREATE3resok lib = xdr_struct CREATE3resok.make
       (xdr_field CREATE3resok_obj (xdr_post_op_fh3 lib)
       (xdr_field CREATE3resok_obj_attributes (xdr_post_op_attr lib)
       (xdr_field CREATE3resok_dir_wcc (xdr_wcc_data lib) xdr_done)))"

definition xdr_CREATE3resfail :: "xdr_lib \<Rightarrow> wcc_data codec" where
  "xdr_CREATE3resfail lib = xdr_wcc_data lib"

datatype CREATE3res = CREATE3res_resok CREATE3resok | CREATE3res_resfail u32 wcc_data

definition xdr_CREATE3res :: "xdr_lib \<Rightarrow> CREATE3res codec" where
  "xdr_CREATE3res lib = xdr_union (xdr_nfsstat3 lib)
      (\<lambda>u. case u of CREATE3res_resok _ \<Rightarrow> NFS3_OK
       | CREATE3res_resfail status _ \<Rightarrow> status)
      (\<lambda>status. if status = NFS3_OK
       then xdr_member CREATE3res_resok (\<lambda>u. case u of CREATE3res_resok v \<Rightarrow> Some v | _ \<Rightarrow> None)
         (xdr_CREATE3resok lib)
       else xdr_member (CREATE3res_resfail status) (\<lambda>u. case u of CREATE3res_resfail _ v \<Rightarrow> Some v | _ \<Rightarrow> None)
         (xdr_CREATE3resfail lib))"

record MKDIR3args =
  MKDIR3args_where :: diropargs3
  MKDIR3args_attributes :: sattr3

definition xdr_MKDIR3args :: "xdr_lib \<Rightarrow> MKDIR3args codec" where
  "xdr_MKDIR3args lib = xdr_struct MKDIR3args.make
       (xdr_field MKDIR3args_where (xdr_diropargs3 lib)
       (xdr_field MKDIR3args_attributes (xdr_sattr3 lib) xdr_done))"

record MKDIR3resok =
  MKDIR3resok_obj :: post_op_fh3
  MKDIR3resok_obj_attributes :: post_op_attr
  MKDIR3resok_dir_wcc :: wcc_data

definition xdr_MKDIR3resok :: "xdr_lib \<Rightarrow> MKDIR3resok codec" where
  "xdr_MKDIR3resok lib = xdr_struct MKDIR3resok.make
       (xdr_field MKDIR3resok_obj (xdr_post_op_fh3 lib)
       (xdr_field MKDIR3resok_obj_attributes (xdr_post_op_attr lib)
       (xdr_field MKDIR3resok_dir_wcc (xdr_wcc_data lib) xdr_done)))"

definition xdr_MKDIR3resfail :: "xdr_lib \<Rightarrow> wcc_data codec" where
  "xdr_MKDIR3resfail lib = xdr_wcc_data lib"

datatype MKDIR3res = MKDIR3res_resok MKDIR3resok | MKDIR3res_resfail u32 wcc_data

definition xdr_MKDIR3res :: "xdr_lib \<Rightarrow> MKDIR3res codec" where
  "xdr_MKDIR3res lib = xdr_union (xdr_nfsstat3 lib)
      (\<lambda>u. case u of MKDIR3res_resok _ \<Rightarrow> NFS3_OK
       | MKDIR3res_resfail status _ \<Rightarrow> status)
      (\<lambda>status. if status = NFS3_OK
       then xdr_member MKDIR3res_resok (\<lambda>u. case u of MKDIR3res_resok v \<Rightarrow> Some v | _ \<Rightarrow> None)
         (xdr_MKDIR3resok lib)
       else xdr_member (MKDIR3res_resfail status) (\<lambda>u. case u of MKDIR3res_resfail _ v \<Rightarrow> Some v | _ \<Rightarrow> None)
         (xdr_MKDIR3resfail lib))"

record symlinkdata3 =
  symlinkdata3_symlink_attributes :: sattr3
  symlinkdata3_symlink_data :: bytes

definition xdr_symlinkdata3 :: "xdr_lib \<Rightarrow> symlinkdata3 codec" where
  "xdr_symlinkdata3 lib = xdr_struct symlinkdata3.make
       (xdr_field symlinkdata3_symlink_attributes (xdr_sattr3 lib)
       (xdr_field symlinkdata3_symlink_data (xdr_nfspath3 lib) xdr_done))"

record SYMLINK3args =
  SYMLINK3args_where :: diropargs3
  SYMLINK3args_symlink :: symlinkdata3

definition xdr_SYMLINK3args :: "xdr_lib \<Rightarrow> SYMLINK3args codec" where
  "xdr_SYMLINK3args lib = xdr_struct SYMLINK3args.make
       (xdr_field SYMLINK3args_where (xdr_diropargs3 lib)
       (xdr_field SYMLINK3args_symlink (xdr_symlinkdata3 lib) xdr_done))"

record SYMLINK3resok =
  SYMLINK3resok_obj :: post_op_fh3
  SYMLINK3resok_obj_attributes :: post_op_attr
  SYMLINK3resok_dir_wcc :: wcc_data

definition xdr_SYMLINK3resok :: "xdr_lib \<Rightarrow> SYMLINK3resok codec" where
  "xdr_SYMLINK3resok lib = xdr_struct SYMLINK3resok.make
       (xdr_field SYMLINK3resok_obj (xdr_post_op_fh3 lib)
       (xdr_field SYMLINK3resok_obj_attributes (xdr_post_op_attr lib)
       (xdr_field SYMLINK3resok_dir_wcc (xdr_wcc_data lib) xdr_done)))"

definition xdr_SYMLINK3resfail :: "xdr_lib \<Rightarrow> wcc_data codec" where
  "xdr_SYMLINK3resfail lib = xdr_wcc_data lib"

datatype SYMLINK3res = SYMLINK3res_resok SYMLINK3resok | SYMLINK3res_resfail u32 wcc_data

definition xdr_SYMLINK3res :: "xdr_lib \<Rightarrow> SYMLINK3res codec" where
  "xdr_SYMLINK3res lib = xdr_union (xdr_nfsstat3 lib)
      (\<lambda>u. case u of SYMLINK3res_resok _ \<Rightarrow> NFS3_OK
       | SYMLINK3res_resfail status _ \<Rightarrow> status)
      (\<lambda>status. if status = NFS3_OK
       then xdr_member SYMLINK3res_resok (\<lambda>u. case u of SYMLINK3res_resok v \<Rightarrow> Some v | _ \<Rightarrow> None)
         (xdr_SYMLINK3resok lib)
       else xdr_member (SYMLINK3res_resfail status) (\<lambda>u. case u of SYMLINK3res_resfail _ v \<Rightarrow> Some v | _ \<Rightarrow> None)
         (xdr_SYMLINK3resfail lib))"

record devicedata3 =
  devicedata3_dev_attributes :: sattr3
  devicedata3_spec :: specdata3

definition xdr_devicedata3 :: "xdr_lib \<Rightarrow> devicedata3 codec" where
  "xdr_devicedata3 lib = xdr_struct devicedata3.make
       (xdr_field devicedata3_dev_attributes (xdr_sattr3 lib)
       (xdr_field devicedata3_spec (xdr_specdata3 lib) xdr_done))"

datatype mknoddata3 = mknoddata3_device u32 devicedata3 | mknoddata3_pipe_attributes u32 sattr3 | mknoddata3_default u32

definition xdr_mknoddata3 :: "xdr_lib \<Rightarrow> mknoddata3 codec" where
  "xdr_mknoddata3 lib = xdr_union (xdr_ftype3 lib)
      (\<lambda>u. case u of mknoddata3_device type _ \<Rightarrow> type
       | mknoddata3_pipe_attributes type _ \<Rightarrow> type
       | mknoddata3_default type \<Rightarrow> type)
      (\<lambda>type. if type = NF3CHR \<or> type = NF3BLK
       then xdr_member (mknoddata3_device type) (\<lambda>u. case u of mknoddata3_device _ v \<Rightarrow> Some v | _ \<Rightarrow> None)
         (xdr_devicedata3 lib)
       else if type = NF3SOCK \<or> type = NF3FIFO
       then xdr_member (mknoddata3_pipe_attributes type) (\<lambda>u. case u of mknoddata3_pipe_attributes _ v \<Rightarrow> Some v | _ \<Rightarrow> None)
         (xdr_sattr3 lib)
       else xdr_void (mknoddata3_default type))"

record MKNOD3args =
  MKNOD3args_where :: diropargs3
  MKNOD3args_what :: mknoddata3

definition xdr_MKNOD3args :: "xdr_lib \<Rightarrow> MKNOD3args codec" where
  "xdr_MKNOD3args lib = xdr_struct MKNOD3args.make
       (xdr_field MKNOD3args_where (xdr_diropargs3 lib)
       (xdr_field MKNOD3args_what (xdr_mknoddata3 lib) xdr_done))"

record MKNOD3resok =
  MKNOD3resok_obj :: post_op_fh3
  MKNOD3resok_obj_attributes :: post_op_attr
  MKNOD3resok_dir_wcc :: wcc_data

definition xdr_MKNOD3resok :: "xdr_lib \<Rightarrow> MKNOD3resok codec" where
  "xdr_MKNOD3resok lib = xdr_struct MKNOD3resok.make
       (xdr_field MKNOD3resok_obj (xdr_post_op_fh3 lib)
       (xdr_field MKNOD3resok_obj_attributes (xdr_post_op_attr lib)
       (xdr_field MKNOD3resok_dir_wcc (xdr_wcc_data lib) xdr_done)))"

definition xdr_MKNOD3resfail :: "xdr_lib \<Rightarrow> wcc_data codec" where
  "xdr_MKNOD3resfail lib = xdr_wcc_data lib"

datatype MKNOD3res = MKNOD3res_resok MKNOD3resok | MKNOD3res_resfail u32 wcc_data

definition xdr_MKNOD3res :: "xdr_lib \<Rightarrow> MKNOD3res codec" where
  "xdr_MKNOD3res lib = xdr_union (xdr_nfsstat3 lib)
      (\<lambda>u. case u of MKNOD3res_resok _ \<Rightarrow> NFS3_OK
       | MKNOD3res_resfail status _ \<Rightarrow> status)
      (\<lambda>status. if status = NFS3_OK
       then xdr_member MKNOD3res_resok (\<lambda>u. case u of MKNOD3res_resok v \<Rightarrow> Some v | _ \<Rightarrow> None)
         (xdr_MKNOD3resok lib)
       else xdr_member (MKNOD3res_resfail status) (\<lambda>u. case u of MKNOD3res_resfail _ v \<Rightarrow> Some v | _ \<Rightarrow> None)
         (xdr_MKNOD3resfail lib))"

definition xdr_REMOVE3args :: "xdr_lib \<Rightarrow> diropargs3 codec" where
  "xdr_REMOVE3args lib = xdr_mark (\<lambda>l. l\<lparr>lk_flags := lk_flags l OR NFS_LOOKAHEAD_REMOVE\<rparr>)
     (xdr_diropargs3 lib)"

definition xdr_REMOVE3resok :: "xdr_lib \<Rightarrow> wcc_data codec" where
  "xdr_REMOVE3resok lib = xdr_wcc_data lib"

definition xdr_REMOVE3resfail :: "xdr_lib \<Rightarrow> wcc_data codec" where
  "xdr_REMOVE3resfail lib = xdr_wcc_data lib"

datatype REMOVE3res = REMOVE3res_resok wcc_data | REMOVE3res_resfail u32 wcc_data

definition xdr_REMOVE3res :: "xdr_lib \<Rightarrow> REMOVE3res codec" where
  "xdr_REMOVE3res lib = xdr_union (xdr_nfsstat3 lib)
      (\<lambda>u. case u of REMOVE3res_resok _ \<Rightarrow> NFS3_OK
       | REMOVE3res_resfail status _ \<Rightarrow> status)
      (\<lambda>status. if status = NFS3_OK
       then xdr_member REMOVE3res_resok (\<lambda>u. case u of REMOVE3res_resok v \<Rightarrow> Some v | _ \<Rightarrow> None)
         (xdr_REMOVE3resok lib)
       else xdr_member (REMOVE3res_resfail status) (\<lambda>u. case u of REMOVE3res_resfail _ v \<Rightarrow> Some v | _ \<Rightarrow> None)
         (xdr_REMOVE3resfail lib))"

definition xdr_RMDIR3args :: "xdr_lib \<Rightarrow> diropargs3 codec" where
  "xdr_RMDIR3args lib = xdr_diropargs3 lib"

definition xdr_RMDIR3resok :: "xdr_lib \<Rightarrow> wcc_data codec" where
  "xdr_RMDIR3resok lib = xdr_wcc_data lib"

definition xdr_RMDIR3resfail :: "xdr_lib \<Rightarrow> wcc_data codec" where
  "xdr_RMDIR3resfail lib = xdr_wcc_data lib"

datatype RMDIR3res = RMDIR3res_resok wcc_data | RMDIR3res_resfail u32 wcc_data

definition xdr_RMDIR3res :: "xdr_lib \<Rightarrow> RMDIR3res codec" where
  "xdr_RMDIR3res lib = xdr_union (xdr_nfsstat3 lib)
      (\<lambda>u. case u of RMDIR3res_resok _ \<Rightarrow> NFS3_OK
       | RMDIR3res_resfail status _ \<Rightarrow> status)
      (\<lambda>status. if status = NFS3_OK
       then xdr_member RMDIR3res_resok (\<lambda>u. case u of RMDIR3res_resok v \<Rightarrow> Some v | _ \<Rightarrow> None)
         (xdr_RMDIR3resok lib)
       else xdr_member (RMDIR3res_resfail status) (\<lambda>u. case u of RMDIR3res_resfail _ v \<Rightarrow> Some v | _ \<Rightarrow> None)
         (xdr_RMDIR3resfail lib))"

record RENAME3args =
  RENAME3args_from :: diropargs3
  RENAME3args_to :: diropargs3

definition xdr_RENAME3args :: "xdr_lib \<Rightarrow> RENAME3args codec" where
  "xdr_RENAME3args lib = xdr_mark (\<lambda>l. l\<lparr>lk_flags := lk_flags l OR NFS_LOOKAHEAD_RENAME\<rparr>)
     (xdr_struct RENAME3args.make
       (xdr_field RENAME3args_from (xdr_diropargs3 lib)
       (xdr_field RENAME3args_to (xdr_diropargs3 lib) xdr_done)))"

record RENAME3resok =
  RENAME3resok_fromdir_wcc :: wcc_data
  RENAME3resok_todir_wcc :: wcc_data

definition xdr_RENAME3resok :: "xdr_lib \<Rightarrow> RENAME3resok codec" where
  "xdr_RENAME3resok lib = xdr_struct RENAME3resok.make
       (xdr_field RENAME3resok_fromdir_wcc (xdr_wcc_data lib)
       (xdr_field RENAME3resok_todir_wcc (xdr_wcc_data lib) xdr_done))"

record RENAME3resfail =
  RENAME3resfail_fromdir_wcc :: wcc_data
  RENAME3resfail_todir_wcc :: wcc_data

definition xdr_RENAME3resfail :: "xdr_lib \<Rightarrow> RENAME3resfail codec" where
  "xdr_RENAME3resfail lib = xdr_struct RENAME3resfail.make
       (xdr_field RENAME3resfail_fromdir_wcc (xdr_wcc_data lib)
       (xdr_field RENAME3resfail_todir_wcc (xdr_wcc_data lib) xdr_done))"

datatype RENAME3res = RENAME3res_resok RENAME3resok | RENAME3res_resfail u32 RENAME3resfail

definition xdr_RENAME3res :: "xdr_lib \<Rightarrow> RENAME3res codec" where
  "xdr_RENAME3res lib = xdr_union (xdr_nfsstat3 lib)
      (\<lambda>u. case u of RENAME3res_resok _ \<Rightarrow> NFS3_OK
       | RENAME3res_resfail status _ \<Rightarrow> status)
      (\<lambda>status. if status = NFS3_OK
       then xdr_member RENAME3res_resok (\<lambda>u. case u of RENAME3res_resok v \<Rightarrow> Some v | _ \<Rightarrow> None)
         (xdr_RENAME3resok lib)
       else xdr_member (RENAME3res_resfail status) (\<lambda>u. case u of RENAME3res_resfail _ v \<Rightarrow> Some v | _ \<Rightarrow> None)
         (xdr_RENAME3resfail lib))"

record LINK3args =
  LINK3args_file :: bytes
  LINK3args_link :: diropargs3

definition xdr_LINK3args :: "xdr_lib \<Rightarrow> LINK3args codec" where
  "xdr_LINK3args lib = xdr_struct LINK3args.make
       (xdr_field LINK3args_file (xdr_nfs_fh3 lib)
       (xdr_field LINK3args_link (xdr_diropargs3 lib) xdr_done))"

record LINK3resok =
  LINK3resok_file_attributes :: post_op_attr
  LINK3resok_linkdir_wcc :: wcc_data

definition xdr_LINK3resok :: "xdr_lib \<Rightarrow> LINK3resok codec" where
  "xdr_LINK3resok lib = xdr_struct LINK3resok.make
       (xdr_field LINK3resok_file_attributes (xdr_post_op_attr lib)
       (xdr_field LINK3resok_linkdir_wcc (xdr_wcc_data lib) xdr_done))"

record LINK3resfail =
  LINK3resfail_file_attributes :: post_op_attr
  LINK3resfail_linkdir_wcc :: wcc_data

definition xdr_LINK3resfail :: "xdr_lib \<Rightarrow> LINK3resfail codec" where
  "xdr_LINK3resfail lib = xdr_struct LINK3resfail.make
       (xdr_field LINK3resfail_file_attributes (xdr_post_op_attr lib)
       (xdr_field LINK3resfail_linkdir_wcc (xdr_wcc_data lib) xdr_done))"

datatype LINK3res = LINK3res_resok LINK3resok | LINK3res_resfail u32 LINK3resfail

definition xdr_LINK3res :: "xdr_lib \<Rightarrow> LINK3res codec" where
  "xdr_LINK3res lib = xdr_union (xdr_nfsstat3 lib)
      (\<lambda>u. case u of LINK3res_resok _ \<Rightarrow> NFS3_OK
       | LINK3res_resfail status _ \<Rightarrow> status)
      (\<lambda>status. if status = NFS3_OK
       then xdr_member LINK3res_resok (\<lambda>u. case u of LINK3res_resok v \<Rightarrow> Some v | _ \<Rightarrow> None)
         (xdr_LINK3resok lib)
       else xdr_member (LINK3res_resfail status) (\<lambda>u. case u of LINK3res_resfail _ v \<Rightarrow> Some v | _ \<Rightarrow> None)
         (xdr_LINK3resfail lib))"

record READDIR3args =
  READDIR3args_dir :: bytes
  READDIR3args_cookie :: u64
  READDIR3args_cookieverf :: bytes
  READDIR3args_count :: u32

definition xdr_READDIR3args :: "xdr_lib \<Rightarrow> READDIR3args codec" where
  "xdr_READDIR3args lib = xdr_mark (\<lambda>l. l\<lparr>lk_flags := lk_flags l OR NFS_LOOKAHEAD_READDIR\<rparr>)
     (xdr_struct READDIR3args.make
       (xdr_field READDIR3args_dir (xdr_nfs_fh3 lib)
       (xdr_field READDIR3args_cookie (xdr_cookie3 lib)
       (xdr_field READDIR3args_cookieverf (xdr_cookieverf3 lib)
       (xdr_field READDIR3args_count (xdr_count3 lib) xdr_done)))))"

text \<open>
  An entry without its pointer to the next one: the list it is on is transferred by \<open>xdr_chain\<close>.
\<close>

record entry3 =
  entry3_fileid :: u64
  entry3_name :: bytes
  entry3_cookie :: u64

definition xdr_entry3 :: "xdr_lib \<Rightarrow> entry3 codec" where
  "xdr_entry3 lib = xdr_struct entry3.make
       (xdr_field entry3_fileid (xdr_fileid3 lib)
       (xdr_field entry3_name (xdr_filename3 lib)
       (xdr_field entry3_cookie (xdr_cookie3 lib) xdr_done)))"

record dirlist3 =
  dirlist3_entries :: "entry3 list"
  dirlist3_eof :: bool

definition xdr_dirlist3 :: "xdr_lib \<Rightarrow> dirlist3 codec" where
  "xdr_dirlist3 lib = xdr_struct dirlist3.make
       (xdr_field dirlist3_entries (xdr_chain (xl_bool lib) (xdr_entry3 lib))
       (xdr_field dirlist3_eof (xl_bool lib) xdr_done))"

record READDIR3resok =
  READDIR3resok_dir_attributes :: post_op_attr
  READDIR3resok_cookieverf :: bytes
  READDIR3resok_reply :: dirlist3

definition xdr_READDIR3resok :: "xdr_lib \<Rightarrow> READDIR3resok codec" where
  "xdr_READDIR3resok lib = xdr_struct READDIR3resok.make
       (xdr_field READDIR3resok_dir_attributes (xdr_post_op_attr lib)
       (xdr_field READDIR3resok_cookieverf (xdr_cookieverf3 lib)
       (xdr_field READDIR3resok_reply (xdr_dirlist3 lib) xdr_done)))"

definition xdr_READDIR3resfail :: "xdr_lib \<Rightarrow> post_op_attr codec" where
  "xdr_READDIR3resfail lib = xdr_post_op_attr lib"

datatype READDIR3res = READDIR3res_resok READDIR3resok | READDIR3res_resfail u32 post_op_attr

definition xdr_READDIR3res :: "xdr_lib \<Rightarrow> READDIR3res codec" where
  "xdr_READDIR3res lib = xdr_union (xdr_nfsstat3 lib)
      (\<lambda>u. case u of READDIR3res_resok _ \<Rightarrow> NFS3_OK
       | READDIR3res_resfail status _ \<Rightarrow> status)
      (\<lambda>status. if status = NFS3_OK
       then xdr_member READDIR3res_resok (\<lambda>u. case u of READDIR3res_resok v \<Rightarrow> Some v | _ \<Rightarrow> None)
         (xdr_READDIR3resok lib)
       else xdr_member (READDIR3res_resfail status) (\<lambda>u. case u of READDIR3res_resfail _ v \<Rightarrow> Some v | _ \<Rightarrow> None)
         (xdr_READDIR3resfail lib))"

record READDIRPLUS3args =
  READDIRPLUS3args_dir :: bytes
  READDIRPLUS3args_cookie :: u64
  READDIRPLUS3args_cookieverf :: bytes
  READDIRPLUS3args_dircount :: u32
  READDIRPLUS3args_maxcount :: u32

definition xdr_READDIRPLUS3args :: "xdr_lib \<Rightarrow> READDIRPLUS3args codec" where
  "xdr_READDIRPLUS3args lib = xdr_mark (\<lambda>l. l\<lparr>lk_flags := lk_flags l OR NFS_LOOKAHEAD_READDIR\<rparr>)
     (xdr_struct READDIRPLUS3args.make
       (xdr_field READDIRPLUS3args_dir (xdr_nfs_fh3 lib)
       (xdr_field READDIRPLUS3args_cookie (xdr_cookie3 lib)
       (xdr_field READDIRPLUS3args_cookieverf (xdr_cookieverf3 lib)
       (xdr_field READDIRPLUS3args_dircount (xdr_count3 lib)
       (xdr_field READDIRPLUS3args_maxcount (xdr_count3 lib) xdr_done))))))"

record entryplus3 =
  entryplus3_fileid :: u64
  entryplus3_name :: bytes
  entryplus3_cookie :: u64
  entryplus3_name_attributes :: post_op_attr
  entryplus3_name_handle :: post_op_fh3

definition xdr_entryplus3 :: "xdr_lib \<Rightarrow> entryplus3 codec" where
  "xdr_entryplus3 lib = xdr_struct entryplus3.make
       (xdr_field entryplus3_fileid (xdr_fileid3 lib)
       (xdr_field entryplus3_name (xdr_filename3 lib)
       (xdr_field entryplus3_cookie (xdr_cookie3 lib)
       (xdr_field entryplus3_name_attributes (xdr_post_op_attr lib)
       (xdr_field entryplus3_name_handle (xdr_post_op_fh3 lib) xdr_done)))))"

record dirlistplus3 =
  dirlistplus3_entries :: "entryplus3 list"
  dirlistplus3_eof :: bool

definition xdr_dirlistplus3 :: "xdr_lib \<Rightarrow> dirlistplus3 codec" where
  "xdr_dirlistplus3 lib = xdr_struct dirlistplus3.make
       (xdr_field dirlistplus3_entries (xdr_chain (xl_bool lib) (xdr_entryplus3 lib))
       (xdr_field dirlistplus3_eof (xl_bool lib) xdr_done))"

record READDIRPLUS3resok =
  READDIRPLUS3resok_dir_attributes :: post_op_attr
  READDIRPLUS3resok_cookieverf :: bytes
  READDIRPLUS3resok_reply :: dirlistplus3

definition xdr_READDIRPLUS3resok :: "xdr_lib \<Rightarrow> READDIRPLUS3resok codec" where
  "xdr_READDIRPLUS3resok lib = xdr_struct READDIRPLUS3resok.make
       (xdr_field READDIRPLUS3resok_dir_attributes (xdr_post_op_attr lib)
       (xdr_field READDIRPLUS3resok_cookieverf (xdr_cookieverf3 lib)
       (xdr_field READDIRPLUS3resok_reply (xdr_dirlistplus3 lib) xdr_done)))"

definition xdr_READDIRPLUS3resfail :: "xdr_lib \<Rightarrow> post_op_attr codec" where
  "xdr_READDIRPLUS3resfail lib = xdr_post_op_attr lib"

datatype READDIRPLUS3res = READDIRPLUS3res_resok READDIRPLUS3resok | READDIRPLUS3res_resfail u32 post_op_attr

definition xdr_READDIRPLUS3res :: "xdr_lib \<Rightarrow> READDIRPLUS3res codec" where
  "xdr_READDIRPLUS3res lib = xdr_union (xdr_nfsstat3 lib)
      (\<lambda>u. case u of READDIRPLUS3res_resok _ \<Rightarrow> NFS3_OK
       | READDIRPLUS3res_resfail status _ \<Rightarrow> status)
      (\<lambda>status. if status = NFS3_OK
       then xdr_member READDIRPLUS3res_resok (\<lambda>u. case u of READDIRPLUS3res_resok v \<Rightarrow> Some v | _ \<Rightarrow> None)
         (xdr_READDIRPLUS3resok lib)
       else xdr_member (READDIRPLUS3res_resfail status) (\<lambda>u. case u of READDIRPLUS3res_resfail _ v \<Rightarrow> Some v | _ \<Rightarrow> None)
         (xdr_READDIRPLUS3resfail lib))"

definition xdr_FSSTAT3args :: "xdr_lib \<Rightarrow> bytes codec" where
  "xdr_FSSTAT3args lib = xdr_nfs_fh3 lib"

record FSSTAT3resok =
  FSSTAT3resok_obj_attributes :: post_op_attr
  FSSTAT3resok_tbytes :: u64
  FSSTAT3resok_fbytes :: u64
  FSSTAT3resok_abytes :: u64
  FSSTAT3resok_tfiles :: u64
  FSSTAT3resok_ffiles :: u64
  FSSTAT3resok_afiles :: u64
  FSSTAT3resok_invarsec :: u32

definition xdr_FSSTAT3resok :: "xdr_lib \<Rightarrow> FSSTAT3resok codec" where
  "xdr_FSSTAT3resok lib = xdr_struct FSSTAT3resok.make
       (xdr_field FSSTAT3resok_obj_attributes (xdr_post_op_attr lib)
       (xdr_field FSSTAT3resok_tbytes (xdr_size3 lib)
       (xdr_field FSSTAT3resok_fbytes (xdr_size3 lib)
       (xdr_field FSSTAT3resok_abytes (xdr_size3 lib)
       (xdr_field FSSTAT3resok_tfiles (xdr_size3 lib)
       (xdr_field FSSTAT3resok_ffiles (xdr_size3 lib)
       (xdr_field FSSTAT3resok_afiles (xdr_size3 lib)
       (xdr_field FSSTAT3resok_invarsec (xdr_nfs3_uint32 lib) xdr_done))))))))"

definition xdr_FSSTAT3resfail :: "xdr_lib \<Rightarrow> post_op_attr codec" where
  "xdr_FSSTAT3resfail lib = xdr_post_op_attr lib"

datatype FSSTAT3res = FSSTAT3res_resok FSSTAT3resok | FSSTAT3res_resfail u32 post_op_attr

definition xdr_FSSTAT3res :: "xdr_lib \<Rightarrow> FSSTAT3res codec" where
  "xdr_FSSTAT3res lib = xdr_union (xdr_nfsstat3 lib)
      (\<lambda>u. case u of FSSTAT3res_resok _ \<Rightarrow> NFS3_OK
       | FSSTAT3res_resfail status _ \<Rightarrow> status)
      (\<lambda>status. if status = NFS3_OK
       then xdr_member FSSTAT3res_resok (\<lambda>u. case u of FSSTAT3res_resok v \<Rightarrow> Some v | _ \<Rightarrow> None)
         (xdr_FSSTAT3resok lib)
       else xdr_member (FSSTAT3res_resfail status) (\<lambda>u. case u of FSSTAT3res_resfail _ v \<Rightarrow> Some v | _ \<Rightarrow> None)
         (xdr_FSSTAT3resfail lib))"

definition xdr_FSINFO3args :: "xdr_lib \<Rightarrow> bytes codec" where
  "xdr_FSINFO3args lib = xdr_nfs_fh3 lib"

record FSINFO3resok =
  FSINFO3resok_obj_attributes :: post_op_attr
  FSINFO3resok_rtmax :: u32
  FSINFO3resok_rtpref :: u32
  FSINFO3resok_rtmult :: u32
  FSINFO3resok_wtmax :: u32
  FSINFO3resok_wtpref :: u32
  FSINFO3resok_wtmult :: u32
  FSINFO3resok_dtpref :: u32
  FSINFO3resok_maxfilesize :: u64
  FSINFO3resok_time_delta :: nfstime3
  FSINFO3resok_properties :: u32

definition xdr_FSINFO3resok :: "xdr_lib \<Rightarrow> FSINFO3resok codec" where
  "xdr_FSINFO3resok lib = xdr_struct FSINFO3resok.make
       (xdr_field FSINFO3resok_obj_attributes (xdr_post_op_attr lib)
       (xdr_field FSINFO3resok_rtmax (xdr_nfs3_uint32 lib)
       (xdr_field FSINFO3resok_rtpref (xdr_nfs3_uint32 lib)
       (xdr_field FSINFO3resok_rtmult (xdr_nfs3_uint32 lib)
       (xdr_field FSINFO3resok_wtmax (xdr_nfs3_uint32 lib)
       (xdr_field FSINFO3resok_wtpref (xdr_nfs3_uint32 lib)
       (xdr_field FSINFO3resok_wtmult (xdr_nfs3_uint32 lib)
       (xdr_field FSINFO3resok_dtpref (xdr_nfs3_uint32 lib)
       (xdr_field FSINFO3resok_maxfilesize (xdr_size3 lib)
       (xdr_field FSINFO3resok_time_delta (xdr_nfstime3 lib)
       (xdr_field FSINFO3resok_properties (xdr_nfs3_uint32 lib) xdr_done)))))))))))"

definition xdr_FSINFO3resfail :: "xdr_lib \<Rightarrow> post_op_attr codec" where
  "xdr_FSINFO3resfail lib = xdr_post_op_attr lib"

datatype FSINFO3res = FSINFO3res_resok FSINFO3resok | FSINFO3res_resfail u32 post_op_attr

definition xdr_FSINFO3res :: "xdr_lib \<Rightarrow> FSINFO3res codec" where
  "xdr_FSINFO3res lib = xdr_union (xdr_nfsstat3 lib)
      (\<lambda>u. case u of FSINFO3res_resok _ \<Rightarrow> NFS3_OK
       | FSINFO3res_resfail status _ \<Rightarrow> status)
      (\<lambda>status. if status = NFS3_OK
       then xdr_member FSINFO3res_resok (\<lambda>u. case u of FSINFO3res_resok v \<Rightarrow> Some v | _ \<Rightarrow> None)
         (xdr_FSINFO3resok lib)
       else xdr_member (FSINFO3res_resfail status) (\<lambda>u. case u of FSINFO3res_resfail _ v \<Rightarrow> Some v | _ \<Rightarrow> None)
         (xdr_FSINFO3resfail lib))"

definition xdr_PATHCONF3args :: "xdr_lib \<Rightarrow> bytes codec" where
  "xdr_PATHCONF3args lib = xdr_nfs_fh3 lib"

record PATHCONF3resok =
  PATHCONF3resok_obj_attributes :: post_op_attr
  PATHCONF3resok_linkmax :: u32
  PATHCONF3resok_name_max :: u32
  PATHCONF3resok_no_trunc :: bool
  PATHCONF3resok_chown_restricted :: bool
  PATHCONF3resok_case_insensitive :: bool
  PATHCONF3resok_case_preserving :: bool

definition xdr_PATHCONF3resok :: "xdr_lib \<Rightarrow> PATHCONF3resok codec" where
  "xdr_PATHCONF3resok lib = xdr_struct PATHCONF3resok.make
       (xdr_field PATHCONF3resok_obj_attributes (xdr_post_op_attr lib)
       (xdr_field PATHCONF3resok_linkmax (xdr_nfs3_uint32 lib)
       (xdr_field PATHCONF3resok_name_max (xdr_nfs3_uint32 lib)
       (xdr_field PATHCONF3resok_no_trunc (xl_bool lib)
       (xdr_field PATHCONF3resok_chown_restricted (xl_bool lib)
       (xdr_field PATHCONF3resok_case_insensitive (xl_bool lib)
       (xdr_field PATHCONF3resok_case_preserving (xl_bool lib) xdr_done)))))))"

definition xdr_PATHCONF3resfail :: "xdr_lib \<Rightarrow> post_op_attr codec" where
  "xdr_PATHCONF3resfail lib = xdr_post_op_attr lib"

datatype PATHCONF3res = PATHCONF3res_resok PATHCONF3resok | PATHCONF3res_resfail u32 post_op_attr

definition xdr_PATHCONF3res :: "xdr_lib \<Rightarrow> PATHCONF3res codec" where
  "xdr_PATHCONF3res lib = xdr_union (xdr_nfsstat3 lib)
      (\<lambda>u. case u of PATHCONF3res_resok _ \<Rightarrow> NFS3_OK
       | PATHCONF3res_resfail status _ \<Rightarrow> status)
      (\<lambda>status. if status = NFS3_OK
       then xdr_member PATHCONF3res_resok (\<lambda>u. case u of PATHCONF3res_resok v \<Rightarrow> Some v | _ \<Rightarrow> None)
         (xdr_PATHCONF3resok lib)
       else xdr_member (PATHCONF3res_resfail status) (\<lambda>u. case u of PATHCONF3res_resfail _ v \<Rightarrow> Some v | _ \<Rightarrow> None)
         (xdr_PATHCONF3resfail lib))"

record COMMIT3args =
  COMMIT3args_file :: bytes
  COMMIT3args_offset :: u64
  COMMIT3args_count :: u32

definition xdr_COMMIT3args :: "xdr_lib \<Rightarrow> COMMIT3args codec" where
  "xdr_COMMIT3args lib = xdr_mark (\<lambda>l. l\<lparr>lk_flags := lk_flags l OR NFS_LOOKAHEAD_COMMIT\<rparr>)
     (xdr_struct COMMIT3args.make
       (xdr_field COMMIT3args_file (xdr_nfs_fh3 lib)
       (xdr_field COMMIT3args_offset (xdr_offset3 lib)
       (xdr_field COMMIT3args_count (xdr_count3 lib) xdr_done))))"

record COMMIT3resok =
  COMMIT3resok_file_wcc :: wcc_data
  COMMIT3resok_verf :: bytes

definition xdr_COMMIT3resok :: "xdr_lib \<Rightarrow> COMMIT3resok codec" where
  "xdr_COMMIT3resok lib = xdr_struct COMMIT3resok.make
       (xdr_field COMMIT3resok_file_wcc (xdr_wcc_data lib)
       (xdr_field COMMIT3resok_verf (xdr_writeverf3 lib) xdr_done))"

definition xdr_COMMIT3resfail :: "xdr_lib \<Rightarrow> wcc_data codec" where
  "xdr_COMMIT3resfail lib = xdr_wcc_data lib"

datatype COMMIT3res = COMMIT3res_resok COMMIT3resok | COMMIT3res_resfail u32 wcc_data

definition xdr_COMMIT3res :: "xdr_lib \<Rightarrow> COMMIT3res codec" where
  "xdr_COMMIT3res lib = xdr_union (xdr_nfsstat3 lib)
      (\<lambda>u. case u of COMMIT3res_resok _ \<Rightarrow> NFS3_OK
       | COMMIT3res_resfail status _ \<Rightarrow> status)
      (\<lambda>status. if status = NFS3_OK
       then xdr_member COMMIT3res_resok (\<lambda>u. case u of COMMIT3res_resok v \<Rightarrow> Some v | _ \<Rightarrow> None)
         (xdr_COMMIT3resok lib)
       else xdr_member (COMMIT3res_resfail status) (\<lambda>u. case u of COMMIT3res_resfail _ v \<Rightarrow> Some v | _ \<Rightarrow> None)
         (xdr_COMMIT3resfail lib))"

section \<open>Soundness\<close>

context xdr_library
begin

lemma xdr_nfs3_uint64_ok [codec_rules]: "codec_ok (xdr_nfs3_uint64 lib)"
  unfolding xdr_nfs3_uint64_def by (intro codec_rules lib_ok)

lemma xdr_nfs3_uint32_ok [codec_rules]: "codec_ok (xdr_nfs3_uint32 lib)"
  unfolding xdr_nfs3_uint32_def by (intro codec_rules lib_ok)

lemma xdr_filename3_ok [codec_rules]: "codec_ok (xdr_filename3 lib)"
  unfolding xdr_filename3_def by (intro codec_rules lib_ok)

lemma xdr_nfspath3_ok [codec_rules]: "codec_ok (xdr_nfspath3 lib)"
  unfolding xdr_nfspath3_def by (intro codec_rules lib_ok)

lemma xdr_fileid3_ok [codec_rules]: "codec_ok (xdr_fileid3 lib)"
  unfolding xdr_fileid3_def by (intro codec_rules lib_ok)

lemma xdr_cookie3_ok [codec_rules]: "codec_ok (xdr_cookie3 lib)"
  unfolding xdr_cookie3_def by (intro codec_rules lib_ok)

lemma xdr_cookieverf3_ok [codec_rules]: "codec_ok (xdr_cookieverf3 lib)"
  unfolding xdr_cookieverf3_def by (intro codec_rules lib_ok)

lemma xdr_createverf3_ok [codec_rules]: "codec_ok (xdr_createverf3 lib)"
  unfolding xdr_createverf3_def by (intro codec_rules lib_ok)

lemma xdr_writeverf3_ok [codec_rules]: "codec_ok (xdr_writeverf3 lib)"
  unfolding xdr_writeverf3_def by (intro codec_rules lib_ok)

lemma xdr_uid3_ok [codec_rules]: "codec_ok (xdr_uid3 lib)"
  unfolding xdr_uid3_def by (intro codec_rules lib_ok)

lemma xdr_gid3_ok [codec_rules]: "codec_ok (xdr_gid3 lib)"
  unfolding xdr_gid3_def by (intro codec_rules lib_ok)

lemma xdr_size3_ok [codec_rules]: "codec_ok (xdr_size3 lib)"
  unfolding xdr_size3_def by (intro codec_rules lib_ok)

lemma xdr_offset3_ok [codec_rules]: "codec_ok (xdr_offset3 lib)"
  unfolding xdr_offset3_def by (intro codec_rules lib_ok)

lemma xdr_mode3_ok [codec_rules]: "codec_ok (xdr_mode3 lib)"
  unfolding xdr_mode3_def by (intro codec_rules lib_ok)

lemma xdr_count3_ok [codec_rules]: "codec_ok (xdr_count3 lib)"
  unfolding xdr_count3_def by (intro codec_rules lib_ok)

lemma xdr_nfsstat3_ok [codec_rules]: "codec_ok (xdr_nfsstat3 lib)"
  unfolding xdr_nfsstat3_def by (intro codec_rules lib_ok)

lemma xdr_ftype3_ok [codec_rules]: "codec_ok (xdr_ftype3 lib)"
  unfolding xdr_ftype3_def by (intro codec_rules lib_ok)

lemma xdr_specdata3_ok [codec_rules]: "codec_ok (xdr_specdata3 lib)"
  unfolding xdr_specdata3_def by (intro codec_rules lib_ok fields_ok_done; simp add: specdata3.make_def)

lemma xdr_nfs_fh3_ok [codec_rules]: "codec_ok (xdr_nfs_fh3 lib)"
  unfolding xdr_nfs_fh3_def by (intro codec_rules lib_ok)

lemma xdr_nfstime3_ok [codec_rules]: "codec_ok (xdr_nfstime3 lib)"
  unfolding xdr_nfstime3_def by (intro codec_rules lib_ok fields_ok_done; simp add: nfstime3.make_def)

lemma xdr_fattr3_ok [codec_rules]: "codec_ok (xdr_fattr3 lib)"
  unfolding xdr_fattr3_def by (intro codec_rules lib_ok fields_ok_done; simp add: fattr3.make_def)

lemma xdr_post_op_attr_ok [codec_rules]: "codec_ok (xdr_post_op_attr lib)"
  unfolding xdr_post_op_attr_def by (intro codec_rules lib_ok; auto split: post_op_attr.splits)

lemma xdr_wcc_attr_ok [codec_rules]: "codec_ok (xdr_wcc_attr lib)"
  unfolding xdr_wcc_attr_def by (intro codec_rules lib_ok fields_ok_done; simp add: wcc_attr.make_def)

lemma xdr_pre_op_attr_ok [codec_rules]: "codec_ok (xdr_pre_op_attr lib)"
  unfolding xdr_pre_op_attr_def by (intro codec_rules lib_ok; auto split: pre_op_attr.splits)

lemma xdr_wcc_data_ok [codec_rules]: "codec_ok (xdr_wcc_data lib)"
  unfolding xdr_wcc_data_def by (intro codec_rules lib_ok fields_ok_done; simp add: wcc_data.make_def)

lemma xdr_post_op_fh3_ok [codec_rules]: "codec_ok (xdr_post_op_fh3 lib)"
  unfolding xdr_post_op_fh3_def by (intro codec_rules lib_ok; auto split: post_op_fh3.splits)

lemma xdr_time_how_ok [codec_rules]: "codec_ok (xdr_time_how lib)"
  unfolding xdr_time_how_def by (intro codec_rules lib_ok)

lemma xdr_set_mode3_ok [codec_rules]: "codec_ok (xdr_set_mode3 lib)"
  unfolding xdr_set_mode3_def by (intro codec_rules lib_ok; auto split: set_mode3.splits)

lemma xdr_set_uid3_ok [codec_rules]: "codec_ok (xdr_set_uid3 lib)"
  unfolding xdr_set_uid3_def by (intro codec_rules lib_ok; auto split: set_uid3.splits)

lemma xdr_set_gid3_ok [codec_rules]: "codec_ok (xdr_set_gid3 lib)"
  unfolding xdr_set_gid3_def by (intro codec_rules lib_ok; auto split: set_gid3.splits)

lemma xdr_set_size3_ok [codec_rules]: "codec_ok (xdr_set_size3 lib)"
  unfolding xdr_set_size3_def by (intro codec_rules lib_ok; auto split: set_size3.splits)

lemma xdr_set_atime_ok [codec_rules]: "codec_ok (xdr_set_atime lib)"
  unfolding xdr_set_atime_def by (intro codec_rules lib_ok; auto split: set_atime.splits)

lemma xdr_set_mtime_ok [codec_rules]: "codec_ok (xdr_set_mtime lib)"
  unfolding xdr_set_mtime_def by (intro codec_rules lib_ok; auto split: set_mtime.splits)

lemma xdr_sattr3_ok [codec_rules]: "codec_ok (xdr_sattr3 lib)"
  unfolding xdr_sattr3_def by (intro codec_rules lib_ok fields_ok_done; simp add: sattr3.make_def)

lemma xdr_diropargs3_ok [codec_rules]: "codec_ok (xdr_diropargs3 lib)"
  unfolding xdr_diropargs3_def by (intro codec_rules lib_ok fields_ok_done; simp add: diropargs3.make_def)

lemma xdr_GETATTR3args_ok [codec_rules]: "codec_ok (xdr_GETATTR3args lib)"
  unfolding xdr_GETATTR3args_def by (intro codec_rules lib_ok)

lemma xdr_GETATTR3resok_ok [codec_rules]: "codec_ok (xdr_GETATTR3resok lib)"
  unfolding xdr_GETATTR3resok_def by (intro codec_rules lib_ok)

lemma xdr_GETATTR3res_ok [codec_rules]: "codec_ok (xdr_GETATTR3res lib)"
  unfolding xdr_GETATTR3res_def by (intro codec_rules lib_ok; auto split: GETATTR3res.splits)

lemma xdr_sattrguard3_ok [codec_rules]: "codec_ok (xdr_sattrguard3 lib)"
  unfolding xdr_sattrguard3_def by (intro codec_rules lib_ok; auto split: sattrguard3.splits)

lemma xdr_SETATTR3args_ok [codec_rules]: "codec_ok (xdr_SETATTR3args lib)"
  unfolding xdr_SETATTR3args_def by (intro codec_rules lib_ok fields_ok_done; simp add: SETATTR3args.make_def)

lemma xdr_SETATTR3resok_ok [codec_rules]: "codec_ok (xdr_SETATTR3resok lib)"
  unfolding xdr_SETATTR3resok_def by (intro codec_rules lib_ok)

lemma xdr_SETATTR3resfail_ok [codec_rules]: "codec_ok (xdr_SETATTR3resfail lib)"
  unfolding xdr_SETATTR3resfail_def by (intro codec_rules lib_ok)

lemma xdr_SETATTR3res_ok [codec_rules]: "codec_ok (xdr_SETATTR3res lib)"
  unfolding xdr_SETATTR3res_def by (intro codec_rules lib_ok; auto split: SETATTR3res.splits)

lemma xdr_LOOKUP3args_ok [codec_rules]: "codec_ok (xdr_LOOKUP3args lib)"
  unfolding xdr_LOOKUP3args_def by (intro codec_rules lib_ok)

lemma xdr_LOOKUP3resok_ok [codec_rules]: "codec_ok (xdr_LOOKUP3resok lib)"
  unfolding xdr_LOOKUP3resok_def by (intro codec_rules lib_ok fields_ok_done; simp add: LOOKUP3resok.make_def)

lemma xdr_LOOKUP3resfail_ok [codec_rules]: "codec_ok (xdr_LOOKUP3resfail lib)"
  unfolding xdr_LOOKUP3resfail_def by (intro codec_rules lib_ok)

lemma xdr_LOOKUP3res_ok [codec_rules]: "codec_ok (xdr_LOOKUP3res lib)"
  unfolding xdr_LOOKUP3res_def by (intro codec_rules lib_ok; auto split: LOOKUP3res.splits)

lemma xdr_ACCESS3args_ok [codec_rules]: "codec_ok (xdr_ACCESS3args lib)"
  unfolding xdr_ACCESS3args_def by (intro codec_rules lib_ok fields_ok_done; simp add: ACCESS3args.make_def)

lemma xdr_ACCESS3resok_ok [codec_rules]: "codec_ok (xdr_ACCESS3resok lib)"
  unfolding xdr_ACCESS3resok_def by (intro codec_rules lib_ok fields_ok_done; simp add: ACCESS3resok.make_def)

lemma xdr_ACCESS3resfail_ok [codec_rules]: "codec_ok (xdr_ACCESS3resfail lib)"
  unfolding xdr_ACCESS3resfail_def by (intro codec_rules lib_ok)

lemma xdr_ACCESS3res_ok [codec_rules]: "codec_ok (xdr_ACCESS3res lib)"
  unfolding xdr_ACCESS3res_def by (intro codec_rules lib_ok; auto split: ACCESS3res.splits)

lemma xdr_READLINK3args_ok [codec_rules]: "codec_ok (xdr_READLINK3args lib)"
  unfolding xdr_READLINK3args_def by (intro codec_rules lib_ok)

lemma xdr_READLINK3resok_ok [codec_rules]: "codec_ok (xdr_READLINK3resok lib)"
  unfolding xdr_READLINK3resok_def by (intro codec_rules lib_ok fields_ok_done; simp add: READLINK3resok.make_def)

lemma xdr_READLINK3resfail_ok [codec_rules]: "codec_ok (xdr_READLINK3resfail lib)"
  unfolding xdr_READLINK3resfail_def by (intro codec_rules lib_ok)

lemma xdr_READLINK3res_ok [codec_rules]: "codec_ok (xdr_READLINK3res lib)"
  unfolding xdr_READLINK3res_def by (intro codec_rules lib_ok; auto split: READLINK3res.splits)

lemma xdr_READ3args_ok [codec_rules]: "codec_ok (xdr_READ3args lib)"
  unfolding xdr_READ3args_def by (intro codec_rules lib_ok fields_ok_done; simp add: READ3args.make_def)

lemma xdr_READ3resok_ok [codec_rules]: "codec_ok (xdr_READ3resok lib)"
  unfolding xdr_READ3resok_def by (intro codec_rules lib_ok fields_ok_done; simp add: READ3resok.make_def)

lemma xdr_READ3resfail_ok [codec_rules]: "codec_ok (xdr_READ3resfail lib)"
  unfolding xdr_READ3resfail_def by (intro codec_rules lib_ok)

lemma xdr_READ3res_ok [codec_rules]: "codec_ok (xdr_READ3res lib)"
  unfolding xdr_READ3res_def by (intro codec_rules lib_ok; auto split: READ3res.splits)

lemma xdr_stable_how_ok [codec_rules]: "codec_ok (xdr_stable_how lib)"
  unfolding xdr_stable_how_def by (intro codec_rules lib_ok)

lemma xdr_WRITE3args_ok [codec_rules]: "codec_ok (xdr_WRITE3args lib)"
  unfolding xdr_WRITE3args_def by (intro codec_rules lib_ok fields_ok_done; simp add: WRITE3args.make_def)

lemma xdr_WRITE3resok_ok [codec_rules]: "codec_ok (xdr_WRITE3resok lib)"
  unfolding xdr_WRITE3resok_def by (intro codec_rules lib_ok fields_ok_done; simp add: WRITE3resok.make_def)

lemma xdr_WRITE3resfail_ok [codec_rules]: "codec_ok (xdr_WRITE3resfail lib)"
  unfolding xdr_WRITE3resfail_def by (intro codec_rules lib_ok)

lemma xdr_WRITE3res_ok [codec_rules]: "codec_ok (xdr_WRITE3res lib)"
  unfolding xdr_WRITE3res_def by (intro codec_rules lib_ok; auto split: WRITE3res.splits)

lemma xdr_createmode3_ok [codec_rules]: "codec_ok (xdr_createmode3 lib)"
  unfolding xdr_createmode3_def by (intro codec_rules lib_ok)

lemma xdr_createhow3_ok [codec_rules]: "codec_ok (xdr_createhow3 lib)"
  unfolding xdr_createhow3_def by (intro codec_rules lib_ok; auto split: createhow3.splits)

lemma xdr_CREATE3args_ok [codec_rules]: "codec_ok (xdr_CREATE3args lib)"
  unfolding xdr_CREATE3args_def by (intro codec_rules lib_ok fields_ok_done; simp add: CREATE3args.make_def)

lemma xdr_CREATE3resok_ok [codec_rules]: "codec_ok (xdr_CREATE3resok lib)"
  unfolding xdr_CREATE3resok_def by (intro codec_rules lib_ok fields_ok_done; simp add: CREATE3resok.make_def)

lemma xdr_CREATE3resfail_ok [codec_rules]: "codec_ok (xdr_CREATE3resfail lib)"
  unfolding xdr_CREATE3resfail_def by (intro codec_rules lib_ok)

lemma xdr_CREATE3res_ok [codec_rules]: "codec_ok (xdr_CREATE3res lib)"
  unfolding xdr_CREATE3res_def by (intro codec_rules lib_ok; auto split: CREATE3res.splits)

lemma xdr_MKDIR3args_ok [codec_rules]: "codec_ok (xdr_MKDIR3args lib)"
  unfolding xdr_MKDIR3args_def by (intro codec_rules lib_ok fields_ok_done; simp add: MKDIR3args.make_def)

lemma xdr_MKDIR3resok_ok [codec_rules]: "codec_ok (xdr_MKDIR3resok lib)"
  unfolding xdr_MKDIR3resok_def by (intro codec_rules lib_ok fields_ok_done; simp add: MKDIR3resok.make_def)

lemma xdr_MKDIR3resfail_ok [codec_rules]: "codec_ok (xdr_MKDIR3resfail lib)"
  unfolding xdr_MKDIR3resfail_def by (intro codec_rules lib_ok)

lemma xdr_MKDIR3res_ok [codec_rules]: "codec_ok (xdr_MKDIR3res lib)"
  unfolding xdr_MKDIR3res_def by (intro codec_rules lib_ok; auto split: MKDIR3res.splits)

lemma xdr_symlinkdata3_ok [codec_rules]: "codec_ok (xdr_symlinkdata3 lib)"
  unfolding xdr_symlinkdata3_def by (intro codec_rules lib_ok fields_ok_done; simp add: symlinkdata3.make_def)

lemma xdr_SYMLINK3args_ok [codec_rules]: "codec_ok (xdr_SYMLINK3args lib)"
  unfolding xdr_SYMLINK3args_def by (intro codec_rules lib_ok fields_ok_done; simp add: SYMLINK3args.make_def)

lemma xdr_SYMLINK3resok_ok [codec_rules]: "codec_ok (xdr_SYMLINK3resok lib)"
  unfolding xdr_SYMLINK3resok_def by (intro codec_rules lib_ok fields_ok_done; simp add: SYMLINK3resok.make_def)

lemma xdr_SYMLINK3resfail_ok [codec_rules]: "codec_ok (xdr_SYMLINK3resfail lib)"
  unfolding xdr_SYMLINK3resfail_def by (intro codec_rules lib_ok)

lemma xdr_SYMLINK3res_ok [codec_rules]: "codec_ok (xdr_SYMLINK3res lib)"
  unfolding xdr_SYMLINK3res_def by (intro codec_rules lib_ok; auto split: SYMLINK3res.splits)

lemma xdr_devicedata3_ok [codec_rules]: "codec_ok (xdr_devicedata3 lib)"
  unfolding xdr_devicedata3_def by (intro codec_rules lib_ok fields_ok_done; simp add: devicedata3.make_def)

lemma xdr_mknoddata3_ok [codec_rules]: "codec_ok (xdr_mknoddata3 lib)"
  unfolding xdr_mknoddata3_def by (intro codec_rules lib_ok; auto split: mknoddata3.splits)

lemma xdr_MKNOD3args_ok [codec_rules]: "codec_ok (xdr_MKNOD3args lib)"
  unfolding xdr_MKNOD3args_def by (intro codec_rules lib_ok fields_ok_done; simp add: MKNOD3args.make_def)

lemma xdr_MKNOD3resok_ok [codec_rules]: "codec_ok (xdr_MKNOD3resok lib)"
  unfolding xdr_MKNOD3resok_def by (intro codec_rules lib_ok fields_ok_done; simp add: MKNOD3resok.make_def)

lemma xdr_MKNOD3resfail_ok [codec_rules]: "codec_ok (xdr_MKNOD3resfail lib)"
  unfolding xdr_MKNOD3resfail_def by (intro codec_rules lib_ok)

lemma xdr_MKNOD3res_ok [codec_rules]: "codec_ok (xdr_MKNOD3res lib)"
  unfolding xdr_MKNOD3res_def by (intro codec_rules lib_ok; auto split: MKNOD3res.splits)

lemma xdr_REMOVE3args_ok [codec_rules]: "codec_ok (xdr_REMOVE3args lib)"
  unfolding xdr_REMOVE3args_def by (intro codec_rules lib_ok)

lemma xdr_REMOVE3resok_ok [codec_rules]: "codec_ok (xdr_REMOVE3resok lib)"
  unfolding xdr_REMOVE3resok_def by (intro codec_rules lib_ok)

lemma xdr_REMOVE3resfail_ok [codec_rules]: "codec_ok (xdr_REMOVE3resfail lib)"
  unfolding xdr_REMOVE3resfail_def by (intro codec_rules lib_ok)

lemma xdr_REMOVE3res_ok [codec_rules]: "codec_ok (xdr_REMOVE3res lib)"
  unfolding xdr_REMOVE3res_def by (intro codec_rules lib_ok; auto split: REMOVE3res.splits)

lemma xdr_RMDIR3args_ok [codec_rules]: "codec_ok (xdr_RMDIR3args lib)"
  unfolding xdr_RMDIR3args_def by (intro codec_rules lib_ok)

lemma xdr_RMDIR3resok_ok [codec_rules]: "codec_ok (xdr_RMDIR3resok lib)"
  unfolding xdr_RMDIR3resok_def by (intro codec_rules lib_ok)

lemma xdr_RMDIR3resfail_ok [codec_rules]: "codec_ok (xdr_RMDIR3resfail lib)"
  unfolding xdr_RMDIR3resfail_def by (intro codec_rules lib_ok)

lemma xdr_RMDIR3res_ok [codec_rules]: "codec_ok (xdr_RMDIR3res lib)"
  unfolding xdr_RMDIR3res_def by (intro codec_rules lib_ok; auto split: RMDIR3res.splits)

lemma xdr_RENAME3args_ok [codec_rules]: "codec_ok (xdr_RENAME3args lib)"
  unfolding xdr_RENAME3args_def by (intro codec_rules lib_ok fields_ok_done; simp add: RENAME3args.make_def)

lemma xdr_RENAME3resok_ok [codec_rules]: "codec_ok (xdr_RENAME3resok lib)"
  unfolding xdr_RENAME3resok_def by (intro codec_rules lib_ok fields_ok_done; simp add: RENAME3resok.make_def)

lemma xdr_RENAME3resfail_ok [codec_rules]: "codec_ok (xdr_RENAME3resfail lib)"
  unfolding xdr_RENAME3resfail_def by (intro codec_rules lib_ok fields_ok_done; simp add: RENAME3resfail.make_def)

lemma xdr_RENAME3res_ok [codec_rules]: "codec_ok (xdr_RENAME3res lib)"
  unfolding xdr_RENAME3res_def by (intro codec_rules lib_ok; auto split: RENAME3res.splits)

lemma xdr_LINK3args_ok [codec_rules]: "codec_ok (xdr_LINK3args lib)"
  unfolding xdr_LINK3args_def by (intro codec_rules lib_ok fields_ok_done; simp add: LINK3args.make_def)

lemma xdr_LINK3resok_ok [codec_rules]: "codec_ok (xdr_LINK3resok lib)"
  unfolding xdr_LINK3resok_def by (intro codec_rules lib_ok fields_ok_done; simp add: LINK3resok.make_def)

lemma xdr_LINK3resfail_ok [codec_rules]: "codec_ok (xdr_LINK3resfail lib)"
  unfolding xdr_LINK3resfail_def by (intro codec_rules lib_ok fields_ok_done; simp add: LINK3resfail.make_def)

lemma xdr_LINK3res_ok [codec_rules]: "codec_ok (xdr_LINK3res lib)"
  unfolding xdr_LINK3res_def by (intro codec_rules lib_ok; auto split: LINK3res.splits)

lemma xdr_READDIR3args_ok [codec_rules]: "codec_ok (xdr_READDIR3args lib)"
  unfolding xdr_READDIR3args_def by (intro codec_rules lib_ok fields_ok_done; simp add: READDIR3args.make_def)

lemma xdr_entry3_ok [codec_rules]: "codec_ok (xdr_entry3 lib)"
  unfolding xdr_entry3_def by (intro codec_rules lib_ok fields_ok_done; simp add: entry3.make_def)

lemma xdr_dirlist3_ok [codec_rules]: "codec_ok (xdr_dirlist3 lib)"
  unfolding xdr_dirlist3_def by (intro codec_rules lib_ok fields_ok_done; simp add: dirlist3.make_def)

lemma xdr_READDIR3resok_ok [codec_rules]: "codec_ok (xdr_READDIR3resok lib)"
  unfolding xdr_READDIR3resok_def by (intro codec_rules lib_ok fields_ok_done; simp add: READDIR3resok.make_def)

lemma xdr_READDIR3resfail_ok [codec_rules]: "codec_ok (xdr_READDIR3resfail lib)"
  unfolding xdr_READDIR3resfail_def by (intro codec_rules lib_ok)

lemma xdr_READDIR3res_ok [codec_rules]: "codec_ok (xdr_READDIR3res lib)"
  unfolding xdr_READDIR3res_def by (intro codec_rules lib_ok; auto split: READDIR3res.splits)

lemma xdr_READDIRPLUS3args_ok [codec_rules]: "codec_ok (xdr_READDIRPLUS3args lib)"
  unfolding xdr_READDIRPLUS3args_def by (intro codec_rules lib_ok fields_ok_done; simp add: READDIRPLUS3args.make_def)

lemma xdr_entryplus3_ok [codec_rules]: "codec_ok (xdr_entryplus3 lib)"
  unfolding xdr_entryplus3_def by (intro codec_rules lib_ok fields_ok_done; simp add: entryplus3.make_def)

lemma xdr_dirlistplus3_ok [codec_rules]: "codec_ok (xdr_dirlistplus3 lib)"
  unfolding xdr_dirlistplus3_def by (intro codec_rules lib_ok fields_ok_done; simp add: dirlistplus3.make_def)

lemma xdr_READDIRPLUS3resok_ok [codec_rules]: "codec_ok (xdr_READDIRPLUS3resok lib)"
  unfolding xdr_READDIRPLUS3resok_def by (intro codec_rules lib_ok fields_ok_done; simp add: READDIRPLUS3resok.make_def)

lemma xdr_READDIRPLUS3resfail_ok [codec_rules]: "codec_ok (xdr_READDIRPLUS3resfail lib)"
  unfolding xdr_READDIRPLUS3resfail_def by (intro codec_rules lib_ok)

lemma xdr_READDIRPLUS3res_ok [codec_rules]: "codec_ok (xdr_READDIRPLUS3res lib)"
  unfolding xdr_READDIRPLUS3res_def by (intro codec_rules lib_ok; auto split: READDIRPLUS3res.splits)

lemma xdr_FSSTAT3args_ok [codec_rules]: "codec_ok (xdr_FSSTAT3args lib)"
  unfolding xdr_FSSTAT3args_def by (intro codec_rules lib_ok)

lemma xdr_FSSTAT3resok_ok [codec_rules]: "codec_ok (xdr_FSSTAT3resok lib)"
  unfolding xdr_FSSTAT3resok_def by (intro codec_rules lib_ok fields_ok_done; simp add: FSSTAT3resok.make_def)

lemma xdr_FSSTAT3resfail_ok [codec_rules]: "codec_ok (xdr_FSSTAT3resfail lib)"
  unfolding xdr_FSSTAT3resfail_def by (intro codec_rules lib_ok)

lemma xdr_FSSTAT3res_ok [codec_rules]: "codec_ok (xdr_FSSTAT3res lib)"
  unfolding xdr_FSSTAT3res_def by (intro codec_rules lib_ok; auto split: FSSTAT3res.splits)

lemma xdr_FSINFO3args_ok [codec_rules]: "codec_ok (xdr_FSINFO3args lib)"
  unfolding xdr_FSINFO3args_def by (intro codec_rules lib_ok)

lemma xdr_FSINFO3resok_ok [codec_rules]: "codec_ok (xdr_FSINFO3resok lib)"
  unfolding xdr_FSINFO3resok_def by (intro codec_rules lib_ok fields_ok_done; simp add: FSINFO3resok.make_def)

lemma xdr_FSINFO3resfail_ok [codec_rules]: "codec_ok (xdr_FSINFO3resfail lib)"
  unfolding xdr_FSINFO3resfail_def by (intro codec_rules lib_ok)

lemma xdr_FSINFO3res_ok [codec_rules]: "codec_ok (xdr_FSINFO3res lib)"
  unfolding xdr_FSINFO3res_def by (intro codec_rules lib_ok; auto split: FSINFO3res.splits)

lemma xdr_PATHCONF3args_ok [codec_rules]: "codec_ok (xdr_PATHCONF3args lib)"
  unfolding xdr_PATHCONF3args_def by (intro codec_rules lib_ok)

lemma xdr_PATHCONF3resok_ok [codec_rules]: "codec_ok (xdr_PATHCONF3resok lib)"
  unfolding xdr_PATHCONF3resok_def by (intro codec_rules lib_ok fields_ok_done; simp add: PATHCONF3resok.make_def)

lemma xdr_PATHCONF3resfail_ok [codec_rules]: "codec_ok (xdr_PATHCONF3resfail lib)"
  unfolding xdr_PATHCONF3resfail_def by (intro codec_rules lib_ok)

lemma xdr_PATHCONF3res_ok [codec_rules]: "codec_ok (xdr_PATHCONF3res lib)"
  unfolding xdr_PATHCONF3res_def by (intro codec_rules lib_ok; auto split: PATHCONF3res.splits)

lemma xdr_COMMIT3args_ok [codec_rules]: "codec_ok (xdr_COMMIT3args lib)"
  unfolding xdr_COMMIT3args_def by (intro codec_rules lib_ok fields_ok_done; simp add: COMMIT3args.make_def)

lemma xdr_COMMIT3resok_ok [codec_rules]: "codec_ok (xdr_COMMIT3resok lib)"
  unfolding xdr_COMMIT3resok_def by (intro codec_rules lib_ok fields_ok_done; simp add: COMMIT3resok.make_def)

lemma xdr_COMMIT3resfail_ok [codec_rules]: "codec_ok (xdr_COMMIT3resfail lib)"
  unfolding xdr_COMMIT3resfail_def by (intro codec_rules lib_ok)

lemma xdr_COMMIT3res_ok [codec_rules]: "codec_ok (xdr_COMMIT3res lib)"
  unfolding xdr_COMMIT3res_def by (intro codec_rules lib_ok; auto split: COMMIT3res.splits)

end

context quiet_library
begin

lemma xdr_nfs3_uint64_quiet [quiet_rules]: "quiet (xdr_nfs3_uint64 lib)"
  unfolding xdr_nfs3_uint64_def by (intro quiet_rules lib_quiet)

lemma xdr_nfs3_uint32_quiet [quiet_rules]: "quiet (xdr_nfs3_uint32 lib)"
  unfolding xdr_nfs3_uint32_def by (intro quiet_rules lib_quiet)

lemma xdr_filename3_quiet [quiet_rules]: "quiet (xdr_filename3 lib)"
  unfolding xdr_filename3_def by (intro quiet_rules lib_quiet)

lemma xdr_nfspath3_quiet [quiet_rules]: "quiet (xdr_nfspath3 lib)"
  unfolding xdr_nfspath3_def by (intro quiet_rules lib_quiet)

lemma xdr_fileid3_quiet [quiet_rules]: "quiet (xdr_fileid3 lib)"
  unfolding xdr_fileid3_def by (intro quiet_rules lib_quiet)

lemma xdr_cookie3_quiet [quiet_rules]: "quiet (xdr_cookie3 lib)"
  unfolding xdr_cookie3_def by (intro quiet_rules lib_quiet)

lemma xdr_cookieverf3_quiet [quiet_rules]: "quiet (xdr_cookieverf3 lib)"
  unfolding xdr_cookieverf3_def by (intro quiet_rules lib_quiet)

lemma xdr_createverf3_quiet [quiet_rules]: "quiet (xdr_createverf3 lib)"
  unfolding xdr_createverf3_def by (intro quiet_rules lib_quiet)

lemma xdr_writeverf3_quiet [quiet_rules]: "quiet (xdr_writeverf3 lib)"
  unfolding xdr_writeverf3_def by (intro quiet_rules lib_quiet)

lemma xdr_uid3_quiet [quiet_rules]: "quiet (xdr_uid3 lib)"
  unfolding xdr_uid3_def by (intro quiet_rules lib_quiet)

lemma xdr_gid3_quiet [quiet_rules]: "quiet (xdr_gid3 lib)"
  unfolding xdr_gid3_def by (intro quiet_rules lib_quiet)

lemma xdr_size3_quiet [quiet_rules]: "quiet (xdr_size3 lib)"
  unfolding xdr_size3_def by (intro quiet_rules lib_quiet)

lemma xdr_offset3_quiet [quiet_rules]: "quiet (xdr_offset3 lib)"
  unfolding xdr_offset3_def by (intro quiet_rules lib_quiet)

lemma xdr_mode3_quiet [quiet_rules]: "quiet (xdr_mode3 lib)"
  unfolding xdr_mode3_def by (intro quiet_rules lib_quiet)

lemma xdr_count3_quiet [quiet_rules]: "quiet (xdr_count3 lib)"
  unfolding xdr_count3_def by (intro quiet_rules lib_quiet)

lemma xdr_nfsstat3_quiet [quiet_rules]: "quiet (xdr_nfsstat3 lib)"
  unfolding xdr_nfsstat3_def by (intro quiet_rules lib_quiet)

lemma xdr_ftype3_quiet [quiet_rules]: "quiet (xdr_ftype3 lib)"
  unfolding xdr_ftype3_def by (intro quiet_rules lib_quiet)

lemma xdr_specdata3_quiet [quiet_rules]: "quiet (xdr_specdata3 lib)"
  unfolding xdr_specdata3_def by (intro quiet_rules lib_quiet)

lemma xdr_nfs_fh3_quiet [quiet_rules]: "quiet (xdr_nfs_fh3 lib)"
  unfolding xdr_nfs_fh3_def by (intro quiet_rules lib_quiet)

lemma xdr_nfstime3_quiet [quiet_rules]: "quiet (xdr_nfstime3 lib)"
  unfolding xdr_nfstime3_def by (intro quiet_rules lib_quiet)

lemma xdr_fattr3_quiet [quiet_rules]: "quiet (xdr_fattr3 lib)"
  unfolding xdr_fattr3_def by (intro quiet_rules lib_quiet)

lemma xdr_post_op_attr_quiet [quiet_rules]: "quiet (xdr_post_op_attr lib)"
  unfolding xdr_post_op_attr_def by (intro quiet_rules lib_quiet)

lemma xdr_wcc_attr_quiet [quiet_rules]: "quiet (xdr_wcc_attr lib)"
  unfolding xdr_wcc_attr_def by (intro quiet_rules lib_quiet)

lemma xdr_pre_op_attr_quiet [quiet_rules]: "quiet (xdr_pre_op_attr lib)"
  unfolding xdr_pre_op_attr_def by (intro quiet_rules lib_quiet)

lemma xdr_wcc_data_quiet [quiet_rules]: "quiet (xdr_wcc_data lib)"
  unfolding xdr_wcc_data_def by (intro quiet_rules lib_quiet)

lemma xdr_post_op_fh3_quiet [quiet_rules]: "quiet (xdr_post_op_fh3 lib)"
  unfolding xdr_post_op_fh3_def by (intro quiet_rules lib_quiet)

lemma xdr_time_how_quiet [quiet_rules]: "quiet (xdr_time_how lib)"
  unfolding xdr_time_how_def by (intro quiet_rules lib_quiet)

lemma xdr_set_mode3_quiet [quiet_rules]: "quiet (xdr_set_mode3 lib)"
  unfolding xdr_set_mode3_def by (intro quiet_rules lib_quiet)

lemma xdr_set_uid3_quiet [quiet_rules]: "quiet (xdr_set_uid3 lib)"
  unfolding xdr_set_uid3_def by (intro quiet_rules lib_quiet)

lemma xdr_set_gid3_quiet [quiet_rules]: "quiet (xdr_set_gid3 lib)"
  unfolding xdr_set_gid3_def by (intro quiet_rules lib_quiet)

lemma xdr_set_size3_quiet [quiet_rules]: "quiet (xdr_set_size3 lib)"
  unfolding xdr_set_size3_def by (intro quiet_rules lib_quiet)

lemma xdr_set_atime_quiet [quiet_rules]: "quiet (xdr_set_atime lib)"
  unfolding xdr_set_atime_def by (intro quiet_rules lib_quiet)

lemma xdr_set_mtime_quiet [quiet_rules]: "quiet (xdr_set_mtime lib)"
  unfolding xdr_set_mtime_def by (intro quiet_rules lib_quiet)

lemma xdr_sattr3_quiet [quiet_rules]: "quiet (xdr_sattr3 lib)"
  unfolding xdr_sattr3_def by (intro quiet_rules lib_quiet)

lemma xdr_diropargs3_quiet [quiet_rules]: "quiet (xdr_diropargs3 lib)"
  unfolding xdr_diropargs3_def by (intro quiet_rules lib_quiet)

lemma xdr_GETATTR3args_quiet [quiet_rules]: "quiet (xdr_GETATTR3args lib)"
  unfolding xdr_GETATTR3args_def by (intro quiet_rules lib_quiet)

lemma xdr_GETATTR3resok_quiet [quiet_rules]: "quiet (xdr_GETATTR3resok lib)"
  unfolding xdr_GETATTR3resok_def by (intro quiet_rules lib_quiet)

lemma xdr_GETATTR3res_quiet [quiet_rules]: "quiet (xdr_GETATTR3res lib)"
  unfolding xdr_GETATTR3res_def by (intro quiet_rules lib_quiet)

lemma xdr_sattrguard3_quiet [quiet_rules]: "quiet (xdr_sattrguard3 lib)"
  unfolding xdr_sattrguard3_def by (intro quiet_rules lib_quiet)

lemma xdr_SETATTR3args_quiet [quiet_rules]: "quiet (xdr_SETATTR3args lib)"
  unfolding xdr_SETATTR3args_def by (intro quiet_rules lib_quiet)

lemma xdr_SETATTR3resok_quiet [quiet_rules]: "quiet (xdr_SETATTR3resok lib)"
  unfolding xdr_SETATTR3resok_def by (intro quiet_rules lib_quiet)

lemma xdr_SETATTR3resfail_quiet [quiet_rules]: "quiet (xdr_SETATTR3resfail lib)"
  unfolding xdr_SETATTR3resfail_def by (intro quiet_rules lib_quiet)

lemma xdr_SETATTR3res_quiet [quiet_rules]: "quiet (xdr_SETATTR3res lib)"
  unfolding xdr_SETATTR3res_def by (intro quiet_rules lib_quiet)

lemma xdr_LOOKUP3args_quiet [quiet_rules]: "quiet (xdr_LOOKUP3args lib)"
  unfolding xdr_LOOKUP3args_def by (intro quiet_rules lib_quiet)

lemma xdr_LOOKUP3resok_quiet [quiet_rules]: "quiet (xdr_LOOKUP3resok lib)"
  unfolding xdr_LOOKUP3resok_def by (intro quiet_rules lib_quiet)

lemma xdr_LOOKUP3resfail_quiet [quiet_rules]: "quiet (xdr_LOOKUP3resfail lib)"
  unfolding xdr_LOOKUP3resfail_def by (intro quiet_rules lib_quiet)

lemma xdr_LOOKUP3res_quiet [quiet_rules]: "quiet (xdr_LOOKUP3res lib)"
  unfolding xdr_LOOKUP3res_def by (intro quiet_rules lib_quiet)

lemma xdr_ACCESS3args_quiet [quiet_rules]: "quiet (xdr_ACCESS3args lib)"
  unfolding xdr_ACCESS3args_def by (intro quiet_rules lib_quiet)

lemma xdr_ACCESS3resok_quiet [quiet_rules]: "quiet (xdr_ACCESS3resok lib)"
  unfolding xdr_ACCESS3resok_def by (intro quiet_rules lib_quiet)

lemma xdr_ACCESS3resfail_quiet [quiet_rules]: "quiet (xdr_ACCESS3resfail lib)"
  unfolding xdr_ACCESS3resfail_def by (intro quiet_rules lib_quiet)

lemma xdr_ACCESS3res_quiet [quiet_rules]: "quiet (xdr_ACCESS3res lib)"
  unfolding xdr_ACCESS3res_def by (intro quiet_rules lib_quiet)

lemma xdr_READLINK3args_quiet [quiet_rules]: "quiet (xdr_READLINK3args lib)"
  unfolding xdr_READLINK3args_def by (intro quiet_rules lib_quiet)

lemma xdr_READLINK3resok_quiet [quiet_rules]: "quiet (xdr_READLINK3resok lib)"
  unfolding xdr_READLINK3resok_def by (intro quiet_rules lib_quiet)

lemma xdr_READLINK3resfail_quiet [quiet_rules]: "quiet (xdr_READLINK3resfail lib)"
  unfolding xdr_READLINK3resfail_def by (intro quiet_rules lib_quiet)

lemma xdr_READLINK3res_quiet [quiet_rules]: "quiet (xdr_READLINK3res lib)"
  unfolding xdr_READLINK3res_def by (intro quiet_rules lib_quiet)

lemma xdr_READ3args_marks: "marks (\<lambda>l. l\<lparr>lk_flags := NFS_LOOKAHEAD_READ, lk_read := lk_read l + 1\<rparr>) (xdr_READ3args lib)"
  unfolding xdr_READ3args_def by (intro marks_mark quiet_rules lib_quiet)

lemma xdr_READ3resok_quiet [quiet_rules]: "quiet (xdr_READ3resok lib)"
  unfolding xdr_READ3resok_def by (intro quiet_rules lib_quiet)

lemma xdr_READ3resfail_quiet [quiet_rules]: "quiet (xdr_READ3resfail lib)"
  unfolding xdr_READ3resfail_def by (intro quiet_rules lib_quiet)

lemma xdr_READ3res_quiet [quiet_rules]: "quiet (xdr_READ3res lib)"
  unfolding xdr_READ3res_def by (intro quiet_rules lib_quiet)

lemma xdr_stable_how_quiet [quiet_rules]: "quiet (xdr_stable_how lib)"
  unfolding xdr_stable_how_def by (intro quiet_rules lib_quiet)

lemma xdr_WRITE3args_marks: "marks (\<lambda>l. l\<lparr>lk_flags := lk_flags l OR NFS_LOOKAHEAD_WRITE, lk_write := lk_write l + 1\<rparr>) (xdr_WRITE3args lib)"
  unfolding xdr_WRITE3args_def by (intro marks_mark quiet_rules lib_quiet)

lemma xdr_WRITE3resok_quiet [quiet_rules]: "quiet (xdr_WRITE3resok lib)"
  unfolding xdr_WRITE3resok_def by (intro quiet_rules lib_quiet)

lemma xdr_WRITE3resfail_quiet [quiet_rules]: "quiet (xdr_WRITE3resfail lib)"
  unfolding xdr_WRITE3resfail_def by (intro quiet_rules lib_quiet)

lemma xdr_WRITE3res_quiet [quiet_rules]: "quiet (xdr_WRITE3res lib)"
  unfolding xdr_WRITE3res_def by (intro quiet_rules lib_quiet)

lemma xdr_createmode3_quiet [quiet_rules]: "quiet (xdr_createmode3 lib)"
  unfolding xdr_createmode3_def by (intro quiet_rules lib_quiet)

lemma xdr_createhow3_quiet [quiet_rules]: "quiet (xdr_createhow3 lib)"
  unfolding xdr_createhow3_def by (intro quiet_rules lib_quiet)

lemma xdr_CREATE3args_marks: "marks (\<lambda>l. l\<lparr>lk_flags := lk_flags l OR NFS_LOOKAHEAD_CREATE\<rparr>) (xdr_CREATE3args lib)"
  unfolding xdr_CREATE3args_def by (intro marks_mark quiet_rules lib_quiet)

lemma xdr_CREATE3resok_quiet [quiet_rules]: "quiet (xdr_CREATE3resok lib)"
  unfolding xdr_CREATE3resok_def by (intro quiet_rules lib_quiet)

lemma xdr_CREATE3resfail_quiet [quiet_rules]: "quiet (xdr_CREATE3resfail lib)"
  unfolding xdr_CREATE3resfail_def by (intro quiet_rules lib_quiet)

lemma xdr_CREATE3res_quiet [quiet_rules]: "quiet (xdr_CREATE3res lib)"
  unfolding xdr_CREATE3res_def by (intro quiet_rules lib_quiet)

lemma xdr_MKDIR3args_quiet [quiet_rules]: "quiet (xdr_MKDIR3args lib)"
  unfolding xdr_MKDIR3args_def by (intro quiet_rules lib_quiet)

lemma xdr_MKDIR3resok_quiet [quiet_rules]: "quiet (xdr_MKDIR3resok lib)"
  unfolding xdr_MKDIR3resok_def by (intro quiet_rules lib_quiet)

lemma xdr_MKDIR3resfail_quiet [quiet_rules]: "quiet (xdr_MKDIR3resfail lib)"
  unfolding xdr_MKDIR3resfail_def by (intro quiet_rules lib_quiet)

lemma xdr_MKDIR3res_quiet [quiet_rules]: "quiet (xdr_MKDIR3res lib)"
  unfolding xdr_MKDIR3res_def by (intro quiet_rules lib_quiet)

lemma xdr_symlinkdata3_quiet [quiet_rules]: "quiet (xdr_symlinkdata3 lib)"
  unfolding xdr_symlinkdata3_def by (intro quiet_rules lib_quiet)

lemma xdr_SYMLINK3args_quiet [quiet_rules]: "quiet (xdr_SYMLINK3args lib)"
  unfolding xdr_SYMLINK3args_def by (intro quiet_rules lib_quiet)

lemma xdr_SYMLINK3resok_quiet [quiet_rules]: "quiet (xdr_SYMLINK3resok lib)"
  unfolding xdr_SYMLINK3resok_def by (intro quiet_rules lib_quiet)

lemma xdr_SYMLINK3resfail_quiet [quiet_rules]: "quiet (xdr_SYMLINK3resfail lib)"
  unfolding xdr_SYMLINK3resfail_def by (intro quiet_rules lib_quiet)

lemma xdr_SYMLINK3res_quiet [quiet_rules]: "quiet (xdr_SYMLINK3res lib)"
  unfolding xdr_SYMLINK3res_def by (intro quiet_rules lib_quiet)

lemma xdr_devicedata3_quiet [quiet_rules]: "quiet (xdr_devicedata3 lib)"
  unfolding xdr_devicedata3_def by (intro quiet_rules lib_quiet)

lemma xdr_mknoddata3_quiet [quiet_rules]: "quiet (xdr_mknoddata3 lib)"
  unfolding xdr_mknoddata3_def by (intro quiet_rules lib_quiet)

lemma xdr_MKNOD3args_quiet [quiet_rules]: "quiet (xdr_MKNOD3args lib)"
  unfolding xdr_MKNOD3args_def by (intro quiet_rules lib_quiet)

lemma xdr_MKNOD3resok_quiet [quiet_rules]: "quiet (xdr_MKNOD3resok lib)"
  unfolding xdr_MKNOD3resok_def by (intro quiet_rules lib_quiet)

lemma xdr_MKNOD3resfail_quiet [quiet_rules]: "quiet (xdr_MKNOD3resfail lib)"
  unfolding xdr_MKNOD3resfail_def by (intro quiet_rules lib_quiet)

lemma xdr_MKNOD3res_quiet [quiet_rules]: "quiet (xdr_MKNOD3res lib)"
  unfolding xdr_MKNOD3res_def by (intro quiet_rules lib_quiet)

lemma xdr_REMOVE3args_marks: "marks (\<lambda>l. l\<lparr>lk_flags := lk_flags l OR NFS_LOOKAHEAD_REMOVE\<rparr>) (xdr_REMOVE3args lib)"
  unfolding xdr_REMOVE3args_def by (intro marks_mark quiet_rules lib_quiet)

lemma xdr_REMOVE3resok_quiet [quiet_rules]: "quiet (xdr_REMOVE3resok lib)"
  unfolding xdr_REMOVE3resok_def by (intro quiet_rules lib_quiet)

lemma xdr_REMOVE3resfail_quiet [quiet_rules]: "quiet (xdr_REMOVE3resfail lib)"
  unfolding xdr_REMOVE3resfail_def by (intro quiet_rules lib_quiet)

lemma xdr_REMOVE3res_quiet [quiet_rules]: "quiet (xdr_REMOVE3res lib)"
  unfolding xdr_REMOVE3res_def by (intro quiet_rules lib_quiet)

lemma xdr_RMDIR3args_quiet [quiet_rules]: "quiet (xdr_RMDIR3args lib)"
  unfolding xdr_RMDIR3args_def by (intro quiet_rules lib_quiet)

lemma xdr_RMDIR3resok_quiet [quiet_rules]: "quiet (xdr_RMDIR3resok lib)"
  unfolding xdr_RMDIR3resok_def by (intro quiet_rules lib_quiet)

lemma xdr_RMDIR3resfail_quiet [quiet_rules]: "quiet (xdr_RMDIR3resfail lib)"
  unfolding xdr_RMDIR3resfail_def by (intro quiet_rules lib_quiet)

lemma xdr_RMDIR3res_quiet [quiet_rules]: "quiet (xdr_RMDIR3res lib)"
  unfolding xdr_RMDIR3res_def by (intro quiet_rules lib_quiet)

lemma xdr_RENAME3args_marks: "marks (\<lambda>l. l\<lparr>lk_flags := lk_flags l OR NFS_LOOKAHEAD_RENAME\<rparr>) (xdr_RENAME3args lib)"
  unfolding xdr_RENAME3args_def by (intro marks_mark quiet_rules lib_quiet)

lemma xdr_RENAME3resok_quiet [quiet_rules]: "quiet (xdr_RENAME3resok lib)"
  unfolding xdr_RENAME3resok_def by (intro quiet_rules lib_quiet)

lemma xdr_RENAME3resfail_quiet [quiet_rules]: "quiet (xdr_RENAME3resfail lib)"
  unfolding xdr_RENAME3resfail_def by (intro quiet_rules lib_quiet)

lemma xdr_RENAME3res_quiet [quiet_rules]: "quiet (xdr_RENAME3res lib)"
  unfolding xdr_RENAME3res_def by (intro quiet_rules lib_quiet)

lemma xdr_LINK3args_quiet [quiet_rules]: "quiet (xdr_LINK3args lib)"
  unfolding xdr_LINK3args_def by (intro quiet_rules lib_quiet)

lemma xdr_LINK3resok_quiet [quiet_rules]: "quiet (xdr_LINK3resok lib)"
  unfolding xdr_LINK3resok_def by (intro quiet_rules lib_quiet)

lemma xdr_LINK3resfail_quiet [quiet_rules]: "quiet (xdr_LINK3resfail lib)"
  unfolding xdr_LINK3resfail_def by (intro quiet_rules lib_quiet)

lemma xdr_LINK3res_quiet [quiet_rules]: "quiet (xdr_LINK3res lib)"
  unfolding xdr_LINK3res_def by (intro quiet_rules lib_quiet)

lemma xdr_READDIR3args_marks: "marks (\<lambda>l. l\<lparr>lk_flags := lk_flags l OR NFS_LOOKAHEAD_READDIR\<rparr>) (xdr_READDIR3args lib)"
  unfolding xdr_READDIR3args_def by (intro marks_mark quiet_rules lib_quiet)

lemma xdr_entry3_quiet [quiet_rules]: "quiet (xdr_entry3 lib)"
  unfolding xdr_entry3_def by (intro quiet_rules lib_quiet)

lemma xdr_dirlist3_quiet [quiet_rules]: "quiet (xdr_dirlist3 lib)"
  unfolding xdr_dirlist3_def by (intro quiet_rules lib_quiet)

lemma xdr_READDIR3resok_quiet [quiet_rules]: "quiet (xdr_READDIR3resok lib)"
  unfolding xdr_READDIR3resok_def by (intro quiet_rules lib_quiet)

lemma xdr_READDIR3resfail_quiet [quiet_rules]: "quiet (xdr_READDIR3resfail lib)"
  unfolding xdr_READDIR3resfail_def by (intro quiet_rules lib_quiet)

lemma xdr_READDIR3res_quiet [quiet_rules]: "quiet (xdr_READDIR3res lib)"
  unfolding xdr_READDIR3res_def by (intro quiet_rules lib_quiet)

lemma xdr_READDIRPLUS3args_marks: "marks (\<lambda>l. l\<lparr>lk_flags := lk_flags l OR NFS_LOOKAHEAD_READDIR\<rparr>) (xdr_READDIRPLUS3args lib)"
  unfolding xdr_READDIRPLUS3args_def by (intro marks_mark quiet_rules lib_quiet)

lemma xdr_entryplus3_quiet [quiet_rules]: "quiet (xdr_entryplus3 lib)"
  unfolding xdr_entryplus3_def by (intro quiet_rules lib_quiet)

lemma xdr_dirlistplus3_quiet [quiet_rules]: "quiet (xdr_dirlistplus3 lib)"
  unfolding xdr_dirlistplus3_def by (intro quiet_rules lib_quiet)

lemma xdr_READDIRPLUS3resok_quiet [quiet_rules]: "quiet (xdr_READDIRPLUS3resok lib)"
  unfolding xdr_READDIRPLUS3resok_def by (intro quiet_rules lib_quiet)

lemma xdr_READDIRPLUS3resfail_quiet [quiet_rules]: "quiet (xdr_READDIRPLUS3resfail lib)"
  unfolding xdr_READDIRPLUS3resfail_def by (intro quiet_rules lib_quiet)

lemma xdr_READDIRPLUS3res_quiet [quiet_rules]: "quiet (xdr_READDIRPLUS3res lib)"
  unfolding xdr_READDIRPLUS3res_def by (intro quiet_rules lib_quiet)

lemma xdr_FSSTAT3args_quiet [quiet_rules]: "quiet (xdr_FSSTAT3args lib)"
  unfolding xdr_FSSTAT3args_def by (intro quiet_rules lib_quiet)

lemma xdr_FSSTAT3resok_quiet [quiet_rules]: "quiet (xdr_FSSTAT3resok lib)"
  unfolding xdr_FSSTAT3resok_def by (intro quiet_rules lib_quiet)

lemma xdr_FSSTAT3resfail_quiet [quiet_rules]: "quiet (xdr_FSSTAT3resfail lib)"
  unfolding xdr_FSSTAT3resfail_def by (intro quiet_rules lib_quiet)

lemma xdr_FSSTAT3res_quiet [quiet_rules]: "quiet (xdr_FSSTAT3res lib)"
  unfolding xdr_FSSTAT3res_def by (intro quiet_rules lib_quiet)

lemma xdr_FSINFO3args_quiet [quiet_rules]: "quiet (xdr_FSINFO3args lib)"
  unfolding xdr_FSINFO3args_def by (intro quiet_rules lib_quiet)

lemma xdr_FSINFO3resok_quiet [quiet_rules]: "quiet (xdr_FSINFO3resok lib)"
  unfolding xdr_FSINFO3resok_def by (intro quiet_rules lib_quiet)

lemma xdr_FSINFO3resfail_quiet [quiet_rules]: "quiet (xdr_FSINFO3resfail lib)"
  unfolding xdr_FSINFO3resfail_def by (intro quiet_rules lib_quiet)

lemma xdr_FSINFO3res_quiet [quiet_rules]: "quiet (xdr_FSINFO3res lib)"
  unfolding xdr_FSINFO3res_def by (intro quiet_rules lib_quiet)

lemma xdr_PATHCONF3args_quiet [quiet_rules]: "quiet (xdr_PATHCONF3args lib)"
  unfolding xdr_PATHCONF3args_def by (intro quiet_rules lib_quiet)

lemma xdr_PATHCONF3resok_quiet [quiet_rules]: "quiet (xdr_PATHCONF3resok lib)"
  unfolding xdr_PATHCONF3resok_def by (intro quiet_rules lib_quiet)

lemma xdr_PATHCONF3resfail_quiet [quiet_rules]: "quiet (xdr_PATHCONF3resfail lib)"
  unfolding xdr_PATHCONF3resfail_def by (intro quiet_rules lib_quiet)

lemma xdr_PATHCONF3res_quiet [quiet_rules]: "quiet (xdr_PATHCONF3res lib)"
  unfolding xdr_PATHCONF3res_def by (intro quiet_rules lib_quiet)

lemma xdr_COMMIT3args_marks: "marks (\<lambda>l. l\<lparr>lk_flags := lk_flags l OR NFS_LOOKAHEAD_COMMIT\<rparr>) (xdr_COMMIT3args lib)"
  unfolding xdr_COMMIT3args_def by (intro marks_mark quiet_rules lib_quiet)

lemma xdr_COMMIT3resok_quiet [quiet_rules]: "quiet (xdr_COMMIT3resok lib)"
  unfolding xdr_COMMIT3resok_def by (intro quiet_rules lib_quiet)

lemma xdr_COMMIT3resfail_quiet [quiet_rules]: "quiet (xdr_COMMIT3resfail lib)"
  unfolding xdr_COMMIT3resfail_def by (intro quiet_rules lib_quiet)

lemma xdr_COMMIT3res_quiet [quiet_rules]: "quiet (xdr_COMMIT3res lib)"
  unfolding xdr_COMMIT3res_def by (intro quiet_rules lib_quiet)

end

end
