(* ===== verification/Xdr_Nlm.thy ===== *)
theory Xdr_Nlm
  imports Xdr_Codec
begin

text \<open>
  The messages of the network lock manager, version 4 (\<^verbatim>\<open>Protocols/XDR/xdr_nlm4.c\<close>, \<^verbatim>\<open>include/nlm4.h\<close>).  The fields
  carry the name of their structure, a structure with one field is that field; the enumerations are the integers that stand for them.
\<close>

section \<open>Messages\<close>

abbreviation (input) NLM4_DENIED :: u32 where "NLM4_DENIED \<equiv> 1"
abbreviation (input) LM_MAXSTRLEN :: u32 where "LM_MAXSTRLEN \<equiv> 1024"
abbreviation (input) LM_MAXNAMELEN :: u32 where "LM_MAXNAMELEN \<equiv> 1025"
abbreviation (input) SM_MAXSTRLEN :: u32 where "SM_MAXSTRLEN \<equiv> 1024"

definition xdr_nlm4_stats :: "xdr_lib \<Rightarrow> u32 codec" where
  "xdr_nlm4_stats lib = xl_enum lib"

definition xdr_nlm4_stat :: "xdr_lib \<Rightarrow> u32 codec" where
  "xdr_nlm4_stat lib = xdr_nlm4_stats lib"

record nlm4_res =
  nlm4_res_cookie :: bytes
  nlm4_res_stat :: u32

definition xdr_nlm4_res :: "xdr_lib \<Rightarrow> nlm4_res codec" where
  "xdr_nlm4_res lib = xdr_struct nlm4_res.make
       (xdr_field nlm4_res_cookie (xl_netobj lib)
       (xdr_field nlm4_res_stat (xdr_nlm4_stat lib) xdr_done))"

record nlm4_holder =
  nlm4_holder_exclusive :: bool
  nlm4_holder_svid :: u32
  nlm4_holder_oh :: bytes
  nlm4_holder_l_offset :: u64
  nlm4_holder_l_len :: u64

definition xdr_nlm4_holder :: "xdr_lib \<Rightarrow> nlm4_holder codec" where
  "xdr_nlm4_holder lib = xdr_struct nlm4_holder.make
       (xdr_field nlm4_holder_exclusive (xl_bool lib)
       (xdr_field nlm4_holder_svid (xl_int lib)
       (xdr_field nlm4_holder_oh (xl_netobj lib)
       (xdr_field nlm4_holder_l_offset (xl_u_longlong_t lib)
       (xdr_field nlm4_holder_l_len (xl_u_longlong_t lib) xdr_done)))))"

datatype nlm4_testrply = nlm4_testrply_holder nlm4_holder | nlm4_testrply_default u32

definition xdr_nlm4_testrply :: "xdr_lib \<Rightarrow> nlm4_testrply codec" where
  "xdr_nlm4_testrply lib = xdr_union (xdr_nlm4_stats lib)
      (\<lambda>u. case u of nlm4_testrply_holder _ \<Rightarrow> NLM4_DENIED
       | nlm4_testrply_default stat \<Rightarrow> stat)
      (\<lambda>stat. if stat = NLM4_DENIED
       then xdr_member nlm4_testrply_holder (\<lambda>u. case u of nlm4_testrply_holder v \<Rightarrow> Some v | _ \<Rightarrow> None)
         (xdr_nlm4_holder lib)
       else xdr_void (nlm4_testrply_default stat))"

record nlm4_testres =
  nlm4_testres_cookie :: bytes
  nlm4_testres_test_stat :: nlm4_testrply

definition xdr_nlm4_testres :: "xdr_lib \<Rightarrow> nlm4_testres codec" where
  "xdr_nlm4_testres lib = xdr_struct nlm4_testres.make
       (xdr_field nlm4_testres_cookie (xl_netobj lib)
       (xdr_field nlm4_testres_test_stat (xdr_nlm4_testrply lib) xdr_done))"

record nlm4_lock =
  nlm4_lock_caller_name :: bytes
  nlm4_lock_fh :: bytes
  nlm4_lock_oh :: bytes
  nlm4_lock_svid :: u32
  nlm4_lock_l_offset :: u64
  nlm4_lock_l_len :: u64

definition xdr_nlm4_lock :: "xdr_lib \<Rightarrow> nlm4_lock codec" where
  "xdr_nlm4_lock lib = xdr_struct nlm4_lock.make
       (xdr_field nlm4_lock_caller_name (xl_string lib LM_MAXSTRLEN)
       (xdr_field nlm4_lock_fh (xl_netobj lib)
       (xdr_field nlm4_lock_oh (xl_netobj lib)
       (xdr_field nlm4_lock_svid (xl_int lib)
       (xdr_field nlm4_lock_l_offset (xl_u_longlong_t lib)
       (xdr_field nlm4_lock_l_len (xl_u_longlong_t lib) xdr_done))))))"

record nlm4_lockargs =
  nlm4_lockargs_cookie :: bytes
  nlm4_lockargs_block :: bool
  nlm4_lockargs_exclusive :: bool
  nlm4_lockargs_alock :: nlm4_lock
  nlm4_lockargs_reclaim :: bool
  nlm4_lockargs_state :: u32

definition xdr_nlm4_lockargs :: "xdr_lib \<Rightarrow> nlm4_lockargs codec" where
  "xdr_nlm4_lockargs lib = xdr_struct nlm4_lockargs.make
       (xdr_field nlm4_lockargs_cookie (xl_netobj lib)
       (xdr_field nlm4_lockargs_block (xl_bool lib)
       (xdr_field nlm4_lockargs_exclusive (xl_bool lib)
       (xdr_field nlm4_lockargs_alock (xdr_nlm4_lock lib)
       (xdr_field nlm4_lockargs_reclaim (xl_bool lib)
       (xdr_field nlm4_lockargs_state (xl_int lib) xdr_done))))))"

record nlm4_cancargs =
  nlm4_cancargs_cookie :: bytes
  nlm4_cancargs_block :: bool
  nlm4_cancargs_exclusive :: bool
  nlm4_cancargs_alock :: nlm4_lock

definition xdr_nlm4_cancargs :: "xdr_lib \<Rightarrow> nlm4_cancargs codec" where
  "xdr_nlm4_cancargs lib = xdr_struct nlm4_cancargs.make
       (xdr_field nlm4_cancargs_cookie (xl_netobj lib)
       (xdr_field nlm4_cancargs_block (xl_bool lib)
       (xdr_field nlm4_cancargs_exclusive (xl_bool lib)
       (xdr_field nlm4_cancargs_alock (xdr_nlm4_lock lib) xdr_done))))"

record nlm4_testargs =
  nlm4_testargs_cookie :: bytes
  nlm4_testargs_exclusive :: bool
  nlm4_testargs_alock :: nlm4_lock

definition xdr_nlm4_testargs :: "xdr_lib \<Rightarrow> nlm4_testargs codec" where
  "xdr_nlm4_testargs lib = xdr_struct nlm4_testargs.make
       (xdr_field nlm4_testargs_cookie (xl_netobj lib)
       (xdr_field nlm4_testargs_exclusive (xl_bool lib)
       (xdr_field nlm4_testargs_alock (xdr_nlm4_lock lib) xdr_done)))"

record nlm4_unlockargs =
  nlm4_unlockargs_cookie :: bytes
  nlm4_unlockargs_alock :: nlm4_lock

definition xdr_nlm4_unlockargs :: "xdr_lib \<Rightarrow> nlm4_unlockargs codec" where
  "xdr_nlm4_unlockargs lib = xdr_struct nlm4_unlockargs.make
       (xdr_field nlm4_unlockargs_cookie (xl_netobj lib)
       (xdr_field nlm4_unlockargs_alock (xdr_nlm4_lock lib) xdr_done))"

definition xdr_fsh4_mode :: "xdr_lib \<Rightarrow> u32 codec" where
  "xdr_fsh4_mode lib = xl_enum lib"

definition xdr_fsh4_access :: "xdr_lib \<Rightarrow> u32 codec" where
  "xdr_fsh4_access lib = xl_enum lib"

record nlm4_share =
  nlm4_share_caller_name :: bytes
  nlm4_share_fh :: bytes
  nlm4_share_oh :: bytes
  nlm4_share_mode :: u32
  nlm4_share_access :: u32

definition xdr_nlm4_share :: "xdr_lib \<Rightarrow> nlm4_share codec" where
  "xdr_nlm4_share lib = xdr_struct nlm4_share.make
       (xdr_field nlm4_share_caller_name (xl_string lib LM_MAXSTRLEN)
       (xdr_field nlm4_share_fh (xl_netobj lib)
       (xdr_field nlm4_share_oh (xl_netobj lib)
       (xdr_field nlm4_share_mode (xdr_fsh4_mode lib)
       (xdr_field nlm4_share_access (xdr_fsh4_access lib) xdr_done)))))"

record nlm4_shareargs =
  nlm4_shareargs_cookie :: bytes
  nlm4_shareargs_share :: nlm4_share
  nlm4_shareargs_reclaim :: bool

definition xdr_nlm4_shareargs :: "xdr_lib \<Rightarrow> nlm4_shareargs codec" where
  "xdr_nlm4_shareargs lib = xdr_struct nlm4_shareargs.make
       (xdr_field nlm4_shareargs_cookie (xl_netobj lib)
       (xdr_field nlm4_shareargs_share (xdr_nlm4_share lib)
       (xdr_field nlm4_shareargs_reclaim (xl_bool lib) xdr_done)))"

record nlm4_shareres =
  nlm4_shareres_cookie :: bytes
  nlm4_shareres_stat :: u32
  nlm4_shareres_sequence :: u32

definition xdr_nlm4_shareres :: "xdr_lib \<Rightarrow> nlm4_shareres codec" where
  "xdr_nlm4_shareres lib = xdr_struct nlm4_shareres.make
       (xdr_field nlm4_shareres_cookie (xl_netobj lib)
       (xdr_field nlm4_shareres_stat (xdr_nlm4_stats lib)
       (xdr_field nlm4_shareres_sequence (xl_int lib) xdr_done)))"

record nlm4_free_allargs =
  nlm4_free_allargs_name :: bytes
  nlm4_free_allargs_state :: u32

definition xdr_nlm4_free_allargs :: "xdr_lib \<Rightarrow> nlm4_free_allargs codec" where
  "xdr_nlm4_free_allargs lib = xdr_struct nlm4_free_allargs.make
       (xdr_field nlm4_free_allargs_name (xl_string lib LM_MAXNAMELEN)
       (xdr_field nlm4_free_allargs_state (xl_u_int lib) xdr_done))"

record nlm4_sm_notifyargs =
  nlm4_sm_notifyargs_name :: bytes
  nlm4_sm_notifyargs_state :: u32
  nlm4_sm_notifyargs_priv :: bytes

definition xdr_nlm4_sm_notifyargs :: "xdr_lib \<Rightarrow> nlm4_sm_notifyargs codec" where
  "xdr_nlm4_sm_notifyargs lib = xdr_struct nlm4_sm_notifyargs.make
       (xdr_field nlm4_sm_notifyargs_name (xl_string lib SM_MAXSTRLEN)
       (xdr_field nlm4_sm_notifyargs_state (xl_int lib)
       (xdr_field nlm4_sm_notifyargs_priv (xl_opaque lib 16) xdr_done)))"

section \<open>Soundness\<close>

context xdr_library
begin

lemma xdr_nlm4_stats_ok [codec_rules]: "codec_ok (xdr_nlm4_stats lib)"
  unfolding xdr_nlm4_stats_def by (intro codec_rules lib_ok)

lemma xdr_nlm4_stat_ok [codec_rules]: "codec_ok (xdr_nlm4_stat lib)"
  unfolding xdr_nlm4_stat_def by (intro codec_rules lib_ok)

lemma xdr_nlm4_res_ok [codec_rules]: "codec_ok (xdr_nlm4_res lib)"
  unfolding xdr_nlm4_res_def by (intro codec_rules lib_ok fields_ok_done; simp add: nlm4_res.make_def)

lemma xdr_nlm4_holder_ok [codec_rules]: "codec_ok (xdr_nlm4_holder lib)"
  unfolding xdr_nlm4_holder_def by (intro codec_rules lib_ok fields_ok_done; simp add: nlm4_holder.make_def)

lemma xdr_nlm4_testrply_ok [codec_rules]: "codec_ok (xdr_nlm4_testrply lib)"
  unfolding xdr_nlm4_testrply_def by (intro codec_rules lib_ok; auto split: nlm4_testrply.splits)

lemma xdr_nlm4_testres_ok [codec_rules]: "codec_ok (xdr_nlm4_testres lib)"
  unfolding xdr_nlm4_testres_def by (intro codec_rules lib_ok fields_ok_done; simp add: nlm4_testres.make_def)

lemma xdr_nlm4_lock_ok [codec_rules]: "codec_ok (xdr_nlm4_lock lib)"
  unfolding xdr_nlm4_lock_def by (intro codec_rules lib_ok fields_ok_done; simp add: nlm4_lock.make_def)

lemma xdr_nlm4_lockargs_ok [codec_rules]: "codec_ok (xdr_nlm4_lockargs lib)"
  unfolding xdr_nlm4_lockargs_def by (intro codec_rules lib_ok fields_ok_done; simp add: nlm4_lockargs.make_def)

lemma xdr_nlm4_cancargs_ok [codec_rules]: "codec_ok (xdr_nlm4_cancargs lib)"
  unfolding xdr_nlm4_cancargs_def by (intro codec_rules lib_ok fields_ok_done; simp add: nlm4_cancargs.make_def)

lemma xdr_nlm4_testargs_ok [codec_rules]: "codec_ok (xdr_nlm4_testargs lib)"
  unfolding xdr_nlm4_testargs_def by (intro codec_rules lib_ok fields_ok_done; simp add: nlm4_testargs.make_def)

lemma xdr_nlm4_unlockargs_ok [codec_rules]: "codec_ok (xdr_nlm4_unlockargs lib)"
  unfolding xdr_nlm4_unlockargs_def by (intro codec_rules lib_ok fields_ok_done; simp add: nlm4_unlockargs.make_def)

lemma xdr_fsh4_mode_ok [codec_rules]: "codec_ok (xdr_fsh4_mode lib)"
  unfolding xdr_fsh4_mode_def by (intro codec_rules lib_ok)

lemma xdr_fsh4_access_ok [codec_rules]: "codec_ok (xdr_fsh4_access lib)"
  unfolding xdr_fsh4_access_def by (intro codec_rules lib_ok)

lemma xdr_nlm4_share_ok [codec_rules]: "codec_ok (xdr_nlm4_share lib)"
  unfolding xdr_nlm4_share_def by (intro codec_rules lib_ok fields_ok_done; simp add: nlm4_share.make_def)

lemma xdr_nlm4_shareargs_ok [codec_rules]: "codec_ok (xdr_nlm4_shareargs lib)"
  unfolding xdr_nlm4_shareargs_def by (intro codec_rules lib_ok fields_ok_done; simp add: nlm4_shareargs.make_def)

lemma xdr_nlm4_shareres_ok [codec_rules]: "codec_ok (xdr_nlm4_shareres lib)"
  unfolding xdr_nlm4_shareres_def by (intro codec_rules lib_ok fields_ok_done; simp add: nlm4_shareres.make_def)

lemma xdr_nlm4_free_allargs_ok [codec_rules]: "codec_ok (xdr_nlm4_free_allargs lib)"
  unfolding xdr_nlm4_free_allargs_def by (intro codec_rules lib_ok fields_ok_done; simp add: nlm4_free_allargs.make_def)

lemma xdr_nlm4_sm_notifyargs_ok [codec_rules]: "codec_ok (xdr_nlm4_sm_notifyargs lib)"
  unfolding xdr_nlm4_sm_notifyargs_def by (intro codec_rules lib_ok fields_ok_done; simp add: nlm4_sm_notifyargs.make_def)

end

end
