(* ===== verification/Xdr_Dispatch.thy ===== *)
theory Xdr_Dispatch
  imports Xdr_Nfs3 Xdr_Nlm
begin

text \<open>
  The routines the dispatcher uses for the arguments and results of each procedure of NFS version 3 and of the lock
  manager (\<^verbatim>\<open>nfs3_func_desc\<close> and \<^verbatim>\<open>nlm4_func_desc\<close> in \<^verbatim>\<open>MainNFSD/nfs_worker_thread.c\<close>).  The unions of all arguments
  and of all results are datatypes; the procedures of the other protocols are not among them.
\<close>

section \<open>Tables\<close>

datatype nfs_arg_t =
    arg_void
  | arg_getattr3 bytes
  | arg_setattr3 SETATTR3args
  | arg_lookup3 diropargs3
  | arg_access3 ACCESS3args
  | arg_readlink3 bytes
  | arg_read3 READ3args
  | arg_write3 WRITE3args
  | arg_create3 CREATE3args
  | arg_mkdir3 MKDIR3args
  | arg_symlink3 SYMLINK3args
  | arg_mknod3 MKNOD3args
  | arg_remove3 diropargs3
  | arg_rmdir3 diropargs3
  | arg_rename3 RENAME3args
  | arg_link3 LINK3args
  | arg_readdir3 READDIR3args
  | arg_readdirplus3 READDIRPLUS3args
  | arg_fsstat3 bytes
  | arg_fsinfo3 bytes
  | arg_pathconf3 bytes
  | arg_commit3 COMMIT3args
  | arg_nlm4_test nlm4_testargs
  | arg_nlm4_lock nlm4_lockargs
  | arg_nlm4_cancel nlm4_cancargs
  | arg_nlm4_unlock nlm4_unlockargs
  | arg_nlm4_share nlm4_shareargs
  | arg_nlm4_sm_notify nlm4_sm_notifyargs
  | arg_nlm4_free_allargs nlm4_free_allargs
  | arg_nlm4_res nlm4_res

datatype nfs_res_t =
    res_void
  | res_getattr3 GETATTR3res
  | res_setattr3 SETATTR3res
  | res_lookup3 LOOKUP3res
  | res_access3 ACCESS3res
  | res_readlink3 READLINK3res
  | res_read3 READ3res
  | res_write3 WRITE3res
  | res_create3 CREATE3res
  | res_mkdir3 MKDIR3res
  | res_symlink3 SYMLINK3res
  | res_mknod3 MKNOD3res
  | res_remove3 REMOVE3res
  | res_rmdir3 RMDIR3res
  | res_rename3 RENAME3res
  | res_link3 LINK3res
  | res_readdir3 READDIR3res
  | res_readdirplus3 READDIRPLUS3res
  | res_fsstat3 FSSTAT3res
  | res_fsinfo3 FSINFO3res
  | res_pathconf3 PATHCONF3res
  | res_commit3 COMMIT3res
  | res_nlm4test nlm4_testres
  | res_nlm4 nlm4_res
  | res_nlm4share nlm4_shareres

definition nfs3_decode_func :: "xdr_lib \<Rightarrow> nfs_arg_t codec list" where
  "nfs3_decode_func lib =
    [xdr_void arg_void,
     xdr_member arg_getattr3 (\<lambda>u. case u of arg_getattr3 v \<Rightarrow> Some v | _ \<Rightarrow> None) (xdr_GETATTR3args lib),
     xdr_member arg_setattr3 (\<lambda>u. case u of arg_setattr3 v \<Rightarrow> Some v | _ \<Rightarrow> None) (xdr_SETATTR3args lib),
     xdr_member arg_lookup3 (\<lambda>u. case u of arg_lookup3 v \<Rightarrow> Some v | _ \<Rightarrow> None) (xdr_LOOKUP3args lib),
     xdr_member arg_access3 (\<lambda>u. case u of arg_access3 v \<Rightarrow> Some v | _ \<Rightarrow> None) (xdr_ACCESS3args lib),
     xdr_member arg_readlink3 (\<lambda>u. case u of arg_readlink3 v \<Rightarrow> Some v | _ \<Rightarrow> None) (xdr_READLINK3args lib),
     xdr_member arg_read3 (\<lambda>u. case u of arg_read3 v \<Rightarrow> Some v | _ \<Rightarrow> None) (xdr_READ3args lib),
     xdr_member arg_write3 (\<lambda>u. case u of arg_write3 v \<Rightarrow> Some v | _ \<Rightarrow> None) (xdr_WRITE3args lib),
     xdr_member arg_create3 (\<lambda>u. case u of arg_create3 v \<Rightarrow> Some v | _ \<Rightarrow> None) (xdr_CREATE3args lib),
     xdr_member arg_mkdir3 (\<lambda>u. case u of arg_mkdir3 v \<Rightarrow> Some v | _ \<Rightarrow> None) (xdr_MKDIR3args lib),
     xdr_member arg_symlink3 (\<lambda>u. case u of arg_symlink3 v \<Rightarrow> Some v | _ \<Rightarrow> None) (xdr_SYMLINK3args lib),
     xdr_member arg_mknod3 (\<lambda>u. case u of arg_mknod3 v \<Rightarrow> Some v | _ \<Rightarrow> None) (xdr_MKNOD3args lib),
     xdr_member arg_remove3 (\<lambda>u. case u of arg_remove3 v \<Rightarrow> Some v | _ \<Rightarrow> None) (xdr_REMOVE3args lib),
     xdr_member arg_rmdir3 (\<lambda>u. case u of arg_rmdir3 v \<Rightarrow> Some v | _ \<Rightarrow> None) (xdr_RMDIR3args lib),
     xdr_member arg_rename3 (\<lambda>u. case u of arg_rename3 v \<Rightarrow> Some v | _ \<Rightarrow> None) (xdr_RENAME3args lib),
     xdr_member arg_link3 (\<lambda>u. case u of arg_link3 v \<Rightarrow> Some v | _ \<Rightarrow> None) (xdr_LINK3args lib),
     xdr_member arg_readdir3 (\<lambda>u. case u of arg_readdir3 v \<Rightarrow> Some v | _ \<Rightarrow> None) (xdr_READDIR3args lib),
     xdr_member arg_readdirplus3 (\<lambda>u. case u of arg_readdirplus3 v \<Rightarrow> Some v | _ \<Rightarrow> None) (xdr_READDIRPLUS3args lib),
     xdr_member arg_fsstat3 (\<lambda>u. case u of arg_fsstat3 v \<Rightarrow> Some v | _ \<Rightarrow> None) (xdr_FSSTAT3args lib),
     xdr_member arg_fsinfo3 (\<lambda>u. case u of arg_fsinfo3 v \<Rightarrow> Some v | _ \<Rightarrow> None) (xdr_FSINFO3args lib),
     xdr_member arg_pathconf3 (\<lambda>u. case u of arg_pathconf3 v \<Rightarrow> Some v | _ \<Rightarrow> None) (xdr_PATHCONF3args lib),
     xdr_member arg_commit3 (\<lambda>u. case u of arg_commit3 v \<Rightarrow> Some v | _ \<Rightarrow> None) (xdr_COMMIT3args lib)]"

definition nfs3_encode_func :: "xdr_lib \<Rightarrow> nfs_res_t codec list" where
  "nfs3_encode_func lib =
    [xdr_void res_void,
     xdr_member res_getattr3 (\<lambda>u. case u of res_getattr3 v \<Rightarrow> Some v | _ \<Rightarrow> None) (xdr_GETATTR3res lib),
     xdr_member res_setattr3 (\<lambda>u. case u of res_setattr3 v \<Rightarrow> Some v | _ \<Rightarrow> None) (xdr_SETATTR3res lib),
     xdr_member res_lookup3 (\<lambda>u. case u of res_lookup3 v \<Rightarrow> Some v | _ \<Rightarrow> None) (xdr_LOOKUP3res lib),
     xdr_member res_access3 (\<lambda>u. case u of res_access3 v \<Rightarrow> Some v | _ \<Rightarrow> None) (xdr_ACCESS3res lib),
     xdr_member res_readlink3 (\<lambda>u. case u of res_readlink3 v \<Rightarrow> Some v | _ \<Rightarrow> None) (xdr_READLINK3res lib),
     xdr_member res_read3 (\<lambda>u. case u of res_read3 v \<Rightarrow> Some v | _ \<Rightarrow> None) (xdr_READ3res lib),
     xdr_member res_write3 (\<lambda>u. case u of res_write3 v \<Rightarrow> Some v | _ \<Rightarrow> None) (xdr_WRITE3res lib),
     xdr_member res_create3 (\<lambda>u. case u of res_create3 v \<Rightarrow> Some v | _ \<Rightarrow> None) (xdr_CREATE3res lib),
     xdr_member res_mkdir3 (\<lambda>u. case u of res_mkdir3 v \<Rightarrow> Some v | _ \<Rightarrow> None) (xdr_MKDIR3res lib),
     xdr_member res_symlink3 (\<lambda>u. case u of res_symlink3 v \<Rightarrow> Some v | _ \<Rightarrow> None) (xdr_SYMLINK3res lib),
     xdr_member res_mknod3 (\<lambda>u. case u of res_mknod3 v \<Rightarrow> Some v | _ \<Rightarrow> None) (xdr_MKNOD3res lib),
     xdr_member res_remove3 (\<lambda>u. case u of res_remove3 v \<Rightarrow> Some v | _ \<Rightarrow> None) (xdr_REMOVE3res lib),
     xdr_member res_rmdir3 (\<lambda>u. case u of res_rmdir3 v \<Rightarrow> Some v | _ \<Rightarrow> None) (xdr_RMDIR3res lib),
     xdr_member res_rename3 (\<lambda>u. case u of res_rename3 v \<Rightarrow> Some v | _ \<Rightarrow> None) (xdr_RENAME3res lib),
     xdr_member res_link3 (\<lambda>u. case u of res_link3 v \<Rightarrow> Some v | _ \<Rightarrow> None) (xdr_LINK3res lib),
     xdr_member res_readdir3 (\<lambda>u. case u of res_readdir3 v \<Rightarrow> Some v | _ \<Rightarrow> None) (xdr_READDIR3res lib),
     xdr_member res_readdirplus3 (\<lambda>u. case u of res_readdirplus3 v \<Rightarrow> Some v | _ \<Rightarrow> None) (xdr_READDIRPLUS3res lib),
     xdr_member res_fsstat3 (\<lambda>u. case u of res_fsstat3 v \<Rightarrow> Some v | _ \<Rightarrow> None) (xdr_FSSTAT3res lib),
     xdr_member res_fsinfo3 (\<lambda>u. case u of res_fsinfo3 v \<Rightarrow> Some v | _ \<Rightarrow> None) (xdr_FSINFO3res lib),
     xdr_member res_pathconf3 (\<lambda>u. case u of res_pathconf3 v \<Rightarrow> Some v | _ \<Rightarrow> None) (xdr_PATHCONF3res lib),
     xdr_member res_commit3 (\<lambda>u. case u of res_commit3 v \<Rightarrow> Some v | _ \<Rightarrow> None) (xdr_COMMIT3res lib)]"

definition nlm4_decode_func :: "xdr_lib \<Rightarrow> nfs_arg_t codec list" where
  "nlm4_decode_func lib =
    [xdr_void arg_void,
     xdr_member arg_nlm4_test (\<lambda>u. case u of arg_nlm4_test v \<Rightarrow> Some v | _ \<Rightarrow> None) (xdr_nlm4_testargs lib),
     xdr_member arg_nlm4_lock (\<lambda>u. case u of arg_nlm4_lock v \<Rightarrow> Some v | _ \<Rightarrow> None) (xdr_nlm4_lockargs lib),
     xdr_member arg_nlm4_cancel (\<lambda>u. case u of arg_nlm4_cancel v \<Rightarrow> Some v | _ \<Rightarrow> None) (xdr_nlm4_cancargs lib),
     xdr_member arg_nlm4_unlock (\<lambda>u. case u of arg_nlm4_unlock v \<Rightarrow> Some v | _ \<Rightarrow> None) (xdr_nlm4_unlockargs lib),
     xdr_void arg_void,
     xdr_member arg_nlm4_test (\<lambda>u. case u of arg_nlm4_test v \<Rightarrow> Some v | _ \<Rightarrow> None) (xdr_nlm4_testargs lib),
     xdr_member arg_nlm4_lock (\<lambda>u. case u of arg_nlm4_lock v \<Rightarrow> Some v | _ \<Rightarrow> None) (xdr_nlm4_lockargs lib),
     xdr_member arg_nlm4_cancel (\<lambda>u. case u of arg_nlm4_cancel v \<Rightarrow> Some v | _ \<Rightarrow> None) (xdr_nlm4_cancargs lib),
     xdr_member arg_nlm4_unlock (\<lambda>u. case u of arg_nlm4_unlock v \<Rightarrow> Some v | _ \<Rightarrow> None) (xdr_nlm4_unlockargs lib),
     xdr_void arg_void,
     xdr_void arg_void,
     xdr_void arg_void,
     xdr_void arg_void,
     xdr_void arg_void,
     xdr_member arg_nlm4_res (\<lambda>u. case u of arg_nlm4_res v \<Rightarrow> Some v | _ \<Rightarrow> None) (xdr_nlm4_res lib),
     xdr_member arg_nlm4_sm_notify (\<lambda>u. case u of arg_nlm4_sm_notify v \<Rightarrow> Some v | _ \<Rightarrow> None) (xdr_nlm4_sm_notifyargs lib),
     xdr_void arg_void,
     xdr_void arg_void,
     xdr_void arg_void,
     xdr_member arg_nlm4_share (\<lambda>u. case u of arg_nlm4_share v \<Rightarrow> Some v | _ \<Rightarrow> None) (xdr_nlm4_shareargs lib),
     xdr_member arg_nlm4_share (\<lambda>u. case u of arg_nlm4_share v \<Rightarrow> Some v | _ \<Rightarrow> None) (xdr_nlm4_shareargs lib),
     xdr_member arg_nlm4_lock (\<lambda>u. case u of arg_nlm4_lock v \<Rightarrow> Some v | _ \<Rightarrow> None) (xdr_nlm4_lockargs lib),
     xdr_member arg_nlm4_free_allargs (\<lambda>u. case u of arg_nlm4_free_allargs v \<Rightarrow> Some v | _ \<Rightarrow> None) (xdr_nlm4_free_allargs lib)]"

definition nlm4_encode_func :: "xdr_lib \<Rightarrow> nfs_res_t codec list" where
  "nlm4_encode_func lib =
    [xdr_void res_void,
     xdr_member res_nlm4test (\<lambda>u. case u of res_nlm4test v \<Rightarrow> Some v | _ \<Rightarrow> None) (xdr_nlm4_testres lib),
     xdr_member res_nlm4 (\<lambda>u. case u of res_nlm4 v \<Rightarrow> Some v | _ \<Rightarrow> None) (xdr_nlm4_res lib),
     xdr_member res_nlm4 (\<lambda>u. case u of res_nlm4 v \<Rightarrow> Some v | _ \<Rightarrow> None) (xdr_nlm4_res lib),
     xdr_member res_nlm4 (\<lambda>u. case u of res_nlm4 v \<Rightarrow> Some v | _ \<Rightarrow> None) (xdr_nlm4_res lib),
     xdr_void res_void,
     xdr_void res_void,
     xdr_void res_void,
     xdr_void res_void,
     xdr_void res_void,
     xdr_void res_void,
     xdr_void res_void,
     xdr_void res_void,
     xdr_void res_void,
     xdr_void res_void,
     xdr_void res_void,
     xdr_void res_void,
     xdr_void res_void,
     xdr_void res_void,
     xdr_void res_void,
     xdr_member res_nlm4share (\<lambda>u. case u of res_nlm4share v \<Rightarrow> Some v | _ \<Rightarrow> None) (xdr_nlm4_shareres lib),
     xdr_member res_nlm4share (\<lambda>u. case u of res_nlm4share v \<Rightarrow> Some v | _ \<Rightarrow> None) (xdr_nlm4_shareres lib),
     xdr_member res_nlm4 (\<lambda>u. case u of res_nlm4 v \<Rightarrow> Some v | _ \<Rightarrow> None) (xdr_nlm4_res lib),
     xdr_void res_void]"

section \<open>Round trips\<close>

context xdr_library
begin

lemma arguments_ok: "c \<in> set (nfs3_decode_func lib) \<union> set (nlm4_decode_func lib) \<Longrightarrow> codec_ok c"
  unfolding nfs3_decode_func_def nlm4_decode_func_def
  by (auto intro!: codec_rules split: nfs_arg_t.splits)

lemma results_ok: "c \<in> set (nfs3_encode_func lib) \<union> set (nlm4_encode_func lib) \<Longrightarrow> codec_ok c"
  unfolding nfs3_encode_func_def nlm4_encode_func_def
  by (auto intro!: codec_rules split: nfs_res_t.splits)

end

text \<open>Reading gives back what was written, whatever stood in the stream before and follows after.\<close>

definition roundtrips :: "'a codec \<Rightarrow> bool" where
  "roundtrips c \<longleftrightarrow> (\<forall>x s s'. enc c x s = Some s' \<longrightarrow>
     (\<exists>bs. x_buf s' = x_buf s @ bs \<and> (\<forall>t rest. x_buf t = bs @ rest \<longrightarrow> (\<exists>t'. dec c t = Some (x, t') \<and> x_buf t' = rest))))"

lemma roundtripsI:
  assumes "codec_ok c"
  shows "roundtrips c"
  unfolding roundtrips_def
proof (intro allI impI)
  fix x s s'
  assume "enc c x s = Some s'"
  from codec_onE [OF assms TrueI this] obtain bs f where
      "s' = s\<lparr>x_buf := x_buf s @ bs, x_public := f (x_public s)\<rparr>"
      "\<And>t rest. x_buf t = bs @ rest \<Longrightarrow> dec c t = Some (x, t\<lparr>x_buf := rest, x_public := f (x_public t)\<rparr>)" by metis
  then show "\<exists>bs. x_buf s' = x_buf s @ bs \<and> (\<forall>t rest. x_buf t = bs @ rest \<longrightarrow> (\<exists>t'. dec c t = Some (x, t') \<and> x_buf t' = rest))"
    by (intro exI [of _ bs]) simp
qed

text \<open>
  C16 The arguments and the results of every procedure of NFS version 3 and of the lock manager survive the wire: what
  one side writes with the routine of the table the other reads back as it was, for any library whose routines for
  integers, booleans, strings and opaque data do so.
\<close>

theorem wire_roundtrip:
  assumes "xdr_library lib"
  shows "(\<forall>proc < 22. roundtrips (nfs3_decode_func lib ! proc) \<and> roundtrips (nfs3_encode_func lib ! proc))
    \<and> (\<forall>proc < 24. roundtrips (nlm4_decode_func lib ! proc) \<and> roundtrips (nlm4_encode_func lib ! proc))"
proof -
  have len: "length (nfs3_decode_func lib) = 22" "length (nfs3_encode_func lib) = 22"
    "length (nlm4_decode_func lib) = 24" "length (nlm4_encode_func lib) = 24"
    by (simp_all add: nfs3_decode_func_def nfs3_encode_func_def nlm4_decode_func_def nlm4_encode_func_def)
  have "roundtrips c" if "c \<in> set (nfs3_decode_func lib) \<union> set (nlm4_decode_func lib)" for c
    by (rule roundtripsI [OF xdr_library.arguments_ok [OF assms that]])
  moreover have "roundtrips c" if "c \<in> set (nfs3_encode_func lib) \<union> set (nlm4_encode_func lib)" for c
    by (rule roundtripsI [OF xdr_library.results_ok [OF assms that]])
  ultimately show ?thesis using len by (metis UnCI nth_mem)
qed

definition demo_read :: nfs_arg_t where
  "demo_read = arg_read3 \<lparr>READ3args_file = [1, 2, 3], READ3args_offset = 4096, READ3args_count = 512\<rparr>"

definition demo_stream :: XDR where
  "demo_stream = \<lparr>x_buf = [], x_public = \<lparr>lk_flags = 0, lk_read = 0, lk_write = 0\<rparr>\<rparr>"

lemma demo_read_writes: "\<exists>s. enc (nfs3_decode_func rfc4506 ! 6) demo_read demo_stream = Some s"
  by (simp add: nfs3_decode_func_def xdr_member_def demo_read_def xdr_READ3args_def xdr_mark_def xdr_struct_def
      xdr_field_def xdr_done_def xdr_nfs_fh3_def xdr_offset3_def xdr_nfs3_uint64_def xdr_count3_def xdr_nfs3_uint32_def
      rfc4506_def bytes_codec_def word_codec_def opaque_codec_def)

theorem wire_roundtrip_witness:
  "\<exists>s t. enc (nfs3_decode_func rfc4506 ! 6) demo_read demo_stream = Some s
     \<and> dec (nfs3_decode_func rfc4506 ! 6) s = Some (demo_read, t) \<and> x_buf t = []"
proof -
  have "roundtrips (nfs3_decode_func rfc4506 ! 6)" using wire_roundtrip [OF rfc.xdr_library_axioms] by simp
  with demo_read_writes obtain s bs where "enc (nfs3_decode_func rfc4506 ! 6) demo_read demo_stream = Some s"
      "x_buf s = x_buf demo_stream @ bs"
      "\<forall>t rest. x_buf t = bs @ rest \<longrightarrow> (\<exists>t'. dec (nfs3_decode_func rfc4506 ! 6) t = Some (demo_read, t') \<and> x_buf t' = rest)"
    unfolding roundtrips_def by blast
  then show ?thesis by (auto simp: demo_stream_def)
qed

section \<open>Lookahead\<close>

text \<open>What the routine of each procedure does to the lookahead.\<close>

context quiet_library
begin

lemma argument_marks:
  "list_all2 marks
     [id, id, id, id, id, id, (\<lambda>l. l\<lparr>lk_flags := NFS_LOOKAHEAD_READ, lk_read := lk_read l + 1\<rparr>),
      (\<lambda>l. l\<lparr>lk_flags := lk_flags l OR NFS_LOOKAHEAD_WRITE, lk_write := lk_write l + 1\<rparr>),
      (\<lambda>l. l\<lparr>lk_flags := lk_flags l OR NFS_LOOKAHEAD_CREATE\<rparr>), id, id, id,
      (\<lambda>l. l\<lparr>lk_flags := lk_flags l OR NFS_LOOKAHEAD_REMOVE\<rparr>), id,
      (\<lambda>l. l\<lparr>lk_flags := lk_flags l OR NFS_LOOKAHEAD_RENAME\<rparr>), id,
      (\<lambda>l. l\<lparr>lk_flags := lk_flags l OR NFS_LOOKAHEAD_READDIR\<rparr>),
      (\<lambda>l. l\<lparr>lk_flags := lk_flags l OR NFS_LOOKAHEAD_READDIR\<rparr>), id, id, id,
      (\<lambda>l. l\<lparr>lk_flags := lk_flags l OR NFS_LOOKAHEAD_COMMIT\<rparr>)]
     (nfs3_decode_func lib)"
  unfolding nfs3_decode_func_def
  by (intro list.rel_intros marks_quiet quiet_rules marks_member xdr_READ3args_marks xdr_WRITE3args_marks
      xdr_CREATE3args_marks xdr_REMOVE3args_marks xdr_RENAME3args_marks xdr_READDIR3args_marks xdr_READDIRPLUS3args_marks
      xdr_COMMIT3args_marks)

end

text \<open>
  C26 Reading the arguments of an NFS version 3 request classifies it: a request whose lookahead was clear counts as
  one of high latency exactly when it is a read, a write, a listing of a directory, a commit or a create.  The create
  is among them because its flag has the value of the flag for \<^verbatim>\<open>LAYOUTCOMMIT\<close>.
\<close>

theorem lookahead_classifies:
  assumes "quiet_library lib" and "proc < 22"
    and "dec (nfs3_decode_func lib ! proc) s = Some (arg, s')" and "lk_flags (x_public s) = 0"
  shows "NFS_LOOKAHEAD_HIGH_LATENCY (x_public s') \<longleftrightarrow> proc \<in> {6, 7, 8, 16, 17, 21}"
proof -
  have split: "proc \<in> {0, 1, 2, 3, 4, 5, 6, 7, 8, 9, 10, 11, 12, 13, 14, 15, 16, 17, 18, 19, 20, 21}"
    using assms(2) unfolding insert_iff empty_iff by presburger
  note marks = list_all2_nthD [OF quiet_library.argument_marks [OF assms(1)], unfolded marks_def, rule_format, OF _ assms(3)]
  show ?thesis using split marks assms(4) by (auto simp: NFS_LOOKAHEAD_HIGH_LATENCY_def)
qed

theorem lookahead_classifies_witness:
  "\<exists>s t. lk_flags (x_public s) = 0 \<and> dec (nfs3_decode_func rfc4506 ! 6) s = Some (demo_read, t)
     \<and> NFS_LOOKAHEAD_HIGH_LATENCY (x_public t)"
proof -
  have "nfs3_decode_func rfc4506 ! 6 \<in> set (nfs3_decode_func rfc4506)" by (simp add: nfs3_decode_func_def)
  then have "roundtrips (nfs3_decode_func rfc4506 ! 6)" by (intro roundtripsI rfc.arguments_ok UnI1)
  with demo_read_writes obtain bs where
      reads: "\<forall>t rest. x_buf t = bs @ rest \<longrightarrow> (\<exists>t'. dec (nfs3_decode_func rfc4506 ! 6) t = Some (demo_read, t') \<and> x_buf t' = rest)"
    unfolding roundtrips_def by blast
  from reads [rule_format, of "demo_stream\<lparr>x_buf := bs\<rparr>" "[]"]
  obtain t where run: "dec (nfs3_decode_func rfc4506 ! 6) (demo_stream\<lparr>x_buf := bs\<rparr>) = Some (demo_read, t)" by auto
  have clear: "lk_flags (x_public (demo_stream\<lparr>x_buf := bs\<rparr>)) = 0" by (simp add: demo_stream_def)
  have "NFS_LOOKAHEAD_HIGH_LATENCY (x_public t)"
    using lookahead_classifies [OF rfc.quiet_library_axioms _ run clear] by simp
  with run clear show ?thesis by blast
qed

end
