(* ===== verification/Spec2Isabelle.thy ===== *)
theory Spec2Isabelle
  imports Kurma_Handle_Props Kurma_Export State_Lock_Props Fsal_Access State_Open_Props Xdr_Dispatch
begin

text \<open>
  This is a verification of the path a file request takes through the Kurma server, a variant of NFS-Ganesha whose
  file-system layer FSAL_KURMA stores files with a remote gateway.  File names below are relative to \<^verbatim>\<open>src/src\<close>.

  \<^bold>\<open>The program.\<close>  A request arrives as a message in external data representation, is decoded by the XDR routines
  and dispatched.  The state layer (\<^verbatim>\<open>SAL\<close>) keeps the opens, share reservations and byte-range locks of each file, the
  inode cache opens and pins files on its behalf, and the file-system layer serves the object operations and the data.
  FSAL_KURMA keeps a table of object handles, calls the gateway through Thrift stubs, and turns reads and writes of any
  bytes into reads and writes of whole blocks.

  \<^bold>\<open>Conventions.\<close>  A C function is a HOL function that takes and returns its state; where it can abort (a failed
  assertion, a dangling pointer, a copy out of bounds, an undefined shift) its result is an \<open>option\<close> and \<open>None\<close> is the
  abort.  Unsigned integers are words of their width, so they wrap as in C.  Clocks, allocation, try-locks and
  uninitialised memory are answers of an oracle in the state, so a theorem covers every answer it does not exclude.  Code outside the
  sources is a parameter: the gateway and its stubs (\<open>kurma_service\<close>, with the contract \<open>block_server\<close> where a theorem
  needs one), the configuration loader (\<open>config_scope\<close>), the primitive routines of \<^verbatim>\<open>libntirpc\<close> (\<open>xdr_library\<close>).  Each
  such contract is met by a concrete instance in the examples.

  \<^bold>\<open>Theories and sources.\<close>

  \<^item> \<open>Kurma_Prelude\<close>: machine types, buffers, the oracle, and the lemmas on them that the other theories share.

  \<^item> \<open>Kurma_Util\<close> models the inline helpers of \<^verbatim>\<open>FSAL/FSAL_KURMA/kurma.h\<close> and \<^verbatim>\<open>kurma_methods.h\<close>: status codes, \<^verbatim>\<open>round_up\<close>
  and \<^verbatim>\<open>round_down\<close>, time, object identifiers.  Its lemmas show that rounding is exact where the sum does not wrap.

  \<^item> \<open>Kurma_Codec\<close> models \<^verbatim>\<open>package_kurma_handle\<close> and \<^verbatim>\<open>extract_kurma_handle\<close> of \<^verbatim>\<open>handle.c\<close>.  The locale \<open>fixed_codec\<close> is the
  interface of a field of fixed width; handles are read back as they were written.

  \<^item> \<open>Kurma_Attrs\<close> models \<^verbatim>\<open>struct attrlist\<close>, the attributes of the service, and the conversions of \<^verbatim>\<open>kurma.c\<close> and
  \<^verbatim>\<open>handle.c\<close> between them; the lemmas say which attributes survive the way there and back.

  \<^item> \<open>Kurma_Rpc\<close> models the session and the \<^verbatim>\<open>rpc_*\<close> wrappers of \<^verbatim>\<open>kurma.c\<close>.

  \<^item> \<open>Kurma_File\<close> models \<^verbatim>\<open>file.c\<close>.  The read-modify-write preparation of \<^verbatim>\<open>kurma_write\<close> is verified in the locale
  \<open>block_reader\<close>, which \<^verbatim>\<open>rpc_read\<close> implements for every server with the contract; reads and writes are then shown to
  read and overlay exactly the bytes of the file, for files below 2 GiB, and the loss of data above is proved.

  \<^item> \<open>Kurma_Handle\<close> models the object operations of \<^verbatim>\<open>handle.c\<close> on the table of handles; \<open>Kurma_Handle_Inv\<close> has the
  invariant of the table and the step relation of the operations, \<open>Kurma_Handle_Props\<close> the properties of the reachable
  worlds and of the single operations (wire handles, listings, snapshots, removal).

  \<^item> \<open>Kurma_Export\<close> models \<^verbatim>\<open>export.c\<close>, \<^verbatim>\<open>main.c\<close> and \<^verbatim>\<open>xattrs.c\<close>: exports, the configuration of the module, static and
  dynamic information.

  \<^item> \<open>Fsal_Access\<close> models \<^verbatim>\<open>FSAL/access_check.c\<close>, the access check that FSAL_KURMA installs, and shows that the loops over
  the entries of a list and over the mode bits decide as their specifications do.

  \<^item> \<open>State_Lock\<close> and \<open>State_Lock_Ops\<close> model \<^verbatim>\<open>SAL/state_lock.c\<close> with the NLM callback: the lock list of a file, merging,
  subtraction, blocked locks and their grants, cookies, and the operations.  \<open>State_Lock_Range\<close> gives the abstract state,
  the bytes each owner holds in each mode, and the effect of the list operations on it; \<open>State_Lock_Inv\<close> has the
  invariant that locks exclude each other, \<open>State_Lock_Props\<close> the reachable states, the refinement of that abstract
  state by locking and unlocking, and that no grantable lock is left waiting.

  \<^item> \<open>Cache_Open\<close> models \<^verbatim>\<open>cache_inode/cache_inode_open_close.c\<close> and the pins.  The locale \<open>fsal_file\<close> is the contract of the
  open, reopen, close and status methods of a layer, which those of FSAL_KURMA fulfil.

  \<^item> \<open>State_Share\<close> models \<^verbatim>\<open>SAL/state_share.c\<close>, \<open>State_Open\<close> the states of \<^verbatim>\<open>SAL/nfs4_state.c\<close> and the operations OPEN,
  OPEN_DOWNGRADE and CLOSE of \<^verbatim>\<open>Protocols/NFS\<close>.  \<open>State_Open_Props\<close> relates the counters of a file to the multiset of its
  holders and shows that holders are compatible, and two sequences of requests after which they are not.

  \<^item> \<open>Xdr_Codec\<close> has the combinators that stand for the statements of an XDR routine; \<open>Xdr_Nfs3\<close> and \<open>Xdr_Nlm\<close> model the
  messages of \<^verbatim>\<open>Protocols/XDR/xdr_nfs23.c\<close> and \<^verbatim>\<open>xdr_nlm4.c\<close>, \<open>Xdr_Dispatch\<close> the tables of \<^verbatim>\<open>MainNFSD/nfs_worker_thread.c\<close>.
  Every message is read back as it was written, over any library in the locale \<open>xdr_library\<close>; the representation of
  RFC 4506 is an instance of it.

  This theory combines the configuration of the module with the locks: on a Kurma export the lock list of the server is
  the only lock state, and it is sound.

  \<^bold>\<open>Loops and bounds.\<close>  Loops over lists are structural recursions.  \<open>shift_loop\<close> has a termination proof.  Two loops may
  run for ever in C and are partial functions: \<open>merge_loop\<close>, whose splits extend the list it walks, is shown to return
  when the range of the lock does not wrap, and not to return in a case where it wraps; \<open>dec_chain\<close>, which reads a chain
  of entries, is shown to return on every chain that was written.  No fuel is used.  The bounds in the theorems are those
  of the code: offsets below \<open>2 ^ 63\<close> and files below 2 GiB, where an \<^verbatim>\<open>int\<close> holds the size, and fewer than \<open>2 ^ 32\<close> holders
  of a share, the width of the counters.

  \<^bold>\<open>Interleaving.\<close>  The state operations on one file run under its state lock, and the handle operations are taken one
  after the other, so each is a step of an inductive relation
  (\<open>kurma_step\<close>, \<open>lock_step\<close>, \<open>cache_step\<close>, \<open>share_step\<close>), and the theorems hold for all sequences of steps.

  \<^bold>\<open>Not modelled.\<close>  Logging, and the locks themselves.  The clients, leases, sessions, recovery and delegations of the
  state layer, and walks over all files of a client or export: they live in hash tables shared by worker threads.  The
  lookup, directory and replacement code of the inode cache.  The creation of files by OPEN, and the other protocol
  operations.  The XDR routines of NFSv4, MOUNT, NSM and RQUOTA, and the freeing of messages.  The other file-system
  layers, the gateway, the secure proxy, the configuration parser, start-up and threads.
\<close>

section \<open>Locks on a Kurma export\<close>

text \<open>
  The parameters of the \<^verbatim>\<open>KURMA\<close> configuration block: loading it changes these fields of the file-system
  information and no others.
\<close>

definition config_scope :: "config_loader \<Rightarrow> bool" where
  "config_scope load_config \<longleftrightarrow> (\<forall>m. let i = km_fs_info m; i' = km_fs_info (fst (load_config m)) in
     i' = i\<lparr>si_link_support := si_link_support i', si_symlink_support := si_symlink_support i',
        si_cansettime := si_cansettime i', si_maxread := si_maxread i', si_maxwrite := si_maxwrite i'\<rparr>)"

lemma configured_supports:
  assumes "config_scope load_config" and "init_config svc load_config thread_err m w = Some (fsalstat ERR_FSAL_NO_ERROR 0, m2, w')"
  shows "\<not> fs_supports m2 fso_lock_support" "\<not> fs_supports m2 fso_lock_support_async_block"
proof -
  let ?m = "m\<lparr>km_fs_info := default_posix_info\<rparr>"
  have m2: "m2 = fst (load_config ?m)"
    using assms(2) by (auto simp: init_config_def bind_eq_Some_conv split: prod.splits if_splits)
  note eq = assms(1) [unfolded config_scope_def Let_def, rule_format, of ?m, folded m2]
  show "\<not> fs_supports m2 fso_lock_support" "\<not> fs_supports m2 fso_lock_support_async_block"
    using arg_cong [OF eq, of si_lock_support] arg_cong [OF eq, of si_lock_support_async_block]
    by (simp_all add: fs_supports_def kurma_staticinfo_def default_posix_info_def)
qed

text \<open>
  C12 Locking on a Kurma export is the server's alone and it is sound: whatever the configuration
  file says in the parameters the module reads, once the module is initialised no lock operation ever
  reaches \<^verbatim>\<open>kurma_lock_op\<close>, which supports none, and in every state that lock requests, grant messages and
  client answers reach from a file without locks, no byte is locked exclusively for one owner
  while another owner holds or is being granted a lock on it.
\<close>

theorem kurma_export_locks:
  assumes "config_scope load_config"
    and "init_config svc load_config thread_err m v = Some (fsalstat ERR_FSAL_NO_ERROR 0, m2, v')"
    and "le_supports env = fs_supports m2" and "lock_run env w w'" and "lw_locks w = []"
  shows "(\<forall>op owner lk overlap ty u. do_lock_op env op owner lk overlap ty u = Some (STATE_SUCCESS, None, u))
    \<and> (\<forall>e f x. e \<in> set (lw_locks w') \<and> f \<in> set (lw_locks w') \<and> sle_blocked e \<in> active \<and> sle_blocked f \<in> active
         \<and> covers (sle_lock e) x \<and> covers (sle_lock f) x \<and> lock_type (sle_lock e) = FSAL_LOCK_W \<longrightarrow>
         \<not> different_owners (le_owners env) (sle_owner e) (sle_owner f))"
proof -
  note no = configured_supports [OF assms(1,2)]
  have "lock_inv (le_owners env) w'"
    by (rule lock_run_inv [OF assms(4)]) (use no(2) assms(3,5) in \<open>simp_all add: lock_inv_def fresh_ids_def exclusive_def\<close>)
  then have "\<not> different_owners (le_owners env) (sle_owner e) (sle_owner f)"
    if "e \<in> set (lw_locks w')" "f \<in> set (lw_locks w')" "sle_blocked e \<in> active" "sle_blocked f \<in> active"
      "covers (sle_lock e) x" "covers (sle_lock f) x" "lock_type (sle_lock e) = FSAL_LOCK_W" for e f x
    using lock_inv_entries(1) that by blast
  moreover have "do_lock_op env op owner lk overlap ty u = Some (STATE_SUCCESS, None, u)" for op owner lk overlap ty u
    by (rule no_fsal_locks) (simp add: assms(3) no(1))
  ultimately show ?thesis by blast
qed

theorem kurma_export_locks_witness:
  "\<exists>m2 v'. init_config (null_service\<lparr>svc_create_session := (\<lambda>_ _ s.
        (Some (new_kurma_result\<lparr>r_sessionid := Some [3]\<rparr>), s))\<rparr>)
      (\<lambda>m. (m\<lparr>km_fs_info := (km_fs_info m)\<lparr>si_maxread := 4096\<rparr>\<rparr>, True)) 0
      \<lparr>km_fs_info = default_posix_info, km_kurma_info = \<lparr>ki_server = [], ki_port = 9091, ki_clientid = [7],
         ki_volumeid = [], ki_renew_interval = 1, ki_enable_snapshot = True\<rparr>\<rparr> (export_demo (\<lambda>t. True))
      = Some (fsalstat ERR_FSAL_NO_ERROR 0, m2, v')
    \<and> do_lock_op (demo_env\<lparr>le_supports := fs_supports m2\<rparr>) FSAL_OP_LOCK (Some 1) (demo_lock FSAL_LOCK_W 0 10) False
        POSIX_LOCK demo_file = Some (STATE_SUCCESS, None, demo_file)"
proof -
  let ?svc = "null_service\<lparr>svc_create_session := (\<lambda>_ _ s.
        (Some (new_kurma_result\<lparr>r_sessionid := Some [3]\<rparr>), s))\<rparr> :: unit kurma_service"
  let ?ld = "\<lambda>m. (m\<lparr>km_fs_info := (km_fs_info m)\<lparr>si_maxread := 4096\<rparr>\<rparr>, True)"
  let ?m = "\<lparr>km_fs_info = default_posix_info, km_kurma_info = \<lparr>ki_server = [], ki_port = 9091, ki_clientid = [7],
         ki_volumeid = [], ki_renew_interval = 1, ki_enable_snapshot = True\<rparr>\<rparr>"
  obtain m2 v' where run: "init_config ?svc ?ld 0 ?m (export_demo (\<lambda>t. True)) = Some (fsalstat ERR_FSAL_NO_ERROR 0, m2, v')"
    by (simp add: init_config_def rpc_init_def rpc_create_session_def rpc_call_def get_client_def
        new_kurma_result_def export_demo_def)
  have scope: "config_scope ?ld" by (simp add: config_scope_def)
  let ?env = "demo_env\<lparr>le_supports := fs_supports m2\<rparr>"
  have "\<forall>op owner lk overlap ty u. do_lock_op ?env op owner lk overlap ty u = Some (STATE_SUCCESS, None, u)"
    using kurma_export_locks [OF scope run, of ?env demo_file demo_file] lock_run.start [of ?env demo_file]
    by (simp add: demo_file_def)
  then show ?thesis using run by blast
qed

end
